(* ===== verification/Jpcap_Prelude.thy ===== *)
theory Jpcap_Prelude
  imports Main "HOL-Library.Word" "HOL-Library.Monad_Syntax"
begin

text \<open>
  The machine the native library runs on: bytes and machine integers as words, C buffers as
  byte lists with bounds-checked access, the byte-order macros of a little-endian host, and the
  interface that every structure field of a buffer satisfies.

  A computation of type \<open>'a option\<close> is a run of C code: \<open>None\<close> is undefined behaviour (an access
  outside the buffer, a JNI call on a null reference or on an object of the wrong class, an array
  region out of range), \<open>Some x\<close> is a run that reaches its end with the result \<open>x\<close>.
\<close>

unbundle bit_operations_syntax

section \<open>Types\<close>

type_synonym u8 = "8 word"
type_synonym u16 = "16 word"
type_synonym u32 = "32 word"
type_synonym u64 = "64 word"

text \<open>The JNI integer types of the same widths; Java reads them with their sign (\<^const>\<open>sint\<close>).\<close>

type_synonym jbyte = u8
type_synonym jshort = u16
type_synonym jint = u32
type_synonym jlong = u64

type_synonym mem = "u8 list"

named_theorems buf_simps \<open>bounds, lengths and reads of buffers\<close>
named_theorems field_defs \<open>definitions of the buffer accessors\<close>

lemma unat_u8_less: "unat (w :: u8) < 256"
  using unsigned_less [of w] by simp

lemma unat_u16_less: "unat (w :: u16) < 65536"
  using unsigned_less [of w] by simp

lemma unat_u32_less: "unat (w :: u32) < 4294967296"
  using unsigned_less [of w] by simp

section \<open>Byte order of the host\<close>

text \<open>A little-endian host: the byte at the lower address is the less significant one.\<close>

definition le16 :: "u8 \<Rightarrow> u8 \<Rightarrow> u16" where
  "le16 a b = ucast a OR push_bit 8 (ucast b)"

definition lo16 :: "u16 \<Rightarrow> u8" where
  "lo16 v = ucast v"

definition hi16 :: "u16 \<Rightarrow> u8" where
  "hi16 v = ucast (drop_bit 8 v)"

definition le32 :: "u8 \<Rightarrow> u8 \<Rightarrow> u8 \<Rightarrow> u8 \<Rightarrow> u32" where
  "le32 a b c d =
     ucast a OR push_bit 8 (ucast b) OR push_bit 16 (ucast c) OR push_bit 24 (ucast d)"

definition byte32 :: "nat \<Rightarrow> u32 \<Rightarrow> u8" where
  "byte32 i v = ucast (drop_bit (8 * i) v)"

text \<open>\<open>ntohs\<close>, \<open>htons\<close>, \<open>ntohl\<close>, \<open>htonl\<close> reverse the bytes on such a host.\<close>

definition ntohs :: "u16 \<Rightarrow> u16" where
  "ntohs v = le16 (hi16 v) (lo16 v)"

definition htons :: "u16 \<Rightarrow> u16" where [simp]:
  "htons v = ntohs v"

definition ntohl :: "u32 \<Rightarrow> u32" where
  "ntohl v = le32 (byte32 3 v) (byte32 2 v) (byte32 1 v) (byte32 0 v)"

definition htonl :: "u32 \<Rightarrow> u32" where [simp]:
  "htonl v = ntohl v"

lemma lo16_le16 [simp]: "lo16 (le16 a b) = a"
  by (rule bit_word_eqI) (auto simp: lo16_def le16_def bit_simps)

lemma hi16_le16 [simp]: "hi16 (le16 a b) = b"
  by (rule bit_word_eqI) (auto simp: hi16_def le16_def bit_simps dest: bit_imp_le_length)

lemma le16_lo_hi [simp]: "le16 (lo16 v) (hi16 v) = v"
  by (rule bit_word_eqI) (auto simp: lo16_def hi16_def le16_def bit_simps)

lemma le16_eq_iff [simp]: "le16 a b = le16 c d \<longleftrightarrow> a = c \<and> b = d"
  by (metis lo16_le16 hi16_le16)

lemma ntohs_le16 [simp]: "ntohs (le16 a b) = le16 b a"
  by (simp add: ntohs_def)

lemma lo_hi_ntohs [simp]: "lo16 (ntohs v) = hi16 v" "hi16 (ntohs v) = lo16 v"
  by (simp_all add: ntohs_def)

lemma ntohs_ntohs [simp]: "ntohs (ntohs v) = v"
  by (simp add: ntohs_def)

lemma le16_hi_lo [simp]: "le16 (hi16 v) (lo16 v) = ntohs v"
  by (rule ntohs_def [symmetric])


lemma byte32_le32 [simp]:
  "byte32 0 (le32 a b c d) = a" "byte32 (Suc 0) (le32 a b c d) = b"
  "byte32 2 (le32 a b c d) = c" "byte32 3 (le32 a b c d) = d"
  by (rule bit_word_eqI; auto simp: byte32_def le32_def bit_simps dest: bit_imp_le_length)+

lemma le32_byte32 [simp]: "le32 (byte32 0 v) (byte32 (Suc 0) v) (byte32 2 v) (byte32 3 v) = v"
  apply (rule bit_word_eqI)
  subgoal for n
    by (cases "n < 16"; cases "n < 24") (auto simp: byte32_def le32_def bit_simps not_less)
  done

lemma ntohl_le32 [simp]: "ntohl (le32 a b c d) = le32 d c b a"
  by (simp add: ntohl_def)

lemma ntohl_ntohl [simp]: "ntohl (ntohl v) = v"
  by (simp add: ntohl_def)

section \<open>Buffers\<close>

text \<open>
  Reads and writes of a buffer at an offset: one byte (\<open>u_char\<close>), two and four bytes in host order
  (\<open>u_short\<close>, \<open>u_int\<close>), and a run of bytes (what \<open>SetByteArrayRegion\<close> reads from C memory and
  \<open>GetByteArrayRegion\<close> and \<open>memset\<close> write to it).
\<close>

definition rd8 :: "mem \<Rightarrow> nat \<Rightarrow> u8 option" where [field_defs]:
  "rd8 m p = (if p < length m then Some (m ! p) else None)"

definition wr8 :: "mem \<Rightarrow> nat \<Rightarrow> u8 \<Rightarrow> mem option" where [field_defs]:
  "wr8 m p v = (if p < length m then Some (m[p := v]) else None)"

definition rd16 :: "mem \<Rightarrow> nat \<Rightarrow> u16 option" where [field_defs]:
  "rd16 m p = (if p + 2 \<le> length m then Some (le16 (m ! p) (m ! (p + 1))) else None)"

definition wr16 :: "mem \<Rightarrow> nat \<Rightarrow> u16 \<Rightarrow> mem option" where [field_defs]:
  "wr16 m p v =
     (if p + 2 \<le> length m then Some (m[p := lo16 v, p + 1 := hi16 v]) else None)"

definition rd32 :: "mem \<Rightarrow> nat \<Rightarrow> u32 option" where [field_defs]:
  "rd32 m p =
     (if p + 4 \<le> length m then Some (le32 (m ! p) (m ! (p + 1)) (m ! (p + 2)) (m ! (p + 3)))
      else None)"

definition wr32 :: "mem \<Rightarrow> nat \<Rightarrow> u32 \<Rightarrow> mem option" where [field_defs]:
  "wr32 m p v =
     (if p + 4 \<le> length m
      then Some (m[p := byte32 0 v, p + 1 := byte32 1 v, p + 2 := byte32 2 v, p + 3 := byte32 3 v])
      else None)"

definition rd_bytes :: "mem \<Rightarrow> nat \<Rightarrow> nat \<Rightarrow> u8 list option" where [field_defs]:
  "rd_bytes m p n = (if p + n \<le> length m then Some (take n (drop p m)) else None)"

definition wr_bytes :: "mem \<Rightarrow> nat \<Rightarrow> u8 list \<Rightarrow> mem option" where [field_defs]:
  "wr_bytes m p bs =
     (if p + length bs \<le> length m then Some (take p m @ bs @ drop (p + length bs) m) else None)"

text \<open>
  \<open>same_outside p w m m'\<close>: the buffers agree everywhere except on the \<open>w\<close> bytes from \<open>p\<close> on.
\<close>

definition same_outside :: "nat \<Rightarrow> nat \<Rightarrow> mem \<Rightarrow> mem \<Rightarrow> bool" where
  "same_outside p w m m' \<longleftrightarrow>
     length m' = length m \<and> (\<forall>q < length m. q < p \<or> p + w \<le> q \<longrightarrow> m' ! q = m ! q)"

lemma same_outside_refl [simp]: "same_outside p w m m"
  by (simp add: same_outside_def)

lemma same_outside_length: "same_outside p w m m' \<Longrightarrow> length m' = length m"
  by (simp add: same_outside_def)

lemma same_outside_trans:
  "same_outside p w m m' \<Longrightarrow> same_outside p w m' m'' \<Longrightarrow> same_outside p w m m''"
  by (simp add: same_outside_def)

lemma same_outside_mono:
  "same_outside p w m m' \<Longrightarrow> q \<le> p \<Longrightarrow> p + w \<le> q + v \<Longrightarrow> same_outside q v m m'"
  by (auto simp: same_outside_def)

lemma same_outside_nth:
  "same_outside p w m m' \<Longrightarrow> q < length m \<Longrightarrow> q < p \<or> p + w \<le> q \<Longrightarrow> m' ! q = m ! q"
  by (auto simp: same_outside_def)

section \<open>The interface of a structure field\<close>

text \<open>
  What a client of a buffer relies on, whatever the width of the field: a write needs exactly the
  field's bytes to be inside the buffer, changes nothing else, and a later read of the field gives
  the value back as long as no write touched its bytes in between.
\<close>

locale field_access =
  fixes get :: "mem \<Rightarrow> nat \<Rightarrow> 'v option"
    and put :: "mem \<Rightarrow> nat \<Rightarrow> 'v \<Rightarrow> mem option"
    and width :: nat
    and fits :: "'v \<Rightarrow> bool"
  assumes get_defined: "get m p \<noteq> None \<longleftrightarrow> p + width \<le> length m"
    and put_defined: "fits v \<Longrightarrow> put m p v \<noteq> None \<longleftrightarrow> p + width \<le> length m"
    and put_frame: "fits v \<Longrightarrow> put m p v = Some m' \<Longrightarrow> same_outside p width m m'"
    and get_put: "fits v \<Longrightarrow> put m p v = Some m' \<Longrightarrow> get m' p = Some v"
    and get_local: "length m' = length m \<Longrightarrow>
      (\<And>i. i < width \<Longrightarrow> m' ! (p + i) = m ! (p + i)) \<Longrightarrow> get m' p = get m p"
begin

lemma put_length: "fits v \<Longrightarrow> put m p v = Some m' \<Longrightarrow> length m' = length m"
  by (blast dest: put_frame same_outside_length)

lemma put_in_bounds: "fits v \<Longrightarrow> p + width \<le> length m \<Longrightarrow> \<exists>m'. put m p v = Some m'"
  using put_defined [of v m p] by auto

lemma put_out_of_bounds: "fits v \<Longrightarrow> length m < p + width \<Longrightarrow> put m p v = None"
  using put_defined [of v m p] by auto

lemma get_in_bounds: "p + width \<le> length m \<Longrightarrow> \<exists>v. get m p = Some v"
  using get_defined [of m p] by auto

lemma get_out_of_bounds: "length m < p + width \<Longrightarrow> get m p = None"
  using get_defined [of m p] by auto

text \<open>A write elsewhere, by any accessor, leaves the field alone.\<close>

lemma get_frame:
  assumes "same_outside q w m m'" and "p + width \<le> q \<or> q + w \<le> p"
  shows "get m' p = get m p"
proof (cases "p + width \<le> length m")
  case True
  with assms show ?thesis
    by (intro get_local) (auto simp: same_outside_def)
next
  case False
  with assms(1) show ?thesis
    by (simp add: get_out_of_bounds same_outside_length)
qed

lemma get_put_frame:
  assumes "fits v" and "put m p v = Some m'" and "same_outside q w m' m''"
    and "p + width \<le> q \<or> q + w \<le> p"
  shows "get m'' p = Some v"
  using get_frame [OF assms(3,4)] get_put [OF assms(1,2)] by simp

end

lemma nth_take_drop: "p + n \<le> length m \<Longrightarrow> i < n \<Longrightarrow> take n (drop p m) ! i = m ! (p + i)"
  by simp

lemma same_outside_wr_bytes:
  "wr_bytes m p bs = Some m' \<Longrightarrow> same_outside p (length bs) m m'"
  by (auto simp: field_defs same_outside_def nth_append split: if_splits)

interpretation f8: field_access rd8 wr8 1 "\<lambda>_. True"
  by unfold_locales (auto simp: field_defs same_outside_def split: if_splits)

interpretation f16: field_access rd16 wr16 2 "\<lambda>_. True"
proof unfold_locales
  fix m m' :: mem and p
  assume "length m' = length m" and "\<And>i. i < 2 \<Longrightarrow> m' ! (p + i) = m ! (p + i)"
  from this(1) this(2) [of 0] this(2) [of 1] show "rd16 m' p = rd16 m p"
    by (simp add: field_defs)
qed (auto simp: field_defs same_outside_def nth_list_update split: if_splits)

interpretation f32: field_access rd32 wr32 4 "\<lambda>_. True"
proof unfold_locales
  fix m m' :: mem and p
  assume "length m' = length m" and "\<And>i. i < 4 \<Longrightarrow> m' ! (p + i) = m ! (p + i)"
  from this(1) this(2) [of 0] this(2) [of 1] this(2) [of 2] this(2) [of 3]
  show "rd32 m' p = rd32 m p"
    by (simp add: field_defs)
qed (auto simp: field_defs same_outside_def nth_list_update split: if_splits)

text \<open>A run of \<open>n\<close> bytes is a field too; its values are the byte lists of that length.\<close>

lemma field_access_bytes:
  "field_access (\<lambda>m p. rd_bytes m p n) wr_bytes n (\<lambda>bs. length bs = n)"
proof unfold_locales
  fix m m' :: mem and p
  assume "length m' = length m" and "\<And>i. i < n \<Longrightarrow> m' ! (p + i) = m ! (p + i)"
  then show "rd_bytes m' p n = rd_bytes m p n"
    by (auto simp: field_defs intro!: nth_equalityI)
next
  fix m p bs m'
  assume "length bs = n" and "wr_bytes m p bs = Some m'"
  then show "same_outside p n m m'"
    using same_outside_wr_bytes by blast
qed (auto simp: field_defs split: if_splits)

interpretation fbytes: field_access "\<lambda>m p. rd_bytes m p n" wr_bytes n "\<lambda>bs. length bs = n" for n
  by (rule field_access_bytes)

end
