(* ===== verification/Jpcap_Headers.thy ===== *)
theory Jpcap_Headers
  imports Jpcap_Prelude
begin

text \<open>
  The constants and structure layouts of the C headers: \<open>Jpcap_sub.h\<close>, \<open>Jpcap_ether.h\<close> and the
  bundled \<open>include/net\<close> and \<open>include/netinet\<close> headers. A structure field is its byte offset, so that
  \<open>p + th_sport\<close> is the address of \<open>p->th_sport\<close>. Bit fields follow the little-endian branch of the
  headers.
\<close>

section \<open>Jpcap\_sub.h\<close>

definition MAX_NUMBER_OF_INSTANCE :: nat where [simp]: "MAX_NUMBER_OF_INSTANCE = 255"
definition IPv4HDRLEN :: nat where [simp]: "IPv4HDRLEN = 20"
definition TCPHDRLEN :: nat where [simp]: "TCPHDRLEN = 20"
definition UDPHDRLEN :: nat where [simp]: "UDPHDRLEN = 8"
definition ICMPHDRLEN :: nat where [simp]: "ICMPHDRLEN = 8"
definition MAX_PACKET_SIZE :: nat where [simp]: "MAX_PACKET_SIZE = 1600"

section \<open>Jpcap\_ether.h\<close>

definition ETHERTYPE_IP :: u16 where [simp]: "ETHERTYPE_IP = 0x0800"
definition ETHERTYPE_IP_PACKET :: u16 where [simp]: "ETHERTYPE_IP_PACKET = 0x0021"
definition ETHERTYPE_PPPOE :: u16 where [simp]: "ETHERTYPE_PPPOE = 0x8864"
definition ETHERTYPE_ARP :: u16 where [simp]: "ETHERTYPE_ARP = 0x0806"
definition ETHERTYPE_REVARP :: u16 where [simp]: "ETHERTYPE_REVARP = 0x8035"
definition ETHERTYPE_IPV6 :: u16 where [simp]: "ETHERTYPE_IPV6 = 0x86dd"
definition ETHERTYPE_VERSION :: u8 where [simp]: "ETHERTYPE_VERSION = 0xf0"
definition ETHERTYPE_TYPE :: u8 where [simp]: "ETHERTYPE_TYPE = 0x0f"

text \<open>\<open>struct ether_header\<close> (14 bytes) and \<open>struct pppoe_header\<close> behind it.\<close>

definition ether_dest :: nat where [simp]: "ether_dest = 0"
definition ether_src :: nat where [simp]: "ether_src = 6"
definition ether_type :: nat where [simp]: "ether_type = 12"
definition sizeof_ether_header :: nat where [simp]: "sizeof_ether_header = 14"
definition ver_type :: nat where [simp]: "ver_type = 14"
definition pppoe_hdr_code :: nat where [simp]: "pppoe_hdr_code = 15"
definition session_id :: nat where [simp]: "session_id = 16"
definition pay_load_len :: nat where [simp]: "pay_load_len = 18"

section \<open>netinet/IP.H\<close>

definition ip_tos :: nat where [simp]: "ip_tos = 1"
definition ip_len :: nat where [simp]: "ip_len = 2"
definition ip_id :: nat where [simp]: "ip_id = 4"
definition ip_off :: nat where [simp]: "ip_off = 6"
definition ip_ttl :: nat where [simp]: "ip_ttl = 8"
definition ip_p :: nat where [simp]: "ip_p = 9"
definition ip_sum :: nat where [simp]: "ip_sum = 10"
definition ip_src :: nat where [simp]: "ip_src = 12"
definition ip_dst :: nat where [simp]: "ip_dst = 16"
definition IP_RF :: u16 where [simp]: "IP_RF = 0x8000"
definition IP_DF :: u16 where [simp]: "IP_DF = 0x4000"
definition IP_MF :: u16 where [simp]: "IP_MF = 0x2000"
definition IP_OFFMASK :: u16 where [simp]: "IP_OFFMASK = 0x1fff"
definition IPTOS_LOWDELAY :: u8 where [simp]: "IPTOS_LOWDELAY = 0x10"
definition IPTOS_THROUGHPUT :: u8 where [simp]: "IPTOS_THROUGHPUT = 0x08"
definition IPTOS_RELIABILITY :: u8 where [simp]: "IPTOS_RELIABILITY = 0x04"

text \<open>The bit fields \<open>ip_hl\<close> (low nibble) and \<open>ip_v\<close> (high nibble) of the first byte.\<close>

definition get_ip_hl :: "mem \<Rightarrow> nat \<Rightarrow> u8 option" where
  "get_ip_hl m p = do { b \<leftarrow> rd8 m p; Some (b AND 0x0f) }"

definition set_ip_v :: "mem \<Rightarrow> nat \<Rightarrow> u8 \<Rightarrow> mem option" where
  "set_ip_v m p v = do { b \<leftarrow> rd8 m p; wr8 m p ((b AND 0x0f) OR push_bit 4 (v AND 0x0f)) }"

definition set_ip_hl :: "mem \<Rightarrow> nat \<Rightarrow> u8 \<Rightarrow> mem option" where
  "set_ip_hl m p v = do { b \<leftarrow> rd8 m p; wr8 m p ((b AND 0xf0) OR (v AND 0x0f)) }"

text \<open>Protocol numbers, as the callers compare them (\<open>u_short\<close> and \<open>u_char\<close>).\<close>

definition IPPROTO_HOPOPTS :: u16 where [simp]: "IPPROTO_HOPOPTS = 0"
definition IPPROTO_ICMP :: u16 where [simp]: "IPPROTO_ICMP = 1"
definition IPPROTO_TCP :: u16 where [simp]: "IPPROTO_TCP = 6"
definition IPPROTO_UDP :: u16 where [simp]: "IPPROTO_UDP = 17"
definition IPPROTO_ROUTING :: u16 where [simp]: "IPPROTO_ROUTING = 43"
definition IPPROTO_FRAGMENT :: u16 where [simp]: "IPPROTO_FRAGMENT = 44"
definition IPPROTO_ESP :: u16 where [simp]: "IPPROTO_ESP = 50"
definition IPPROTO_AH :: u16 where [simp]: "IPPROTO_AH = 51"
definition IPPROTO_NONE :: u16 where [simp]: "IPPROTO_NONE = 59"
definition IPPROTO_DSTOPTS :: u16 where [simp]: "IPPROTO_DSTOPTS = 60"

section \<open>netinet/TCP.H\<close>

definition th_sport :: nat where [simp]: "th_sport = 0"
definition th_dport :: nat where [simp]: "th_dport = 2"
definition th_seq :: nat where [simp]: "th_seq = 4"
definition th_ack :: nat where [simp]: "th_ack = 8"
definition th_off :: nat where [simp]: "th_off = 12"
definition th_flags :: nat where [simp]: "th_flags = 13"
definition th_win :: nat where [simp]: "th_win = 14"
definition th_sum :: nat where [simp]: "th_sum = 16"
definition th_urp :: nat where [simp]: "th_urp = 18"
definition TH_FIN :: u8 where [simp]: "TH_FIN = 0x01"
definition TH_SYN :: u8 where [simp]: "TH_SYN = 0x02"
definition TH_RST :: u8 where [simp]: "TH_RST = 0x04"
definition TH_PUSH :: u8 where [simp]: "TH_PUSH = 0x08"
definition TH_ACK :: u8 where [simp]: "TH_ACK = 0x10"
definition TH_URG :: u8 where [simp]: "TH_URG = 0x20"
definition TH_RSV2 :: u8 where [simp]: "TH_RSV2 = 0x40"
definition TH_RSV1 :: u8 where [simp]: "TH_RSV1 = 0x80"

text \<open>\<open>th_off\<close> is the high nibble of byte 12, \<open>th_x2\<close> the low one.\<close>

definition get_th_off :: "mem \<Rightarrow> nat \<Rightarrow> u8 option" where
  "get_th_off m p = do { b \<leftarrow> rd8 m (p + th_off); Some (drop_bit 4 b) }"

definition set_th_off :: "mem \<Rightarrow> nat \<Rightarrow> u8 \<Rightarrow> mem option" where
  "set_th_off m p v =
     do { b \<leftarrow> rd8 m (p + th_off); wr8 m (p + th_off) ((b AND 0x0f) OR push_bit 4 (v AND 0x0f)) }"

section \<open>netinet/UDP.H\<close>

definition uh_sport :: nat where [simp]: "uh_sport = 0"
definition uh_dport :: nat where [simp]: "uh_dport = 2"
definition uh_ulen :: nat where [simp]: "uh_ulen = 4"
definition uh_sum :: nat where [simp]: "uh_sum = 6"

section \<open>netinet/IP\_ICMP.H\<close>

definition icmp_type :: nat where [simp]: "icmp_type = 0"
definition icmp_code :: nat where [simp]: "icmp_code = 1"
definition icmp_cksum :: nat where [simp]: "icmp_cksum = 2"
definition icmp_gwaddr :: nat where [simp]: "icmp_gwaddr = 4"
definition icmp_id :: nat where [simp]: "icmp_id = 4"
definition icmp_seq :: nat where [simp]: "icmp_seq = 6"
definition icmp_nextmtu :: nat where [simp]: "icmp_nextmtu = 6"
definition icmp_otime :: nat where [simp]: "icmp_otime = 8"
definition icmp_rtime :: nat where [simp]: "icmp_rtime = 12"
definition icmp_ttime :: nat where [simp]: "icmp_ttime = 16"
definition icmp_ip :: nat where [simp]: "icmp_ip = 8"
definition icmp_mask :: nat where [simp]: "icmp_mask = 8"
definition icmp_data :: nat where [simp]: "icmp_data = 8"
definition ICMP_ECHOREPLY :: u8 where [simp]: "ICMP_ECHOREPLY = 0"
definition ICMP_UNREACH :: u8 where [simp]: "ICMP_UNREACH = 3"
definition ICMP_SOURCEQUENCH :: u8 where [simp]: "ICMP_SOURCEQUENCH = 4"
definition ICMP_REDIRECT :: u8 where [simp]: "ICMP_REDIRECT = 5"
definition ICMP_ECHO :: u8 where [simp]: "ICMP_ECHO = 8"
definition ICMP_TIMXCEED :: u8 where [simp]: "ICMP_TIMXCEED = 11"
definition ICMP_PARAMPROB :: u8 where [simp]: "ICMP_PARAMPROB = 12"
definition ICMP_TSTAMP :: u8 where [simp]: "ICMP_TSTAMP = 13"
definition ICMP_TSTAMPREPLY :: u8 where [simp]: "ICMP_TSTAMPREPLY = 14"
definition ICMP_MASKREQ :: u8 where [simp]: "ICMP_MASKREQ = 17"
definition ICMP_MASKREPLY :: u8 where [simp]: "ICMP_MASKREPLY = 18"

section \<open>net/if\_arp.h and netinet/IF\_ETHER.H\<close>

definition arp_hrd :: nat where [simp]: "arp_hrd = 0"
definition arp_pro :: nat where [simp]: "arp_pro = 2"
definition arp_hln :: nat where [simp]: "arp_hln = 4"
definition arp_pln :: nat where [simp]: "arp_pln = 5"
definition arp_op :: nat where [simp]: "arp_op = 6"
definition sizeof_arphdr :: nat where [simp]: "sizeof_arphdr = 8"
definition arp_sha :: nat where [simp]: "arp_sha = 8"
definition arp_spa :: nat where [simp]: "arp_spa = 14"
definition arp_tha :: nat where [simp]: "arp_tha = 18"
definition arp_tpa :: nat where [simp]: "arp_tpa = 24"
definition sizeof_ether_arp :: nat where [simp]: "sizeof_ether_arp = 28"

section \<open>netinet/ip6.h\<close>

definition ip6_flow :: nat where [simp]: "ip6_flow = 0"
definition ip6_vfc :: nat where [simp]: "ip6_vfc = 0"
definition ip6_plen :: nat where [simp]: "ip6_plen = 4"
definition ip6_nxt :: nat where [simp]: "ip6_nxt = 6"
definition ip6_hlim :: nat where [simp]: "ip6_hlim = 7"
definition ip6_src :: nat where [simp]: "ip6_src = 8"
definition ip6_dst :: nat where [simp]: "ip6_dst = 24"
definition ip6e_nxt :: nat where [simp]: "ip6e_nxt = 0"
definition ip6e_len :: nat where [simp]: "ip6e_len = 1"
definition sizeof_ip6_ext :: nat where [simp]: "sizeof_ip6_ext = 2"
definition ip6r_len :: nat where [simp]: "ip6r_len = 1"
definition ip6r_type :: nat where [simp]: "ip6r_type = 2"
definition ip6r_segleft :: nat where [simp]: "ip6r_segleft = 3"
definition ip6f_offlg :: nat where [simp]: "ip6f_offlg = 2"
definition ip6f_ident :: nat where [simp]: "ip6f_ident = 4"

text \<open>\<open>struct newah\<close> of \<open>packet_ipv6.c\<close> (12 bytes).\<close>

definition ah_nxt :: nat where [simp]: "ah_nxt = 0"
definition ah_len :: nat where [simp]: "ah_len = 1"
definition ah_spi :: nat where [simp]: "ah_spi = 4"
definition ah_seq :: nat where [simp]: "ah_seq = 8"
definition sizeof_newah :: nat where [simp]: "sizeof_newah = 12"

text \<open>The fragment masks are stored in network order.\<close>

definition IP6F_OFF_MASK :: u16 where "IP6F_OFF_MASK = htons 0xfff8"
definition IP6F_MORE_FRAG :: u16 where "IP6F_MORE_FRAG = htons 0x0001"

section \<open>pcap.h and pcap-bpf.h\<close>

definition DLT_EN10MB :: int where [simp]: "DLT_EN10MB = 1"
definition DLT_IEEE802 :: int where [simp]: "DLT_IEEE802 = 6"
definition DLT_RAW :: int where [simp]: "DLT_RAW = 12"

record pcap_pkthdr =
  tv_sec :: u32
  tv_usec :: u32
  hdr_caplen :: u32
  hdr_len :: u32

end
