(* ===== verification/Jpcap_Java.thy ===== *)
theory Jpcap_Java
  imports Jpcap_Prelude
begin

text \<open>
  The Java packet classes the native code fills in and reads (\<open>jpcap/src/java/jpcap/packet\<close>), the
  setters it calls through JNI, and the JNI operations themselves: \<open>AllocObject\<close> (no constructor
  runs, every field has its default), \<open>IsInstanceOf\<close>, and a method call that is undefined on an
  object of the wrong class.

  A packet object is one record that carries the fields of every class; its dynamic class
  \<open>pkt_class\<close> says which of them exist. A reference that may be null is an \<open>option\<close>, an
  \<open>InetAddress\<close> is its list of address bytes.
\<close>

section \<open>Internet addresses\<close>

text \<open>
  \<open>InetAddress.getByAddress\<close>: four bytes are an IPv4 address, sixteen an IPv6 address unless they
  are an IPv4-mapped one, which Java turns into the IPv4 address; any other length raises
  \<open>UnknownHostException\<close> (\<open>None\<close>).
\<close>

definition ipv4_mapped :: "u8 list \<Rightarrow> bool" where
  "ipv4_mapped bs \<longleftrightarrow> take 12 bs = replicate 10 0 @ [255, 255]"

definition getByAddress :: "u8 list \<Rightarrow> u8 list option" where
  "getByAddress bs =
     (if length bs = 4 then Some bs
      else if length bs = 16 then Some (if ipv4_mapped bs then drop 12 bs else bs)
      else None)"

lemma getByAddress_4 [simp]: "length bs = 4 \<Longrightarrow> getByAddress bs = Some bs"
  by (simp add: getByAddress_def)

section \<open>Datalink headers\<close>

record ethernet =
  dst_mac :: "u8 list option"
  src_mac :: "u8 list option"
  frametype :: jshort

record pppoe =
  pppoe_version :: jbyte
  pppoe_type :: jbyte
  pppoe_code :: jbyte
  sessionId :: "u8 list option"
  payloadLen :: jshort

text \<open>\<open>PPPOEPacket\<close> extends \<open>EthernetPacket\<close>, which extends the abstract \<open>DatalinkPacket\<close>; the constructor of
  that name stands for an object of any other subclass.\<close>

datatype datalink =
    DatalinkPacket
  | EthernetPacket ethernet
  | PPPOEPacket ethernet pppoe

section \<open>IP packets\<close>

record ipv6_option =
  v6_type :: jbyte
  v6_next_header :: jbyte
  v6_hlen :: jbyte
  v6_option :: "u8 list option"
  v6_routing_type :: jbyte
  v6_hop_left :: jbyte
  v6_addrs :: "u8 list option list option"
  v6_offset :: jshort
  v6_m_flag :: bool
  v6_identification :: jint
  v6_spi :: jint
  v6_sequence :: jint

definition alloc_IPv6Option :: ipv6_option where
  "alloc_IPv6Option =
     \<lparr>v6_type = 0, v6_next_header = 0, v6_hlen = 0, v6_option = None, v6_routing_type = 0,
      v6_hop_left = 0, v6_addrs = None, v6_offset = 0, v6_m_flag = False, v6_identification = 0,
      v6_spi = 0, v6_sequence = 0\<rparr>"

definition IPv6Option_setValue :: "jbyte \<Rightarrow> jbyte \<Rightarrow> jbyte \<Rightarrow> ipv6_option \<Rightarrow> ipv6_option" where
  "IPv6Option_setValue type next hlen opt =
     opt\<lparr>v6_type := type, v6_next_header := next, v6_hlen := hlen\<rparr>"

definition IPv6Option_setOptionData :: "u8 list \<Rightarrow> ipv6_option \<Rightarrow> ipv6_option" where
  "IPv6Option_setOptionData bs opt = opt\<lparr>v6_option := Some bs\<rparr>"

definition IPv6Option_setRoutingOption ::
  "jbyte \<Rightarrow> jbyte \<Rightarrow> u8 list list \<Rightarrow> ipv6_option \<Rightarrow> ipv6_option" where
  "IPv6Option_setRoutingOption type left addrs opt =
     opt\<lparr>v6_routing_type := type, v6_hop_left := left, v6_addrs := Some (map getByAddress addrs)\<rparr>"

definition IPv6Option_setFragmentOption ::
  "jshort \<Rightarrow> bool \<Rightarrow> jint \<Rightarrow> ipv6_option \<Rightarrow> ipv6_option" where
  "IPv6Option_setFragmentOption off m ident opt =
     opt\<lparr>v6_offset := off, v6_m_flag := m, v6_identification := ident\<rparr>"

definition IPv6Option_setAHOption :: "jint \<Rightarrow> jint \<Rightarrow> ipv6_option \<Rightarrow> ipv6_option" where
  "IPv6Option_setAHOption spi sq opt = opt\<lparr>v6_spi := spi, v6_sequence := sq\<rparr>"

text \<open>The fields of \<open>IPPacket\<close>.\<close>

record ip_fields =
  version :: jbyte
  priority :: jbyte
  d_flag :: bool
  t_flag :: bool
  r_flag :: bool
  rsv_tos :: jbyte
  ip_length :: jshort
  rsv_frag :: bool
  dont_frag :: bool
  more_frag :: bool
  frag_offset :: jshort
  hop_limit :: jshort
  protocol :: jshort
  ident :: jint
  flow_label :: jint
  src_ip :: "u8 list option"
  dst_ip :: "u8 list option"
  ip_option :: "u8 list option"
  ip_options :: "ipv6_option list option"

definition alloc_ip :: ip_fields where
  "alloc_ip =
     \<lparr>version = 0, priority = 0, d_flag = False, t_flag = False, r_flag = False, rsv_tos = 0,
      ip_length = 0, rsv_frag = False, dont_frag = False, more_frag = False, frag_offset = 0,
      hop_limit = 0, protocol = 0, ident = 0, flow_label = 0, src_ip = None, dst_ip = None,
      ip_option = None, ip_options = None\<rparr>"

text \<open>
  The setters assign both addresses inside one \<open>try\<close>: when the source address is refused neither
  is assigned, when only the destination is refused the source already is.
\<close>

definition set_addresses :: "u8 list \<Rightarrow> u8 list \<Rightarrow> ip_fields \<Rightarrow> ip_fields" where
  "set_addresses src dst p =
     (case getByAddress src of
        None \<Rightarrow> p
      | Some s \<Rightarrow>
          (case getByAddress dst of
             None \<Rightarrow> p\<lparr>src_ip := Some s\<rparr>
           | Some d \<Rightarrow> p\<lparr>src_ip := Some s, dst_ip := Some d\<rparr>))"

definition IPPacket_setIPv4Value ::
  "jbyte \<Rightarrow> jbyte \<Rightarrow> bool \<Rightarrow> bool \<Rightarrow> bool \<Rightarrow> jbyte \<Rightarrow> bool \<Rightarrow> bool \<Rightarrow> bool \<Rightarrow> jshort \<Rightarrow> jshort \<Rightarrow>
   jshort \<Rightarrow> jshort \<Rightarrow> jshort \<Rightarrow> u8 list \<Rightarrow> u8 list \<Rightarrow> ip_fields \<Rightarrow> ip_fields" where
  "IPPacket_setIPv4Value ver pri d t r rsv rf df mf off len idn ttl proto src dst p =
     set_addresses src dst
       (p\<lparr>version := ver, priority := pri, d_flag := d, t_flag := t, r_flag := r, rsv_tos := rsv,
          rsv_frag := rf, dont_frag := df, more_frag := mf, frag_offset := off, ip_length := len,
          ident := scast idn, hop_limit := ttl, protocol := proto\<rparr>)"

definition IPPacket_setOption :: "u8 list \<Rightarrow> ip_fields \<Rightarrow> ip_fields" where
  "IPPacket_setOption opt p = p\<lparr>ip_option := Some opt\<rparr>"

definition IPPacket_setIPv6Value ::
  "jbyte \<Rightarrow> jbyte \<Rightarrow> jint \<Rightarrow> jshort \<Rightarrow> jbyte \<Rightarrow> jshort \<Rightarrow> u8 list \<Rightarrow> u8 list \<Rightarrow> ip_fields \<Rightarrow>
   ip_fields" where
  "IPPacket_setIPv6Value ver v6class flow payload nxt hlim src dst p =
     set_addresses src dst
       (p\<lparr>version := ver, priority := v6class, flow_label := flow, ip_length := payload,
          protocol := scast nxt, hop_limit := hlim\<rparr>)"

definition IPPacket_addOptionHeader :: "ipv6_option \<Rightarrow> ip_fields \<Rightarrow> ip_fields" where
  "IPPacket_addOptionHeader hdr p =
     p\<lparr>ip_options := Some ((case ip_options p of None \<Rightarrow> [] | Some xs \<Rightarrow> xs) @ [hdr])\<rparr>"

section \<open>Transport packets and ARP\<close>

record tcp_fields =
  tcp_src_port :: jint
  tcp_dst_port :: jint
  tcp_sequence :: jlong
  ack_num :: jlong
  urg :: bool
  ack :: bool
  psh :: bool
  rst :: bool
  syn :: bool
  fin :: bool
  rsv1 :: bool
  rsv2 :: bool
  window :: jint
  urgent_pointer :: jshort
  tcp_option :: "u8 list option"

definition alloc_tcp :: tcp_fields where
  "alloc_tcp =
     \<lparr>tcp_src_port = 0, tcp_dst_port = 0, tcp_sequence = 0, ack_num = 0, urg = False, ack = False,
      psh = False, rst = False, syn = False, fin = False, rsv1 = False, rsv2 = False, window = 0,
      urgent_pointer = 0, tcp_option = None\<rparr>"

record udp_fields =
  udp_src_port :: jint
  udp_dst_port :: jint
  udp_length :: jint

definition alloc_udp :: udp_fields where
  "alloc_udp = \<lparr>udp_src_port = 0, udp_dst_port = 0, udp_length = 0\<rparr>"

record icmp_fields =
  pkt_type :: jbyte
  pkt_code :: jbyte
  checksum :: jshort
  pkt_id :: jshort
  pkt_seq :: jshort
  subnetmask :: jint
  orig_timestamp :: jint
  recv_timestamp :: jint
  trans_timestamp :: jint
  mtu :: jshort
  ippacket :: "ip_fields option"
  redir_ip :: "u8 list option"

definition alloc_icmp :: icmp_fields where
  "alloc_icmp =
     \<lparr>pkt_type = 0, pkt_code = 0, checksum = 0, pkt_id = 0, pkt_seq = 0, subnetmask = 0,
      orig_timestamp = 0, recv_timestamp = 0, trans_timestamp = 0, mtu = 0, ippacket = None,
      redir_ip = None\<rparr>"

record arp_fields =
  hardtype :: jshort
  prototype :: jshort
  arp_hlen :: jshort
  arp_plen :: jshort
  operation :: jshort
  sender_hardaddr :: "u8 list option"
  sender_protoaddr :: "u8 list option"
  target_hardaddr :: "u8 list option"
  target_protoaddr :: "u8 list option"

definition alloc_arp :: arp_fields where
  "alloc_arp =
     \<lparr>hardtype = 0, prototype = 0, arp_hlen = 0, arp_plen = 0, operation = 0,
      sender_hardaddr = None, sender_protoaddr = None, target_hardaddr = None,
      target_protoaddr = None\<rparr>"

section \<open>Packet objects\<close>

datatype jclass = Packet | IPPacket | TCPPacket | UDPPacket | ICMPPacket | ARPPacket

record jpacket =
  pkt_class :: jclass
  sec :: jlong
  usec :: jlong
  caplen :: jint
  pkt_len :: jint
  datalink :: "datalink option"
  header :: "u8 list option"
  pkt_data :: "u8 list option"
  ip :: ip_fields
  tcp :: tcp_fields
  udp :: udp_fields
  icmp :: icmp_fields
  arp :: arp_fields

text \<open>What no protocol decoder touches: the class, the datalink object, the capture time and the lengths.\<close>

definition base :: "jpacket \<Rightarrow> jclass \<times> datalink option \<times> jlong \<times> jlong \<times> jint \<times> jint" where
  "base p = (pkt_class p, datalink p, sec p, usec p, caplen p, pkt_len p)"

lemma base_updates [simp]:
  "base (p\<lparr>ip := i\<rparr>) = base p" "base (p\<lparr>tcp := t\<rparr>) = base p" "base (p\<lparr>udp := u\<rparr>) = base p"
  "base (p\<lparr>icmp := c\<rparr>) = base p" "base (p\<lparr>arp := a\<rparr>) = base p" "base (p\<lparr>header := h\<rparr>) = base p"
  "base (p\<lparr>pkt_data := d\<rparr>) = base p"
  by (simp_all add: base_def)

lemma base_eqD: "base q = base p \<Longrightarrow> pkt_class q = pkt_class p \<and> datalink q = datalink p"
  by (simp add: base_def)

definition AllocObject :: "jclass \<Rightarrow> jpacket" where
  "AllocObject c =
     \<lparr>pkt_class = c, sec = 0, usec = 0, caplen = 0, pkt_len = 0, datalink = None, header = None,
      pkt_data = None, ip = alloc_ip, tcp = alloc_tcp, udp = alloc_udp, icmp = alloc_icmp,
      arp = alloc_arp\<rparr>"

text \<open>The static field \<open>Packet.EOF\<close>: a packet made by the default constructor.\<close>

definition Packet_EOF :: jpacket where
  "Packet_EOF = AllocObject Packet"

fun superclass :: "jclass \<Rightarrow> jclass option" where
  "superclass Packet = None"
| "superclass IPPacket = Some Packet"
| "superclass TCPPacket = Some IPPacket"
| "superclass UDPPacket = Some IPPacket"
| "superclass ICMPPacket = Some IPPacket"
| "superclass ARPPacket = Some Packet"

definition subclass_of :: "jclass \<Rightarrow> jclass \<Rightarrow> bool" where
  "subclass_of c d \<longleftrightarrow>
     c = d \<or> superclass c = Some d \<or> Option.bind (superclass c) superclass = Some d"

definition IsInstanceOf :: "jpacket \<Rightarrow> jclass \<Rightarrow> bool" where
  "IsInstanceOf p c \<longleftrightarrow> subclass_of (pkt_class p) c"

text \<open>
  \<open>CallVoidMethod\<close> with a method of class \<open>c\<close>: undefined unless the object is an instance of \<open>c\<close>.
\<close>

definition CallVoidMethod :: "jclass \<Rightarrow> (jpacket \<Rightarrow> jpacket) \<Rightarrow> jpacket \<Rightarrow> jpacket option" where
  "CallVoidMethod c f p = (if IsInstanceOf p c then Some (f p) else None)"

lemma IsInstanceOf_simps [simp]:
  "IsInstanceOf p Packet"
  "IsInstanceOf p TCPPacket \<longleftrightarrow> pkt_class p = TCPPacket"
  "IsInstanceOf p UDPPacket \<longleftrightarrow> pkt_class p = UDPPacket"
  "IsInstanceOf p ICMPPacket \<longleftrightarrow> pkt_class p = ICMPPacket"
  "IsInstanceOf p ARPPacket \<longleftrightarrow> pkt_class p = ARPPacket"
  "IsInstanceOf p IPPacket \<longleftrightarrow> pkt_class p \<in> {IPPacket, TCPPacket, UDPPacket, ICMPPacket}"
  by (cases "pkt_class p"; simp add: IsInstanceOf_def subclass_of_def)+

lemma IsInstanceOf_trans:
  "subclass_of c d \<Longrightarrow> IsInstanceOf p c \<Longrightarrow> IsInstanceOf p d"
  by (cases c; cases d; cases "pkt_class p") (simp_all add: subclass_of_def)

definition Packet_setPacketValue ::
  "jlong \<Rightarrow> jlong \<Rightarrow> jint \<Rightarrow> jint \<Rightarrow> jpacket \<Rightarrow> jpacket" where
  "Packet_setPacketValue s us cl l p = p\<lparr>sec := s, usec := us, caplen := cl, pkt_len := l\<rparr>"

definition Packet_setDatalinkPacket :: "datalink \<Rightarrow> jpacket \<Rightarrow> jpacket" where
  "Packet_setDatalinkPacket d p = p\<lparr>datalink := Some d\<rparr>"

definition Packet_setPacketData :: "u8 list \<Rightarrow> jpacket \<Rightarrow> jpacket" where
  "Packet_setPacketData bs p = p\<lparr>pkt_data := Some bs\<rparr>"

definition Packet_setPacketHeader :: "u8 list \<Rightarrow> jpacket \<Rightarrow> jpacket" where
  "Packet_setPacketHeader bs p = p\<lparr>header := Some bs\<rparr>"

definition TCPPacket_setValue ::
  "jint \<Rightarrow> jint \<Rightarrow> jlong \<Rightarrow> jlong \<Rightarrow> bool \<Rightarrow> bool \<Rightarrow> bool \<Rightarrow> bool \<Rightarrow> bool \<Rightarrow> bool \<Rightarrow> bool \<Rightarrow> bool \<Rightarrow>
   jint \<Rightarrow> jshort \<Rightarrow> tcp_fields \<Rightarrow> tcp_fields" where
  "TCPPacket_setValue src dst sq an u a ps r s f r1 r2 win urp t =
     t\<lparr>tcp_src_port := src, tcp_dst_port := dst, tcp_sequence := sq, ack_num := an, urg := u,
       ack := a, psh := ps, rst := r, syn := s, fin := f, rsv1 := r1, rsv2 := r2, window := win,
       urgent_pointer := urp\<rparr>"

definition TCPPacket_setOption :: "u8 list \<Rightarrow> tcp_fields \<Rightarrow> tcp_fields" where
  "TCPPacket_setOption bs t = t\<lparr>tcp_option := Some bs\<rparr>"

definition UDPPacket_setValue :: "jint \<Rightarrow> jint \<Rightarrow> jint \<Rightarrow> udp_fields \<Rightarrow> udp_fields" where
  "UDPPacket_setValue src dst len u =
     u\<lparr>udp_src_port := src, udp_dst_port := dst, udp_length := len\<rparr>"

definition ICMPPacket_setValue ::
  "jbyte \<Rightarrow> jbyte \<Rightarrow> jshort \<Rightarrow> jshort \<Rightarrow> jshort \<Rightarrow> icmp_fields \<Rightarrow> icmp_fields" where
  "ICMPPacket_setValue type code ck idn sq p =
     p\<lparr>pkt_type := type, pkt_code := code, checksum := ck, pkt_id := idn, pkt_seq := sq\<rparr>"

definition ICMPPacket_setID :: "jshort \<Rightarrow> jshort \<Rightarrow> icmp_fields \<Rightarrow> icmp_fields" where
  "ICMPPacket_setID idn sq p = p\<lparr>pkt_id := idn, pkt_seq := sq\<rparr>"

definition ICMPPacket_setTimestampValue ::
  "jint \<Rightarrow> jint \<Rightarrow> jint \<Rightarrow> icmp_fields \<Rightarrow> icmp_fields" where
  "ICMPPacket_setTimestampValue orig recv xmit p =
     p\<lparr>orig_timestamp := orig, recv_timestamp := recv, trans_timestamp := xmit\<rparr>"

definition ICMPPacket_setRedirectIP :: "u8 list \<Rightarrow> icmp_fields \<Rightarrow> icmp_fields" where
  "ICMPPacket_setRedirectIP bs p =
     (case getByAddress bs of None \<Rightarrow> p | Some a \<Rightarrow> p\<lparr>redir_ip := Some a\<rparr>)"

definition ARPPacket_setValue ::
  "jshort \<Rightarrow> jshort \<Rightarrow> jshort \<Rightarrow> jshort \<Rightarrow> jshort \<Rightarrow> u8 list \<Rightarrow> u8 list \<Rightarrow> u8 list \<Rightarrow> u8 list \<Rightarrow>
   arp_fields \<Rightarrow> arp_fields" where
  "ARPPacket_setValue hw pro hl pl oper sha spa tha tpa a =
     a\<lparr>hardtype := hw, prototype := pro, arp_hlen := hl, arp_plen := pl, operation := oper,
       sender_hardaddr := Some sha, sender_protoaddr := Some spa, target_hardaddr := Some tha,
       target_protoaddr := Some tpa\<rparr>"

lemmas setter_defs =
  IPPacket_setIPv4Value_def IPPacket_setOption_def IPPacket_setIPv6Value_def
  IPPacket_addOptionHeader_def Packet_setPacketValue_def Packet_setDatalinkPacket_def
  Packet_setPacketData_def Packet_setPacketHeader_def TCPPacket_setValue_def
  TCPPacket_setOption_def UDPPacket_setValue_def ICMPPacket_setValue_def ICMPPacket_setID_def
  ICMPPacket_setTimestampValue_def ICMPPacket_setRedirectIP_def ARPPacket_setValue_def
  IPv6Option_setValue_def IPv6Option_setOptionData_def IPv6Option_setRoutingOption_def
  IPv6Option_setFragmentOption_def IPv6Option_setAHOption_def

section \<open>Arrays handed to C\<close>

text \<open>
  \<open>GetByteArrayRegion(a, 0, n, buf + p)\<close> on an array reference: the array must exist and hold at
  least \<open>n\<close> bytes, and the bytes must fit in the buffer.
\<close>

definition GetByteArrayRegion :: "u8 list option \<Rightarrow> nat \<Rightarrow> mem \<Rightarrow> nat \<Rightarrow> mem option" where
  "GetByteArrayRegion a n m p =
     (case a of
        None \<Rightarrow> None
      | Some bs \<Rightarrow> if n \<le> length bs then wr_bytes m p (take n bs) else None)"

text \<open>The class of a packet object is fixed when it is allocated.\<close>

lemma pkt_class_AllocObject [simp]: "pkt_class (AllocObject c) = c"
  by (simp add: AllocObject_def)

lemma CallVoidMethod_SomeD:
  "CallVoidMethod c f p = Some q \<Longrightarrow> IsInstanceOf p c \<and> q = f p"
  by (simp add: CallVoidMethod_def split: if_splits)

lemma GetByteArrayRegion_SomeI:
  "n \<le> length bs \<Longrightarrow> p + n \<le> length m \<Longrightarrow>
   GetByteArrayRegion (Some bs) n m p = Some (take p m @ take n bs @ drop (p + n) m)"
  by (simp add: GetByteArrayRegion_def wr_bytes_def min_def)

lemma GetByteArrayRegion_frame:
  "GetByteArrayRegion a n m p = Some m' \<Longrightarrow> same_outside p n m m'"
  by (auto simp: GetByteArrayRegion_def split: option.splits if_splits
      dest: same_outside_wr_bytes)

lemma GetByteArrayRegion_in_bounds:
  "GetByteArrayRegion a n m p = Some m' \<Longrightarrow> p + n \<le> length m \<and> length m' = length m"
  by (auto simp: GetByteArrayRegion_def wr_bytes_def split: option.splits if_splits)

end
