(* ===== verification/Jpcap_Cksum.thy ===== *)
theory Jpcap_Cksum
  imports Jpcap_Prelude
begin

text \<open>
  The Internet checksum routines of \<open>JpcapSender.c\<close>, the one's complement arithmetic of RFC 1071 as
  a reference, and the proof that the routines compute it. \<open>unsigned long\<close> has 32 bits on the
  modelled target; the lemmas show that no sum of a packet overflows it.
\<close>

section \<open>The code\<close>

text \<open>
  The loop \<open>while(size > 1) \<dots>\<close> shared by both routines; it returns the sum, the advanced pointer
  and the remaining size.
\<close>

fun cksum_loop :: "mem \<Rightarrow> nat \<Rightarrow> nat \<Rightarrow> u32 \<Rightarrow> (u32 \<times> nat \<times> nat) option" where
  "cksum_loop m p sz acc =
     (if 1 < sz
      then do { w \<leftarrow> rd16 m p; cksum_loop m (p + 2) (sz - 2) (acc + ucast w) }
      else Some (acc, p, sz))"

declare cksum_loop.simps [simp del]

text \<open>The two folding steps and the complement, the last two statements of both routines.\<close>

definition cksum_fold :: "u32 \<Rightarrow> u16" where
  "cksum_fold acc =
     (let s = (acc AND 0xffff) + drop_bit 16 acc
      in NOT (ucast (drop_bit 16 s + (s AND 0xffff))))"

definition in_cksum :: "mem \<Rightarrow> nat \<Rightarrow> nat \<Rightarrow> u16 option" where
  "in_cksum m p sz = do {
     (acc, q, r) \<leftarrow> cksum_loop m p sz 0;
     acc \<leftarrow> (if 0 < r then do { w \<leftarrow> rd16 m q; Some (acc + ucast (w AND 0xff00)) } else Some acc);
     Some (cksum_fold acc)
   }"

text \<open>
  \<open>in_cksum2\<close>: the pseudo header (source and destination address, protocol and length, at offset 12
  and 9 of the IP header at \<open>ip\<close>) and then the segment. An odd last byte is read as a byte.
\<close>

definition in_cksum2 :: "mem \<Rightarrow> nat \<Rightarrow> u16 \<Rightarrow> nat \<Rightarrow> nat \<Rightarrow> u16 option" where
  "in_cksum2 m ip len p sz = do {
     w1 \<leftarrow> rd16 m (ip + 12);
     w2 \<leftarrow> rd16 m (ip + 14);
     w3 \<leftarrow> rd16 m (ip + 16);
     w4 \<leftarrow> rd16 m (ip + 18);
     proto \<leftarrow> rd8 m (ip + 9);
     (acc, q, r) \<leftarrow> cksum_loop m p sz
        (ucast w1 + ucast w2 + ucast w3 + ucast w4 + ucast (htons (ucast proto)) + ucast len);
     acc \<leftarrow> (if 0 < r then do { b \<leftarrow> rd8 m q; Some (acc + ucast b) } else Some acc);
     Some (cksum_fold acc)
   }"

section \<open>The reference: one's complement addition\<close>

definition ocadd :: "u16 \<Rightarrow> u16 \<Rightarrow> u16" where
  "ocadd a b =
     (let s = unat a + unat b in of_nat (if 65536 \<le> s then s - 65535 else s))"

definition rfc1071 :: "u16 list \<Rightarrow> u16" where
  "rfc1071 ws = NOT (foldl ocadd 0 ws)"

text \<open>
  The value of a one's complement sum: the representative in \<open>1 .. 65535\<close> of the total modulo
  \<open>65535\<close>, and \<open>0\<close> only for the total \<open>0\<close>.
\<close>

definition oc_norm :: "nat \<Rightarrow> nat" where
  "oc_norm n = (if n = 0 then 0 else (n - 1) mod 65535 + 1)"

lemma oc_norm_le: "oc_norm n \<le> 65535"
proof -
  have "(n - 1) mod 65535 < 65535" by simp
  then show ?thesis unfolding oc_norm_def by (auto simp del: mod_less_divisor)
qed

lemma oc_norm_mod: "oc_norm n mod 65535 = n mod 65535"
proof (cases n)
  case (Suc k)
  then show ?thesis by (simp add: oc_norm_def mod_Suc)
qed (simp add: oc_norm_def)

lemma oc_norm_eq_0 [simp]: "oc_norm n = 0 \<longleftrightarrow> n = 0"
  by (simp add: oc_norm_def)

lemma oc_norm_id: "n \<le> 65535 \<Longrightarrow> oc_norm n = n"
  by (simp add: oc_norm_def)

lemma oc_norm_unique:
  assumes "r \<le> 65535" and "r mod 65535 = n mod 65535" and "r = 0 \<longleftrightarrow> n = 0"
  shows "oc_norm n = r"
proof (cases "n = 0")
  case False
  have "oc_norm n mod 65535 = r mod 65535" and "oc_norm n \<noteq> 0" and "r \<noteq> 0"
    using assms False by (simp_all add: oc_norm_mod)
  moreover have "x = y" if "x mod 65535 = y mod 65535" "0 < x" "x \<le> 65535" "0 < y" "y \<le> 65535"
    for x y :: nat
    using that by (cases "x = 65535"; cases "y = 65535") auto
  ultimately show ?thesis
    using oc_norm_le assms(1) by blast
qed (use assms in \<open>simp add: oc_norm_def\<close>)

lemma oc_norm_add: "oc_norm (oc_norm a + b) = oc_norm (a + b)"
proof -
  have "(a + b) mod 65535 = (oc_norm a + b) mod 65535"
    by (metis mod_add_left_eq oc_norm_mod)
  then show ?thesis
    by (intro oc_norm_unique [symmetric]) (auto simp: oc_norm_le oc_norm_mod)
qed

lemma unat_ocadd: "unat (ocadd a b) = oc_norm (unat a + unat b)"
proof -
  have a: "unat a < 65536" and b: "unat b < 65536"
    using unat_u16_less by blast+
  define s where "s = unat a + unat b"
  have "(if 65536 \<le> s then s - 65535 else s) < 65536"
    using a b by (auto simp: s_def)
  then have "unat (ocadd a b) = (if 65536 \<le> s then s - 65535 else s)"
    by (simp add: ocadd_def s_def [symmetric] unsigned_of_nat take_bit_nat_eq_self)
  moreover have "\<dots> = oc_norm s"
  proof (rule oc_norm_unique [symmetric])
    show "(if 65536 \<le> s then s - 65535 else s) mod 65535 = s mod 65535"
      by (auto simp: le_mod_geq)
  qed (use a b in \<open>auto simp: s_def\<close>)
  ultimately show ?thesis by (simp add: s_def)
qed

lemma unat_foldl_ocadd:
  "unat (foldl ocadd a ws) = oc_norm (unat a + sum_list (map unat ws))"
proof (induction ws arbitrary: a)
  case Nil
  have "unat a \<le> 65535" using unat_u16_less [of a] by simp
  then show ?case by (simp add: oc_norm_id)
next
  case (Cons w ws)
  then show ?case by (simp add: unat_ocadd oc_norm_add add.assoc)
qed

section \<open>The routines compute the reference\<close>

text \<open>The \<open>n\<close> 16-bit words of a buffer from \<open>p\<close> on, in host order.\<close>

fun words :: "mem \<Rightarrow> nat \<Rightarrow> nat \<Rightarrow> u16 list" where
  "words m p 0 = []"
| "words m p (Suc n) = le16 (m ! p) (m ! (p + 1)) # words m (p + 2) n"

lemma length_words [simp]: "length (words m p n) = n"
  by (induction n arbitrary: p) auto

lemma words_add: "words m p (k + n) = words m p k @ words m (p + 2 * k) n"
  by (induction k arbitrary: p) (auto simp: algebra_simps)

lemma words_local:
  "(\<And>i. i < 2 * n \<Longrightarrow> m' ! (p + i) = m ! (p + i)) \<Longrightarrow> words m' p n = words m p n"
proof (induction n arbitrary: p)
  case (Suc n)
  have "words m' (p + 2) n = words m (p + 2) n"
    using Suc.prems [of "i + 2" for i] by (intro Suc.IH) (simp add: algebra_simps)
  with Suc.prems [of 0] Suc.prems [of 1] show ?case by simp
qed simp

lemma cksum_loop_eq:
  "p + sz \<le> length m \<Longrightarrow>
   cksum_loop m p sz acc =
     Some (acc + sum_list (map ucast (words m p (sz div 2))), p + 2 * (sz div 2), sz mod 2)"
proof (induction m p sz acc rule: cksum_loop.induct)
  case (1 m p sz acc)
  show ?case
  proof (cases "1 < sz")
    case True
    then have "sz div 2 = Suc ((sz - 2) div 2)" and "sz mod 2 = (sz - 2) mod 2"
      by (simp_all add: div_if mod_if)
    moreover have "rd16 m p = Some (le16 (m ! p) (m ! (p + 1)))"
      using True 1(2) by (simp add: rd16_def)
    ultimately show ?thesis
      using True 1 by (subst cksum_loop.simps) (simp add: algebra_simps)
  next
    case False
    then have "sz = 0 \<or> sz = 1" by auto
    with False show ?thesis by (subst cksum_loop.simps) auto
  qed
qed

lemma sum_list_unat_le: "sum_list (map unat (ws :: u16 list)) \<le> 65535 * length ws"
proof (induction ws)
  case (Cons w ws)
  with unat_u16_less [of w] show ?case by simp
qed simp

lemma sum_list_ucast: "sum_list (map ucast (ws :: u16 list)) = (of_nat (sum_list (map unat ws)) :: u32)"
  by (induction ws) simp_all

lemma unat_sum_list:
  assumes "length ws \<le> 65537"
  shows "unat (sum_list (map ucast (ws :: u16 list)) :: u32) = sum_list (map unat ws)"
proof -
  have "sum_list (map unat ws) \<le> 65535 * 65537"
    using sum_list_unat_le [of ws] assms by (meson le_trans mult_le_mono2)
  then show ?thesis
    by (simp add: sum_list_ucast unsigned_of_nat take_bit_nat_eq_self)
qed

lemma unat_lo_half: "unat ((s :: u32) AND 0xffff) = unat s mod 65536"
proof -
  have "s AND 0xffff = take_bit 16 s"
    by (simp add: take_bit_eq_mask mask_eq_exp_minus_1)
  then have "unat (s AND 0xffff) = take_bit 16 (unat s)"
    by (simp only: unsigned_take_bit_eq)
  then show ?thesis
    by (simp add: take_bit_eq_mod)
qed

lemma unat_hi_half: "unat (drop_bit 16 (s :: u32)) = unat s div 65536"
  unfolding unat_drop_bit_eq by (simp add: drop_bit_eq_div)

lemma unat_fold_step:
  "unat ((s AND 0xffff) + drop_bit 16 s :: u32) = unat s mod 65536 + unat s div 65536"
proof -
  have "unat (s AND 0xffff) + unat (drop_bit 16 s) < 2 ^ LENGTH(32)"
    using unat_u32_less [of s] by (simp add: unat_lo_half unat_hi_half)
  then show ?thesis
    by (simp only: unat_add_lem) (simp only: unat_lo_half unat_hi_half)
qed

lemma fold_step_mod:
  fixes n :: nat
  shows "(n mod 65536 + n div 65536) mod 65535 = n mod 65535"
proof -
  have "n = (n mod 65536 + n div 65536) + 65535 * (n div 65536)"
    by (subst (1) mult_div_mod_eq [of 65536 n, symmetric]) linarith
  then show ?thesis
    by (metis mod_mult_self2)
qed

lemma fold_step_eq_0: "n mod 65536 + n div 65536 = 0 \<longleftrightarrow> n = (0 :: nat)"
  by (metis add_is_0 mod_less div_eq_0_iff mod_0 div_0 zero_neq_numeral)

lemma fold_step_le: "k \<le> 131070 \<Longrightarrow> k mod 65536 + k div 65536 \<le> (65535 :: nat)"
  by (cases "k < 65536") (simp_all add: le_mod_geq le_div_geq)

text \<open>Two folds reduce any 32-bit sum to its one's complement value.\<close>

lemma unat_not_cksum_fold: "unat (NOT (cksum_fold s)) = oc_norm (unat s)"
proof -
  define t where "t = (s AND 0xffff) + drop_bit 16 s"
  define u where "u = drop_bit 16 t + (t AND 0xffff)"
  define n where "n = unat s"
  have t: "unat t = n mod 65536 + n div 65536"
    unfolding t_def n_def by (rule unat_fold_step)
  have u: "unat u = unat t mod 65536 + unat t div 65536"
    unfolding u_def by (subst add.commute) (rule unat_fold_step)
  have n: "n < 65536 * 65536"
    using unat_u32_less [of s] by (simp add: n_def)
  have "unat u = oc_norm n"
  proof (rule oc_norm_unique [symmetric])
    have "unat t \<le> 65535 + 65535"
      using n by (auto simp: t intro!: add_mono)
    then show "unat u \<le> 65535"
      unfolding u by (intro fold_step_le) simp
    show "unat u mod 65535 = n mod 65535"
      unfolding u t by (simp only: fold_step_mod)
    show "unat u = 0 \<longleftrightarrow> n = 0"
      unfolding u t by (simp only: fold_step_eq_0)
  qed
  moreover have "unat (ucast u :: u16) = unat u mod 65536"
    by (simp add: unsigned_ucast_eq take_bit_eq_mod)
  ultimately have "unat (ucast u :: u16) = oc_norm n"
    using oc_norm_le [of n] by simp
  then show ?thesis
    by (simp add: cksum_fold_def Let_def t_def u_def n_def)
qed

lemma cksum_fold_rfc1071:
  assumes "length ws \<le> 65537"
  shows "cksum_fold (sum_list (map ucast ws)) = rfc1071 ws"
proof -
  have "unat (NOT (cksum_fold (sum_list (map ucast ws)))) = unat (foldl ocadd 0 ws)"
    by (simp add: unat_not_cksum_fold unat_sum_list [OF assms] unat_foldl_ocadd)
  then show ?thesis
    by (metis rfc1071_def bit.double_compl word_unat_eq_iff)
qed

lemma in_cksum_even_eq:
  assumes "even sz" and "p + sz \<le> length m" and "sz \<le> 131074"
  shows "in_cksum m p sz = Some (rfc1071 (words m p (sz div 2)))"
proof -
  have "sz mod 2 = 0" and "length (words m p (sz div 2)) \<le> 65537"
    using assms by auto
  then show ?thesis
    by (simp add: in_cksum_def cksum_loop_eq [OF assms(2)] cksum_fold_rfc1071)
qed

lemma le16_and_hi: "le16 a b AND 0xff00 = le16 0 b"
proof -
  have hi: "(0xff00 :: u16) = push_bit 8 (mask 8)"
    by (simp add: mask_eq_exp_minus_1)
  show ?thesis
    unfolding hi
    by (rule bit_word_eqI) (auto simp: le16_def bit_simps dest: bit_imp_le_length)
qed

lemma ucast_u8_le16: "(ucast (b :: u8) :: u16) = le16 b 0"
  by (simp add: le16_def)

lemma ucast_le16_0: "(ucast (le16 b 0) :: u32) = ucast b"
  by (rule bit_word_eqI) (auto simp: le16_def bit_simps dest: bit_imp_le_length)

text \<open>
  An odd size: the loop leaves the pointer at the last byte \<open>a\<close>, and \<open>(*data) & 0xff00\<close> keeps, on a
  little-endian host, the byte behind it.
\<close>

lemma in_cksum_odd_eq:
  assumes "odd sz" and "p + sz < length m" and "sz \<le> 131073"
  shows "in_cksum m p sz = Some (rfc1071 (words m p (sz div 2) @ [le16 0 (m ! (p + sz))]))"
proof -
  have r: "sz mod 2 = 1" and q: "p + 2 * (sz div 2) + 1 = p + sz"
    using assms(1) by presburger+
  then have "rd16 m (p + 2 * (sz div 2)) = Some (le16 (m ! (p + 2 * (sz div 2))) (m ! (p + sz)))"
    using assms(2) by (simp add: rd16_def flip: q)
  moreover have "length (words m p (sz div 2) @ [le16 0 (m ! (p + sz))]) \<le> 65537"
    using assms(3) by simp
  note cksum_fold_rfc1071 [OF this]
  ultimately show ?thesis
    using assms(2) by (simp add: in_cksum_def cksum_loop_eq r le16_and_hi)
qed

definition pseudo_words :: "mem \<Rightarrow> nat \<Rightarrow> u16 \<Rightarrow> u16 list" where
  "pseudo_words m ip len = words m (ip + 12) 4 @ [le16 0 (m ! (ip + 9)), len]"

definition tail_words :: "mem \<Rightarrow> nat \<Rightarrow> nat \<Rightarrow> u16 list" where
  "tail_words m p sz = (if odd sz then [le16 (m ! (p + sz - 1)) 0] else [])"

lemma ntohs_ucast: "ntohs (ucast (b :: u8)) = le16 0 b"
  by (simp add: ucast_u8_le16)

lemma in_cksum2_eq:
  assumes "ip + 20 \<le> length m" and "p + sz \<le> length m" and "sz \<le> 131060"
  shows "in_cksum2 m ip len p sz =
     Some (rfc1071 (pseudo_words m ip len @ words m p (sz div 2) @ tail_words m p sz))"
proof -
  let ?ws = "pseudo_words m ip len @ words m p (sz div 2) @ tail_words m p sz"
  have q: "p + 2 * (sz div 2) = p + sz - 1" "p + sz - 1 < length m" if "odd sz"
    using that assms(2) by presburger+
  have "length ?ws \<le> 65537"
    using assms(3) by (auto simp: pseudo_words_def tail_words_def)
  note fold = cksum_fold_rfc1071 [OF this]
  have acc: "ucast (le16 (m ! (ip + 12)) (m ! (13 + ip))) + ucast (le16 (m ! (ip + 14)) (m ! (15 + ip))) +
      ucast (le16 (m ! (ip + 16)) (m ! (17 + ip))) + ucast (le16 (m ! (ip + 18)) (m ! (19 + ip))) +
      ucast (le16 0 (m ! (ip + 9))) + ucast len =
      (sum_list (map ucast (pseudo_words m ip len)) :: u32)"
    by (simp add: pseudo_words_def numeral_eq_Suc algebra_simps)
  have pre: "in_cksum2 m ip len p sz = do {
      (acc, q, r) \<leftarrow> cksum_loop m p sz (sum_list (map ucast (pseudo_words m ip len)));
      acc \<leftarrow> (if 0 < r then do { b \<leftarrow> rd8 m q; Some (acc + ucast b) } else Some acc);
      Some (cksum_fold acc)
    }"
    using assms(1) by (simp add: in_cksum2_def rd16_def rd8_def ntohs_ucast acc)
  show ?thesis
  proof (cases "odd sz")
    case True
    then have "sz mod 2 = 1" by presburger
    with True q fold show ?thesis
      by (simp add: pre cksum_loop_eq [OF assms(2)] rd8_def tail_words_def ucast_le16_0 add.assoc)
  next
    case False
    then have "sz mod 2 = 0" by presburger
    with False fold show ?thesis
      by (simp add: pre cksum_loop_eq [OF assms(2)] tail_words_def add.assoc)
  qed
qed

section \<open>Facts of the reference\<close>

lemma unat_rfc1071: "unat (rfc1071 ws) = 65535 - oc_norm (sum_list (map unat ws))"
proof -
  have "unat (NOT (w :: u16)) = 65535 - unat w" for w
  proof -
    have "NOT w = of_nat (65535 - unat w)"
      using unat_u16_less [of w] by (simp add: not_eq_complement)
    then show ?thesis
      by (simp add: unsigned_of_nat take_bit_nat_eq_self)
  qed
  then show ?thesis
    by (simp add: rfc1071_def unat_foldl_ocadd)
qed

text \<open>Putting the checksum where a zero was makes the whole sum verify.\<close>

lemma rfc1071_verifies: "rfc1071 (xs @ rfc1071 (xs @ 0 # ys) # ys) = 0"
proof -
  define n where "n = sum_list (map unat xs) + sum_list (map unat ys)"
  define c where "c = 65535 - oc_norm n"
  have c: "unat (rfc1071 (xs @ 0 # ys)) = c"
    by (simp add: unat_rfc1071 c_def n_def)
  have "oc_norm (n + c) = 65535"
  proof (rule oc_norm_unique)
    have "(n + c) mod 65535 = (oc_norm n + c) mod 65535"
      by (metis mod_add_left_eq oc_norm_mod)
    also have "oc_norm n + c = 65535"
      using oc_norm_le [of n] by (simp add: c_def)
    finally show "65535 mod 65535 = (n + c) mod 65535" by simp
    show "(65535 :: nat) = 0 \<longleftrightarrow> n + c = 0"
      by (auto simp: c_def oc_norm_def)
  qed simp
  then have "unat (rfc1071 (xs @ rfc1071 (xs @ 0 # ys) # ys)) = 0"
    by (subst unat_rfc1071) (simp add: c n_def algebra_simps)
  then show ?thesis by (simp only: unsigned_eq_0_iff)
qed

text \<open>The sum does not depend on the order of the words.\<close>

lemma rfc1071_perm:
  "sum_list (map unat ws) = sum_list (map unat vs) \<Longrightarrow> rfc1071 ws = rfc1071 vs"
  by (metis unat_rfc1071 word_unat_eq_iff)

text \<open>
  Byte order independence: summing the words in network order gives the same checksum in network
  order, so the host-order routine stores on the wire what RFC 1071 asks for.
\<close>

lemma unat_le16: "unat (le16 a b) = unat a + 256 * unat b"
proof -
  have "le16 a b = ucast a + push_bit 8 (ucast b)"
    unfolding le16_def
    by (rule disjunctive_add_eq_or [symmetric], rule bit_word_eqI)
       (auto simp: bit_simps dest: bit_imp_le_length)
  then have "le16 a b = of_nat (unat a + 256 * unat b)"
    by (simp add: push_bit_eq_mult mult.commute)
  moreover have "unat a + 256 * unat b < 65536"
    using unat_u8_less [of a] unat_u8_less [of b] by simp
  ultimately show ?thesis
    by (simp only: unsigned_of_nat) (simp add: take_bit_nat_eq_self)
qed

lemma unat_ntohs_mod: "unat (ntohs w) mod 65535 = (256 * unat w) mod 65535"
proof -
  obtain a b where w: "w = le16 a b"
    by (metis le16_lo_hi)
  have "256 * unat w = unat (ntohs w) + 65535 * unat b"
    by (simp add: w unat_le16)
  then show ?thesis
    by (metis mod_mult_self2)
qed

lemma ntohs_eq_0 [simp]: "ntohs w = 0 \<longleftrightarrow> w = 0"
proof -
  have "le16 0 0 = 0" by (simp add: le16_def)
  then show ?thesis
    by (metis ntohs_le16 ntohs_ntohs)
qed

lemma sum_list_ntohs_mod:
  "sum_list (map (unat \<circ> ntohs) ws) mod 65535 = (256 * sum_list (map unat ws)) mod 65535"
proof (induction ws)
  case (Cons w ws)
  from mod_add_cong [OF unat_ntohs_mod Cons.IH] show ?case
    by (simp only: list.map sum_list.Cons comp_def distrib_left)
qed simp

lemma foldl_ocadd_ntohs: "foldl ocadd 0 (map ntohs ws) = ntohs (foldl ocadd 0 ws)"
proof -
  define n where "n = sum_list (map unat ws)"
  have fold: "unat (foldl ocadd 0 ws) = oc_norm n"
    by (simp add: unat_foldl_ocadd n_def)
  have zero: "sum_list (map (unat \<circ> ntohs) ws) = 0 \<longleftrightarrow> n = 0"
    unfolding n_def by (induction ws) (simp_all only: list.map sum_list.Nil sum_list.Cons
        comp_def add_is_0 unsigned_eq_0_iff ntohs_eq_0)
  have "oc_norm (sum_list (map (unat \<circ> ntohs) ws)) = unat (ntohs (foldl ocadd 0 ws))"
  proof (rule oc_norm_unique)
    show "unat (ntohs (foldl ocadd 0 ws)) \<le> 65535"
      using unat_u16_less [of "ntohs (foldl ocadd 0 ws)"] by simp
    have "unat (ntohs (foldl ocadd 0 ws)) mod 65535 = (256 * oc_norm n) mod 65535"
      by (simp only: unat_ntohs_mod fold)
    also have "\<dots> = (256 * n) mod 65535"
      by (metis mod_mult_right_eq oc_norm_mod)
    finally show "unat (ntohs (foldl ocadd 0 ws)) mod 65535 =
        sum_list (map (unat \<circ> ntohs) ws) mod 65535"
      by (simp only: sum_list_ntohs_mod n_def)
    have "unat (ntohs (foldl ocadd 0 ws)) = 0 \<longleftrightarrow> unat (foldl ocadd 0 ws) = 0"
      by (simp only: unsigned_eq_0_iff ntohs_eq_0)
    then show "unat (ntohs (foldl ocadd 0 ws)) = 0 \<longleftrightarrow> sum_list (map (unat \<circ> ntohs) ws) = 0"
      by (simp only: fold zero oc_norm_eq_0)
  qed
  then show ?thesis
    by (simp add: word_unat_eq_iff unat_foldl_ocadd)
qed

lemma ntohs_not: "ntohs (NOT w) = NOT (ntohs w)"
  by (rule bit_word_eqI) (auto simp: ntohs_def le16_def hi16_def lo16_def bit_simps)

lemma rfc1071_ntohs: "rfc1071 (map ntohs ws) = ntohs (rfc1071 ws)"
  by (simp add: rfc1071_def foldl_ocadd_ntohs ntohs_not)

section \<open>Filling in a checksum field\<close>

lemma words_nth: "j < n \<Longrightarrow> words m p n ! j = le16 (m ! (p + 2 * j)) (m ! (p + 2 * j + 1))"
  by (induction n arbitrary: p j) (auto simp: less_Suc_eq_0_disj algebra_simps)

lemma words_wr16:
  assumes "wr16 m (p + 2 * j) v = Some m'" and "j < n" and "p + 2 * n \<le> length m"
  shows "words m' p n = (words m p n)[j := v]"
proof (rule nth_equalityI)
  fix i
  assume i: "i < length (words m' p n)"
  have "m' = m[p + 2 * j := lo16 v, p + 2 * j + 1 := hi16 v]"
    using assms(1) by (simp add: wr16_def split: if_splits)
  moreover have "2 * i \<noteq> 2 * j + 1" "2 * i + 1 \<noteq> 2 * j"
    by presburger+
  ultimately show "words m' p n ! i = (words m p n)[j := v] ! i"
    using i assms(2,3) by (auto simp: words_nth nth_list_update)
qed simp

lemma rfc1071_verifies_update:
  assumes "j < length ws"
  shows "rfc1071 (ws[j := rfc1071 (ws[j := 0])]) = 0"
  using rfc1071_verifies [of "take j ws" "drop (Suc j) ws"] assms
  by (simp add: upd_conv_take_nth_drop)

lemma in_cksum_verifies:
  assumes z: "wr16 m (p + 2 * j) 0 = Some m1" and c: "in_cksum m1 p sz = Some c"
    and f: "wr16 m1 (p + 2 * j) c = Some m2"
    and sz: "even sz" "2 * j < sz" "p + sz \<le> length m" "sz \<le> 131074"
  shows "in_cksum m2 p sz = Some 0"
proof -
  have len: "length m1 = length m" "length m2 = length m"
    using f16.put_length [OF _ z] f16.put_length [OF _ f] by simp_all
  have j: "j < sz div 2" and n: "p + 2 * (sz div 2) \<le> length m"
    using sz by auto
  have w1: "words m1 p (sz div 2) = (words m p (sz div 2))[j := 0]"
    using words_wr16 [OF z j n] .
  have w2: "words m2 p (sz div 2) = (words m1 p (sz div 2))[j := c]"
    using words_wr16 [OF f j] n len by simp
  have "c = rfc1071 (words m1 p (sz div 2))"
    using c sz len by (simp add: in_cksum_even_eq)
  then have "words m2 p (sz div 2) = (words m p (sz div 2))[j := rfc1071 ((words m p (sz div 2))[j := 0])]"
    by (simp add: w1 w2)
  then show ?thesis
    using rfc1071_verifies_update [of j "words m p (sz div 2)"] j sz len
    by (simp add: in_cksum_even_eq)
qed

lemma pseudo_words_frame:
  assumes "same_outside q w m m'" and "iph + 20 \<le> q" and "iph + 20 \<le> length m"
  shows "pseudo_words m' iph len = pseudo_words m iph len"
proof -
  have "m' ! i = m ! i" if "i < iph + 20" for i
    using that assms by (intro same_outside_nth [OF assms(1)]) auto
  then show ?thesis
    by (auto simp: pseudo_words_def intro!: words_local)
qed

lemma tail_words_wr16:
  assumes "wr16 m (p + 2 * j) v = Some m'" and "2 * j + 2 \<le> sz" and "p + sz \<le> length m"
  shows "tail_words m' p sz = tail_words m p sz"
proof -
  have "p + 2 * j + 2 \<le> p + sz - 1" "p + sz - 1 < length m" if "odd sz"
    using that assms(2,3) by presburger+
  then have "odd sz \<Longrightarrow> m' ! (p + sz - 1) = m ! (p + sz - 1)"
    using f16.put_frame [OF _ assms(1)] by (intro same_outside_nth [of "p + 2 * j" 2]) auto
  then show ?thesis by (simp add: tail_words_def)
qed

lemma in_cksum2_verifies:
  assumes z: "wr16 m (p + 2 * j) 0 = Some m1" and c: "in_cksum2 m1 iph len p sz = Some c"
    and f: "wr16 m1 (p + 2 * j) c = Some m2"
    and sz: "2 * j + 2 \<le> sz" "p + sz \<le> length m" "sz \<le> 131060" and iph: "iph + 20 \<le> p"
  shows "in_cksum2 m2 iph len p sz = Some 0"
proof -
  let ?ws = "pseudo_words m iph len @ words m p (sz div 2) @ tail_words m p sz"
  have len: "length m1 = length m" "length m2 = length m"
    using f16.put_length [OF _ z] f16.put_length [OF _ f] by simp_all
  have j: "j < sz div 2" and n: "p + 2 * (sz div 2) \<le> length m"
    using sz by auto
  have w1: "words m1 p (sz div 2) = (words m p (sz div 2))[j := 0]"
    using words_wr16 [OF z j n] .
  have w2: "words m2 p (sz div 2) = (words m1 p (sz div 2))[j := c]"
    using words_wr16 [OF f j] n len by simp
  have ps: "pseudo_words m1 iph len = pseudo_words m iph len"
    "pseudo_words m2 iph len = pseudo_words m1 iph len"
    using pseudo_words_frame [OF f16.put_frame [OF _ z]] pseudo_words_frame [OF f16.put_frame [OF _ f]]
      iph sz len by simp_all
  have t: "tail_words m1 p sz = tail_words m p sz" "tail_words m2 p sz = tail_words m1 p sz"
    using tail_words_wr16 [OF z] tail_words_wr16 [OF f] sz len by simp_all
  have up: "?ws[6 + j := v] = pseudo_words m iph len @ (words m p (sz div 2))[j := v] @ tail_words m p sz" for v
    using j by (simp add: list_update_append pseudo_words_def)
  have "c = rfc1071 (?ws[6 + j := 0])"
    using c sz iph len unfolding up by (simp add: in_cksum2_eq ps t w1)
  then have "pseudo_words m2 iph len @ words m2 p (sz div 2) @ tail_words m2 p sz =
      ?ws[6 + j := rfc1071 (?ws[6 + j := 0])]"
    unfolding up by (simp add: ps t w1 w2)
  then show ?thesis
    using rfc1071_verifies_update [of "6 + j" ?ws] j sz iph len
    by (simp add: in_cksum2_eq pseudo_words_def)
qed

text \<open>A zero checksum may be sent as all ones: the sum still verifies.\<close>

lemma rfc1071_all_ones:
  assumes "rfc1071 (xs @ 0 # ys) = 0"
  shows "rfc1071 (xs @ 0xffff # ys) = 0"
proof -
  define n where "n = sum_list (map unat xs) + sum_list (map unat ys)"
  have "unat (rfc1071 (xs @ 0 # ys)) = 0"
    by (simp only: assms unsigned_0)
  then have n: "oc_norm n = 65535"
    using oc_norm_le [of n] by (simp add: unat_rfc1071 n_def)
  have "oc_norm (n + 65535) = 65535"
  proof (rule oc_norm_unique)
    show "65535 mod 65535 = (n + 65535) mod 65535"
      using n oc_norm_mod [of n] by simp
  qed simp_all
  moreover have "unat (0xffff :: u16) = 65535"
    by (simp add: take_bit_eq_mod)
  ultimately have "unat (rfc1071 (xs @ 0xffff # ys)) = 0"
    by (simp add: unat_rfc1071 n_def algebra_simps)
  then show ?thesis by (simp only: unsigned_eq_0_iff)
qed

lemma in_cksum2_all_ones:
  assumes z: "wr16 m (p + 2 * j) 0 = Some m1" and f: "wr16 m1 (p + 2 * j) 0xffff = Some m2"
    and c: "in_cksum2 m1 iph len p sz = Some 0"
    and sz: "2 * j + 2 \<le> sz" "p + sz \<le> length m" and iph: "iph + 20 \<le> p" and "sz \<le> 131060"
  shows "in_cksum2 m2 iph len p sz = Some 0"
proof -
  let ?P = "pseudo_words m iph len" and ?W = "words m p (sz div 2)" and ?T = "tail_words m p sz"
  have len: "length m1 = length m" "length m2 = length m"
    using f16.put_length [OF _ z] f16.put_length [OF _ f] by simp_all
  have j: "j < sz div 2" and n: "p + 2 * (sz div 2) \<le> length m"
    using sz by auto
  have w: "words m1 p (sz div 2) = ?W[j := 0]" "words m2 p (sz div 2) = ?W[j := 0xffff]"
    using words_wr16 [OF z j n] words_wr16 [OF f j] n len by simp_all
  have ps: "pseudo_words m1 iph len = ?P" "pseudo_words m2 iph len = ?P"
    using pseudo_words_frame [OF f16.put_frame [OF _ z]] pseudo_words_frame [OF f16.put_frame [OF _ f]]
      iph sz len by simp_all
  have t: "tail_words m1 p sz = ?T" "tail_words m2 p sz = ?T"
    using tail_words_wr16 [OF z] tail_words_wr16 [OF f] sz len by simp_all
  have up: "?P @ ?W[j := v] @ ?T = (?P @ take j ?W) @ v # (drop (Suc j) ?W @ ?T)" for v
    using j by (simp add: upd_conv_take_nth_drop)
  have "rfc1071 (?P @ ?W[j := 0] @ ?T) = 0"
    using c sz iph len assms(7) by (simp add: in_cksum2_eq ps t w)
  then have "rfc1071 (?P @ ?W[j := 0xffff] @ ?T) = 0"
    unfolding up by (rule rfc1071_all_ones)
  then show ?thesis
    using sz iph len assms(7) by (simp add: in_cksum2_eq ps t w)
qed

section \<open>Properties\<close>

text \<open>
  C7: on every even size up to the limit of the 32-bit accumulator, \<open>in_cksum\<close> reads only the bytes
  it is given and stores in network order exactly the RFC 1071 checksum of the network-order words.
\<close>

theorem in_cksum_is_rfc1071:
  assumes "even sz" and "p + sz \<le> length m" and "sz \<le> 131074"
  shows "\<exists>c. in_cksum m p sz = Some c \<and>
           ntohs c = rfc1071 (map ntohs (words m p (sz div 2)))"
  using in_cksum_even_eq [OF assms] by (simp add: rfc1071_ntohs)

theorem in_cksum_is_rfc1071_witness:
  "\<exists>c. in_cksum [0x45, 0, 0, 40] 0 4 = Some c \<and>
       ntohs c = rfc1071 (map ntohs (words [0x45, 0, 0, 40] 0 (4 div 2)))"
  using in_cksum_is_rfc1071 [of 4 0 "[0x45, 0, 0, 40]"] by simp

text \<open>
  C8: \<open>in_cksum2\<close> computes the RFC 1071 checksum of the pseudo header (addresses, protocol, length)
  followed by the segment, an odd last byte being padded with a zero byte, and never reads outside.
\<close>

theorem in_cksum2_is_rfc1071:
  assumes "iph + 20 \<le> length m" and "p + sz \<le> length m" and "sz \<le> 131060"
  shows "\<exists>c. in_cksum2 m iph len p sz = Some c \<and>
     ntohs c = rfc1071 (map ntohs
       (words m (iph + 12) 4 @ [le16 0 (m ! (iph + 9)), len] @ words m p (sz div 2) @
        (if odd sz then [le16 (m ! (p + sz - 1)) 0] else [])))"
proof -
  have "in_cksum2 m iph len p sz = Some (rfc1071
      (words m (iph + 12) 4 @ [le16 0 (m ! (iph + 9)), len] @ words m p (sz div 2) @
        (if odd sz then [le16 (m ! (p + sz - 1)) 0] else [])))"
    using in_cksum2_eq [OF assms, of len] by (simp add: pseudo_words_def tail_words_def)
  then show ?thesis
    by (simp only: rfc1071_ntohs option.inject ex_simps simp_thms)
qed

theorem in_cksum2_is_rfc1071_witness:
  "\<exists>c. in_cksum2 (replicate 23 7) 0 (htons 3) 20 3 = Some c \<and>
     ntohs c = rfc1071 (map ntohs
       (words (replicate 23 7) (0 + 12) 4 @ [le16 0 (replicate 23 7 ! (0 + 9)), htons 3] @
        words (replicate 23 7) 20 (3 div 2) @
        (if odd (3 :: nat) then [le16 (replicate 23 7 ! (20 + 3 - 1)) 0] else [])))"
  by (rule in_cksum2_is_rfc1071) simp_all

text \<open>
  On an odd size \<open>in_cksum\<close> drops the last byte of the data: \<open>(*data) & 0xff00\<close> picks, on a
  little-endian host, the byte behind it instead, so changing the last byte never changes the result.
\<close>

theorem in_cksum_odd_ignores_last_byte:
  assumes "odd sz" and "p + sz < length m" and "sz \<le> 131073"
  shows "in_cksum (m[p + sz - 1 := b]) p sz = in_cksum m p sz"
proof -
  have "words (m[p + sz - 1 := b]) p (sz div 2) = words m p (sz div 2)"
    using assms(1) by (intro words_local) (auto elim!: oddE)
  moreover have "m[p + sz - 1 := b] ! (p + sz) = m ! (p + sz)"
    using assms(1) by (auto elim!: oddE)
  ultimately show ?thesis
    using assms by (simp add: in_cksum_odd_eq)
qed

theorem in_cksum_odd_ignores_last_byte_witness:
  "in_cksum ([1, 2, 3, 0][0 + 3 - 1 := 99]) 0 3 = in_cksum [1, 2, 3, 0] 0 3"
  by (rule in_cksum_odd_ignores_last_byte) simp_all

end
