(* ===== verification/Jpcap_Codec.thy ===== *)
theory Jpcap_Codec
  imports Jpcap_Headers Jpcap_Java Jpcap_Cksum
begin

text \<open>
  The contract between a header writer (\<open>set_tcp\<close>, \<open>set_udp\<close>, \<open>set_ether\<close>, \<open>set_arp\<close>, \<dots>) and the code
  that lays headers out one behind another: a writer succeeds exactly when its bytes are inside the
  buffer, touches nothing else, and leaves a header that later writes to other places keep. The
  second locale adds a checksum field that may be filled in afterwards.
\<close>

locale header_writer =
  fixes emit :: "'h \<Rightarrow> mem \<Rightarrow> nat \<Rightarrow> mem option"
    and on_wire :: "'h \<Rightarrow> mem \<Rightarrow> nat \<Rightarrow> bool"
    and width :: nat
    and wf :: "'h \<Rightarrow> bool"
  assumes emit_ok: "wf h \<Longrightarrow> p + width \<le> length m \<Longrightarrow>
      \<exists>m'. emit h m p = Some m' \<and> same_outside p width m m' \<and> on_wire h m' p"
    and emit_fault: "wf h \<Longrightarrow> length m < p + width \<Longrightarrow> emit h m p = None"
    and on_wire_frame: "on_wire h m p \<Longrightarrow> same_outside q w m m' \<Longrightarrow>
      q + w \<le> p \<or> p + width \<le> q \<Longrightarrow> on_wire h m' p"
begin

lemma emit_iff: "wf h \<Longrightarrow> emit h m p \<noteq> None \<longleftrightarrow> p + width \<le> length m"
  using emit_ok [of h p m] emit_fault [of h m p] by (cases "p + width \<le> length m") auto

lemma emit_SomeD:
  assumes "wf h" and "emit h m p = Some m'"
  shows "same_outside p width m m' \<and> on_wire h m' p"
proof -
  have "p + width \<le> length m"
    using assms emit_iff [of h m p] by simp
  with assms emit_ok [of h p m] show ?thesis by auto
qed

lemma emit_then_elsewhere:
  assumes "wf h" and "emit h m p = Some m'" and "same_outside q w m' m''"
    and "q + w \<le> p \<or> p + width \<le> q"
  shows "on_wire h m'' p"
  using emit_SomeD [OF assms(1,2)] on_wire_frame [OF _ assms(3,4)] by blast

end

locale checksummed_header = header_writer +
  fixes sum_field :: nat
  assumes sum_inside: "sum_field + 2 \<le> width"
    and on_wire_sum: "on_wire h m p \<Longrightarrow> same_outside (p + sum_field) 2 m m' \<Longrightarrow> on_wire h m' p"
begin

lemma emit_then_payload_and_sum:
  assumes "wf h" and "emit h m p = Some m1"
    and "same_outside (p + width) n m1 m2"
    and "same_outside (p + sum_field) 2 m2 m3"
  shows "on_wire h m3 p \<and> same_outside p (width + n) m m3"
proof
  have "on_wire h m2 p"
    using assms(1-3) by (rule emit_then_elsewhere) simp
  then show "on_wire h m3 p"
    using assms(4) by (rule on_wire_sum)
  have "same_outside p (width + n) m m1" "same_outside p (width + n) m1 m2"
    "same_outside p (width + n) m2 m3"
    using emit_SomeD [OF assms(1,2)] assms(3,4) sum_inside by (auto elim!: same_outside_mono)
  then show "same_outside p (width + n) m m3"
    by (blast intro: same_outside_trans)
qed

end

text \<open>Writing a chain of fields of one header: the bounds of every step follow from the width.\<close>

lemma wr8_ok: "p < length m \<Longrightarrow> wr8 m p v = Some (m[p := v])"
  by (simp add: wr8_def)

lemma wr16_ok: "p + 2 \<le> length m \<Longrightarrow> wr16 m p v = Some (m[p := lo16 v, p + 1 := hi16 v])"
  by (simp add: wr16_def)

lemma wr32_ok:
  "p + 4 \<le> length m \<Longrightarrow> wr32 m p v =
     Some (m[p := byte32 0 v, p + 1 := byte32 1 v, p + 2 := byte32 2 v, p + 3 := byte32 3 v])"
  by (simp add: wr32_def)

lemma rd8_ok: "p < length m \<Longrightarrow> rd8 m p = Some (m ! p)"
  by (simp add: rd8_def)

lemma rd16_ok: "p + 2 \<le> length m \<Longrightarrow> rd16 m p = Some (le16 (m ! p) (m ! (p + 1)))"
  by (simp add: rd16_def)

lemma rd32_ok:
  "p + 4 \<le> length m \<Longrightarrow>
   rd32 m p = Some (le32 (m ! p) (m ! (p + 1)) (m ! (p + 2)) (m ! (p + 3)))"
  by (simp add: rd32_def)

lemmas access_ok = wr8_ok wr16_ok wr32_ok rd8_ok rd16_ok rd32_ok

lemma same_outside_list_update: "p \<le> q \<Longrightarrow> q < p + w \<Longrightarrow> same_outside p w m m' \<Longrightarrow>
   same_outside p w m (m'[q := v])"
  by (auto simp: same_outside_def nth_list_update)

text \<open>
  The tail that \<open>set_tcp\<close> and \<open>set_udp\<close> share: copy the payload behind a header of \<open>hl\<close> bytes, zero
  the checksum field at \<open>p + 2 * j\<close>, sum pseudo header and segment, store the checksum.
\<close>

lemma payload_and_checksum:
  assumes fit: "length bs = len" and room: "p + hl + len \<le> length m" and j: "2 * j + 2 \<le> hl"
    and iph: "iph + 20 \<le> p" and small: "len + hl \<le> 131060"
  obtains m2 m3 c m4
  where "wr_bytes m (p + hl) bs = Some m2" and "wr16 m2 (p + 2 * j) 0 = Some m3"
    and "in_cksum2 m3 iph ul p (len + hl) = Some c" and "wr16 m3 (p + 2 * j) c = Some m4"
    and "same_outside (p + hl) len m m2" and "same_outside (p + 2 * j) 2 m2 m3"
    and "same_outside (p + 2 * j) 2 m2 m4" and "rd_bytes m2 (p + hl) len = Some bs"
    and "in_cksum2 m4 iph ul p (len + hl) = Some 0"
proof -
  obtain m2 where m2: "wr_bytes m (p + hl) bs = Some m2"
    using fbytes.put_in_bounds [OF fit, of "p + hl" m] room by auto
  have f2: "same_outside (p + hl) len m m2"
    using fbytes.put_frame [OF fit m2] .
  have l2: "length m2 = length m" using f2 by (rule same_outside_length)
  obtain m3 where m3: "wr16 m2 (p + 2 * j) 0 = Some m3"
    using f16.put_in_bounds [where p = "p + 2 * j" and m = m2 and v = 0] room j l2 by auto
  have f3: "same_outside (p + 2 * j) 2 m2 m3" and l3: "length m3 = length m"
    using f16.put_frame [OF _ m3] f16.put_length [OF _ m3] l2 by simp_all
  obtain c where c: "in_cksum2 m3 iph ul p (len + hl) = Some c"
    using in_cksum2_eq [of iph m3 p "len + hl"] iph room small l3 by auto
  obtain m4 where m4: "wr16 m3 (p + 2 * j) c = Some m4"
    using f16.put_in_bounds [where p = "p + 2 * j" and m = m3 and v = c] room j l3 by auto
  have f4: "same_outside (p + 2 * j) 2 m2 m4"
    using same_outside_trans [OF f3 f16.put_frame [OF _ m4]] by simp
  have "in_cksum2 m4 iph ul p (len + hl) = Some 0"
    using in_cksum2_verifies [OF m3 c m4 _ _ small iph] room j l2 by simp
  with that m2 m3 c m4 f2 f3 f4 fbytes.get_put [OF fit m2] show ?thesis by blast
qed

text \<open>
  The pair of statements \<open>x->sum=0; x->sum=in_cksum(x, sz);\<close> that closes an ICMP message and the IP
  header; \<open>off\<close> is the offset of the checksum field.
\<close>

definition store_cksum :: "mem \<Rightarrow> nat \<Rightarrow> nat \<Rightarrow> nat \<Rightarrow> mem option" where
  "store_cksum m p off sz = do {
     m \<leftarrow> wr16 m (p + off) 0;
     c \<leftarrow> in_cksum m p sz;
     wr16 m (p + off) c
   }"

lemma store_cksum_even:
  assumes "even sz" and "p + sz \<le> length m" and "sz \<le> 131074" and "even off" and "off + 2 \<le> sz"
  obtains m' where "store_cksum m p off sz = Some m'" and "same_outside (p + off) 2 m m'"
    and "in_cksum m' p sz = Some 0" and "length m' = length m"
proof -
  obtain j where j: "off = 2 * j" using assms(4) by blast
  obtain m1 where m1: "wr16 m (p + off) 0 = Some m1"
    using f16.put_in_bounds [where p = "p + off" and m = m and v = 0] assms by auto
  have l1: "length m1 = length m" using f16.put_length [OF _ m1] by simp
  obtain c where c: "in_cksum m1 p sz = Some c"
    using in_cksum_even_eq [of sz p m1] assms l1 by simp
  obtain m2 where m2: "wr16 m1 (p + off) c = Some m2"
    using f16.put_in_bounds [where p = "p + off" and m = m1 and v = c] assms l1 by auto
  have "same_outside (p + off) 2 m m2"
    using same_outside_trans [OF f16.put_frame [OF _ m1] f16.put_frame [OF _ m2]] by simp
  moreover have "in_cksum m2 p sz = Some 0"
    using in_cksum_verifies [of m p j m1 sz c m2] m1 c m2 assms j by simp
  ultimately show thesis
    using that [of m2] m1 c m2 same_outside_length by (auto simp: store_cksum_def)
qed

text \<open>An odd size makes \<open>in_cksum\<close> read one byte more than it was given.\<close>

lemma store_cksum_total:
  assumes "p + sz < length m" and "sz \<le> 131073" and "off + 2 \<le> sz"
  obtains m' where "store_cksum m p off sz = Some m'" and "same_outside (p + off) 2 m m'"
    and "length m' = length m"
proof -
  obtain m1 where m1: "wr16 m (p + off) 0 = Some m1"
    using f16.put_in_bounds [where p = "p + off" and m = m and v = 0] assms by auto
  have l1: "length m1 = length m" using f16.put_length [OF _ m1] by simp
  obtain c where c: "in_cksum m1 p sz = Some c"
    using in_cksum_even_eq [of sz p m1] in_cksum_odd_eq [of sz p m1] assms l1
    by (cases "even sz") auto
  obtain m2 where m2: "wr16 m1 (p + off) c = Some m2"
    using f16.put_in_bounds [where p = "p + off" and m = m1 and v = c] assms l1 by auto
  have "same_outside (p + off) 2 m m2"
    using same_outside_trans [OF f16.put_frame [OF _ m1] f16.put_frame [OF _ m2]] by simp
  then show thesis
    using that [of m2] m1 c m2 same_outside_length by (auto simp: store_cksum_def)
qed

lemma cksum_loop_in_bounds:
  "cksum_loop m p sz acc = Some r \<Longrightarrow> 1 < sz \<Longrightarrow> p + 2 * (sz div 2) \<le> length m"
proof (induction m p sz acc arbitrary: r rule: cksum_loop.induct)
  case (1 m p sz acc)
  then obtain w where w: "rd16 m p = Some w" "cksum_loop m (p + 2) (sz - 2) (acc + ucast w) = Some r"
    by (auto simp: cksum_loop.simps [of m p sz] bind_eq_Some_conv)
  show ?case
  proof (cases "1 < sz - 2")
    case True
    then show ?thesis using 1(1) [OF 1(3) w] 1(3) by presburger
  next
    case False
    then have "sz = 2 \<or> sz = 3" using 1(3) by auto
    then show ?thesis using w(1) by (auto simp: rd16_def split: if_splits)
  qed
qed

lemma store_cksum_verifies:
  assumes "store_cksum m p off sz = Some m'" and "even sz" and "even off" and "off + 2 \<le> sz"
    and "sz \<le> 131074"
  shows "in_cksum m' p sz = Some 0"
proof -
  obtain m1 c where "wr16 m (p + off) 0 = Some m1" "in_cksum m1 p sz = Some c"
    using assms(1) by (auto simp: store_cksum_def bind_eq_Some_conv)
  then have "p + sz \<le> length m"
    using cksum_loop_in_bounds [of m1 p sz 0] f16.put_length [where v = 0 and m = m and p = "p + off" and m' = m1] assms(2,4)
    by (auto simp: in_cksum_def bind_eq_Some_conv)
  then obtain m'' where "store_cksum m p off sz = Some m''" "in_cksum m'' p sz = Some 0"
    using store_cksum_even assms(2-5) by metis
  with assms(1) show ?thesis by simp
qed

end
