(* ===== verification/Packet_Tcp.thy ===== *)
theory Packet_Tcp
  imports Jpcap_Codec
begin

text \<open>
  \<open>packet_tcp.c\<close>: \<open>analyze_tcp\<close> fills a \<open>TCPPacket\<close> object from a captured segment, \<open>set_tcp\<close> writes
  the segment of a \<open>TCPPacket\<close> into the send buffer and checksums it.
\<close>

section \<open>The code\<close>

definition analyze_tcp :: "jpacket \<Rightarrow> mem \<Rightarrow> nat \<Rightarrow> (jpacket \<times> u16) option" where
  "analyze_tcp packet m p = do {
     sport \<leftarrow> rd16 m (p + th_sport);
     dport \<leftarrow> rd16 m (p + th_dport);
     sq \<leftarrow> rd32 m (p + th_seq);
     an \<leftarrow> rd32 m (p + th_ack);
     flags \<leftarrow> rd8 m (p + th_flags);
     win \<leftarrow> rd16 m (p + th_win);
     urp \<leftarrow> rd16 m (p + th_urp);
     packet \<leftarrow> CallVoidMethod TCPPacket
       (\<lambda>q. q\<lparr>tcp := TCPPacket_setValue
          (ucast (ntohs sport)) (ucast (ntohs dport)) (ucast (ntohl sq)) (ucast (ntohl an))
          (0 < flags AND TH_URG) (0 < flags AND TH_ACK) (0 < flags AND TH_PUSH)
          (0 < flags AND TH_RST) (0 < flags AND TH_SYN) (0 < flags AND TH_FIN)
          (0 < flags AND TH_RSV1) (0 < flags AND TH_RSV2)
          (ucast (ntohs win)) (ntohs urp) (tcp q)\<rparr>) packet;
     off \<leftarrow> get_th_off m p;
     let hdrlen = (ucast off :: u16) * 4;
     packet \<leftarrow> (if TCPHDRLEN < unat hdrlen
       then do {
         opts \<leftarrow> rd_bytes m (p + TCPHDRLEN) (unat hdrlen - TCPHDRLEN);
         CallVoidMethod TCPPacket (\<lambda>q. q\<lparr>tcp := TCPPacket_setOption opts (tcp q)\<rparr>) packet
       }
       else Some packet);
     Some (packet, hdrlen)
   }"

text \<open>The eight flag fields, shifted and added.\<close>

definition tcp_flags :: "tcp_fields \<Rightarrow> u8" where
  "tcp_flags t =
     push_bit 7 (of_bool (rsv1 t)) + push_bit 6 (of_bool (rsv2 t)) + push_bit 5 (of_bool (urg t)) +
     push_bit 4 (of_bool (ack t)) + push_bit 3 (of_bool (psh t)) + push_bit 2 (of_bool (rst t)) +
     push_bit 1 (of_bool (syn t)) + of_bool (fin t)"

text \<open>The header assignments of \<open>set_tcp\<close>, in their order.\<close>

definition set_tcp_fields :: "tcp_fields \<Rightarrow> mem \<Rightarrow> nat \<Rightarrow> mem option" where
  "set_tcp_fields t m p = do {
     m \<leftarrow> wr16 m (p + th_sport) (htons (ucast (tcp_src_port t)));
     m \<leftarrow> wr16 m (p + th_dport) (htons (ucast (tcp_dst_port t)));
     m \<leftarrow> wr32 m (p + th_seq) (htonl (ucast (tcp_sequence t)));
     m \<leftarrow> wr32 m (p + th_ack) (htonl (ucast (ack_num t)));
     m \<leftarrow> set_th_off m p 5;
     m \<leftarrow> wr8 m (p + th_flags) (tcp_flags t);
     m \<leftarrow> wr16 m (p + th_win) (htons (ucast (window t)));
     wr16 m (p + th_urp) (htons (urgent_pointer t))
   }"

definition set_tcp :: "jpacket \<Rightarrow> mem \<Rightarrow> nat \<Rightarrow> u8 list option \<Rightarrow> nat \<Rightarrow> mem option" where
  "set_tcp packet m p data iph = do {
     bs \<leftarrow> data;
     let len = length bs;
     m \<leftarrow> set_tcp_fields (tcp packet) m p;
     let len = (if MAX_PACKET_SIZE < len + IPv4HDRLEN + TCPHDRLEN
                then MAX_PACKET_SIZE - IPv4HDRLEN - TCPHDRLEN else len);
     m \<leftarrow> GetByteArrayRegion (Some bs) len m (p + TCPHDRLEN);
     m \<leftarrow> wr16 m (p + th_sum) 0;
     c \<leftarrow> in_cksum2 m iph (htons (of_nat len + of_nat TCPHDRLEN)) p (len + TCPHDRLEN);
     wr16 m (p + th_sum) c
   }"

section \<open>What a TCP header in memory means\<close>

definition tcp_on_wire :: "tcp_fields \<Rightarrow> mem \<Rightarrow> nat \<Rightarrow> bool" where
  "tcp_on_wire t m p \<longleftrightarrow>
     p + TCPHDRLEN \<le> length m \<and>
     rd16 m (p + th_sport) = Some (htons (ucast (tcp_src_port t))) \<and>
     rd16 m (p + th_dport) = Some (htons (ucast (tcp_dst_port t))) \<and>
     rd32 m (p + th_seq) = Some (htonl (ucast (tcp_sequence t))) \<and>
     rd32 m (p + th_ack) = Some (htonl (ucast (ack_num t))) \<and>
     get_th_off m p = Some 5 \<and>
     rd8 m (p + th_flags) = Some (tcp_flags t) \<and>
     rd16 m (p + th_win) = Some (htons (ucast (window t))) \<and>
     rd16 m (p + th_urp) = Some (htons (urgent_pointer t))"

lemma drop_bit_set_nibble: "drop_bit 4 ((b AND 0x0f) OR push_bit 4 (v AND 0x0f)) = (v :: u8) AND 0x0f"
proof -
  have m: "(0x0f :: u8) = mask 4"
    by (simp add: mask_eq_exp_minus_1)
  show ?thesis
    unfolding m by (rule bit_word_eqI) (auto simp: bit_simps)
qed

lemma set_tcp_fields_ok:
  assumes "p + 20 \<le> length m"
  shows "\<exists>m'. set_tcp_fields t m p = Some m' \<and> same_outside p 20 m m' \<and> tcp_on_wire t m' p"
  using assms
  by (simp add: set_tcp_fields_def tcp_on_wire_def set_th_off_def get_th_off_def access_ok
      same_outside_list_update nth_list_update drop_bit_set_nibble)

lemma set_tcp_fields_fault: "length m < p + 20 \<Longrightarrow> set_tcp_fields t m p = None"
  by (auto simp: set_tcp_fields_def set_th_off_def field_defs bind_eq_None_conv split: if_splits)

lemma tcp_on_wire_frame:
  assumes "tcp_on_wire t m p" and "same_outside q w m m'"
    and "q + w \<le> p \<or> p + 20 \<le> q \<or> q = p + 16 \<and> w = 2"
  shows "tcp_on_wire t m' p"
  using assms(1,3) f16.get_frame [OF assms(2)] f32.get_frame [OF assms(2)] f8.get_frame [OF assms(2)]
    same_outside_length [OF assms(2)]
  by (auto simp: tcp_on_wire_def get_th_off_def)

interpretation tcp_hdr: checksummed_header set_tcp_fields tcp_on_wire 20 "\<lambda>_. True" 16
proof unfold_locales
  show "same_outside q w m m' \<Longrightarrow> q + w \<le> p \<or> p + 20 \<le> q \<Longrightarrow> tcp_on_wire h m' p"
    if "tcp_on_wire h m p" for h m p q w m'
    using tcp_on_wire_frame [OF that] by blast
  show "same_outside (p + 16) 2 m m' \<Longrightarrow> tcp_on_wire h m' p"
    if "tcp_on_wire h m p" for h m p m'
    using tcp_on_wire_frame [OF that] by blast
qed (auto simp: set_tcp_fields_fault intro: set_tcp_fields_ok)

section \<open>Reading back what was written\<close>

text \<open>The flags of the header byte are the flags of the packet.\<close>

lemma tcp_flags_bits:
  "0 < tcp_flags t AND 0x20 \<longleftrightarrow> urg t" "0 < tcp_flags t AND 0x10 \<longleftrightarrow> ack t"
  "0 < tcp_flags t AND 0x08 \<longleftrightarrow> psh t" "0 < tcp_flags t AND 0x04 \<longleftrightarrow> rst t"
  "0 < tcp_flags t AND 0x02 \<longleftrightarrow> syn t" "0 < tcp_flags t AND 0x01 \<longleftrightarrow> fin t"
  "0 < tcp_flags t AND 0x80 \<longleftrightarrow> rsv1 t" "0 < tcp_flags t AND 0x40 \<longleftrightarrow> rsv2 t"
  by (cases "rsv1 t"; cases "rsv2 t"; cases "urg t"; cases "ack t"; cases "psh t"; cases "rst t";
      cases "syn t"; cases "fin t"; simp add: tcp_flags_def)+

text \<open>What survives of a packet's fields in the widths of the header.\<close>

definition tcp_truncated :: "tcp_fields \<Rightarrow> u8 list option \<Rightarrow> tcp_fields" where
  "tcp_truncated t opt =
     t\<lparr>tcp_src_port := ucast (ucast (tcp_src_port t) :: u16),
       tcp_dst_port := ucast (ucast (tcp_dst_port t) :: u16),
       tcp_sequence := ucast (ucast (tcp_sequence t) :: u32),
       ack_num := ucast (ucast (ack_num t) :: u32),
       window := ucast (ucast (window t) :: u16), tcp_option := opt\<rparr>"

lemma analyze_tcp_on_wire:
  assumes "tcp_on_wire t m p" and "pkt_class packet = TCPPacket"
  shows "analyze_tcp packet m p =
     Some (packet\<lparr>tcp := tcp_truncated t (tcp_option (tcp packet))\<rparr>, 20)"
  using assms
  by (simp add: tcp_on_wire_def analyze_tcp_def CallVoidMethod_def TCPPacket_setValue_def
      tcp_truncated_def tcp_flags_bits)

lemma set_tcp_eq:
  "set_tcp packet m p (Some data) iph = do {
     let len = min (length data) 1560;
     m \<leftarrow> set_tcp_fields (tcp packet) m p;
     m \<leftarrow> wr_bytes m (p + 20) (take len data);
     m \<leftarrow> wr16 m (p + 2 * 8) 0;
     c \<leftarrow> in_cksum2 m iph (htons (of_nat (len + 20))) p (len + 20);
     wr16 m (p + 2 * 8) c
   }"
  by (cases "length data \<le> 1560")
     (simp_all add: set_tcp_def GetByteArrayRegion_def min_def)

lemma set_tcp_ok:
  fixes packet data
  defines "len \<equiv> min (length data) 1560"
  assumes iph: "iph + 20 \<le> p" and room: "p + 20 + len \<le> length m"
  shows "\<exists>m'. set_tcp packet m p (Some data) iph = Some m' \<and>
     same_outside p (20 + len) m m' \<and> tcp_on_wire (tcp packet) m' p \<and>
     rd_bytes m' (p + 20) len = Some (take len data) \<and>
     in_cksum2 m' iph (htons (of_nat (len + 20))) p (len + 20) = Some 0"
proof -
  obtain m1 where m1: "set_tcp_fields (tcp packet) m p = Some m1" "same_outside p 20 m m1"
    using set_tcp_fields_ok [of p m] room by force
  have l1: "length m1 = length m" using m1(2) by (rule same_outside_length)
  have fit: "length (take len data) = len" by (simp add: len_def)
  obtain m2 m3 c m4 where m2: "wr_bytes m1 (p + 20) (take len data) = Some m2"
    and m3: "wr16 m2 (p + 2 * 8) 0 = Some m3"
    and c: "in_cksum2 m3 iph (htons (of_nat (len + 20))) p (len + 20) = Some c"
    and m4: "wr16 m3 (p + 2 * 8) c = Some m4"
    and f2: "same_outside (p + 20) len m1 m2" and f4: "same_outside (p + 2 * 8) 2 m2 m4"
    and r2: "rd_bytes m2 (p + 20) len = Some (take len data)"
    and v: "in_cksum2 m4 iph (htons (of_nat (len + 20))) p (len + 20) = Some 0"
    by (rule payload_and_checksum [OF fit, of p 20 m1 8 iph "htons (of_nat (len + 20))"])
       (use iph room l1 in \<open>auto simp: len_def\<close>)
  have "set_tcp packet m p (Some data) iph = Some m4"
    using m1(1) m2 m3 c m4 by (simp only: set_tcp_eq Let_def len_def [symmetric] bind.bind_lunit)
  moreover have "tcp_on_wire (tcp packet) m4 p \<and> same_outside p (20 + len) m m4"
    using tcp_hdr.emit_then_payload_and_sum [OF _ m1(1) f2] f4 by simp
  moreover have "rd_bytes m4 (p + 20) len = Some (take len data)"
    using fbytes.get_frame [OF f4] r2 by simp
  ultimately show ?thesis using v by blast
qed

lemma set_tcp_fault:
  assumes "length m < p + 20 + min (length data) 1560"
  shows "set_tcp packet m p (Some data) iph = None"
proof (cases "set_tcp_fields (tcp packet) m p")
  case (Some m1)
  then have "length m1 = length m"
    using tcp_hdr.emit_SomeD [OF _ Some] same_outside_length by blast
  with assms Some show ?thesis
    by (simp add: set_tcp_eq wr_bytes_def)
qed (simp add: set_tcp_eq)

lemma unat_hdrlen: "unat ((ucast (v :: u8) :: u16) * 4) = unat v * 4"
proof -
  have "unat (ucast v :: u16) = unat v"
    by (simp add: unsigned_ucast_eq take_bit_nat_eq_self_iff unat_u8_less less_trans [OF unat_u8_less])
  then show ?thesis
    using unat_u8_less [of v] by (simp add: unat_word_ariths)
qed

section \<open>Properties\<close>

text \<open>
  C4: a segment written by \<open>set_tcp\<close> is read back by \<open>analyze_tcp\<close> with the same ports, sequence and
  acknowledgement numbers, flags, window and urgent pointer (cut to the widths of the header), a
  20-byte header and the same payload, up to the 1560 bytes the routine allows.
\<close>

theorem set_tcp_analyze_tcp:
  assumes "iph + 20 \<le> p" and "p + 20 + min (length data) 1560 \<le> length m"
    and "pkt_class q = TCPPacket"
  shows "\<exists>m'. set_tcp packet m p (Some data) iph = Some m' \<and>
     analyze_tcp q m' p = Some (q\<lparr>tcp := tcp_truncated (tcp packet) (tcp_option (tcp q))\<rparr>, 20) \<and>
     rd_bytes m' (p + 20) (min (length data) 1560) = Some (take 1560 data)"
proof -
  obtain m' where m': "set_tcp packet m p (Some data) iph = Some m'" "tcp_on_wire (tcp packet) m' p"
    "rd_bytes m' (p + 20) (min (length data) 1560) = Some (take (min (length data) 1560) data)"
    using set_tcp_ok [OF assms(1,2)] by blast
  moreover have "take (min (length data) 1560) data = take 1560 data"
    by (simp add: min_def)
  ultimately show ?thesis
    using analyze_tcp_on_wire [OF m'(2) assms(3)] by (intro exI [of _ m']) simp
qed

theorem set_tcp_analyze_tcp_witness:
  "\<exists>m'. set_tcp (AllocObject TCPPacket) (replicate 43 0) 20 (Some [1, 2, 3]) 0 = Some m' \<and>
     analyze_tcp (AllocObject TCPPacket) m' 20 =
       Some ((AllocObject TCPPacket)\<lparr>tcp := tcp_truncated (tcp (AllocObject TCPPacket))
         (tcp_option (tcp (AllocObject TCPPacket)))\<rparr>, 20) \<and>
     rd_bytes m' (20 + 20) (min (length [1, 2, 3 :: u8]) 1560) = Some (take 1560 [1, 2, 3])"
  by (rule set_tcp_analyze_tcp) simp_all

text \<open>
  C26: the segment \<open>set_tcp\<close> leaves in the buffer passes the receiver's check: the checksum routine
  over pseudo header and segment, the stored checksum included, yields zero.
\<close>

theorem set_tcp_checksum_verifies:
  assumes "iph + 20 \<le> p" and "p + 20 + min (length data) 1560 \<le> length m"
    and "set_tcp packet m p (Some data) iph = Some m'"
  shows "in_cksum2 m' iph (htons (of_nat (min (length data) 1560 + 20))) p
           (min (length data) 1560 + 20) = Some 0"
  using set_tcp_ok [OF assms(1,2), of packet] assms(3) by auto

theorem set_tcp_checksum_verifies_witness:
  "in_cksum2 (the (set_tcp (AllocObject TCPPacket) (replicate 43 0) 20 (Some [1, 2, 3]) 0)) 0
     (htons (of_nat (min (length [1, 2, 3 :: u8]) 1560 + 20))) 20
     (min (length [1, 2, 3 :: u8]) 1560 + 20) = Some 0"
proof (rule set_tcp_checksum_verifies [of 0 20 "[1, 2, 3]" "replicate 43 0" "AllocObject TCPPacket"])
  show "set_tcp (AllocObject TCPPacket) (replicate 43 0) 20 (Some [1, 2, 3]) 0 =
      Some (the (set_tcp (AllocObject TCPPacket) (replicate 43 0) 20 (Some [1, 2, 3]) 0))"
    using set_tcp_ok [of 0 20 "[1, 2, 3]" "replicate 43 0" "AllocObject TCPPacket"] by auto
qed simp_all

text \<open>
  C33: \<open>analyze_tcp\<close> stays inside the captured bytes exactly when the fixed header and the options
  announced by the data offset are captured; otherwise it reads outside the buffer. It returns the
  announced header length.
\<close>

theorem analyze_tcp_defined_iff:
  assumes "pkt_class packet = TCPPacket"
  shows "(\<exists>q. analyze_tcp packet m p = Some (q, ucast (drop_bit 4 (m ! (p + 12))) * 4)) \<longleftrightarrow>
    p + 20 \<le> length m \<and> p + 4 * unat (drop_bit 4 (m ! (p + 12))) \<le> length m"
proof (cases "p + 20 \<le> length m")
  case True
  then show ?thesis
    using assms
    by (simp add: analyze_tcp_def get_th_off_def access_ok rd_bytes_def CallVoidMethod_def Let_def
        unat_hdrlen)
next
  case False
  then show ?thesis
    by (auto simp: analyze_tcp_def field_defs bind_eq_Some_conv split: if_splits)
qed

theorem analyze_tcp_defined_iff_witness:
  "(\<exists>q. analyze_tcp (AllocObject TCPPacket) (replicate 20 0x50) 0 =
      Some (q, ucast (drop_bit 4 (replicate 20 (0x50 :: u8) ! (0 + 12))) * 4)) \<longleftrightarrow>
    0 + 20 \<le> length (replicate 20 (0x50 :: u8)) \<and>
    0 + 4 * unat (drop_bit 4 (replicate 20 (0x50 :: u8) ! (0 + 12))) \<le> length (replicate 20 (0x50 :: u8))"
  by (rule analyze_tcp_defined_iff) simp

end
