(* ===== verification/Packet_Udp.thy ===== *)
theory Packet_Udp
  imports Jpcap_Codec
begin

text \<open>
  \<open>packet_udp.c\<close>: \<open>analyze_udp\<close> and \<open>set_udp\<close>, and their round trip.
\<close>

section \<open>The code\<close>

definition analyze_udp :: "jpacket \<Rightarrow> mem \<Rightarrow> nat \<Rightarrow> jpacket option" where
  "analyze_udp packet m p = do {
     sport \<leftarrow> rd16 m (p + uh_sport);
     dport \<leftarrow> rd16 m (p + uh_dport);
     ulen \<leftarrow> rd16 m (p + uh_ulen);
     CallVoidMethod UDPPacket
       (\<lambda>q. q\<lparr>udp := UDPPacket_setValue (ucast (ntohs sport)) (ucast (ntohs dport))
               (ucast (ntohs ulen)) (udp q)\<rparr>) packet
   }"

text \<open>The assignments before the payload is copied; \<open>len\<close> is the clamped payload length.\<close>

definition set_udp_fields :: "udp_fields \<times> nat \<Rightarrow> mem \<Rightarrow> nat \<Rightarrow> mem option" where
  "set_udp_fields h m p = (case h of (u, len) \<Rightarrow> do {
     m \<leftarrow> wr16 m (p + uh_sport) (htons (ucast (udp_src_port u)));
     m \<leftarrow> wr16 m (p + uh_dport) (htons (ucast (udp_dst_port u)));
     wr16 m (p + uh_ulen) (htons (of_nat (len + UDPHDRLEN)))
   })"

definition set_udp :: "jpacket \<Rightarrow> mem \<Rightarrow> nat \<Rightarrow> u8 list option \<Rightarrow> nat \<Rightarrow> mem option" where
  "set_udp packet m p data iph = do {
     bs \<leftarrow> data;
     let len = length bs;
     let len = (if MAX_PACKET_SIZE < len + IPv4HDRLEN + UDPHDRLEN
                then MAX_PACKET_SIZE - IPv4HDRLEN - UDPHDRLEN else len);
     m \<leftarrow> set_udp_fields (udp packet, len) m p;
     m \<leftarrow> GetByteArrayRegion (Some bs) len m (p + UDPHDRLEN);
     m \<leftarrow> wr16 m (p + uh_sum) 0;
     ulen \<leftarrow> rd16 m (p + uh_ulen);
     c \<leftarrow> in_cksum2 m iph ulen p (len + UDPHDRLEN);
     m \<leftarrow> wr16 m (p + uh_sum) c;
     s \<leftarrow> rd16 m (p + uh_sum);
     (if s = 0 then wr16 m (p + uh_sum) 0xffff else Some m)
   }"

section \<open>A UDP header in memory\<close>

definition udp_on_wire :: "udp_fields \<times> nat \<Rightarrow> mem \<Rightarrow> nat \<Rightarrow> bool" where
  "udp_on_wire h m p \<longleftrightarrow>
     p + UDPHDRLEN \<le> length m \<and>
     rd16 m (p + uh_sport) = Some (htons (ucast (udp_src_port (fst h)))) \<and>
     rd16 m (p + uh_dport) = Some (htons (ucast (udp_dst_port (fst h)))) \<and>
     rd16 m (p + uh_ulen) = Some (htons (of_nat (snd h + UDPHDRLEN)))"

text \<open>The three assignments leave the last two bytes of the header, the checksum, alone.\<close>

lemma set_udp_fields_ok:
  assumes "p + 8 \<le> length m"
  shows "\<exists>m'. set_udp_fields h m p = Some m' \<and> same_outside p 8 m m' \<and> udp_on_wire h m' p"
  using assms
  by (cases h) (simp add: set_udp_fields_def udp_on_wire_def access_ok same_outside_list_update
      nth_list_update)

lemma udp_on_wire_frame:
  assumes "udp_on_wire h m p" and "same_outside q w m m'"
    and "q + w \<le> p \<or> p + 8 \<le> q \<or> q = p + 6 \<and> w = 2"
  shows "udp_on_wire h m' p"
  using assms(1,3) f16.get_frame [OF assms(2)] same_outside_length [OF assms(2)]
  by (auto simp: udp_on_wire_def)

text \<open>
  The interface asks for the whole header to be in the buffer, so the checksum field that follows
  the three assignments is part of what is written.
\<close>

definition udp_emit :: "udp_fields \<times> nat \<Rightarrow> mem \<Rightarrow> nat \<Rightarrow> mem option" where
  "udp_emit h m p = do { m \<leftarrow> set_udp_fields h m p; wr16 m (p + uh_sum) 0 }"

lemma udp_emit_ok:
  assumes "p + 8 \<le> length m"
  shows "\<exists>m'. udp_emit h m p = Some m' \<and> same_outside p 8 m m' \<and> udp_on_wire h m' p"
proof -
  obtain m1 where m1: "set_udp_fields h m p = Some m1" "same_outside p 8 m m1" "udp_on_wire h m1 p"
    using set_udp_fields_ok [OF assms] by blast
  obtain m2 where m2: "wr16 m1 (p + 6) 0 = Some m2"
    using f16.put_in_bounds [where p = "p + 6" and m = m1 and v = 0] assms
      same_outside_length [OF m1(2)] by auto
  have f: "same_outside (p + 6) 2 m1 m2"
    using f16.put_frame [OF _ m2] by simp
  have "same_outside p 8 m1 m2"
    using f by (rule same_outside_mono) simp_all
  then have "same_outside p 8 m m2"
    using m1(2) same_outside_trans by blast
  moreover have "udp_on_wire h m2 p"
    using udp_on_wire_frame [OF m1(3) f] by simp
  ultimately show ?thesis
    using m1(1) m2 by (simp add: udp_emit_def)
qed

lemma udp_emit_fault: "length m < p + 8 \<Longrightarrow> udp_emit h m p = None"
  by (cases h) (auto simp: udp_emit_def set_udp_fields_def field_defs bind_eq_None_conv
      split: if_splits)

interpretation udp_hdr: checksummed_header udp_emit udp_on_wire 8 "\<lambda>_. True" 6
proof unfold_locales
  show "same_outside q w m m' \<Longrightarrow> q + w \<le> p \<or> p + 8 \<le> q \<Longrightarrow> udp_on_wire h m' p"
    if "udp_on_wire h m p" for h m p q w m'
    using udp_on_wire_frame [OF that] by blast
  show "same_outside (p + 6) 2 m m' \<Longrightarrow> udp_on_wire h m' p"
    if "udp_on_wire h m p" for h m p m'
    using udp_on_wire_frame [OF that] by blast
qed (auto simp: udp_emit_fault intro: udp_emit_ok)

section \<open>Reading back what was written\<close>

definition udp_truncated :: "udp_fields \<Rightarrow> nat \<Rightarrow> udp_fields" where
  "udp_truncated u len =
     u\<lparr>udp_src_port := ucast (ucast (udp_src_port u) :: u16),
       udp_dst_port := ucast (ucast (udp_dst_port u) :: u16),
       udp_length := of_nat (len + 8)\<rparr>"

lemma ucast_of_nat_16: "n < 65536 \<Longrightarrow> (ucast (of_nat n :: u16) :: u32) = of_nat n"
  by (simp add: unsigned_of_nat take_bit_nat_eq_self)

lemma analyze_udp_on_wire:
  assumes "udp_on_wire (u, len) m p" and "pkt_class packet = UDPPacket" and "len < 65528"
  shows "analyze_udp packet m p = Some (packet\<lparr>udp := udp_truncated u len\<rparr>)"
  using assms ucast_of_nat_16 [of "len + 8"]
  by (simp add: udp_on_wire_def analyze_udp_def CallVoidMethod_def UDPPacket_setValue_def
      udp_truncated_def del: of_nat_add)

lemma set_udp_eq:
  "set_udp packet m p (Some data) iph = do {
     let len = min (length data) 1572;
     m \<leftarrow> set_udp_fields (udp packet, len) m p;
     m \<leftarrow> wr_bytes m (p + 8) (take len data);
     m \<leftarrow> wr16 m (p + 2 * 3) 0;
     ulen \<leftarrow> rd16 m (p + 4);
     c \<leftarrow> in_cksum2 m iph ulen p (len + 8);
     m \<leftarrow> wr16 m (p + 2 * 3) c;
     s \<leftarrow> rd16 m (p + 2 * 3);
     (if s = 0 then wr16 m (p + 2 * 3) 0xffff else Some m)
   }"
  by (cases "length data \<le> 1572") (simp_all add: set_udp_def GetByteArrayRegion_def min_def Let_def cong: if_cong)

text \<open>The last test of \<open>set_udp\<close>: a zero checksum is stored as all ones.\<close>

lemma store_nonzero_sum:
  assumes m4: "wr16 m (p + 2 * j) c = Some m4" and v: "in_cksum2 m4 iph ul p sz = Some 0"
    and sz: "2 * j + 2 \<le> sz" "p + sz \<le> length m" "sz \<le> 131060" and iph: "iph + 20 \<le> p"
  obtains m5 s where "do { s \<leftarrow> rd16 m4 (p + 2 * j);
        (if s = 0 then wr16 m4 (p + 2 * j) 0xffff else Some m4) } = Some m5"
    and "same_outside (p + 2 * j) 2 m4 m5" and "rd16 m5 (p + 2 * j) = Some s" and "s \<noteq> 0"
    and "in_cksum2 m5 iph ul p sz = Some 0"
proof (cases "c = 0")
  case True
  have r: "rd16 m4 (p + 2 * j) = Some 0"
    using f16.get_put [OF _ m4] True by simp
  obtain m5 where m5: "wr16 m4 (p + 2 * j) 0xffff = Some m5"
    using f16.put_in_bounds [where p = "p + 2 * j" and m = m4 and v = "0xffff"]
      f16.put_length [OF _ m4] sz by auto
  have "in_cksum2 m5 iph ul p sz = Some 0"
    using in_cksum2_all_ones [OF _ m5 v] m4 True sz iph by simp
  with that [of m5 "0xffff"] r m5 f16.put_frame [OF _ m5] f16.get_put [OF _ m5] show ?thesis
    by simp
next
  case False
  with that [of m4 c] v f16.get_put [OF _ m4] show ?thesis by simp
qed

lemma set_udp_ok:
  fixes packet data
  defines "len \<equiv> min (length data) 1572"
  assumes iph: "iph + 20 \<le> p" and room: "p + 8 + len \<le> length m"
  shows "\<exists>m' s. set_udp packet m p (Some data) iph = Some m' \<and>
     same_outside p (8 + len) m m' \<and> udp_on_wire (udp packet, len) m' p \<and>
     rd_bytes m' (p + 8) len = Some (take len data) \<and>
     rd16 m' (p + 6) = Some s \<and> s \<noteq> 0 \<and>
     in_cksum2 m' iph (htons (of_nat (len + 8))) p (len + 8) = Some 0"
proof -
  let ?ul = "htons (of_nat (len + 8))"
  obtain m1 where m1: "set_udp_fields (udp packet, len) m p = Some m1" "same_outside p 8 m m1"
    "udp_on_wire (udp packet, len) m1 p"
    using set_udp_fields_ok [of p m "(udp packet, len)"] room by force
  have l1: "length m1 = length m" using m1(2) by (rule same_outside_length)
  have fit: "length (take len data) = len" by (simp add: len_def)
  obtain m2 m3 c m4 where m2: "wr_bytes m1 (p + 8) (take len data) = Some m2"
    and m3: "wr16 m2 (p + 2 * 3) 0 = Some m3" and c: "in_cksum2 m3 iph ?ul p (len + 8) = Some c"
    and m4: "wr16 m3 (p + 2 * 3) c = Some m4" and f2: "same_outside (p + 8) len m1 m2"
    and f3: "same_outside (p + 2 * 3) 2 m2 m3" and f4: "same_outside (p + 2 * 3) 2 m2 m4"
    and r2: "rd_bytes m2 (p + 8) len = Some (take len data)"
    and v: "in_cksum2 m4 iph ?ul p (len + 8) = Some 0"
    by (rule payload_and_checksum [OF fit, of p 8 m1 3 iph ?ul])
       (use iph room l1 in \<open>auto simp: len_def\<close>)
  have w2: "udp_on_wire (udp packet, len) m2 p"
    using udp_on_wire_frame [OF m1(3) f2] by simp
  have ul: "rd16 m3 (p + 4) = Some ?ul"
    using udp_on_wire_frame [OF w2 f3] by (simp add: udp_on_wire_def)
  obtain m5 s where m5: "do { s \<leftarrow> rd16 m4 (p + 2 * 3);
        (if s = 0 then wr16 m4 (p + 2 * 3) 0xffff else Some m4) } = Some m5"
    and f5: "same_outside (p + 2 * 3) 2 m4 m5" and r5: "rd16 m5 (p + 2 * 3) = Some s" "s \<noteq> 0"
    and v5: "in_cksum2 m5 iph ?ul p (len + 8) = Some 0"
    by (rule store_nonzero_sum [OF m4 v])
       (use iph room l1 same_outside_length [OF f2] same_outside_length [OF f3] in
         \<open>auto simp: len_def\<close>)
  have f: "same_outside (p + 2 * 3) 2 m2 m5"
    using f4 f5 by (rule same_outside_trans)
  have "set_udp packet m p (Some data) iph = Some m5"
    using m1(1) m2 m3 ul c m4 m5
    by (simp only: set_udp_eq Let_def len_def [symmetric] bind.bind_lunit)
  moreover have "udp_on_wire (udp packet, len) m5 p"
    using udp_on_wire_frame [OF w2 f] by simp
  moreover have "same_outside p (8 + len) m m5"
    using same_outside_trans [OF same_outside_trans, of p "8 + len" m m1 m2 m5]
      same_outside_mono [OF m1(2)] same_outside_mono [OF f2] same_outside_mono [OF f] by simp
  moreover have "rd_bytes m5 (p + 8) len = Some (take len data)"
    using fbytes.get_frame [OF f] r2 by simp
  ultimately show ?thesis using r5 v5 by auto
qed

lemma set_udp_fault:
  assumes "length m < p + 8 + min (length data) 1572"
  shows "set_udp packet m p (Some data) iph = None"
proof (cases "set_udp_fields (udp packet, min (length data) 1572) m p")
  case (Some m1)
  then have "length m1 = length m"
    by (auto simp: set_udp_fields_def wr16_def bind_eq_Some_conv split: if_splits)
  with assms Some show ?thesis
    by (simp add: set_udp_eq wr_bytes_def Let_def)
qed (simp add: set_udp_eq Let_def)

section \<open>Properties\<close>

text \<open>
  A datagram written by \<open>set_udp\<close> is read back by \<open>analyze_udp\<close> with the same ports, the length
  of header and payload, and the same payload, up to the 1572 bytes the routine allows.
\<close>

theorem set_udp_analyze_udp:
  assumes "iph + 20 \<le> p" and "p + 8 + min (length data) 1572 \<le> length m"
    and "pkt_class q = UDPPacket"
  shows "\<exists>m'. set_udp packet m p (Some data) iph = Some m' \<and>
     analyze_udp q m' p = Some (q\<lparr>udp := udp_truncated (udp packet) (min (length data) 1572)\<rparr>) \<and>
     rd_bytes m' (p + 8) (min (length data) 1572) = Some (take (min (length data) 1572) data)"
proof -
  obtain m' where m': "set_udp packet m p (Some data) iph = Some m'"
    "udp_on_wire (udp packet, min (length data) 1572) m' p"
    "rd_bytes m' (p + 8) (min (length data) 1572) = Some (take (min (length data) 1572) data)"
    using set_udp_ok [OF assms(1,2), of packet] by blast
  then show ?thesis
    using analyze_udp_on_wire [OF m'(2) assms(3)] by (intro exI [of _ m']) simp
qed

theorem set_udp_analyze_udp_witness:
  "\<exists>m'. set_udp (AllocObject UDPPacket) (replicate 31 0) 20 (Some [1, 2, 3]) 0 = Some m' \<and>
     analyze_udp (AllocObject UDPPacket) m' 20 =
       Some ((AllocObject UDPPacket)\<lparr>udp := udp_truncated (udp (AllocObject UDPPacket))
         (min (length [1, 2, 3 :: u8]) 1572)\<rparr>) \<and>
     rd_bytes m' (20 + 8) (min (length [1, 2, 3 :: u8]) 1572) =
       Some (take (min (length [1, 2, 3 :: u8]) 1572) [1, 2, 3])"
  by (rule set_udp_analyze_udp) simp_all

text \<open>
  The checksum \<open>set_udp\<close> stores is never the reserved value zero (a computed zero is sent as
  all ones) and the datagram still verifies: the checksum routine over it yields zero.
\<close>

theorem set_udp_checksum_nonzero:
  assumes "iph + 20 \<le> p" and "p + 8 + min (length data) 1572 \<le> length m"
  shows "\<exists>m' s. set_udp packet m p (Some data) iph = Some m' \<and>
     rd16 m' (p + uh_sum) = Some s \<and> s \<noteq> 0 \<and>
     in_cksum2 m' iph (htons (of_nat (min (length data) 1572 + 8))) p
       (min (length data) 1572 + 8) = Some 0"
  using set_udp_ok [OF assms, of packet] unfolding uh_sum_def by blast

theorem set_udp_checksum_nonzero_witness:
  "\<exists>m' s. set_udp (AllocObject UDPPacket) (replicate 31 0) 20 (Some [1, 2, 3]) 0 = Some m' \<and>
     rd16 m' (20 + uh_sum) = Some s \<and> s \<noteq> 0 \<and>
     in_cksum2 m' 0 (htons (of_nat (min (length [1, 2, 3 :: u8]) 1572 + 8))) 20
       (min (length [1, 2, 3 :: u8]) 1572 + 8) = Some 0"
  by (rule set_udp_checksum_nonzero) simp_all

end
