(* ===== verification/Packet_Ip.thy ===== *)
theory Packet_Ip
  imports Jpcap_Codec
begin

text \<open>
  \<open>packet_ip.c\<close>: \<open>analyze_ip\<close> decodes an IPv4 header into an \<open>IPPacket\<close> object, \<open>set_ip\<close> writes the
  part of the header that does not depend on the payload (\<open>set_packet\<close> fills in length, protocol and
  checksum).
\<close>

section \<open>The code\<close>

text \<open>
  \<open>ip_off\<close> is tested for the flags as it was read, without \<open>ntohs\<close>; the identification is passed as
  an \<open>int\<close> to a Java \<open>short\<close> parameter, which keeps its low 16 bits.
\<close>

definition analyze_ip :: "jpacket \<Rightarrow> mem \<Rightarrow> nat \<Rightarrow> (jpacket \<times> u16) option" where
  "analyze_ip packet m p = do {
     src_addr \<leftarrow> rd_bytes m (p + ip_src) 4;
     dst_addr \<leftarrow> rd_bytes m (p + ip_dst) 4;
     tos \<leftarrow> rd8 m (p + ip_tos);
     off \<leftarrow> rd16 m (p + ip_off);
     len \<leftarrow> rd16 m (p + ip_len);
     idn \<leftarrow> rd16 m (p + ip_id);
     ttl \<leftarrow> rd8 m (p + ip_ttl);
     proto \<leftarrow> rd8 m (p + ip_p);
     packet \<leftarrow> CallVoidMethod IPPacket
       (\<lambda>q. q\<lparr>ip := IPPacket_setIPv4Value 4 (drop_bit 5 tos)
          (0 < tos AND IPTOS_LOWDELAY) (0 < tos AND IPTOS_THROUGHPUT)
          (0 < tos AND IPTOS_RELIABILITY) (tos AND 0x3)
          (0 < off AND IP_RF) (0 < off AND IP_DF) (0 < off AND IP_MF)
          (ntohs off AND IP_OFFMASK) (ntohs len) (ntohs idn) (ucast ttl) (ucast proto)
          src_addr dst_addr (ip q)\<rparr>) packet;
     hl \<leftarrow> get_ip_hl m p;
     let hdrlen = push_bit 2 (ucast hl :: u16);
     packet \<leftarrow> (if IPv4HDRLEN < unat hdrlen
       then do {
         opts \<leftarrow> rd_bytes m (p + IPv4HDRLEN) (unat hdrlen - IPv4HDRLEN);
         CallVoidMethod IPPacket (\<lambda>q. q\<lparr>ip := IPPacket_setOption opts (ip q)\<rparr>) packet
       }
       else Some packet);
     Some (packet, hdrlen)
   }"

definition set_ip_off :: "ip_fields \<Rightarrow> u16" where
  "set_ip_off h =
     (if rsv_frag h then IP_RF else 0) + (if dont_frag h then IP_DF else 0) +
     (if more_frag h then IP_MF else 0) + htons (frag_offset h)"

definition set_ip_tos :: "ip_fields \<Rightarrow> u8" where
  "set_ip_tos h =
     push_bit 5 (priority h) + rsv_tos h + (if d_flag h then IPTOS_LOWDELAY else 0) +
     (if t_flag h then IPTOS_THROUGHPUT else 0) + (if r_flag h then IPTOS_RELIABILITY else 0)"

definition set_ip :: "ip_fields \<Rightarrow> mem \<Rightarrow> nat \<Rightarrow> mem option" where
  "set_ip h m p = do {
     src \<leftarrow> src_ip h;
     dst \<leftarrow> dst_ip h;
     m \<leftarrow> set_ip_v m p 4;
     m \<leftarrow> set_ip_hl m p (of_nat (IPv4HDRLEN div 4));
     m \<leftarrow> wr16 m (p + ip_id) (htons (ucast (ident h)));
     m \<leftarrow> wr16 m (p + ip_off) (set_ip_off h);
     m \<leftarrow> wr8 m (p + ip_ttl) (ucast (hop_limit h));
     m \<leftarrow> wr8 m (p + ip_tos) (set_ip_tos h);
     m \<leftarrow> GetByteArrayRegion (Some src) 4 m (p + ip_src);
     GetByteArrayRegion (Some dst) 4 m (p + ip_dst)
   }"

section \<open>An IPv4 header in memory\<close>

text \<open>The part of the header \<open>set_ip\<close> is responsible for, apart from the fragment field.\<close>

definition ip_on_wire :: "ip_fields \<Rightarrow> mem \<Rightarrow> nat \<Rightarrow> bool" where
  "ip_on_wire h m p \<longleftrightarrow>
     p + IPv4HDRLEN \<le> length m \<and>
     rd8 m p = Some 0x45 \<and>
     rd8 m (p + ip_tos) = Some (set_ip_tos h) \<and>
     rd16 m (p + ip_id) = Some (htons (ucast (ident h))) \<and>
     rd8 m (p + ip_ttl) = Some (ucast (hop_limit h)) \<and>
     rd_bytes m (p + ip_src) 4 = map_option (take 4) (src_ip h) \<and>
     rd_bytes m (p + ip_dst) 4 = map_option (take 4) (dst_ip h)"

definition ip_wf :: "ip_fields \<Rightarrow> bool" where
  "ip_wf h \<longleftrightarrow> (\<exists>s d. src_ip h = Some s \<and> dst_ip h = Some d \<and> 4 \<le> length s \<and> 4 \<le> length d)"

lemma nibbles_0x45:
  "((b AND 0x0f) OR push_bit 4 (4 AND 0x0f)) AND 0xf0 OR (5 AND 0x0f) = (0x45 :: u8)"
proof -
  have lo: "(0x0f :: u8) = mask 4" and hi: "(0xf0 :: u8) = push_bit 4 (mask 4)"
    by (simp_all add: mask_eq_exp_minus_1)
  have "((b AND 0x0f) OR push_bit 4 (4 AND 0x0f)) AND (0xf0 :: u8) = push_bit 4 (4 AND 0x0f)"
    unfolding lo hi by (rule bit_word_eqI) (auto simp: bit_simps)
  then show ?thesis by simp
qed

lemma nibbles_0x45':
  "((b AND 0x0f) OR 0x40) AND 0xf0 OR 5 = (0x45 :: u8)"
  using nibbles_0x45 [of b] by simp

lemma set_ip_v_hl:
  assumes "p < length m"
  shows "do { m \<leftarrow> set_ip_v m p 4; set_ip_hl m p 5 } = Some (m[p := 0x45])"
  using assms nibbles_0x45' [of "m ! p"] by (simp add: set_ip_v_def set_ip_hl_def field_defs)

lemma rd_bytes_eq:
  "rd_bytes m p n = Some bs \<longleftrightarrow>
   p + n \<le> length m \<and> length bs = n \<and> (\<forall>i < n. m ! (p + i) = bs ! i)"
proof (cases "p + n \<le> length m")
  case True
  then have "take n (drop p m) = bs \<longleftrightarrow> length bs = n \<and> (\<forall>i < n. m ! (p + i) = bs ! i)"
    by (subst list_eq_iff_nth_eq) auto
  with True show ?thesis by (simp add: rd_bytes_def)
qed (simp add: rd_bytes_def)

lemma set_ip_ok:
  assumes "ip_wf h" and room: "p + 20 \<le> length m"
  shows "\<exists>m'. set_ip h m p = Some m' \<and> same_outside p 20 m m' \<and> ip_on_wire h m' p \<and>
     rd16 m' (p + 6) = Some (set_ip_off h)"
proof -
  obtain s d where sd: "src_ip h = Some s" "dst_ip h = Some d" "4 \<le> length s" "4 \<le> length d"
    using assms(1) by (auto simp: ip_wf_def)
  define m1 where "m1 = m[p := 0x45, p + 4 := hi16 (ucast (ident h)), 5 + p := lo16 (ucast (ident h)),
      p + 6 := lo16 (set_ip_off h), 7 + p := hi16 (set_ip_off h), p + 8 := ucast (hop_limit h),
      p + 1 := set_ip_tos h]"
  have l1: "length m1 = length m" by (simp add: m1_def)
  obtain m2 where m2: "wr_bytes m1 (p + 12) (take 4 s) = Some m2"
    using fbytes.put_in_bounds [of "take 4 s" 4 "p + 12" m1] room sd l1 by auto
  have f2: "same_outside (p + 12) 4 m1 m2" "rd_bytes m2 (p + 12) 4 = Some (take 4 s)"
    using fbytes.put_frame [OF _ m2] fbytes.get_put [OF _ m2] sd by simp_all
  obtain m3 where m3: "wr_bytes m2 (p + 16) (take 4 d) = Some m3"
    using fbytes.put_in_bounds [of "take 4 d" 4 "p + 16" m2] room sd l1
      same_outside_length [OF f2(1)] by auto
  have f3: "same_outside (p + 16) 4 m2 m3" "rd_bytes m3 (p + 16) 4 = Some (take 4 d)"
    using fbytes.put_frame [OF _ m3] fbytes.get_put [OF _ m3] sd by simp_all
  have f13: "same_outside (p + 12) 8 m1 m3"
    using same_outside_trans [OF same_outside_mono [OF f2(1)] same_outside_mono [OF f3(1)],
        of "p + 12" 8] by simp
  have "same_outside p 20 m m1"
    using room by (simp add: m1_def same_outside_list_update)
  then have "same_outside p 20 m m3"
    using same_outside_trans same_outside_mono [OF f13, of p 20] by simp
  moreover have "set_ip h m p = Some m3"
  proof -
    obtain y where "set_ip_v m p 4 = Some y" "set_ip_hl y p 5 = Some (m[p := 0x45])"
      using set_ip_v_hl [of p m] room by (auto simp: bind_eq_Some_conv)
    then show ?thesis
      using sd m2 m3 room by (simp add: set_ip_def access_ok GetByteArrayRegion_def m1_def)
  qed
  moreover have "ip_on_wire h m3 p \<and> rd16 m3 (p + 6) = Some (set_ip_off h)"
  proof -
    have "rd8 m1 p = Some 0x45" "rd8 m1 (p + 1) = Some (set_ip_tos h)"
      "rd16 m1 (p + 4) = Some (htons (ucast (ident h)))" "rd16 m1 (p + 6) = Some (set_ip_off h)"
      "rd8 m1 (p + 8) = Some (ucast (hop_limit h))"
      using room by (simp_all add: m1_def access_ok nth_list_update)
    then show ?thesis
      using f8.get_frame [OF f13] f16.get_frame [OF f13] fbytes.get_frame [OF f3(1)] f2(2) f3(2) sd
        room l1 same_outside_length [OF f13]
      by (simp add: ip_on_wire_def)
  qed
  ultimately show ?thesis by blast
qed

lemma set_ip_fault: "length m < p + 20 \<Longrightarrow> set_ip h m p = None"
  by (auto simp: set_ip_def set_ip_v_def set_ip_hl_def GetByteArrayRegion_def field_defs
      bind_eq_None_conv split: if_splits)

text \<open>Length, fragment field, protocol and checksum may be rewritten without touching the rest.\<close>

lemma ip_on_wire_frame:
  assumes "ip_on_wire h m p" and "same_outside q w m m'"
    and "q + w \<le> p \<or> p + 20 \<le> q \<or> p + 2 \<le> q \<and> q + w \<le> p + 4 \<or>
      p + 6 \<le> q \<and> q + w \<le> p + 8 \<or> p + 9 \<le> q \<and> q + w \<le> p + 12"
  shows "ip_on_wire h m' p"
  using assms(1,3) f8.get_frame [OF assms(2)] f16.get_frame [OF assms(2)]
    fbytes.get_frame [OF assms(2)] same_outside_length [OF assms(2)]
  by (auto simp: ip_on_wire_def)

interpretation ip_hdr: header_writer set_ip
  "\<lambda>h m p. ip_on_wire h m p \<and> rd16 m (p + 6) = Some (set_ip_off h)" 20 ip_wf
proof unfold_locales
  fix h m p q w m'
  assume "ip_on_wire h m p \<and> rd16 m (p + 6) = Some (set_ip_off h)"
    and s: "same_outside q w m m'" and d: "q + w \<le> p \<or> p + 20 \<le> q"
  then show "ip_on_wire h m' p \<and> rd16 m' (p + 6) = Some (set_ip_off h)"
    using ip_on_wire_frame [OF _ s] f16.get_frame [OF s] by auto
qed (auto intro: set_ip_ok set_ip_fault)

section \<open>Decoding\<close>

lemma unat_ip_hdrlen: "unat (push_bit 2 (ucast (v :: u8) :: u16)) = unat v * 4"
proof -
  have "unat (ucast v :: u16) = unat v"
    by (simp add: unsigned_ucast_eq take_bit_nat_eq_self_iff unat_u8_less less_trans [OF unat_u8_less])
  then show ?thesis
    using unat_u8_less [of v] by (simp add: push_bit_eq_mult unat_word_ariths)
qed

text \<open>The object \<open>analyze_ip\<close> builds from a header that is completely captured.\<close>

definition ip_decoded :: "mem \<Rightarrow> nat \<Rightarrow> ip_fields \<Rightarrow> ip_fields" where
  "ip_decoded m p h =
     (let off = le16 (m ! (p + 6)) (m ! (p + 7)); tos = m ! (p + 1); hl = unat (m ! p AND 0x0f)
      in (if 5 < hl then IPPacket_setOption (take (hl * 4 - 20) (drop (p + 20) m)) else id)
        (IPPacket_setIPv4Value 4 (drop_bit 5 tos)
          (0 < tos AND 0x10) (0 < tos AND 0x08) (0 < tos AND 0x04) (tos AND 0x3)
          (0 < off AND 0x8000) (0 < off AND 0x4000) (0 < off AND 0x2000)
          (ntohs off AND 0x1fff) (le16 (m ! (p + 3)) (m ! (p + 2))) (le16 (m ! (p + 5)) (m ! (p + 4)))
          (ucast (m ! (p + 8))) (ucast (m ! (p + 9)))
          (take 4 (drop (p + 12) m)) (take 4 (drop (p + 16) m)) h))"

lemma analyze_ip_eq:
  assumes "p + 20 \<le> length m" and "IsInstanceOf packet IPPacket"
  shows "analyze_ip packet m p =
     (if p + unat (m ! p AND 0x0f) * 4 \<le> length m
      then Some (packet\<lparr>ip := ip_decoded m p (ip packet)\<rparr>, push_bit 2 (ucast (m ! p AND 0x0f)))
      else None)"
  using assms
  by (simp add: analyze_ip_def get_ip_hl_def access_ok rd_bytes_def CallVoidMethod_def Let_def
      unat_ip_hdrlen ip_decoded_def add.commute numeral_3_eq_3)

lemma analyze_ip_None:
  assumes "length m < p + 20"
  shows "analyze_ip packet m p = None"
  using assms by (simp add: analyze_ip_def rd_bytes_def)

lemma and_exp_pos_iff: "0 < w AND 2 ^ n \<longleftrightarrow> bit (w :: 'a::len word) n"
  by (simp add: and_exp_eq_0_iff_not_bit word_gt_0)

lemma off_flags:
  "0 < le16 a b AND 0x8000 \<longleftrightarrow> bit b 7" "0 < le16 a b AND 0x4000 \<longleftrightarrow> bit b 6"
  "0 < le16 a b AND 0x2000 \<longleftrightarrow> bit b 5"
  using and_exp_pos_iff [of "le16 a b" 15] and_exp_pos_iff [of "le16 a b" 14]
    and_exp_pos_iff [of "le16 a b" 13]
  by (auto simp: le16_def bit_simps dest: bit_imp_le_length)

lemma set_addresses_4:
  "length s = 4 \<Longrightarrow> length d = 4 \<Longrightarrow> set_addresses s d h = h\<lparr>src_ip := Some s, dst_ip := Some d\<rparr>"
  by (simp add: set_addresses_def)

text \<open>The type-of-service byte is decoded into the fields it was built from.\<close>

lemma u8_lt_8: "(x :: u8) < 8 \<Longrightarrow> x \<in> {0, 1, 2, 3, 4, 5, 6, 7}"
  by unat_arith

lemma u8_lt_4: "(x :: u8) < 4 \<Longrightarrow> x \<in> {0, 1, 2, 3}"
  by unat_arith

lemma set_ip_tos_decode:
  assumes "priority h < 8" and "rsv_tos h < 4"
  shows "drop_bit 5 (set_ip_tos h) = priority h" "set_ip_tos h AND 0x3 = rsv_tos h"
    "0 < set_ip_tos h AND 0x10 \<longleftrightarrow> d_flag h" "0 < set_ip_tos h AND 0x08 \<longleftrightarrow> t_flag h"
    "0 < set_ip_tos h AND 0x04 \<longleftrightarrow> r_flag h"
  using u8_lt_8 [OF assms(1)] u8_lt_4 [OF assms(2)]
  by (cases "d_flag h"; cases "t_flag h"; cases "r_flag h"; auto simp: set_ip_tos_def)+

section \<open>Properties\<close>

text \<open>
  When the fixed header and the options announced by the header length are captured,
  \<open>analyze_ip\<close> stays inside them and decodes version, type of service, total length, fragment
  offset, time to live, protocol, both addresses and the options, and returns the header length.
\<close>

theorem analyze_ip_decodes:
  assumes "IsInstanceOf packet IPPacket" and "p + 20 \<le> length m"
    and "p + 4 * unat (m ! p AND 0x0f) \<le> length m"
  shows "\<exists>q n. analyze_ip packet m p = Some (q, n) \<and>
     unat n = 4 * unat (m ! p AND 0x0f) \<and> pkt_class q = pkt_class packet \<and>
     version (ip q) = 4 \<and> priority (ip q) = drop_bit 5 (m ! (p + 1)) \<and>
     ip_length (ip q) = le16 (m ! (p + 3)) (m ! (p + 2)) \<and>
     frag_offset (ip q) = le16 (m ! (p + 7)) (m ! (p + 6)) AND 0x1fff \<and>
     hop_limit (ip q) = ucast (m ! (p + 8)) \<and> protocol (ip q) = ucast (m ! (p + 9)) \<and>
     src_ip (ip q) = Some (take 4 (drop (p + 12) m)) \<and>
     dst_ip (ip q) = Some (take 4 (drop (p + 16) m)) \<and>
     ip_option (ip q) =
       (if 5 < unat (m ! p AND 0x0f)
        then Some (take (4 * unat (m ! p AND 0x0f) - 20) (drop (p + 20) m))
        else ip_option (ip packet))"
  using assms analyze_ip_eq [OF assms(2,1)]
  by (simp add: ip_decoded_def Let_def setter_defs set_addresses_4 unat_ip_hdrlen mult.commute)

theorem analyze_ip_decodes_witness:
  "let m = [0x46, 0, 0, 24, 0, 1, 0, 0, 64, 6, 0, 0, 10, 0, 0, 1, 10, 0, 0, 2, 1, 1, 1, 0] :: mem in
   \<exists>q n. analyze_ip (AllocObject IPPacket) m 0 = Some (q, n) \<and>
     unat n = 4 * unat (m ! 0 AND 0x0f) \<and> pkt_class q = pkt_class (AllocObject IPPacket) \<and>
     version (ip q) = 4 \<and> priority (ip q) = drop_bit 5 (m ! (0 + 1)) \<and>
     ip_length (ip q) = le16 (m ! (0 + 3)) (m ! (0 + 2)) \<and>
     frag_offset (ip q) = le16 (m ! (0 + 7)) (m ! (0 + 6)) AND 0x1fff \<and>
     hop_limit (ip q) = ucast (m ! (0 + 8)) \<and> protocol (ip q) = ucast (m ! (0 + 9)) \<and>
     src_ip (ip q) = Some (take 4 (drop (0 + 12) m)) \<and>
     dst_ip (ip q) = Some (take 4 (drop (0 + 16) m)) \<and>
     ip_option (ip q) =
       (if 5 < unat (m ! 0 AND 0x0f)
        then Some (take (4 * unat (m ! 0 AND 0x0f) - 20) (drop (0 + 20) m))
        else ip_option (ip (AllocObject IPPacket)))"
  unfolding Let_def by (rule analyze_ip_decodes) simp_all

text \<open>
  The fragmentation flags \<open>analyze_ip\<close> reports are not the ones of the packet. They are tested on
  \<open>ip_off\<close> before \<open>ntohs\<close>, so on a little-endian host \<open>rsv_frag\<close>, \<open>dont_frag\<close> and \<open>more_frag\<close> are the
  top bits of the low byte of the fragment offset; the flag byte \<open>m ! (p + 6)\<close> has no influence.
\<close>

theorem analyze_ip_flags_from_offset_byte:
  assumes "IsInstanceOf packet IPPacket" and "analyze_ip packet m p = Some (q, n)"
  shows "(rsv_frag (ip q) \<longleftrightarrow> bit (m ! (p + 7)) 7) \<and> (dont_frag (ip q) \<longleftrightarrow> bit (m ! (p + 7)) 6) \<and>
     (more_frag (ip q) \<longleftrightarrow> bit (m ! (p + 7)) 5)"
proof -
  have "p + 20 \<le> length m"
    using assms(2) analyze_ip_None [of m p packet] by (cases "length m < p + 20") simp_all
  with assms(2) analyze_ip_eq [OF this assms(1)] show ?thesis
    by (auto simp: ip_decoded_def Let_def setter_defs set_addresses_4 off_flags split: if_splits)
qed

theorem analyze_ip_flags_from_offset_byte_witness:
  "let m = [0x45, 0, 0, 20, 0, 1, 0x40, 0, 64, 6, 0, 0, 10, 0, 0, 1, 10, 0, 0, 2] :: mem;
       q = fst (the (analyze_ip (AllocObject IPPacket) m 0)) in
   (rsv_frag (ip q) \<longleftrightarrow> bit (m ! (0 + 7)) 7) \<and> (dont_frag (ip q) \<longleftrightarrow> bit (m ! (0 + 7)) 6) \<and>
     (more_frag (ip q) \<longleftrightarrow> bit (m ! (0 + 7)) 5)"
  unfolding Let_def
  by (rule analyze_ip_flags_from_offset_byte [where packet = "AllocObject IPPacket" and n = 20])
     (simp_all add: analyze_ip_eq)



end
