(* ===== verification/Packet_Icmp.thy ===== *)
theory Packet_Icmp
  imports Packet_Ip
begin

text \<open>
  \<open>packet_icmp.c\<close>: \<open>analyze_icmp\<close> decodes an ICMP message into an \<open>ICMPPacket\<close> object, \<open>set_icmp\<close>
  writes one. The bundled \<open>ip_icmp.h\<close> does not define \<open>icmp_num_addrs\<close>, so the router advertisement
  branch is not compiled.
\<close>

section \<open>Decoding\<close>

text \<open>
  The first call passes three of the five arguments of \<open>ICMPPacket.setValue(BBSSS)V\<close>; the other two
  are whatever the variadic call finds, the parameter \<open>va\<close>. Identifier and sequence number are
  shifted as signed 16-bit values.
\<close>

definition icmp_has_id :: "u8 \<Rightarrow> bool" where
  "icmp_has_id ty \<longleftrightarrow> ty = ICMP_ECHOREPLY \<or> ty = ICMP_ECHO \<or> ICMP_PARAMPROB < ty"

definition analyze_icmp_value :: "jshort \<times> jshort \<Rightarrow> jpacket \<Rightarrow> mem \<Rightarrow> nat \<Rightarrow> jpacket option" where
  "analyze_icmp_value va packet m p = do {
     ty \<leftarrow> rd8 m (p + icmp_type);
     code \<leftarrow> rd8 m (p + icmp_code);
     ck \<leftarrow> rd16 m (p + icmp_cksum);
     CallVoidMethod ICMPPacket
       (\<lambda>q. q\<lparr>icmp := ICMPPacket_setValue ty code ck (fst va) (snd va) (icmp q)\<rparr>) packet
   }"

definition analyze_icmp_id :: "jpacket \<Rightarrow> mem \<Rightarrow> nat \<Rightarrow> jpacket option" where
  "analyze_icmp_id packet m p = do {
     idn \<leftarrow> rd16 m (p + icmp_id);
     sq \<leftarrow> rd16 m (p + icmp_seq);
     CallVoidMethod ICMPPacket
       (\<lambda>q. q\<lparr>icmp := ICMPPacket_setID (signed_drop_bit 8 idn) (signed_drop_bit 8 sq) (icmp q)\<rparr>)
       packet
   }"

text \<open>The bodies of the cases; \<open>ICMP_REDIRECT\<close> falls through to \<open>ICMP_UNREACH\<close> and that to the rest.\<close>

definition icmp_case_redirect :: "jpacket \<Rightarrow> mem \<Rightarrow> nat \<Rightarrow> jpacket option" where
  "icmp_case_redirect packet m p = do {
     addr \<leftarrow> rd_bytes m (p + icmp_gwaddr) 4;
     CallVoidMethod ICMPPacket (\<lambda>q. q\<lparr>icmp := ICMPPacket_setRedirectIP addr (icmp q)\<rparr>) packet
   }"

definition icmp_case_unreach :: "jpacket \<Rightarrow> mem \<Rightarrow> nat \<Rightarrow> jpacket option" where
  "icmp_case_unreach packet m p = do {
     v \<leftarrow> rd16 m (p + icmp_nextmtu);
     CallVoidMethod ICMPPacket (\<lambda>q. q\<lparr>icmp := icmp q\<lparr>mtu := v\<rparr>\<rparr>) packet
   }"

definition icmp_case_error :: "jpacket \<Rightarrow> mem \<Rightarrow> nat \<Rightarrow> u16 \<Rightarrow> jpacket option" where
  "icmp_case_error packet m p clen =
     (if unat clen < IPv4HDRLEN + 16 then Some packet
      else do {
        (inner, _) \<leftarrow> analyze_ip (AllocObject IPPacket) m (p + icmp_ip);
        CallVoidMethod ICMPPacket (\<lambda>q. q\<lparr>icmp := icmp q\<lparr>ippacket := Some (ip inner)\<rparr>\<rparr>) packet
      })"

definition analyze_icmp_switch :: "jpacket \<Rightarrow> mem \<Rightarrow> nat \<Rightarrow> u16 \<Rightarrow> u8 \<Rightarrow> jpacket option" where
  "analyze_icmp_switch packet m p clen ty =
     (if ty = ICMP_REDIRECT then do {
        packet \<leftarrow> icmp_case_redirect packet m p;
        packet \<leftarrow> icmp_case_unreach packet m p;
        icmp_case_error packet m p clen
      }
      else if ty = ICMP_UNREACH then do {
        packet \<leftarrow> icmp_case_unreach packet m p;
        icmp_case_error packet m p clen
      }
      else if ty = ICMP_SOURCEQUENCH \<or> ty = ICMP_TIMXCEED \<or> ty = ICMP_PARAMPROB
      then icmp_case_error packet m p clen
      else if ty = ICMP_TSTAMP \<or> ty = ICMP_TSTAMPREPLY then do {
        orig \<leftarrow> rd32 m (p + icmp_otime);
        recv \<leftarrow> rd32 m (p + icmp_rtime);
        xmit \<leftarrow> rd32 m (p + icmp_ttime);
        CallVoidMethod ICMPPacket
          (\<lambda>q. q\<lparr>icmp := ICMPPacket_setTimestampValue orig recv xmit (icmp q)\<rparr>) packet
      }
      else if ty = ICMP_MASKREQ \<or> ty = ICMP_MASKREPLY then do {
        msk \<leftarrow> rd32 m (p + icmp_mask);
        CallVoidMethod ICMPPacket (\<lambda>q. q\<lparr>icmp := icmp q\<lparr>subnetmask := msk\<rparr>\<rparr>) packet
      }
      else Some packet)"

definition analyze_icmp ::
  "jshort \<times> jshort \<Rightarrow> jpacket \<Rightarrow> mem \<Rightarrow> nat \<Rightarrow> u16 \<Rightarrow> jpacket option" where
  "analyze_icmp va packet m p clen = do {
     packet \<leftarrow> analyze_icmp_value va packet m p;
     ty \<leftarrow> rd8 m (p + icmp_type);
     packet \<leftarrow> (if icmp_has_id ty then analyze_icmp_id packet m p else Some packet);
     analyze_icmp_switch packet m p clen ty
   }"

section \<open>Encoding\<close>

definition set_icmp_id :: "icmp_fields \<Rightarrow> mem \<Rightarrow> nat \<Rightarrow> mem option" where
  "set_icmp_id h m p = do {
     m \<leftarrow> wr16 m (p + icmp_id) (htons (pkt_id h));
     wr16 m (p + icmp_seq) (htons (pkt_seq h))
   }"

definition set_icmp_echo ::
  "icmp_fields \<Rightarrow> mem \<Rightarrow> nat \<Rightarrow> u8 list option \<Rightarrow> (mem \<times> int) option" where
  "set_icmp_echo h m p data = do {
     m \<leftarrow> set_icmp_id h m p;
     let len = (case data of None \<Rightarrow> 0 | Some bs \<Rightarrow> length bs);
     m \<leftarrow> (if data \<noteq> None then GetByteArrayRegion data len m (p + icmp_data) else Some m);
     m \<leftarrow> store_cksum m p icmp_cksum (8 + len);
     Some (m, 8)
   }"

definition set_icmp_error :: "icmp_fields \<Rightarrow> mem \<Rightarrow> nat \<Rightarrow> nat \<Rightarrow> (mem \<times> int) option" where
  "set_icmp_error h m p len = do {
     m \<leftarrow> (case ippacket h of None \<Rightarrow> Some m | Some i \<Rightarrow> set_ip i m (p + icmp_ip));
     let n = 12 + (case ippacket h of None \<Rightarrow> 0 | Some _ \<Rightarrow> 20);
     m \<leftarrow> store_cksum m p icmp_cksum n;
     Some (m, int n - int len)
   }"

definition set_icmp_timestamp :: "icmp_fields \<Rightarrow> mem \<Rightarrow> nat \<Rightarrow> nat \<Rightarrow> (mem \<times> int) option" where
  "set_icmp_timestamp h m p len = do {
     m \<leftarrow> set_icmp_id h m p;
     m \<leftarrow> wr32 m (p + icmp_otime) (htonl (orig_timestamp h));
     m \<leftarrow> wr32 m (p + icmp_rtime) (htonl (recv_timestamp h));
     m \<leftarrow> wr32 m (p + icmp_ttime) (htonl (trans_timestamp h));
     m \<leftarrow> store_cksum m p icmp_cksum 20;
     Some (m, 20 - int len)
   }"

definition set_icmp_mask :: "icmp_fields \<Rightarrow> mem \<Rightarrow> nat \<Rightarrow> nat \<Rightarrow> (mem \<times> int) option" where
  "set_icmp_mask h m p len = do {
     m \<leftarrow> set_icmp_id h m p;
     m \<leftarrow> wr32 m (p + icmp_mask) (htonl (subnetmask h));
     m \<leftarrow> store_cksum m p icmp_cksum 12;
     Some (m, 12 - int len)
   }"

definition set_icmp ::
  "icmp_fields \<Rightarrow> mem \<Rightarrow> nat \<Rightarrow> u8 list option \<Rightarrow> (mem \<times> int) option" where
  "set_icmp h m p data = do {
     let len = (case data of None \<Rightarrow> 0 | Some bs \<Rightarrow> length bs);
     m \<leftarrow> wr8 m (p + icmp_type) (pkt_type h);
     m \<leftarrow> wr8 m (p + icmp_code) (pkt_code h);
     let ty = pkt_type h;
     (if ty = ICMP_ECHOREPLY \<or> ty = ICMP_ECHO then set_icmp_echo h m p data
      else if ty = ICMP_REDIRECT then do {
        m \<leftarrow> GetByteArrayRegion (redir_ip h) 4 m (p + icmp_gwaddr);
        set_icmp_error h m p len
      }
      else if ty = ICMP_UNREACH \<or> ty = ICMP_SOURCEQUENCH \<or> ty = ICMP_TIMXCEED \<or> ty = ICMP_PARAMPROB
      then set_icmp_error h m p len
      else if ty = ICMP_TSTAMP \<or> ty = ICMP_TSTAMPREPLY then set_icmp_timestamp h m p len
      else if ty = ICMP_MASKREQ \<or> ty = ICMP_MASKREPLY then set_icmp_mask h m p len
      else Some (m, 0))
   }"

section \<open>Lemmas\<close>

text \<open>The types \<open>set_icmp\<close> knows; for every other one it writes type and code only.\<close>

definition icmp_supported :: "u8 \<Rightarrow> bool" where
  "icmp_supported ty \<longleftrightarrow>
     ty \<in> {ICMP_ECHOREPLY, ICMP_UNREACH, ICMP_SOURCEQUENCH, ICMP_REDIRECT, ICMP_ECHO, ICMP_TIMXCEED,
           ICMP_PARAMPROB, ICMP_TSTAMP, ICMP_TSTAMPREPLY, ICMP_MASKREQ, ICMP_MASKREPLY}"

definition data_len :: "u8 list option \<Rightarrow> nat" where
  "data_len data = (case data of None \<Rightarrow> 0 | Some bs \<Rightarrow> length bs)"

text \<open>Every branch for a known type ends by checksumming the bytes it returns plus the data field.\<close>

lemma set_icmp_echo_cksum:
  "set_icmp_echo h m p data = Some (m', r) \<Longrightarrow>
   r = 8 \<and> (\<exists>m0. store_cksum m0 p 2 (8 + data_len data) = Some m')"
  by (auto simp: set_icmp_echo_def data_len_def Let_def bind_eq_Some_conv)

lemma set_icmp_error_cksum:
  "set_icmp_error h m p len = Some (m', r) \<Longrightarrow>
   \<exists>n m0. r = int n - int len \<and> 12 \<le> n \<and> store_cksum m0 p 2 n = Some m'"
  by (auto simp: set_icmp_error_def Let_def bind_eq_Some_conv
      intro!: exI [of _ "12 + (case ippacket h of None \<Rightarrow> 0 | Some _ \<Rightarrow> 20)"])

lemma set_icmp_fixed_cksum:
  "set_icmp_timestamp h m p len = Some (m', r) \<Longrightarrow>
   r = 20 - int len \<and> (\<exists>m0. store_cksum m0 p 2 20 = Some m')"
  "set_icmp_mask h m p len = Some (m', r) \<Longrightarrow>
   r = 12 - int len \<and> (\<exists>m0. store_cksum m0 p 2 12 = Some m')"
  by (auto simp: set_icmp_timestamp_def set_icmp_mask_def bind_eq_Some_conv)

lemma set_icmp_cases:
  assumes "set_icmp h m p data = Some (m', r)" and "icmp_supported (pkt_type h)"
  obtains (echo) m1 where "set_icmp_echo h m1 p data = Some (m', r)"
  | (error) m1 where "set_icmp_error h m1 p (data_len data) = Some (m', r)"
  | (timestamp) m1 where "set_icmp_timestamp h m1 p (data_len data) = Some (m', r)"
  | (mask) m1 where "set_icmp_mask h m1 p (data_len data) = Some (m', r)"
  using assms
  by (auto simp: set_icmp_def Let_def icmp_supported_def data_len_def bind_eq_Some_conv
      split: if_splits)

lemma set_icmp_ends_with_cksum:
  assumes "set_icmp h m p data = Some (m', r)" and "icmp_supported (pkt_type h)"
  shows "\<exists>m0 sz. store_cksum m0 p 2 sz = Some m' \<and> int sz = r + int (data_len data) \<and> 8 \<le> sz"
  using assms
proof (cases rule: set_icmp_cases)
  case echo
  then show ?thesis using set_icmp_echo_cksum by force
next
  case error
  then obtain n m0 where "r = int n - int (data_len data)" "12 \<le> n" "store_cksum m0 p 2 n = Some m'"
    using set_icmp_error_cksum by blast
  then show ?thesis by (intro exI [of _ m0] exI [of _ n]) simp
next
  case timestamp
  then show ?thesis using set_icmp_fixed_cksum(1) by (intro exI [of _ 20] ex_comm [THEN iffD1]) force
next
  case mask
  then show ?thesis using set_icmp_fixed_cksum(2) by force
qed

lemma signed_drop_8: "signed_drop_bit 8 (v :: u16) = scast (hi16 v)"
proof (rule bit_word_eqI)
  fix n assume "n < LENGTH(16)"
  then have "n < 7 \<or> n = 7 \<or> 7 < n" by auto
  then show "bit (signed_drop_bit 8 v) n \<longleftrightarrow> bit (scast (hi16 v) :: u16) n"
    using \<open>n < LENGTH(16)\<close> by (elim disjE) (auto simp: hi16_def bit_simps min_def)
qed

text \<open>An echo message in memory.\<close>

lemma set_icmp_echo_ok:
  assumes ty: "pkt_type h = ICMP_ECHO \<or> pkt_type h = ICMP_ECHOREPLY"
    and ev: "even (length bs)" and room: "p + 8 + length bs \<le> length m" and len: "length bs \<le> 131066"
  shows "\<exists>m'. set_icmp h m p (Some bs) = Some (m', 8) \<and> same_outside p (8 + length bs) m m' \<and>
     rd8 m' p = Some (pkt_type h) \<and> rd8 m' (p + 1) = Some (pkt_code h) \<and>
     rd16 m' (p + 4) = Some (ntohs (pkt_id h)) \<and> rd16 m' (p + 6) = Some (ntohs (pkt_seq h)) \<and>
     rd_bytes m' (p + 8) (length bs) = Some bs \<and> in_cksum m' p (8 + length bs) = Some 0"
proof -
  define m1 where "m1 = m[p := pkt_type h, p + 1 := pkt_code h]"
  define m2 where "m2 = m1[p + 4 := hi16 (pkt_id h), p + 5 := lo16 (pkt_id h),
      p + 6 := hi16 (pkt_seq h), p + 7 := lo16 (pkt_seq h)]"
  have l2: "length m2 = length m" by (simp add: m1_def m2_def)
  have i2: "set_icmp_id h m1 p = Some m2"
    using room by (simp add: set_icmp_id_def access_ok m1_def m2_def add.commute)
  have r2: "rd8 m2 p = Some (pkt_type h)" "rd8 m2 (p + 1) = Some (pkt_code h)"
    "rd16 m2 (p + 4) = Some (ntohs (pkt_id h))" "rd16 m2 (p + 6) = Some (ntohs (pkt_seq h))"
    using room by (simp_all add: access_ok m1_def m2_def nth_list_update)
  obtain m3 where m3: "wr_bytes m2 (p + 8) bs = Some m3"
    using fbytes.put_in_bounds [of bs "length bs" "p + 8" m2] room l2 by auto
  have f3: "same_outside (p + 8) (length bs) m2 m3" "rd_bytes m3 (p + 8) (length bs) = Some bs"
    using fbytes.put_frame [OF _ m3] fbytes.get_put [OF _ m3] by simp_all
  have l3: "length m3 = length m" using same_outside_length [OF f3(1)] l2 by simp
  obtain m4 where m4: "store_cksum m3 p 2 (8 + length bs) = Some m4" "same_outside (p + 2) 2 m3 m4"
    "in_cksum m4 p (8 + length bs) = Some 0"
    using store_cksum_even [of "8 + length bs" p m3 2] ev room len l3 by auto
  have w: "wr8 m p (pkt_type h) = Some (m[p := pkt_type h])"
    "wr8 (m[p := pkt_type h]) (p + 1) (pkt_code h) = Some m1"
    using room by (simp_all add: access_ok m1_def)
  have "set_icmp_echo h m1 p (Some bs) = Some (m4, 8)"
    using i2 m3 m4(1) by (simp add: set_icmp_echo_def GetByteArrayRegion_def)
  then have "set_icmp h m p (Some bs) = Some (m4, 8)"
    using ty w by (auto simp: set_icmp_def)
  moreover have "same_outside p (8 + length bs) m m4"
  proof -
    have "same_outside p (8 + length bs) m m2"
      by (simp add: m1_def m2_def same_outside_list_update)
    moreover have "same_outside p (8 + length bs) m2 m3" "same_outside p (8 + length bs) m3 m4"
      using same_outside_mono [OF f3(1)] same_outside_mono [OF m4(2)] by simp_all
    ultimately show ?thesis using same_outside_trans by blast
  qed
  moreover have "rd8 m4 p = Some (pkt_type h)" "rd8 m4 (p + 1) = Some (pkt_code h)"
    "rd16 m4 (p + 4) = Some (ntohs (pkt_id h))" "rd16 m4 (p + 6) = Some (ntohs (pkt_seq h))"
    "rd_bytes m4 (p + 8) (length bs) = Some bs"
    using r2 f3(2) f8.get_frame [OF f3(1)] f16.get_frame [OF f3(1)] f8.get_frame [OF m4(2)]
      f16.get_frame [OF m4(2)] fbytes.get_frame [OF m4(2)] by simp_all
  ultimately show ?thesis using m4(3) by blast
qed

section \<open>Properties\<close>

text \<open>
  C28: an echo request or reply of an even number of data bytes is written with a valid checksum and
  its data, touches no other byte, and is decoded with its type and code; but the identifier and
  sequence number that \<open>analyze_icmp\<close> reports are only the sign-extended low bytes of the ones
  written, because it shifts the network-order halfword instead of swapping it.
\<close>

theorem set_icmp_echo_analyze_icmp:
  assumes "pkt_type h = ICMP_ECHO \<or> pkt_type h = ICMP_ECHOREPLY" and "even (length bs)"
    and "p + 8 + length bs \<le> length m" and "length bs \<le> 131066" and "pkt_class q = ICMPPacket"
  shows "\<exists>m' q'. set_icmp h m p (Some bs) = Some (m', 8) \<and>
     same_outside p (8 + length bs) m m' \<and> rd_bytes m' (p + 8) (length bs) = Some bs \<and>
     in_cksum m' p (8 + length bs) = Some 0 \<and>
     analyze_icmp va q m' p clen = Some q' \<and>
     pkt_type (icmp q') = pkt_type h \<and> pkt_code (icmp q') = pkt_code h \<and>
     pkt_id (icmp q') = scast (lo16 (pkt_id h)) \<and> pkt_seq (icmp q') = scast (lo16 (pkt_seq h))"
proof -
  obtain m' where m': "set_icmp h m p (Some bs) = Some (m', 8)" "same_outside p (8 + length bs) m m'"
     "rd8 m' p = Some (pkt_type h)" "rd8 m' (p + 1) = Some (pkt_code h)"
     "rd16 m' (p + 4) = Some (ntohs (pkt_id h))" "rd16 m' (p + 6) = Some (ntohs (pkt_seq h))"
     "rd_bytes m' (p + 8) (length bs) = Some bs" "in_cksum m' p (8 + length bs) = Some 0"
    using set_icmp_echo_ok [OF assms(1-4)] by blast
  obtain ck where ck: "rd16 m' (p + 2) = Some ck"
    using f16.get_in_bounds [of "p + 2" m'] assms(3) same_outside_length [OF m'(2)] by auto
  have "\<exists>q'. analyze_icmp va q m' p clen = Some q' \<and>
     pkt_type (icmp q') = pkt_type h \<and> pkt_code (icmp q') = pkt_code h \<and>
     pkt_id (icmp q') = scast (lo16 (pkt_id h)) \<and> pkt_seq (icmp q') = scast (lo16 (pkt_seq h))"
    using assms(1,5) m'(3-6) ck
    by (auto simp: analyze_icmp_def analyze_icmp_value_def analyze_icmp_id_def icmp_has_id_def
        analyze_icmp_switch_def CallVoidMethod_def setter_defs signed_drop_8)
  with m' show ?thesis by blast
qed

theorem set_icmp_echo_analyze_icmp_witness:
  "let h = alloc_icmp\<lparr>pkt_type := 8, pkt_id := 0x1234, pkt_seq := 0x00ff\<rparr>; bs = [1, 2] :: u8 list in
   \<exists>m' q'. set_icmp h (replicate 12 0) 1 (Some bs) = Some (m', 8) \<and>
     same_outside 1 (8 + length bs) (replicate 12 0) m' \<and> rd_bytes m' (1 + 8) (length bs) = Some bs \<and>
     in_cksum m' 1 (8 + length bs) = Some 0 \<and>
     analyze_icmp (0, 0) (AllocObject ICMPPacket) m' 1 10 = Some q' \<and>
     pkt_type (icmp q') = pkt_type h \<and> pkt_code (icmp q') = pkt_code h \<and>
     pkt_id (icmp q') = scast (lo16 (pkt_id h)) \<and> pkt_seq (icmp q') = scast (lo16 (pkt_seq h))"
  unfolding Let_def by (rule set_icmp_echo_analyze_icmp) (simp_all add: alloc_icmp_def)





end
