(* ===== verification/Packet_Arp.thy ===== *)
theory Packet_Arp
  imports Jpcap_Codec
begin

text \<open>
  \<open>packet_arp.c\<close>: \<open>analyze_arp\<close> and \<open>set_arp\<close>. The decoder follows the address lengths of the
  packet, the encoder has the fixed layout of Ethernet and IPv4 addresses; on that layout they are
  inverse to each other.
\<close>

section \<open>The code\<close>

definition analyze_arp :: "jpacket \<Rightarrow> mem \<Rightarrow> nat \<Rightarrow> (jpacket \<times> nat) option" where
  "analyze_arp packet m p = do {
     hln \<leftarrow> rd8 m (p + arp_hln);
     pln \<leftarrow> rd8 m (p + arp_pln);
     let hl = unat hln;
     let pl = unat pln;
     sha \<leftarrow> rd_bytes m (p + sizeof_arphdr) hl;
     spa \<leftarrow> rd_bytes m (p + sizeof_arphdr + hl) pl;
     tha \<leftarrow> rd_bytes m (p + sizeof_arphdr + hl + pl) hl;
     tpa \<leftarrow> rd_bytes m (p + sizeof_arphdr + hl + pl + hl) pl;
     hrd \<leftarrow> rd16 m (p + arp_hrd);
     pro \<leftarrow> rd16 m (p + arp_pro);
     oper \<leftarrow> rd16 m (p + arp_op);
     packet \<leftarrow> CallVoidMethod ARPPacket
       (\<lambda>q. q\<lparr>arp := ARPPacket_setValue (ntohs hrd) (ntohs pro) (ucast hln) (ucast pln)
          (ntohs oper) sha spa tha tpa (arp q)\<rparr>) packet;
     Some (packet, sizeof_arphdr + hl * 2 + pl * 2)
   }"

text \<open>The object handed to \<open>set_arp\<close> is an \<open>ARPPacket\<close>; only its ARP fields are read.\<close>

definition set_arp_fixed :: "arp_fields \<Rightarrow> mem \<Rightarrow> nat \<Rightarrow> mem option" where
  "set_arp_fixed a m p = do {
     m \<leftarrow> wr16 m (p + arp_hrd) (htons (hardtype a));
     m \<leftarrow> wr16 m (p + arp_pro) (htons (prototype a));
     m \<leftarrow> wr16 m (p + arp_op) (htons (operation a));
     m \<leftarrow> wr8 m (p + arp_hln) (ucast (arp_hlen a));
     wr8 m (p + arp_pln) (ucast (arp_plen a))
   }"

definition set_arp_addresses :: "arp_fields \<Rightarrow> mem \<Rightarrow> nat \<Rightarrow> mem option" where
  "set_arp_addresses a m p = do {
     hl \<leftarrow> rd8 m (p + arp_hln);
     m \<leftarrow> GetByteArrayRegion (sender_hardaddr a) (unat hl) m (p + arp_sha);
     pl \<leftarrow> rd8 m (p + arp_pln);
     m \<leftarrow> GetByteArrayRegion (sender_protoaddr a) (unat pl) m (p + arp_spa);
     hl \<leftarrow> rd8 m (p + arp_hln);
     m \<leftarrow> GetByteArrayRegion (target_hardaddr a) (unat hl) m (p + arp_tha);
     pl \<leftarrow> rd8 m (p + arp_pln);
     GetByteArrayRegion (target_protoaddr a) (unat pl) m (p + arp_tpa)
   }"

definition set_arp :: "arp_fields \<Rightarrow> mem \<Rightarrow> nat \<Rightarrow> (mem \<times> nat) option" where
  "set_arp a m p = do {
     m \<leftarrow> set_arp_fixed a m p;
     m \<leftarrow> set_arp_addresses a m p;
     Some (m, sizeof_ether_arp)
   }"

section \<open>An Ethernet ARP packet in memory\<close>

definition arp_emit :: "arp_fields \<Rightarrow> mem \<Rightarrow> nat \<Rightarrow> mem option" where
  "arp_emit a m p = map_option fst (set_arp a m p)"

text \<open>The objects whose address lengths are those of the layout the encoder assumes.\<close>

definition arp_wf :: "arp_fields \<Rightarrow> bool" where
  "arp_wf a \<longleftrightarrow> arp_hlen a = 6 \<and> arp_plen a = 4 \<and>
     map_option length (sender_hardaddr a) = Some 6 \<and> map_option length (sender_protoaddr a) = Some 4 \<and>
     map_option length (target_hardaddr a) = Some 6 \<and> map_option length (target_protoaddr a) = Some 4"

definition arp_on_wire :: "arp_fields \<Rightarrow> mem \<Rightarrow> nat \<Rightarrow> bool" where
  "arp_on_wire a m p \<longleftrightarrow>
     p + sizeof_ether_arp \<le> length m \<and>
     rd16 m (p + arp_hrd) = Some (htons (hardtype a)) \<and>
     rd16 m (p + arp_pro) = Some (htons (prototype a)) \<and>
     rd8 m (p + arp_hln) = Some 6 \<and> rd8 m (p + arp_pln) = Some 4 \<and>
     rd16 m (p + arp_op) = Some (htons (operation a)) \<and>
     rd_bytes m (p + arp_sha) 6 = sender_hardaddr a \<and>
     rd_bytes m (p + arp_spa) 4 = sender_protoaddr a \<and>
     rd_bytes m (p + arp_tha) 6 = target_hardaddr a \<and>
     rd_bytes m (p + arp_tpa) 4 = target_protoaddr a"

lemma set_arp_fixed_ok:
  assumes "p + 8 \<le> length m" and "arp_hlen a = 6" and "arp_plen a = 4"
  shows "\<exists>m'. set_arp_fixed a m p = Some m' \<and> same_outside p 8 m m' \<and>
     rd16 m' p = Some (htons (hardtype a)) \<and> rd16 m' (p + 2) = Some (htons (prototype a)) \<and>
     rd8 m' (p + 4) = Some 6 \<and> rd8 m' (p + 5) = Some 4 \<and>
     rd16 m' (p + 6) = Some (htons (operation a))"
  using assms
  by (simp add: set_arp_fixed_def access_ok same_outside_list_update nth_list_update)

text \<open>One address copied behind a header that keeps its length bytes.\<close>

lemma put_address:
  assumes "length bs = n" and "q + n \<le> length m"
  obtains m' where "GetByteArrayRegion (Some bs) n m q = Some m'" and "same_outside q n m m'"
    and "rd_bytes m' q n = Some bs" and "length m' = length m"
proof -
  obtain m' where m': "wr_bytes m q bs = Some m'"
    using fbytes.put_in_bounds [OF assms] by blast
  then show thesis
    using that [of m'] fbytes.put_frame [OF assms(1) m'] fbytes.get_put [OF assms(1) m'] assms(1)
      same_outside_length by (auto simp: GetByteArrayRegion_def)
qed

lemma set_arp_addresses_ok:
  assumes "p + 28 \<le> length m" and "rd8 m (p + 4) = Some 6" and "rd8 m (p + 5) = Some 4"
    and addr: "sender_hardaddr a = Some sha" "sender_protoaddr a = Some spa"
      "target_hardaddr a = Some tha" "target_protoaddr a = Some tpa"
    and len: "length sha = 6" "length spa = 4" "length tha = 6" "length tpa = 4"
  shows "\<exists>m'. set_arp_addresses a m p = Some m' \<and> same_outside (p + 8) 20 m m' \<and>
     rd_bytes m' (p + 8) 6 = Some sha \<and> rd_bytes m' (p + 14) 4 = Some spa \<and>
     rd_bytes m' (p + 18) 6 = Some tha \<and> rd_bytes m' (p + 24) 4 = Some tpa"
proof -
  obtain m1 where m1: "GetByteArrayRegion (Some sha) 6 m (p + 8) = Some m1"
    "same_outside (p + 8) 6 m m1" "rd_bytes m1 (p + 8) 6 = Some sha" "length m1 = length m"
    using put_address [OF len(1), of "p + 8" m] assms(1) by auto
  obtain m2 where m2: "GetByteArrayRegion (Some spa) 4 m1 (p + 14) = Some m2"
    "same_outside (p + 14) 4 m1 m2" "rd_bytes m2 (p + 14) 4 = Some spa" "length m2 = length m"
    using put_address [OF len(2), of "p + 14" m1] assms(1) m1(4) by auto
  obtain m3 where m3: "GetByteArrayRegion (Some tha) 6 m2 (p + 18) = Some m3"
    "same_outside (p + 18) 6 m2 m3" "rd_bytes m3 (p + 18) 6 = Some tha" "length m3 = length m"
    using put_address [OF len(3), of "p + 18" m2] assms(1) m2(4) by auto
  obtain m4 where m4: "GetByteArrayRegion (Some tpa) 4 m3 (p + 24) = Some m4"
    "same_outside (p + 24) 4 m3 m4" "rd_bytes m4 (p + 24) 4 = Some tpa" "length m4 = length m"
    using put_address [OF len(4), of "p + 24" m3] assms(1) m3(4) by auto
  have h: "rd8 m1 (p + 4) = Some 6" "rd8 m1 (p + 5) = Some 4"
    "rd8 m2 (p + 4) = Some 6" "rd8 m2 (p + 5) = Some 4" "rd8 m3 (p + 5) = Some 4"
    using assms(2,3) f8.get_frame [OF m1(2)] f8.get_frame [OF m2(2)] f8.get_frame [OF m3(2)]
    by simp_all
  have "set_arp_addresses a m p = Some m4"
    using assms(2,3) h addr m1(1) m2(1) m3(1) m4(1) by (simp add: set_arp_addresses_def)
  moreover have "same_outside (p + 8) 20 m m4"
    using same_outside_trans [OF same_outside_trans [OF same_outside_trans], of "p + 8" 20 m m1 m2 m3 m4]
      same_outside_mono [OF m1(2)] same_outside_mono [OF m2(2)] same_outside_mono [OF m3(2)]
      same_outside_mono [OF m4(2)] by simp
  ultimately show ?thesis
    using m1(3) m2(3) m3(3) m4(3) fbytes.get_frame [OF m2(2)] fbytes.get_frame [OF m3(2)]
      fbytes.get_frame [OF m4(2)] by auto
qed

lemma arp_emit_ok:
  assumes "arp_wf a" and "p + 28 \<le> length m"
  shows "\<exists>m'. arp_emit a m p = Some m' \<and> same_outside p 28 m m' \<and> arp_on_wire a m' p"
proof -
  obtain sha spa tha tpa where addr: "sender_hardaddr a = Some sha" "sender_protoaddr a = Some spa"
      "target_hardaddr a = Some tha" "target_protoaddr a = Some tpa"
    and len: "length sha = 6" "length spa = 4" "length tha = 6" "length tpa = 4"
    using assms(1) by (auto simp: arp_wf_def)
  obtain m1 where m1: "set_arp_fixed a m p = Some m1" "same_outside p 8 m m1"
    "rd16 m1 p = Some (htons (hardtype a))" "rd16 m1 (p + 2) = Some (htons (prototype a))"
    "rd8 m1 (p + 4) = Some 6" "rd8 m1 (p + 5) = Some 4"
    "rd16 m1 (p + 6) = Some (htons (operation a))"
    using set_arp_fixed_ok [of p m a] assms by (auto simp: arp_wf_def)
  have room: "p + 28 \<le> length m1"
    using assms(2) same_outside_length [OF m1(2)] by simp
  obtain m2 where m2: "set_arp_addresses a m1 p = Some m2" "same_outside (p + 8) 20 m1 m2"
    "rd_bytes m2 (p + 8) 6 = Some sha" "rd_bytes m2 (p + 14) 4 = Some spa"
    "rd_bytes m2 (p + 18) 6 = Some tha" "rd_bytes m2 (p + 24) 4 = Some tpa"
    using set_arp_addresses_ok [OF room m1(5,6) addr len] by blast
  have "same_outside p 28 m m2"
    using same_outside_trans same_outside_mono [OF m1(2), of p 28] same_outside_mono [OF m2(2), of p 28]
    by simp
  moreover have "arp_on_wire a m2 p"
    using room same_outside_length [OF m2(2)] m1(3-7) m2(3-6) addr
      f8.get_frame [OF m2(2)] f16.get_frame [OF m2(2)]
    by (simp add: arp_on_wire_def)
  ultimately show ?thesis
    using m1(1) m2(1) by (simp add: arp_emit_def set_arp_def)
qed

lemma wr_bytes_length: "wr_bytes m p bs = Some m' \<Longrightarrow> length m' = length m"
  by (blast dest: same_outside_wr_bytes same_outside_length)

lemma set_arp_fixed_SomeD:
  "set_arp_fixed a m p = Some m' \<Longrightarrow>
   length m' = length m \<and> rd8 m' (p + 4) = Some (ucast (arp_hlen a)) \<and>
   rd8 m' (p + 5) = Some (ucast (arp_plen a))"
  by (auto simp: set_arp_fixed_def field_defs bind_eq_Some_conv split: if_splits)

lemma arp_emit_fault:
  assumes "arp_wf a" and "length m < p + 28"
  shows "arp_emit a m p = None"
proof (rule ccontr)
  assume "arp_emit a m p \<noteq> None"
  then obtain m1 m2 where m1: "set_arp_fixed a m p = Some m1" and m2: "set_arp_addresses a m1 p = Some m2"
    by (auto simp: arp_emit_def set_arp_def bind_eq_Some_conv)
  have l1: "length m1 = length m" and r: "rd8 m1 (p + 5) = Some 4"
    using set_arp_fixed_SomeD [OF m1] assms(1) by (simp_all add: arp_wf_def)
  from m2 obtain h x1 l x2 k x3 n where
    ch: "GetByteArrayRegion (sender_hardaddr a) h m1 (p + 8) = Some x1"
    "GetByteArrayRegion (sender_protoaddr a) l x1 (p + 14) = Some x2"
    "GetByteArrayRegion (target_hardaddr a) k x2 (p + 18) = Some x3"
    "rd8 x3 (p + 5) = Some n" "GetByteArrayRegion (target_protoaddr a) (unat n) x3 (p + 24) = Some m2"
    by (auto simp: set_arp_addresses_def bind_eq_Some_conv)
  have "rd8 x3 (p + 5) = Some 4"
    using r f8.get_frame [OF GetByteArrayRegion_frame [OF ch(1)]]
      f8.get_frame [OF GetByteArrayRegion_frame [OF ch(2)]]
      f8.get_frame [OF GetByteArrayRegion_frame [OF ch(3)]] by simp
  then have "p + 28 \<le> length x3"
    using ch(4) GetByteArrayRegion_in_bounds [OF ch(5)] by simp
  then show False
    using assms(2) l1 GetByteArrayRegion_in_bounds [OF ch(1)] GetByteArrayRegion_in_bounds [OF ch(2)]
      GetByteArrayRegion_in_bounds [OF ch(3)] by simp
qed

lemma arp_on_wire_frame:
  assumes "arp_on_wire a m p" and "same_outside q w m m'" and "q + w \<le> p \<or> p + 28 \<le> q"
  shows "arp_on_wire a m' p"
  using assms(1,3) f8.get_frame [OF assms(2)] f16.get_frame [OF assms(2)]
    fbytes.get_frame [OF assms(2)] same_outside_length [OF assms(2)]
  by (auto simp: arp_on_wire_def)

interpretation arp_hdr: header_writer arp_emit arp_on_wire 28 arp_wf
  by unfold_locales (auto intro: arp_emit_ok arp_emit_fault dest: arp_on_wire_frame)

lemma analyze_arp_on_wire:
  assumes "arp_on_wire a m p" and "arp_wf a" and "pkt_class packet = ARPPacket"
  shows "analyze_arp packet m p = Some (packet\<lparr>arp := a\<rparr>, 28)"
proof -
  obtain sha spa tha tpa where addr: "sender_hardaddr a = Some sha" "sender_protoaddr a = Some spa"
      "target_hardaddr a = Some tha" "target_protoaddr a = Some tpa"
    using assms(2) by (auto simp: arp_wf_def)
  have "ARPPacket_setValue (hardtype a) (prototype a) 6 4 (operation a) sha spa tha tpa b = a" for b
    using addr assms(2) by (cases a) (simp add: ARPPacket_setValue_def arp_wf_def)
  moreover have "rd_bytes m (14 + p) 4 = Some spa" "rd_bytes m (18 + p) 6 = Some tha"
    "rd_bytes m (24 + p) 4 = Some tpa"
    using assms(1) addr unfolding arp_on_wire_def add.commute [of p] by simp_all
  ultimately show ?thesis
    using assms addr by (simp add: arp_on_wire_def analyze_arp_def CallVoidMethod_def Let_def)
qed

section \<open>Properties\<close>

text \<open>
  C23: \<open>set_arp\<close> on an ARP packet with six-byte hardware and four-byte protocol addresses writes
  exactly 28 bytes, and \<open>analyze_arp\<close> decodes them to the same object.
\<close>

theorem set_arp_analyze_arp:
  assumes "arp_wf a" and "p + 28 \<le> length m" and "pkt_class q = ARPPacket"
  shows "\<exists>m'. set_arp a m p = Some (m', 28) \<and> same_outside p 28 m m' \<and>
     analyze_arp q m' p = Some (q\<lparr>arp := a\<rparr>, 28)"
proof -
  obtain m' where m': "arp_emit a m p = Some m'" "same_outside p 28 m m'" "arp_on_wire a m' p"
    using arp_hdr.emit_ok [OF assms(1,2)] by blast
  then have "set_arp a m p = Some (m', 28)"
    by (auto simp: arp_emit_def set_arp_def bind_eq_Some_conv)
  with m' show ?thesis
    using analyze_arp_on_wire [OF m'(3) assms(1,3)] by blast
qed

theorem set_arp_analyze_arp_witness:
  "let a = \<lparr>hardtype = 1, prototype = 0x0800, arp_hlen = 6, arp_plen = 4, operation = 2,
     sender_hardaddr = Some [1, 2, 3, 4, 5, 6], sender_protoaddr = Some [10, 0, 0, 1],
     target_hardaddr = Some [6, 5, 4, 3, 2, 1], target_protoaddr = Some [10, 0, 0, 2]\<rparr> in
   \<exists>m'. set_arp a (replicate 42 0) 14 = Some (m', 28) \<and> same_outside 14 28 (replicate 42 0) m' \<and>
     analyze_arp (AllocObject ARPPacket) m' 14 = Some (AllocObject ARPPacket\<lparr>arp := a\<rparr>, 28)"
  unfolding Let_def by (rule set_arp_analyze_arp) (simp_all add: arp_wf_def)

text \<open>
  The decoder trusts the two length bytes: \<open>analyze_arp\<close> stays inside the captured bytes exactly
  when the fixed part and the four addresses of the announced lengths are captured, and then returns
  the size of the packet.
\<close>

theorem analyze_arp_defined_iff:
  assumes "pkt_class packet = ARPPacket"
  shows "(\<exists>q. analyze_arp packet m p =
       Some (q, 8 + 2 * (unat (m ! (p + 4)) + unat (m ! (p + 5))))) \<longleftrightarrow>
     p + 8 + 2 * (unat (m ! (p + 4)) + unat (m ! (p + 5))) \<le> length m"
proof (cases "p + 8 + 2 * (unat (m ! (p + 4)) + unat (m ! (p + 5))) \<le> length m")
  case True
  then show ?thesis
    using assms
    by (simp add: analyze_arp_def access_ok rd_bytes_def CallVoidMethod_def Let_def mult.commute)
next
  case False
  then show ?thesis
    by (auto simp: analyze_arp_def field_defs bind_eq_Some_conv Let_def split: if_splits)
qed

theorem analyze_arp_defined_iff_witness:
  "let m = [0, 1, 8, 0, 6, 4, 0, 1] @ replicate 20 7 :: mem in
   (\<exists>q. analyze_arp (AllocObject ARPPacket) m 0 =
       Some (q, 8 + 2 * (unat (m ! (0 + 4)) + unat (m ! (0 + 5))))) \<longleftrightarrow>
     0 + 8 + 2 * (unat (m ! (0 + 4)) + unat (m ! (0 + 5))) \<le> length m"
  unfolding Let_def by (rule analyze_arp_defined_iff) simp

end
