(* ===== verification/Packet_Datalink.thy ===== *)
theory Packet_Datalink
  imports Jpcap_Codec
begin

text \<open>
  \<open>packet_datalink.c\<close>: \<open>analyze_datalink\<close> builds the datalink object of a captured frame,
  \<open>set_ether\<close> writes the Ethernet header of a packet that carries one.
\<close>

section \<open>The code\<close>

text \<open>\<open>EthernetPacket.setValue\<close> on the object that was just allocated.\<close>

definition EthernetPacket_setValue :: "u8 list \<Rightarrow> u8 list \<Rightarrow> jshort \<Rightarrow> ethernet" where
  "EthernetPacket_setValue dst src ftype = \<lparr>dst_mac = Some dst, src_mac = Some src, frametype = ftype\<rparr>"

definition PPPOEPacket_setValue ::
  "jbyte \<Rightarrow> jbyte \<Rightarrow> jbyte \<Rightarrow> u8 list \<Rightarrow> jshort \<Rightarrow> pppoe" where
  "PPPOEPacket_setValue ver type code sid plen =
     \<lparr>pppoe_version = ver, pppoe_type = type, pppoe_code = code, sessionId = Some sid,
      payloadLen = plen\<rparr>"

text \<open>
  The one-byte field \<open>code\<close> is a \<open>jbyte\<close>: the call of \<open>ntohs\<close> first converts it to 16 bits with its
  sign, and the cast of the result keeps the low byte.
\<close>

text \<open>
  On any other link type the code allocates a \<open>DatalinkPacket\<close>. The class is abstract, so \<open>AllocObject\<close>
  raises \<open>InstantiationException\<close> and yields null, and the calls that follow are made with an exception
  pending, which JNI leaves undefined: \<open>None\<close>.
\<close>

definition analyze_datalink :: "mem \<Rightarrow> nat \<Rightarrow> int \<Rightarrow> int \<Rightarrow> datalink option" where
  "analyze_datalink m p linktype linktype_ext =
     (if linktype = DLT_EN10MB then
        (if linktype_ext = uint ETHERTYPE_PPPOE then do {
           src_addr \<leftarrow> rd_bytes m (p + ether_src) 6;
           dst_addr \<leftarrow> rd_bytes m (p + ether_dest) 6;
           ftype \<leftarrow> rd16 m (p + ether_type);
           vt \<leftarrow> rd8 m (p + ver_type);
           let ver = drop_bit 4 (vt AND ETHERTYPE_VERSION);
           let type = vt AND ETHERTYPE_TYPE;
           c \<leftarrow> rd8 m (p + pppoe_hdr_code);
           let code = (ucast (ntohs (scast c)) :: jbyte);
           sid \<leftarrow> rd_bytes m (p + session_id) 2;
           plen \<leftarrow> rd16 m (p + pay_load_len);
           Some (PPPOEPacket (EthernetPacket_setValue dst_addr src_addr (ntohs ftype))
                  (PPPOEPacket_setValue ver type code sid (ntohs plen)))
         }
         else do {
           src_addr \<leftarrow> rd_bytes m (p + ether_src) 6;
           dst_addr \<leftarrow> rd_bytes m (p + ether_dest) 6;
           ftype \<leftarrow> rd16 m (p + ether_type);
           Some (EthernetPacket (EthernetPacket_setValue dst_addr src_addr (ntohs ftype)))
         })
      else None)"

text \<open>The Ethernet part of a datalink object, when it is an instance of \<open>EthernetPacket\<close>.\<close>

fun ether_part :: "datalink \<Rightarrow> ethernet option" where
  "ether_part DatalinkPacket = None"
| "ether_part (EthernetPacket e) = Some e"
| "ether_part (PPPOEPacket e _) = Some e"

definition set_ether_header :: "ethernet \<Rightarrow> mem \<Rightarrow> nat \<Rightarrow> mem option" where
  "set_ether_header e m p = do {
     m \<leftarrow> GetByteArrayRegion (src_mac e) 6 m (p + ether_src);
     m \<leftarrow> GetByteArrayRegion (dst_mac e) 6 m (p + ether_dest);
     wr16 m (p + ether_type) (htons (frametype e))
   }"

definition set_ether :: "jpacket \<Rightarrow> mem \<Rightarrow> nat \<Rightarrow> (mem \<times> nat) option" where
  "set_ether packet m p =
     (case Option.bind (datalink packet) ether_part of
        Some e \<Rightarrow> do { m \<leftarrow> set_ether_header e m p; Some (m, sizeof_ether_header) }
      | None \<Rightarrow> Some (m, 0))"

section \<open>An Ethernet header in memory\<close>

definition ether_wf :: "ethernet \<Rightarrow> bool" where
  "ether_wf e \<longleftrightarrow> (\<exists>s d. src_mac e = Some s \<and> dst_mac e = Some d \<and> 6 \<le> length s \<and> 6 \<le> length d)"

definition ether_on_wire :: "ethernet \<Rightarrow> mem \<Rightarrow> nat \<Rightarrow> bool" where
  "ether_on_wire e m p \<longleftrightarrow>
     p + sizeof_ether_header \<le> length m \<and>
     rd_bytes m (p + ether_dest) 6 = map_option (take 6) (dst_mac e) \<and>
     rd_bytes m (p + ether_src) 6 = map_option (take 6) (src_mac e) \<and>
     rd16 m (p + ether_type) = Some (htons (frametype e))"

lemma set_ether_header_ok:
  assumes "ether_wf e" and room: "p + 14 \<le> length m"
  shows "\<exists>m'. set_ether_header e m p = Some m' \<and> same_outside p 14 m m' \<and> ether_on_wire e m' p"
proof -
  obtain s d where sd: "src_mac e = Some s" "dst_mac e = Some d" "6 \<le> length s" "6 \<le> length d"
    using assms(1) by (auto simp: ether_wf_def)
  obtain m1 where m1: "wr_bytes m (p + 6) (take 6 s) = Some m1"
    using fbytes.put_in_bounds [of "take 6 s" 6 "p + 6" m] room sd by auto
  have f1: "same_outside (p + 6) 6 m m1" "rd_bytes m1 (p + 6) 6 = Some (take 6 s)"
    using fbytes.put_frame [OF _ m1] fbytes.get_put [OF _ m1] sd by simp_all
  obtain m2 where m2: "wr_bytes m1 p (take 6 d) = Some m2"
    using fbytes.put_in_bounds [of "take 6 d" 6 p m1] room sd same_outside_length [OF f1(1)] by auto
  have f2: "same_outside p 6 m1 m2" "rd_bytes m2 p 6 = Some (take 6 d)"
    using fbytes.put_frame [OF _ m2] fbytes.get_put [OF _ m2] sd by simp_all
  obtain m3 where m3: "wr16 m2 (p + 12) (htons (frametype e)) = Some m3"
    using f16.put_in_bounds [where p = "p + 12" and m = m2 and v = "htons (frametype e)"] room
      same_outside_length [OF f1(1)] same_outside_length [OF f2(1)] by auto
  have f3: "same_outside (p + 12) 2 m2 m3" "rd16 m3 (p + 12) = Some (htons (frametype e))"
    using f16.put_frame [OF _ m3] f16.get_put [OF _ m3] by simp_all
  have "same_outside p 14 m m3"
    using same_outside_trans [OF same_outside_trans, of p 14 m m1 m2 m3]
      same_outside_mono [OF f1(1)] same_outside_mono [OF f2(1)] same_outside_mono [OF f3(1)] by simp
  moreover have "set_ether_header e m p = Some m3"
    using sd m1 m2 m3 by (simp add: set_ether_header_def GetByteArrayRegion_def)
  moreover have "ether_on_wire e m3 p"
    using room sd f3(2) f2(2) f1(2) fbytes.get_frame [OF f3(1)] fbytes.get_frame [OF f2(1)]
      same_outside_length [OF \<open>same_outside p 14 m m3\<close>]
    by (simp add: ether_on_wire_def)
  ultimately show ?thesis by blast
qed

lemma set_ether_header_fault: "length m < p + 14 \<Longrightarrow> set_ether_header e m p = None"
  by (auto simp: set_ether_header_def GetByteArrayRegion_def field_defs bind_eq_None_conv
      split: if_splits option.splits)

lemma ether_on_wire_frame:
  assumes "ether_on_wire e m p" and "same_outside q w m m'" and "q + w \<le> p \<or> p + 14 \<le> q"
  shows "ether_on_wire e m' p"
  using assms(1,3) f16.get_frame [OF assms(2)] fbytes.get_frame [OF assms(2)]
    same_outside_length [OF assms(2)]
  by (auto simp: ether_on_wire_def)

interpretation ether_hdr: header_writer set_ether_header ether_on_wire 14 ether_wf
  by unfold_locales
     (auto intro: set_ether_header_ok set_ether_header_fault dest: ether_on_wire_frame)

text \<open>\<open>set_ether\<close> in the two cases its callers meet.\<close>

lemma set_ether_none:
  "Option.bind (datalink packet) ether_part = None \<Longrightarrow> set_ether packet m p = Some (m, 0)"
  by (simp add: set_ether_def)

lemma set_ether_some:
  assumes "Option.bind (datalink packet) ether_part = Some e" and "ether_wf e"
    and "p + 14 \<le> length m"
  shows "\<exists>m'. set_ether packet m p = Some (m', 14) \<and> same_outside p 14 m m' \<and> ether_on_wire e m' p"
  using ether_hdr.emit_ok [OF assms(2,3)] assms(1) by (auto simp: set_ether_def)

lemma analyze_ether_on_wire:
  assumes "ether_on_wire e m p" and "linktype_ext \<noteq> uint ETHERTYPE_PPPOE"
    and "src_mac e = Some s" and "dst_mac e = Some d"
  shows "analyze_datalink m p DLT_EN10MB linktype_ext =
     Some (EthernetPacket (EthernetPacket_setValue (take 6 d) (take 6 s) (frametype e)))"
  using assms by (simp add: ether_on_wire_def analyze_datalink_def)

text \<open>Sign extension to two bytes: the swapped low byte is the sign.\<close>

lemma hi16_scast: "hi16 (scast (c :: u8)) = (if bit c 7 then 0xff else 0)"
proof (rule bit_word_eqI)
  fix n assume n: "n < LENGTH(8)"
  have "(0xff :: u8) = mask 8" by (simp add: mask_eq_exp_minus_1)
  then have "bit (0xff :: u8) n" using n by (simp only: bit_mask_iff) simp
  then show "bit (hi16 (scast c)) n \<longleftrightarrow> bit (if bit c 7 then 0xff else (0 :: u8)) n"
    using n by (auto simp: hi16_def bit_simps)
qed

lemma ucast_ntohs_scast: "(ucast (ntohs (scast (c :: u8))) :: u8) = (if bit c 7 then 0xff else 0)"
  using hi16_scast [of c] lo_hi_ntohs(1) [of "scast c"] by (simp add: lo16_def)

section \<open>Properties\<close>

text \<open>
  C24: an Ethernet header written by \<open>set_ether\<close> for a packet with an Ethernet datalink object is
  14 bytes long, leaves the rest of the buffer alone and is decoded by \<open>analyze_datalink\<close> to the same
  addresses and frame type.
\<close>

theorem set_ether_analyze_datalink:
  assumes "datalink packet = Some (EthernetPacket e)" and "src_mac e = Some s"
    and "dst_mac e = Some d" and "length s = 6" and "length d = 6" and "p + 14 \<le> length m"
    and "linktype_ext \<noteq> uint ETHERTYPE_PPPOE"
  shows "\<exists>m'. set_ether packet m p = Some (m', 14) \<and> same_outside p 14 m m' \<and>
     analyze_datalink m' p DLT_EN10MB linktype_ext = Some (EthernetPacket e)"
proof -
  have b: "Option.bind (datalink packet) ether_part = Some e" and w: "ether_wf e"
    using assms by (simp_all add: ether_wf_def)
  obtain m' where m': "set_ether packet m p = Some (m', 14)" "same_outside p 14 m m'"
    "ether_on_wire e m' p"
    using set_ether_some [OF b w assms(6)] by blast
  have "EthernetPacket_setValue (take 6 d) (take 6 s) (frametype e) = e"
    using assms by (cases e) (simp add: EthernetPacket_setValue_def)
  with m' show ?thesis
    using analyze_ether_on_wire [OF m'(3) assms(7,2,3)] by auto
qed

theorem set_ether_analyze_datalink_witness:
  "let e = \<lparr>dst_mac = Some [1, 2, 3, 4, 5, 6], src_mac = Some [7, 8, 9, 10, 11, 12],
            frametype = 0x0800\<rparr> in
   \<exists>m'. set_ether (AllocObject Packet\<lparr>datalink := Some (EthernetPacket e)\<rparr>) (replicate 20 0) 3 =
       Some (m', 14) \<and> same_outside 3 14 (replicate 20 0) m' \<and>
     analyze_datalink m' 3 DLT_EN10MB 0 = Some (EthernetPacket e)"
  unfolding Let_def
  by (rule set_ether_analyze_datalink [where s = "[7, 8, 9, 10, 11, 12]" and d = "[1, 2, 3, 4, 5, 6]"])
     simp_all

text \<open>
  On a PPPoE link the object has version and type from the two halves of the byte behind the
  Ethernet header, the session id and the payload length, but its code is always 0 or -1: the call of
  \<open>ntohs\<close> on the one-byte \<open>code\<close> leaves only its sign.
\<close>

theorem analyze_datalink_pppoe:
  assumes "p + 20 \<le> length m"
  shows "\<exists>e h. analyze_datalink m p DLT_EN10MB (uint ETHERTYPE_PPPOE) = Some (PPPOEPacket e h) \<and>
     src_mac e = Some (take 6 (drop (p + 6) m)) \<and> dst_mac e = Some (take 6 (drop p m)) \<and>
     frametype e = le16 (m ! (p + 13)) (m ! (p + 12)) \<and>
     pppoe_version h = drop_bit 4 (m ! (p + 14)) \<and> pppoe_type h = m ! (p + 14) AND 0x0f \<and>
     sessionId h = Some (take 2 (drop (p + 16) m)) \<and>
     payloadLen h = le16 (m ! (p + 19)) (m ! (p + 18)) \<and>
     pppoe_code h = (if bit (m ! (p + 15)) 7 then 0xff else 0)"
proof -
  have "drop_bit 4 (b AND 0xf0) = drop_bit 4 b" for b :: u8
  proof -
    have hi: "(0xf0 :: u8) = push_bit 4 (mask 4)" by (simp add: mask_eq_exp_minus_1)
    show ?thesis
      unfolding hi by (rule bit_word_eqI) (auto simp: bit_simps dest: bit_imp_le_length)
  qed
  with assms show ?thesis
    by (simp add: analyze_datalink_def access_ok rd_bytes_def EthernetPacket_setValue_def
        PPPOEPacket_setValue_def ucast_ntohs_scast add.commute)
qed

theorem analyze_datalink_pppoe_witness:
  "let m = [1, 2, 3, 4, 5, 6, 7, 8, 9, 10, 11, 12, 0x88, 0x64, 0x11, 9, 0, 1, 0, 40] :: mem in
   \<exists>e h. analyze_datalink m 0 DLT_EN10MB (uint ETHERTYPE_PPPOE) = Some (PPPOEPacket e h) \<and>
     src_mac e = Some (take 6 (drop (0 + 6) m)) \<and> dst_mac e = Some (take 6 (drop 0 m)) \<and>
     frametype e = le16 (m ! (0 + 13)) (m ! (0 + 12)) \<and>
     pppoe_version h = drop_bit 4 (m ! (0 + 14)) \<and> pppoe_type h = m ! (0 + 14) AND 0x0f \<and>
     sessionId h = Some (take 2 (drop (0 + 16) m)) \<and>
     payloadLen h = le16 (m ! (0 + 19)) (m ! (0 + 18)) \<and>
     pppoe_code h = (if bit (m ! (0 + 15)) 7 then 0xff else 0)"
  unfolding Let_def by (rule analyze_datalink_pppoe) simp

end
