(* ===== verification/Packet_Ipv6.thy ===== *)
theory Packet_Ipv6
  imports Packet_Ip
begin

text \<open>
  \<open>packet_ipv6.c\<close>: \<open>analyze_ipv6\<close> decodes the fixed header and walks the extension headers,
  \<open>set_ipv6\<close> writes the fixed header (\<open>set_packet\<close> fills in the payload length).
\<close>

section \<open>Extension headers\<close>

text \<open>The condition of the loop; \<open>proto\<close> is a \<open>jbyte\<close>, compared after sign extension.\<close>

definition ext_header :: "jbyte \<Rightarrow> bool" where
  "ext_header proto \<longleftrightarrow>
     scast proto = IPPROTO_HOPOPTS \<or> scast proto = IPPROTO_DSTOPTS \<or>
     scast proto = IPPROTO_ROUTING \<or> scast proto = IPPROTO_AH \<or> scast proto = IPPROTO_FRAGMENT"

text \<open>
  The loop over the addresses of a routing header: the pointer \<open>p\<close> it reads from stays behind the
  first eight bytes, \<open>data\<close> is what advances.
\<close>

fun routing_addrs :: "mem \<Rightarrow> nat \<Rightarrow> nat \<Rightarrow> u8 list list option" where
  "routing_addrs m p 0 = Some []"
| "routing_addrs m p (Suc n) = do {
     a \<leftarrow> rd_bytes m p 16;
     as \<leftarrow> routing_addrs m p n;
     Some (a # as)
   }"

text \<open>
  One round of the loop for the header at \<open>d\<close>: the option object, what is added to \<open>data\<close> and to
  \<open>hlen\<close>, and the next protocol. \<open>ip6_ext+2\<close> is four bytes behind \<open>ip6_ext\<close>, \<open>ah+8\<close> eight
  structures behind \<open>ah\<close>.
\<close>

definition ipv6_ext :: "mem \<Rightarrow> nat \<Rightarrow> jbyte \<Rightarrow> (ipv6_option \<times> nat \<times> nat \<times> jbyte) option" where
  "ipv6_ext m d proto = do {
     nxt \<leftarrow> rd8 m (d + ip6e_nxt);
     len \<leftarrow> rd8 m (d + ip6e_len);
     let opt_hdr = IPv6Option_setValue proto nxt len alloc_IPv6Option;
     (if scast proto = IPPROTO_HOPOPTS \<or> scast proto = IPPROTO_DSTOPTS then do {
        opt_data \<leftarrow> rd_bytes m (d + 2 * sizeof_ip6_ext) (unat len);
        Some (IPv6Option_setOptionData opt_data opt_hdr,
              (unat len + 1) * 8, (unat len + 1) * 8, nxt)
      }
      else if scast proto = IPPROTO_ROUTING then do {
        addrs \<leftarrow> routing_addrs m (d + 8) (unat len div 2);
        type \<leftarrow> rd8 m (d + ip6r_type);
        left \<leftarrow> rd8 m (d + ip6r_segleft);
        Some (IPv6Option_setRoutingOption type left addrs opt_hdr,
              16 * (unat len div 2) + (unat len + 1) * 8, (unat len + 1) * 8, nxt)
      }
      else if scast proto = IPPROTO_FRAGMENT then do {
        offlg \<leftarrow> rd16 m (d + ip6f_offlg);
        idn \<leftarrow> rd32 m (d + ip6f_ident);
        Some (IPv6Option_setFragmentOption (ntohs (offlg AND IP6F_OFF_MASK))
                (0 < offlg AND IP6F_MORE_FRAG) (ntohl idn) opt_hdr, 8, 8, nxt)
      }
      else do {
        spi \<leftarrow> rd32 m (d + ah_spi);
        sq \<leftarrow> rd32 m (d + ah_seq);
        opt_data \<leftarrow> rd_bytes m (d + 8 * sizeof_newah) (unat len);
        Some (IPv6Option_setOptionData opt_data
                (IPv6Option_setAHOption (ntohl spi) (ntohl sq) opt_hdr),
              (unat len + 2) * 4, (unat len + 2) * 4, nxt)
      })
   }"

lemma ipv6_ext_progress:
  "ipv6_ext m d proto = Some (opt, adv, h, nxt) \<Longrightarrow> d < length m \<and> 8 \<le> adv"
  by (auto simp: ipv6_ext_def rd8_def bind_eq_Some_conv Let_def split: if_splits)

text \<open>Every round consumes at least eight bytes of a header that is inside the buffer.\<close>

function ipv6_ext_loop ::
  "jpacket \<Rightarrow> mem \<Rightarrow> nat \<Rightarrow> nat \<Rightarrow> jbyte \<Rightarrow> (jpacket \<times> nat) option" where
  "ipv6_ext_loop packet m d hlen proto =
     (if ext_header proto then do {
        r \<leftarrow> ipv6_ext m d proto;
        (case r of (opt_hdr, adv, h, nxt) \<Rightarrow> do {
           packet \<leftarrow> CallVoidMethod IPPacket
             (\<lambda>q. q\<lparr>ip := IPPacket_addOptionHeader opt_hdr (ip q)\<rparr>) packet;
           ipv6_ext_loop packet m (d + adv) (hlen + h) nxt
         })
      }
      else Some (packet, hlen))"
  by pat_completeness auto

termination ipv6_ext_loop
  by (relation "measure (\<lambda>(_, m, d, _, _). length m - d)")
     (auto dest!: ipv6_ext_progress)

declare ipv6_ext_loop.simps [simp del]

section \<open>The whole decoder and the encoder\<close>

text \<open>
  The cast in \<open>(jbyte)(ip6_flow\&0x0ff00000)>>20\<close> binds tighter than the shift; the flow label is
  masked before the byte swap.
\<close>

definition ipv6_class :: "u32 \<Rightarrow> jbyte" where
  "ipv6_class flow = ucast (signed_drop_bit 20 (scast (ucast (flow AND 0x0ff00000) :: jbyte) :: u32))"

definition ipv6_flow_label :: "u32 \<Rightarrow> jint" where
  "ipv6_flow_label flow = ntohl (flow AND 0x000fffff)"

definition analyze_ipv6 :: "jpacket \<Rightarrow> mem \<Rightarrow> nat \<Rightarrow> (jpacket \<times> u16) option" where
  "analyze_ipv6 packet m p = do {
     src_addr \<leftarrow> rd_bytes m (p + ip6_src) 16;
     dst_addr \<leftarrow> rd_bytes m (p + ip6_dst) 16;
     flow \<leftarrow> rd32 m (p + ip6_flow);
     plen \<leftarrow> rd16 m (p + ip6_plen);
     nxt \<leftarrow> rd8 m (p + ip6_nxt);
     hlim \<leftarrow> rd8 m (p + ip6_hlim);
     packet \<leftarrow> CallVoidMethod IPPacket
       (\<lambda>q. q\<lparr>ip := IPPacket_setIPv6Value 6 (ipv6_class flow) (ipv6_flow_label flow) (ntohs plen) nxt
          (ucast hlim) src_addr dst_addr (ip q)\<rparr>) packet;
     (packet, hlen) \<leftarrow> ipv6_ext_loop packet m (p + 40) 40 nxt;
     Some (packet, of_nat hlen)
   }"

definition set_ipv6_flow :: "ip_fields \<Rightarrow> u32" where
  "set_ipv6_flow h = htonl ((push_bit 20 (scast (priority h)) OR flow_label h) AND 0x0fffffff)"

definition set_ipv6 :: "ip_fields \<Rightarrow> mem \<Rightarrow> nat \<Rightarrow> mem option" where
  "set_ipv6 h m p = do {
     src \<leftarrow> src_ip h;
     dst \<leftarrow> dst_ip h;
     m \<leftarrow> wr32 m (p + ip6_flow) 0;
     m \<leftarrow> wr8 m (p + ip6_vfc) 0x60;
     m \<leftarrow> GetByteArrayRegion (Some src) 16 m (p + ip6_src);
     m \<leftarrow> GetByteArrayRegion (Some dst) 16 m (p + ip6_dst);
     flow \<leftarrow> rd32 m (p + ip6_flow);
     m \<leftarrow> wr32 m (p + ip6_flow) (flow OR set_ipv6_flow h);
     m \<leftarrow> wr8 m (p + ip6_nxt) (ucast (protocol h));
     wr8 m (p + ip6_hlim) (ucast (hop_limit h))
   }"

section \<open>An IPv6 header in memory\<close>

definition ipv6_wf :: "ip_fields \<Rightarrow> bool" where
  "ipv6_wf h \<longleftrightarrow> (\<exists>s d. src_ip h = Some s \<and> dst_ip h = Some d \<and> 16 \<le> length s \<and> 16 \<le> length d)"

definition ipv6_on_wire :: "ip_fields \<Rightarrow> mem \<Rightarrow> nat \<Rightarrow> bool" where
  "ipv6_on_wire h m p \<longleftrightarrow>
     p + 40 \<le> length m \<and>
     rd32 m (p + ip6_flow) = Some (0x60 OR set_ipv6_flow h) \<and>
     rd8 m (p + ip6_nxt) = Some (ucast (protocol h)) \<and>
     rd8 m (p + ip6_hlim) = Some (ucast (hop_limit h)) \<and>
     rd_bytes m (p + ip6_src) 16 = map_option (take 16) (src_ip h) \<and>
     rd_bytes m (p + ip6_dst) 16 = map_option (take 16) (dst_ip h)"

lemma le32_0x60: "le32 0x60 0 0 0 = 0x60"
  by (simp add: le32_def)

lemma set_ipv6_ok:
  assumes "ipv6_wf h" and room: "p + 40 \<le> length m"
  shows "\<exists>m'. set_ipv6 h m p = Some m' \<and> same_outside p 40 m m' \<and> ipv6_on_wire h m' p"
proof -
  obtain s d where sd: "src_ip h = Some s" "dst_ip h = Some d" "16 \<le> length s" "16 \<le> length d"
    using assms(1) by (auto simp: ipv6_wf_def)
  define m1 where "m1 = m[p := byte32 0 0, p + 1 := byte32 1 0, p + 2 := byte32 2 0, p + 3 := byte32 3 0]"
  define m2 where "m2 = m1[p := 0x60]"
  have w: "wr32 m p 0 = Some m1" "wr8 m1 p 0x60 = Some m2"
    using room by (simp_all add: access_ok m1_def m2_def)
  have l2: "length m2 = length m" by (simp add: m1_def m2_def)
  have r2: "rd32 m2 p = Some 0x60"
    using room by (simp add: m1_def m2_def access_ok nth_list_update byte32_def le32_0x60)
  obtain m3 where m3: "wr_bytes m2 (p + 8) (take 16 s) = Some m3"
    using fbytes.put_in_bounds [of "take 16 s" 16 "p + 8" m2] room sd l2 by auto
  have f3: "same_outside (p + 8) 16 m2 m3" "rd_bytes m3 (p + 8) 16 = Some (take 16 s)"
    using fbytes.put_frame [OF _ m3] fbytes.get_put [OF _ m3] sd by simp_all
  have l3: "length m3 = length m" using same_outside_length [OF f3(1)] l2 by simp
  obtain m4 where m4: "wr_bytes m3 (p + 24) (take 16 d) = Some m4"
    using fbytes.put_in_bounds [of "take 16 d" 16 "p + 24" m3] room sd l3 by auto
  have f4: "same_outside (p + 24) 16 m3 m4" "rd_bytes m4 (p + 24) 16 = Some (take 16 d)"
    using fbytes.put_frame [OF _ m4] fbytes.get_put [OF _ m4] sd by simp_all
  have l4: "length m4 = length m" using same_outside_length [OF f4(1)] l3 by simp
  have r4: "rd32 m4 p = Some 0x60" "rd_bytes m4 (p + 8) 16 = Some (take 16 s)"
    using r2 f3(2) f32.get_frame [OF f3(1), of p] f32.get_frame [OF f4(1), of p]
      fbytes.get_frame [OF f4(1)] by simp_all
  obtain m5 where m5: "wr32 m4 p (0x60 OR set_ipv6_flow h) = Some m5"
    using f32.put_in_bounds [where p = p and m = m4 and v = "0x60 OR set_ipv6_flow h"] room l4 by auto
  have f5: "same_outside p 4 m4 m5" "rd32 m5 p = Some (0x60 OR set_ipv6_flow h)"
    using f32.put_frame [OF _ m5] f32.get_put [OF _ m5] by simp_all
  have l5: "length m5 = length m" using same_outside_length [OF f5(1)] l4 by simp
  define m7 where "m7 = m5[p + 6 := ucast (protocol h), p + 7 := ucast (hop_limit h)]"
  have f7: "same_outside (p + 6) 2 m5 m7" by (simp add: m7_def same_outside_list_update)
  have "set_ipv6 h m p = Some m7"
    using sd w m3 m4 r4 m5 room l5
    by (simp add: set_ipv6_def GetByteArrayRegion_def access_ok m7_def)
  moreover have "same_outside p 40 m m7"
  proof -
    have "same_outside p 40 m m2" by (simp add: m1_def m2_def same_outside_list_update)
    moreover have "same_outside p 40 m2 m3" "same_outside p 40 m3 m4" "same_outside p 40 m4 m5"
      "same_outside p 40 m5 m7"
      using same_outside_mono [OF f3(1)] same_outside_mono [OF f4(1)] same_outside_mono [OF f5(1)]
        same_outside_mono [OF f7] by simp_all
    ultimately show ?thesis using same_outside_trans by blast
  qed
  moreover have "ipv6_on_wire h m7 p"
  proof -
    have "rd_bytes m7 (p + 8) 16 = Some (take 16 s)" "rd_bytes m7 (p + 24) 16 = Some (take 16 d)"
      "rd32 m7 p = Some (0x60 OR set_ipv6_flow h)"
      using r4(2) f4(2) f5(2) fbytes.get_frame [OF f5(1)] fbytes.get_frame [OF f7]
        f32.get_frame [OF f7, of p] by simp_all
    then show ?thesis
      using room l5 sd by (simp add: ipv6_on_wire_def access_ok m7_def nth_list_update)
  qed
  ultimately show ?thesis by blast
qed

lemma set_ipv6_fault:
  assumes "length m < p + 40"
  shows "set_ipv6 h m p = None"
proof (rule ccontr)
  assume "set_ipv6 h m p \<noteq> None"
  with assms show False
    by (auto simp: set_ipv6_def bind_eq_Some_conv wr8_def wr32_def split: if_splits
        dest!: GetByteArrayRegion_in_bounds)
qed

text \<open>The payload length at offset 4 may be written without touching the rest.\<close>

lemma ipv6_on_wire_frame:
  assumes "ipv6_on_wire h m p" and "same_outside q w m m'"
    and "q + w \<le> p \<or> p + 40 \<le> q \<or> p + 4 \<le> q \<and> q + w \<le> p + 6"
  shows "ipv6_on_wire h m' p"
  using assms(1,3) f8.get_frame [OF assms(2)] f32.get_frame [OF assms(2)]
    fbytes.get_frame [OF assms(2)] same_outside_length [OF assms(2)]
  by (auto simp: ipv6_on_wire_def)

interpretation ipv6_hdr: header_writer set_ipv6 ipv6_on_wire 40 ipv6_wf
  by unfold_locales (auto intro: set_ipv6_ok set_ipv6_fault dest: ipv6_on_wire_frame)

section \<open>Decoding\<close>

lemma ipv6_class_0: "ipv6_class flow = 0"
proof -
  have m: "(0x0ff00000 :: u32) = push_bit 20 (mask 8)" by (simp add: mask_eq_exp_minus_1)
  have "ucast (flow AND 0x0ff00000) = (0 :: jbyte)"
    unfolding m by (rule bit_word_eqI) (auto simp: bit_simps)
  then show ?thesis by (simp add: ipv6_class_def)
qed

lemma ipv6_flow_label_le32: "ipv6_flow_label (le32 a b c d) = le32 0 (c AND 0x0f) b a"
proof -
  have m: "(0x000fffff :: u32) = mask 20" "(0x0f :: u8) = mask 4" by (simp_all add: mask_eq_exp_minus_1)
  have "le32 a b c d AND 0x000fffff = le32 a b (c AND 0x0f) 0"
    unfolding m le32_def
    by (rule bit_word_eqI) (auto simp: bit_simps dest: bit_imp_le_length)
  then show ?thesis by (simp add: ipv6_flow_label_def)
qed

text \<open>The size of an extension header, from the object that records it (RFC 2460, RFC 4302).\<close>

definition ext_size :: "ipv6_option \<Rightarrow> nat" where
  "ext_size opt =
     (if v6_type opt = 44 then 8 else if v6_type opt = 51 then 4 * (unat (v6_hlen opt) + 2)
      else 8 * (unat (v6_hlen opt) + 1))"

lemma lo16_scast: "lo16 (scast (x :: u8)) = x"
proof (rule bit_word_eqI)
  fix n assume "n < LENGTH(8)"
  then have "n < 7 \<or> n = 7" by auto
  then show "bit (lo16 (scast x)) n \<longleftrightarrow> bit x n"
    by (elim disjE) (auto simp: lo16_def bit_simps min_def)
qed

lemma scast_inj: "(scast (x :: u8) :: u16) = scast y \<longleftrightarrow> x = y"
  by (metis lo16_scast)

lemma scast_proto_eq:
  "(scast (x :: u8) :: u16) = 0 \<longleftrightarrow> x = 0" "(scast (x :: u8) :: u16) = 60 \<longleftrightarrow> x = 60"
  "(scast (x :: u8) :: u16) = 43 \<longleftrightarrow> x = 43" "(scast (x :: u8) :: u16) = 44 \<longleftrightarrow> x = 44"
  "(scast (x :: u8) :: u16) = 51 \<longleftrightarrow> x = 51"
  using scast_inj [of x 0] scast_inj [of x 60] scast_inj [of x 43] scast_inj [of x 44]
    scast_inj [of x 51] by simp_all

lemma ext_header_iff: "ext_header proto \<longleftrightarrow> proto \<in> {0, 60, 43, 51, 44}"
  by (simp add: ext_header_def scast_proto_eq)

lemma ipv6_ext_size:
  "ipv6_ext m d proto = Some (opt, adv, h, nxt) \<Longrightarrow> ext_header proto \<Longrightarrow>
   h = ext_size opt \<and> v6_type opt = proto \<and> v6_next_header opt = nxt \<and>
   (proto \<noteq> 43 \<longrightarrow> adv = h)"
  by (auto simp: ipv6_ext_def ext_header_iff scast_proto_eq bind_eq_Some_conv Let_def setter_defs
      ext_size_def alloc_IPv6Option_def split: if_splits)

lemma ipv6_ext_loop_accounts:
  assumes "ipv6_ext_loop packet m d hlen proto = Some (q, n)"
  shows "\<exists>hs. ip_options (ip q) =
       (if hs = [] then ip_options (ip packet)
        else Some ((case ip_options (ip packet) of None \<Rightarrow> [] | Some xs \<Rightarrow> xs) @ hs)) \<and>
     n = hlen + sum_list (map ext_size hs) \<and> pkt_class q = pkt_class packet \<and>
     base q = base packet \<and>
     ip q\<lparr>ip_options := None\<rparr> = ip packet\<lparr>ip_options := None\<rparr> \<and>
     map v6_type hs @ [if hs = [] then proto else v6_next_header (last hs)] =
       proto # map v6_next_header hs \<and>
     \<not> ext_header (if hs = [] then proto else v6_next_header (last hs))"
  using assms
proof (induction packet m d hlen proto rule: ipv6_ext_loop.induct)
  case (1 packet m d hlen proto)
  show ?case
  proof (cases "ext_header proto")
    case True
    then obtain opt adv h nxt where e: "ipv6_ext m d proto = Some (opt, adv, h, nxt)"
      and c: "IsInstanceOf packet IPPacket"
      and l: "ipv6_ext_loop (packet\<lparr>ip := IPPacket_addOptionHeader opt (ip packet)\<rparr>) m (d + adv)
         (hlen + h) nxt = Some (q, n)"
      using "1.prems" by (auto simp: ipv6_ext_loop.simps [of packet] bind_eq_Some_conv
          CallVoidMethod_def split: if_splits)
    let ?p = "packet\<lparr>ip := IPPacket_addOptionHeader opt (ip packet)\<rparr>"
    obtain hs where hs: "ip_options (ip q) = (if hs = [] then ip_options (ip ?p)
        else Some ((case ip_options (ip ?p) of None \<Rightarrow> [] | Some xs \<Rightarrow> xs) @ hs))"
      "n = hlen + h + sum_list (map ext_size hs)" "pkt_class q = pkt_class ?p"
      "base q = base ?p"
      "ip q\<lparr>ip_options := None\<rparr> = ip ?p\<lparr>ip_options := None\<rparr>"
      "map v6_type hs @ [if hs = [] then nxt else v6_next_header (last hs)] =
        nxt # map v6_next_header hs"
      "\<not> ext_header (if hs = [] then nxt else v6_next_header (last hs))"
      using "1.IH" [OF True e refl refl refl, of ?p] c l by (auto simp: CallVoidMethod_def)
    show ?thesis
      using hs ipv6_ext_size [OF e True]
      by (intro exI [of _ "opt # hs"]) (auto simp: IPPacket_addOptionHeader_def split: option.splits)
  next
    case False
    then show ?thesis
      using "1.prems" by (intro exI [of _ "[]"]) (simp add: ipv6_ext_loop.simps [of packet])
  qed
qed

text \<open>The fixed header, decoded.\<close>

definition ipv6_decoded :: "mem \<Rightarrow> nat \<Rightarrow> ip_fields \<Rightarrow> ip_fields" where
  "ipv6_decoded m p h =
     IPPacket_setIPv6Value 6 0 (le32 0 (m ! (p + 2) AND 0x0f) (m ! (p + 1)) (m ! p))
       (le16 (m ! (p + 5)) (m ! (p + 4))) (m ! (p + 6)) (ucast (m ! (p + 7)))
       (take 16 (drop (p + 8) m)) (take 16 (drop (p + 24) m)) h"

lemma analyze_ipv6_eq:
  assumes "p + 40 \<le> length m" and "IsInstanceOf packet IPPacket"
  shows "analyze_ipv6 packet m p =
     map_option (\<lambda>(q, n). (q, of_nat n))
       (ipv6_ext_loop (packet\<lparr>ip := ipv6_decoded m p (ip packet)\<rparr>) m (p + 40) 40 (m ! (p + 6)))"
proof -
  have "(do { (q, n) \<leftarrow> x; Some (q, of_nat n) }) = map_option (\<lambda>(q, n). (q, of_nat n :: u16)) x"
    for x :: "(jpacket \<times> nat) option"
    by (cases x) auto
  with assms show ?thesis
    by (simp add: analyze_ipv6_def access_ok rd_bytes_def CallVoidMethod_def ipv6_class_0
        ipv6_flow_label_le32 ipv6_decoded_def add.commute)
qed

lemma analyze_ipv6_None:
  assumes "length m < p + 40"
  shows "analyze_ipv6 packet m p = None"
  using assms by (auto simp: analyze_ipv6_def rd_bytes_def)

section \<open>Properties\<close>

text \<open>
  C25: the extension headers \<open>analyze_ipv6\<close> records form the chain announced by the next-header
  fields: the first has the type of the fixed header's next header, each following one the type the
  previous announces, the chain ends at a protocol that is no extension header, and the returned
  header length is 40 plus the sizes of the recorded headers, taken modulo 65536.
\<close>

theorem analyze_ipv6_header_chain:
  assumes "analyze_ipv6 packet m p = Some (q, n)" and "IsInstanceOf packet IPPacket"
    and "ip_options (ip packet) = None"
  shows "\<exists>hs. ip_options (ip q) = (if hs = [] then None else Some hs) \<and>
     n = of_nat (40 + sum_list (map ext_size hs)) \<and>
     map v6_type hs @ [if hs = [] then m ! (p + 6) else v6_next_header (last hs)] =
       m ! (p + 6) # map v6_next_header hs \<and>
     \<not> ext_header (if hs = [] then m ! (p + 6) else v6_next_header (last hs))"
proof -
  have "p + 40 \<le> length m"
    using assms(1) analyze_ipv6_None [of m p packet] by (cases "length m < p + 40") simp_all
  then obtain k where k: "ipv6_ext_loop (packet\<lparr>ip := ipv6_decoded m p (ip packet)\<rparr>) m (p + 40) 40
      (m ! (p + 6)) = Some (q, k)" "n = of_nat k"
    using assms(1,2) analyze_ipv6_eq by auto
  have "ip_options (ipv6_decoded m p (ip packet)) = None"
    using assms(3)
    by (auto simp: ipv6_decoded_def IPPacket_setIPv6Value_def set_addresses_def split: option.splits)
  then have none: "ip_options (ip (packet\<lparr>ip := ipv6_decoded m p (ip packet)\<rparr>)) = None" by simp
  show ?thesis
    using ipv6_ext_loop_accounts [OF k(1)] unfolding none k(2) option.case append_Nil by blast
qed

theorem analyze_ipv6_header_chain_witness:
  "let m = [0x60, 0, 0, 0, 0, 8, 0, 64, 1, 1, 1, 1, 1, 1, 1, 1, 1, 1, 1, 1, 1, 1, 1, 1,
            2, 2, 2, 2, 2, 2, 2, 2, 2, 2, 2, 2, 2, 2, 2, 2, 6, 0, 1, 4, 0, 0, 0, 0];
       r = the (analyze_ipv6 (AllocObject IPPacket) m 0); q = fst r; n = snd r in
   \<exists>hs. ip_options (ip q) = (if hs = [] then None else Some hs) \<and>
     n = of_nat (40 + sum_list (map ext_size hs)) \<and>
     map v6_type hs @ [if hs = [] then m ! (0 + 6) else v6_next_header (last hs)] =
       m ! (0 + 6) # map v6_next_header hs \<and>
     \<not> ext_header (if hs = [] then m ! (0 + 6) else v6_next_header (last hs))"
  unfolding Let_def
  by (rule analyze_ipv6_header_chain [where packet = "AllocObject IPPacket"])
     (simp_all add: analyze_ipv6_eq ipv6_ext_loop.simps ext_header_iff ipv6_ext_def scast_proto_eq
       access_ok rd_bytes_def CallVoidMethod_def AllocObject_def alloc_ip_def)

text \<open>
  A header written by \<open>set_ipv6\<close> for two proper IPv6 addresses is decoded by \<open>analyze_ipv6\<close> with
  version 6, the same addresses, the low byte of the hop limit and of the protocol and a header
  length of 40; the traffic class, however, is decoded as zero whatever was written, because the cast
  to \<open>jbyte\<close> is applied before the shift.
\<close>

theorem set_ipv6_analyze_ipv6:
  assumes "src_ip h = Some s" and "dst_ip h = Some d" and "length s = 16" and "length d = 16"
    and "\<not> ipv4_mapped s" and "\<not> ipv4_mapped d" and "p + 40 \<le> length m"
    and "IsInstanceOf packet IPPacket" and "\<not> ext_header (ucast (protocol h))"
  shows "\<exists>m' q. set_ipv6 h m p = Some m' \<and> same_outside p 40 m m' \<and>
     analyze_ipv6 packet m' p = Some (q, 40) \<and> version (ip q) = 6 \<and> priority (ip q) = 0 \<and>
     src_ip (ip q) = src_ip h \<and> dst_ip (ip q) = dst_ip h \<and>
     hop_limit (ip q) = ucast (ucast (hop_limit h) :: u8) \<and>
     protocol (ip q) = scast (ucast (protocol h) :: u8)"
proof -
  obtain m' where m': "set_ipv6 h m p = Some m'" "same_outside p 40 m m'" "ipv6_on_wire h m' p"
    using set_ipv6_ok [of h p m] assms(1-4,7) by (auto simp: ipv6_wf_def)
  have len: "p + 40 \<le> length m'" using m'(2) assms(7) by (simp add: same_outside_def)
  have b: "m' ! (p + 6) = ucast (protocol h)" "m' ! (p + 7) = ucast (hop_limit h)"
    "take 16 (drop (p + 8) m') = s" "take 16 (drop (p + 24) m') = d"
    using m'(3) len assms(1-4) by (simp_all add: ipv6_on_wire_def access_ok rd_bytes_def)
  have "analyze_ipv6 packet m' p = Some (packet\<lparr>ip := ipv6_decoded m' p (ip packet)\<rparr>, 40)"
    using analyze_ipv6_eq [OF len assms(8)] assms(9) b(1) by (simp add: ipv6_ext_loop.simps)
  with m' show ?thesis
    using assms(1-6)
    by (simp add: ipv6_decoded_def b setter_defs set_addresses_def getByAddress_def)
qed

theorem set_ipv6_analyze_ipv6_witness:
  "let s = replicate 16 1; d = replicate 16 2;
       h = alloc_ip\<lparr>src_ip := Some s, dst_ip := Some d, priority := 7, protocol := 6\<rparr> in
   \<exists>m' q. set_ipv6 h (replicate 40 0) 0 = Some m' \<and> same_outside 0 40 (replicate 40 0) m' \<and>
     analyze_ipv6 (AllocObject IPPacket) m' 0 = Some (q, 40) \<and> version (ip q) = 6 \<and>
     priority (ip q) = 0 \<and>
     src_ip (ip q) = src_ip h \<and> dst_ip (ip q) = dst_ip h \<and>
     hop_limit (ip q) = ucast (ucast (hop_limit h) :: u8) \<and>
     protocol (ip q) = scast (ucast (protocol h) :: u8)"
  unfolding Let_def
  by (rule set_ipv6_analyze_ipv6 [where s = "replicate 16 1" and d = "replicate 16 2"])
     code_simp+

end
