(* ===== verification/Jpcap_Sender.thy ===== *)
theory Jpcap_Sender
  imports Packet_Tcp Packet_Udp Packet_Icmp Packet_Arp Packet_Datalink Packet_Ipv6
begin

text \<open>
  The sending path of \<open>JpcapSender.c\<close>: \<open>set_packet\<close> lays the headers of a packet object out in the send
  buffer, \<open>nativeSendPacket\<close> and \<open>nativeSendPacketViaRawSocket\<close> send the buffer. The send buffer is the
  uninitialised array \<open>buf[MAX_PACKET_SIZE]\<close>; its contents are a parameter.
\<close>

section \<open>set\_packet\<close>

text \<open>Protocol and length of the network header; \<open>ip_len\<close> and \<open>ip6_plen\<close> are stored in host order.\<close>

definition store_proto_len :: "jbyte \<Rightarrow> mem \<Rightarrow> nat \<Rightarrow> u8 \<Rightarrow> int \<Rightarrow> mem option" where
  "store_proto_len ver m iph proto len =
     (if ver = 4 then do {
        m \<leftarrow> wr8 m (iph + ip_p) proto;
        wr16 m (iph + ip_len) (word_of_int len)
      }
      else do {
        m \<leftarrow> wr8 m (iph + ip6_nxt) proto;
        wr16 m (iph + ip6_plen) (word_of_int len)
      })"

text \<open>The network header; the result is the buffer and its length.\<close>

definition set_network :: "jpacket \<Rightarrow> mem \<Rightarrow> nat \<Rightarrow> (mem \<times> nat) option" where
  "set_network packet m iph =
     (if version (ip packet) = 4
      then do { m \<leftarrow> set_ip (ip packet) m iph; Some (m, IPv4HDRLEN) }
      else do { m \<leftarrow> set_ipv6 (ip packet) m iph; Some (m, 40) })"

text \<open>The transport layer of an IP packet, behind a network header of \<open>nl\<close> bytes at \<open>iph\<close>.\<close>

definition set_transport ::
  "jpacket \<Rightarrow> mem \<Rightarrow> nat \<Rightarrow> nat \<Rightarrow> u8 list option \<Rightarrow> int \<Rightarrow> (mem \<times> int) option" where
  "set_transport packet m iph nl data len =
     (let p = iph + nl; ver = version (ip packet) in
      if IsInstanceOf packet TCPPacket then do {
        let len = len + int TCPHDRLEN;
        m \<leftarrow> store_proto_len ver m iph (ucast IPPROTO_TCP) len;
        m \<leftarrow> set_tcp packet m p data iph;
        Some (m, len)
      }
      else if IsInstanceOf packet UDPPacket then do {
        let len = len + int UDPHDRLEN;
        m \<leftarrow> store_proto_len ver m iph (ucast IPPROTO_UDP) len;
        m \<leftarrow> set_udp packet m p data iph;
        Some (m, len)
      }
      else if IsInstanceOf packet ICMPPacket then do {
        (m, n) \<leftarrow> set_icmp (icmp packet) m p data;
        let len = len + n;
        m \<leftarrow> store_proto_len ver m iph (ucast IPPROTO_ICMP) len;
        Some (m, len)
      }
      else if ver = 4 then do {
        m \<leftarrow> wr8 m (iph + ip_p) (ucast (protocol (ip packet)));
        m \<leftarrow> wr16 m (iph + ip_len) (word_of_int len);
        m \<leftarrow> GetByteArrayRegion data (nat (len - int IPv4HDRLEN)) m p;
        Some (m, len)
      }
      else do {
        m \<leftarrow> wr16 m (iph + ip6_plen) (word_of_int len);
        m \<leftarrow> GetByteArrayRegion data (nat (len - 40)) m p;
        Some (m, len)
      })"

text \<open>The last statements for IPv4: byte order of length and fragment field, checksum.\<close>

definition finish_ipv4 :: "mem \<Rightarrow> nat \<Rightarrow> mem option" where
  "finish_ipv4 m iph = do {
     v \<leftarrow> rd16 m (iph + ip_len);
     m \<leftarrow> wr16 m (iph + ip_len) (htons v);
     v \<leftarrow> rd16 m (iph + ip_off);
     m \<leftarrow> wr16 m (iph + ip_off) (htons v);
     store_cksum m iph ip_sum 20
   }"

definition set_ip_packet :: "jpacket \<Rightarrow> mem \<Rightarrow> nat \<Rightarrow> (mem \<times> int) option" where
  "set_ip_packet packet m iph = do {
     let data = pkt_data packet;
     let len = int (data_len data);
     (m, nl) \<leftarrow> set_network packet m iph;
     (m, len) \<leftarrow> set_transport packet m iph nl data (len + int nl);
     m \<leftarrow> (if version (ip packet) = 4 then finish_ipv4 m iph else Some m);
     Some (m, len)
   }"

definition set_packet :: "jpacket \<Rightarrow> mem \<Rightarrow> bool \<Rightarrow> (mem \<times> int) option" where
  "set_packet packet m include_datalink = do {
     (m, dthlen) \<leftarrow> (if include_datalink then set_ether packet m 0 else Some (m, 0));
     let data = pkt_data packet;
     (m, len) \<leftarrow>
       (if IsInstanceOf packet IPPacket then set_ip_packet packet m dthlen
        else if IsInstanceOf packet ARPPacket then do {
          (m, n) \<leftarrow> set_arp (arp packet) m dthlen;
          Some (m, int (data_len data) + int n)
        }
        else do {
          m \<leftarrow> GetByteArrayRegion data (data_len data) m dthlen;
          Some (m, int (data_len data))
        });
     Some (m, len + int dthlen)
   }"

section \<open>Sending\<close>

text \<open>The outcome of a native call that may raise a Java exception.\<close>

datatype 'a native = IOException string | Sent 'a | Fault

text \<open>
  \<open>nativeSendPacket\<close>: short frames are padded to the Ethernet minimum; \<open>memset\<close> clears one byte more
  than the padding. \<open>pcap_sendpacket\<close> is the library call, \<open>errbuf\<close> the message of this instance; the
  bytes handed to the library are the result.
\<close>

definition pad_frame :: "mem \<Rightarrow> int \<Rightarrow> (mem \<times> int) option" where
  "pad_frame m len =
     (if len < 60
      then (if 0 \<le> len then do {
              m \<leftarrow> wr_bytes m (nat len) (replicate (nat (60 - len + 1)) 0);
              Some (m, 60)
            }
            else None)
      else Some (m, len))"

definition nativeSendPacket ::
  "bool \<Rightarrow> (u8 list \<Rightarrow> int) \<Rightarrow> string \<Rightarrow> mem \<Rightarrow> jpacket \<Rightarrow> u8 list native" where
  "nativeSendPacket is_open pcap_sendpacket errbuf buf packet =
     (if \<not> is_open then IOException ''Another JpcapSender instance is being used.''
      else (case do {
              (m, len) \<leftarrow> set_packet packet buf True;
              (m, len) \<leftarrow> pad_frame m len;
              rd_bytes m 0 (nat len)
            } of
              None \<Rightarrow> Fault
            | Some frame \<Rightarrow> if pcap_sendpacket frame < 0 then IOException errbuf else Sent frame))"

text \<open>
  \<open>nativeSendPacketViaRawSocket\<close>: the destination is read from the buffer as an IPv4 address. The
  result is what \<open>sendto\<close> gets.
\<close>

definition nativeSendPacketViaRawSocket ::
  "bool \<Rightarrow> (u8 list \<times> u8 list \<Rightarrow> int) \<Rightarrow> mem \<Rightarrow> jpacket \<Rightarrow> (u8 list \<times> u8 list) native" where
  "nativeSendPacketViaRawSocket is_open sendto buf packet =
     (if \<not> IsInstanceOf packet IPPacket then IOException ''seinding non-IP packet is not supported''
      else if \<not> is_open then IOException ''socket not initialized yet''
      else (case do {
              (m, len) \<leftarrow> set_packet packet buf False;
              dest \<leftarrow> rd_bytes m ip_dst 4;
              bs \<leftarrow> (if 0 \<le> len then rd_bytes m 0 (nat len) else None);
              Some (bs, dest)
            } of
              None \<Rightarrow> Fault
            | Some (bs, dest) \<Rightarrow>
                if sendto (bs, dest) < 0 then IOException ''sendto error'' else Sent (bs, dest)))"

section \<open>Assembling an IPv4 packet\<close>

lemma in_cksum2_cong:
  assumes "length m' = length m" and "iph + 20 \<le> p" and "p + sz \<le> length m" and "sz \<le> 131060"
    and "\<And>i. iph + 12 \<le> i \<Longrightarrow> i < length m \<Longrightarrow> m' ! i = m ! i" and "m' ! (iph + 9) = m ! (iph + 9)"
  shows "in_cksum2 m' iph len p sz = in_cksum2 m iph len p sz"
proof -
  have "pseudo_words m' iph len = pseudo_words m iph len"
    using assms by (auto simp: pseudo_words_def intro!: words_local)
  moreover have "words m' p (sz div 2) = words m p (sz div 2)"
    using assms by (intro words_local) auto
  moreover have "tail_words m' p sz = tail_words m p sz"
    using assms by (auto simp: tail_words_def)
  ultimately show ?thesis
    using in_cksum2_eq [of iph m p sz len] in_cksum2_eq [of iph m' p sz len] assms(1-4) by simp
qed

lemma store_proto_len_ok:
  assumes "iph + 20 \<le> length m"
  shows "\<exists>m'. store_proto_len 4 m iph proto len = Some m' \<and> same_outside (iph + 2) 8 m m' \<and>
     rd8 m' (iph + 9) = Some proto \<and> rd16 m' (iph + 2) = Some (word_of_int len) \<and>
     rd16 m' (iph + 6) = rd16 m (iph + 6) \<and>
     (\<forall>h. ip_on_wire h m iph \<longrightarrow> ip_on_wire h m' iph)"
proof -
  obtain m1 where m1: "wr8 m (iph + 9) proto = Some m1"
    using f8.put_in_bounds [where p = "iph + 9" and m = m and v = proto] assms by auto
  have f1: "same_outside (iph + 9) 1 m m1" "rd8 m1 (iph + 9) = Some proto" "length m1 = length m"
    using f8.put_frame [OF _ m1] f8.get_put [OF _ m1] f8.put_length [OF _ m1] by simp_all
  obtain m2 where m2: "wr16 m1 (iph + 2) (word_of_int len) = Some m2"
    using f16.put_in_bounds [where p = "iph + 2" and m = m1 and v = "word_of_int len"] assms f1(3) by auto
  have f2: "same_outside (iph + 2) 2 m1 m2" "rd16 m2 (iph + 2) = Some (word_of_int len)"
    using f16.put_frame [OF _ m2] f16.get_put [OF _ m2] by simp_all
  have "store_proto_len 4 m iph proto len = Some m2"
    using m1 m2 by (simp add: store_proto_len_def)
  moreover have "same_outside (iph + 2) 8 m m2"
    using same_outside_trans same_outside_mono [OF f1(1), of "iph + 2" 8]
      same_outside_mono [OF f2(1), of "iph + 2" 8] by simp
  moreover have "ip_on_wire h m2 iph" if "ip_on_wire h m iph" for h
    using ip_on_wire_frame [OF ip_on_wire_frame [OF that f1(1)] f2(1)] by simp
  moreover have "rd8 m2 (iph + 9) = Some proto" "rd16 m2 (iph + 6) = rd16 m (iph + 6)"
    using f8.get_frame [OF f2(1), of "iph + 9"] f1(2) f16.get_frame [OF f2(1), of "iph + 6"]
      f16.get_frame [OF f1(1), of "iph + 6"] by simp_all
  ultimately show ?thesis using f2(2) by blast
qed

lemma finish_ipv4_ok:
  assumes "ip_on_wire h m iph" and "rd16 m (iph + 2) = Some v" and "rd16 m (iph + 6) = Some w"
  shows "\<exists>m'. finish_ipv4 m iph = Some m' \<and> same_outside (iph + 2) 10 m m' \<and> ip_on_wire h m' iph \<and>
     rd16 m' (iph + 2) = Some (htons v) \<and> rd16 m' (iph + 6) = Some (htons w) \<and>
     rd8 m' (iph + 9) = rd8 m (iph + 9) \<and> in_cksum m' iph 20 = Some 0"
proof -
  have room: "iph + 20 \<le> length m" using assms(1) by (simp add: ip_on_wire_def)
  obtain m1 where m1: "wr16 m (iph + 2) (htons v) = Some m1"
    using f16.put_in_bounds [where p = "iph + 2" and m = m and v = "htons v"] room by auto
  have f1: "same_outside (iph + 2) 2 m m1" "rd16 m1 (iph + 2) = Some (htons v)" "length m1 = length m"
    using f16.put_frame [OF _ m1] f16.get_put [OF _ m1] f16.put_length [OF _ m1] by simp_all
  have r1: "rd16 m1 (iph + 6) = Some w" using f16.get_frame [OF f1(1), of "iph + 6"] assms(3) by simp
  obtain m2 where m2: "wr16 m1 (iph + 6) (htons w) = Some m2"
    using f16.put_in_bounds [where p = "iph + 6" and m = m1 and v = "htons w"] room f1(3) by auto
  have f2: "same_outside (iph + 6) 2 m1 m2" "rd16 m2 (iph + 6) = Some (htons w)" "length m2 = length m"
    using f16.put_frame [OF _ m2] f16.get_put [OF _ m2] f16.put_length [OF _ m2] f1(3) by simp_all
  obtain m3 where m3: "store_cksum m2 iph 10 20 = Some m3" "same_outside (iph + 10) 2 m2 m3"
    "in_cksum m3 iph 20 = Some 0"
    using store_cksum_even [of 20 iph m2 10] room f2(3) by auto
  have "finish_ipv4 m iph = Some m3"
    using assms(2) m1 r1 m2 m3(1) by (simp add: finish_ipv4_def)
  moreover have "same_outside (iph + 2) 10 m m3"
    using same_outside_trans [OF same_outside_trans, of "iph + 2" 10 m m1 m2 m3]
      same_outside_mono [OF f1(1)] same_outside_mono [OF f2(1)] same_outside_mono [OF m3(2)] by simp
  moreover have "ip_on_wire h m3 iph"
    using ip_on_wire_frame [OF ip_on_wire_frame [OF ip_on_wire_frame [OF assms(1) f1(1)] f2(1)] m3(2)]
    by simp
  moreover have "rd16 m3 (iph + 2) = Some (htons v)" "rd16 m3 (iph + 6) = Some (htons w)"
    "rd8 m3 (iph + 9) = rd8 m (iph + 9)"
    using f1(2) f2(2) f16.get_frame [OF f2(1), of "iph + 2"] f16.get_frame [OF m3(2), of "iph + 2"]
      f16.get_frame [OF m3(2), of "iph + 6"] f8.get_frame [OF f1(1), of "iph + 9"]
      f8.get_frame [OF f2(1), of "iph + 9"] f8.get_frame [OF m3(2), of "iph + 9"] by simp_all
  ultimately show ?thesis using m3(3) by blast
qed

text \<open>
  The contract of a transport writer (\<open>set_tcp\<close>, \<open>set_udp\<close>) towards \<open>set_packet\<close>: with room for a header
  of \<open>hl\<close> bytes and the data, cut at \<open>limit\<close>, it writes exactly those bytes and leaves a segment whose
  checksum verifies; without room it faults. What \<open>set_packet\<close> builds around it is proved once.
\<close>

locale segment_writer =
  fixes set_seg :: "jpacket \<Rightarrow> mem \<Rightarrow> nat \<Rightarrow> u8 list option \<Rightarrow> nat \<Rightarrow> mem option"
    and seg_on_wire :: "jpacket \<Rightarrow> nat \<Rightarrow> mem \<Rightarrow> nat \<Rightarrow> bool"
    and hl :: nat
    and limit :: nat
  assumes seg_ok: "iph + 20 \<le> p \<Longrightarrow> length bs \<le> limit \<Longrightarrow> p + hl + length bs \<le> length m \<Longrightarrow>
      \<exists>m'. set_seg packet m p (Some bs) iph = Some m' \<and> same_outside p (hl + length bs) m m' \<and>
        seg_on_wire packet (length bs) m' p \<and> rd_bytes m' (p + hl) (length bs) = Some bs \<and>
        in_cksum2 m' iph (htons (of_nat (length bs + hl))) p (length bs + hl) = Some 0"
    and seg_fault: "length m < p + hl + min (length bs) limit \<Longrightarrow>
      set_seg packet m p (Some bs) iph = None"
    and seg_frame: "seg_on_wire packet n m p \<Longrightarrow> same_outside q w m m' \<Longrightarrow> q + w \<le> p \<Longrightarrow>
      seg_on_wire packet n m' p"
    and seg_limit: "hl + limit = 1580"
begin

lemma assemble_ipv4:
  assumes wf: "ip_wf h" and room: "iph + 20 + hl + length bs \<le> length m" and fit: "length bs \<le> limit"
  shows "\<exists>m1 m2 m3 m'. set_ip h m iph = Some m1 \<and> store_proto_len 4 m1 iph proto len = Some m2 \<and>
     set_seg packet m2 (iph + 20) (Some bs) iph = Some m3 \<and> finish_ipv4 m3 iph = Some m' \<and>
     same_outside iph (20 + hl + length bs) m m' \<and> ip_on_wire h m' iph \<and>
     rd8 m' (iph + 9) = Some proto \<and> rd16 m' (iph + 2) = Some (htons (word_of_int len)) \<and>
     rd16 m' (iph + 6) = Some (htons (set_ip_off h)) \<and> in_cksum m' iph 20 = Some 0 \<and>
     seg_on_wire packet (length bs) m' (iph + 20) \<and>
     rd_bytes m' (iph + 20 + hl) (length bs) = Some bs \<and>
     in_cksum2 m' iph (htons (of_nat (length bs + hl))) (iph + 20) (length bs + hl) = Some 0"
proof -
  obtain m1 where m1: "set_ip h m iph = Some m1" "same_outside iph 20 m m1" "ip_on_wire h m1 iph"
    "rd16 m1 (iph + 6) = Some (set_ip_off h)"
    using set_ip_ok [OF wf, of iph m] room by auto
  obtain m2 where m2: "store_proto_len 4 m1 iph proto len = Some m2" "same_outside (iph + 2) 8 m1 m2"
    "rd8 m2 (iph + 9) = Some proto" "rd16 m2 (iph + 2) = Some (word_of_int len)"
    "rd16 m2 (iph + 6) = Some (set_ip_off h)" "ip_on_wire h m2 iph"
    using store_proto_len_ok [of iph m1 proto len] m1(3,4) room same_outside_length [OF m1(2)] by auto
  have l2: "length m2 = length m"
    using same_outside_length [OF m1(2)] same_outside_length [OF m2(2)] by simp
  obtain m3 where m3: "set_seg packet m2 (iph + 20) (Some bs) iph = Some m3"
    "same_outside (iph + 20) (hl + length bs) m2 m3" "seg_on_wire packet (length bs) m3 (iph + 20)"
    "rd_bytes m3 (iph + 20 + hl) (length bs) = Some bs"
    "in_cksum2 m3 iph (htons (of_nat (length bs + hl))) (iph + 20) (length bs + hl) = Some 0"
    using seg_ok [of iph "iph + 20" bs m2 packet] fit room l2 by auto
  have w3: "ip_on_wire h m3 iph" "rd16 m3 (iph + 2) = Some (word_of_int len)"
    "rd16 m3 (iph + 6) = Some (set_ip_off h)" "rd8 m3 (iph + 9) = Some proto"
    using ip_on_wire_frame [OF m2(6) m3(2)] f16.get_frame [OF m3(2), of "iph + 2"] m2(3-5)
      f16.get_frame [OF m3(2), of "iph + 6"] f8.get_frame [OF m3(2), of "iph + 9"] by simp_all
  obtain m4 where m4: "finish_ipv4 m3 iph = Some m4" "same_outside (iph + 2) 10 m3 m4"
    "ip_on_wire h m4 iph" "rd16 m4 (iph + 2) = Some (htons (word_of_int len))"
    "rd16 m4 (iph + 6) = Some (htons (set_ip_off h))" "rd8 m4 (iph + 9) = rd8 m3 (iph + 9)"
    "in_cksum m4 iph 20 = Some 0"
    using finish_ipv4_ok [OF w3(1-3)] by blast
  have l3: "length m3 = length m" "length m4 = length m3"
    using same_outside_length [OF m3(2)] same_outside_length [OF m4(2)] l2 by simp_all
  let ?n = "20 + hl + length bs"
  have "same_outside iph ?n m m1" "same_outside iph ?n m1 m2" "same_outside iph ?n m2 m3"
    "same_outside iph ?n m3 m4"
    using same_outside_mono [OF m1(2)] same_outside_mono [OF m2(2)] same_outside_mono [OF m3(2)]
      same_outside_mono [OF m4(2)] by simp_all
  then have "same_outside iph ?n m m4" using same_outside_trans by blast
  moreover have "seg_on_wire packet (length bs) m4 (iph + 20)"
    using seg_frame [OF m3(3) m4(2)] by simp
  moreover have "rd_bytes m4 (iph + 20 + hl) (length bs) = Some bs"
    using fbytes.get_frame [OF m4(2), of "iph + 20 + hl" "length bs"] m3(4) by simp
  moreover have "in_cksum2 m4 iph (htons (of_nat (length bs + hl))) (iph + 20) (length bs + hl) =
      in_cksum2 m3 iph (htons (of_nat (length bs + hl))) (iph + 20) (length bs + hl)"
  proof (rule in_cksum2_cong [OF l3(2)])
    show "m4 ! (iph + 9) = m3 ! (iph + 9)"
      using m4(6) room l3 by (simp add: rd8_def split: if_splits)
    show "m4 ! i = m3 ! i" if "iph + 12 \<le> i" "i < length m3" for i
      using same_outside_nth [OF m4(2) that(2)] that(1) by simp
  qed (use room l3 fit seg_limit in auto)
  ultimately show ?thesis
    using m1(1) m2(1) m3(1,5) m4 w3(4) by (intro exI [of _ m1] exI [of _ m2] exI [of _ m3] exI [of _ m4]) simp
qed

text \<open>A segment that does not fit behind the network header is a buffer overflow.\<close>

lemma assemble_overflow:
  assumes "length m < iph + 20 + hl + min (length bs) limit" and "length m2 = length m"
  shows "set_seg packet m2 (iph + 20) (Some bs) iph = None"
  using seg_fault [of m2 "iph + 20" bs packet iph] assms by simp

end

interpretation tcp_seg: segment_writer set_tcp "\<lambda>packet n. tcp_on_wire (tcp packet)" 20 1560
proof unfold_locales
  fix iph p :: nat and bs m :: mem and packet :: jpacket
  assume "iph + 20 \<le> p" "length bs \<le> 1560" "p + 20 + length bs \<le> length m"
  then show "\<exists>m'. set_tcp packet m p (Some bs) iph = Some m' \<and> same_outside p (20 + length bs) m m' \<and>
      tcp_on_wire (tcp packet) m' p \<and> rd_bytes m' (p + 20) (length bs) = Some bs \<and>
      in_cksum2 m' iph (htons (of_nat (length bs + 20))) p (length bs + 20) = Some 0"
    using set_tcp_ok [of iph p bs m packet] by (simp add: min_def)
next
  show "tcp_on_wire (tcp packet) m' p"
    if "tcp_on_wire (tcp packet) m p" "same_outside q w m m'" "q + w \<le> p" for packet m p q w m'
    using tcp_on_wire_frame [OF that(1,2)] that(3) by blast
qed (simp_all add: set_tcp_fault)

interpretation udp_seg: segment_writer set_udp "\<lambda>packet n. udp_on_wire (udp packet, n)" 8 1572
proof unfold_locales
  fix iph p :: nat and bs m :: mem and packet :: jpacket
  assume "iph + 20 \<le> p" "length bs \<le> 1572" "p + 8 + length bs \<le> length m"
  then show "\<exists>m'. set_udp packet m p (Some bs) iph = Some m' \<and> same_outside p (8 + length bs) m m' \<and>
      udp_on_wire (udp packet, length bs) m' p \<and> rd_bytes m' (p + 8) (length bs) = Some bs \<and>
      in_cksum2 m' iph (htons (of_nat (length bs + 8))) p (length bs + 8) = Some 0"
    using set_udp_ok [of iph p bs m packet] by (simp add: min_def, blast)
next
  show "udp_on_wire (udp packet, n) m' p"
    if "udp_on_wire (udp packet, n) m p" "same_outside q w m m'" "q + w \<le> p" for packet n m p q w m'
    using udp_on_wire_frame [OF that(1,2)] that(3) by blast
qed (simp_all add: set_udp_fault)

section \<open>TCP and UDP packets over IPv4\<close>

text \<open>An IPv4 packet with a transport header of \<open>hl\<close> bytes at \<open>iph\<close>, ready to be sent.\<close>

definition ipv4_sent :: "ip_fields \<Rightarrow> u8 \<Rightarrow> nat \<Rightarrow> u8 list \<Rightarrow> mem \<Rightarrow> nat \<Rightarrow> bool" where
  "ipv4_sent h proto hl bs m iph \<longleftrightarrow>
     ip_on_wire h m iph \<and> rd8 m (iph + ip_p) = Some proto \<and>
     rd16 m (iph + ip_len) = Some (htons (of_nat (20 + hl + length bs))) \<and>
     rd16 m (iph + ip_off) = Some (htons (set_ip_off h)) \<and>
     in_cksum m iph 20 = Some 0 \<and>
     rd_bytes m (iph + 20 + hl) (length bs) = Some bs \<and>
     in_cksum2 m iph (htons (of_nat (length bs + hl))) (iph + 20) (length bs + hl) = Some 0"

lemma set_ip_packet_tcp:
  assumes "pkt_class packet = TCPPacket" and "version (ip packet) = 4" and "ip_wf (ip packet)"
    and "pkt_data packet = Some bs" and "length bs \<le> 1560" and "iph + 40 + length bs \<le> length m"
  shows "\<exists>m'. set_ip_packet packet m iph = Some (m', 40 + int (length bs)) \<and>
     same_outside iph (40 + length bs) m m' \<and> ipv4_sent (ip packet) 6 20 bs m' iph \<and>
     tcp_on_wire (tcp packet) m' (iph + 20)"
proof -
  have room: "iph + 20 + 20 + length bs \<le> length m" using assms(6) by simp
  let ?len = "40 + int (length bs)"
  obtain m1 m2 m3 m' where st: "set_ip (ip packet) m iph = Some m1"
     "store_proto_len 4 m1 iph 6 ?len = Some m2"
     "set_tcp packet m2 (iph + 20) (Some bs) iph = Some m3" "finish_ipv4 m3 iph = Some m'"
    and r: "same_outside iph (20 + 20 + length bs) m m'" "ip_on_wire (ip packet) m' iph"
     "rd8 m' (iph + 9) = Some 6" "rd16 m' (iph + 2) = Some (htons (word_of_int ?len))"
     "rd16 m' (iph + 6) = Some (htons (set_ip_off (ip packet)))" "in_cksum m' iph 20 = Some 0"
     "tcp_on_wire (tcp packet) m' (iph + 20)" "rd_bytes m' (iph + 20 + 20) (length bs) = Some bs"
     "in_cksum2 m' iph (htons (of_nat (length bs + 20))) (iph + 20) (length bs + 20) = Some 0"
    using tcp_seg.assemble_ipv4 [OF assms(3) room assms(5), of 6 ?len packet] by blast
  have w: "word_of_int ?len = (of_nat (20 + 20 + length bs) :: u16)" by simp
  have "set_ip_packet packet m iph = Some (m', 40 + int (length bs))"
    using st assms(1,2,4)
    by (simp add: set_ip_packet_def set_network_def set_transport_def data_len_def Let_def)
  moreover have "ipv4_sent (ip packet) 6 20 bs m' iph"
    using r(2-6,8,9) unfolding ipv4_sent_def w ip_p_def ip_len_def ip_off_def by blast
  ultimately show ?thesis using r(1,7) by auto
qed

lemma set_ip_packet_udp:
  assumes "pkt_class packet = UDPPacket" and "version (ip packet) = 4" and "ip_wf (ip packet)"
    and "pkt_data packet = Some bs" and "length bs \<le> 1572" and "iph + 28 + length bs \<le> length m"
  shows "\<exists>m'. set_ip_packet packet m iph = Some (m', 28 + int (length bs)) \<and>
     same_outside iph (28 + length bs) m m' \<and> ipv4_sent (ip packet) 17 8 bs m' iph \<and>
     udp_on_wire (udp packet, length bs) m' (iph + 20)"
proof -
  have room: "iph + 20 + 8 + length bs \<le> length m" using assms(6) by simp
  let ?len = "28 + int (length bs)"
  obtain m1 m2 m3 m' where st: "set_ip (ip packet) m iph = Some m1"
     "store_proto_len 4 m1 iph 17 ?len = Some m2"
     "set_udp packet m2 (iph + 20) (Some bs) iph = Some m3" "finish_ipv4 m3 iph = Some m'"
    and r: "same_outside iph (20 + 8 + length bs) m m'" "ip_on_wire (ip packet) m' iph"
     "rd8 m' (iph + 9) = Some 17" "rd16 m' (iph + 2) = Some (htons (word_of_int ?len))"
     "rd16 m' (iph + 6) = Some (htons (set_ip_off (ip packet)))" "in_cksum m' iph 20 = Some 0"
     "udp_on_wire (udp packet, length bs) m' (iph + 20)" "rd_bytes m' (iph + 20 + 8) (length bs) = Some bs"
     "in_cksum2 m' iph (htons (of_nat (length bs + 8))) (iph + 20) (length bs + 8) = Some 0"
    using udp_seg.assemble_ipv4 [OF assms(3) room assms(5), of 17 ?len packet] by blast
  have w: "word_of_int ?len = (of_nat (20 + 8 + length bs) :: u16)" by simp
  have "set_ip_packet packet m iph = Some (m', 28 + int (length bs))"
    using st assms(1,2,4)
    by (simp add: set_ip_packet_def set_network_def set_transport_def data_len_def Let_def)
  moreover have "ipv4_sent (ip packet) 17 8 bs m' iph"
    using r(2-6,8,9) unfolding ipv4_sent_def w ip_p_def ip_len_def ip_off_def by blast
  ultimately show ?thesis using r(1,7) by auto
qed

lemma set_packet_ether_ip:
  assumes "Option.bind (datalink packet) ether_part = Some e" and "ether_wf e"
    and "IsInstanceOf packet IPPacket" and "14 \<le> length m"
    and ip: "\<And>m. 14 \<le> length m \<Longrightarrow> length m = n \<Longrightarrow>
      \<exists>m'. set_ip_packet packet m 14 = Some (m', len) \<and> same_outside 14 w m m' \<and> Q m'"
    and "length m = n"
  shows "\<exists>m'. set_packet packet m True = Some (m', len + 14) \<and> ether_on_wire e m' 0 \<and>
     same_outside 0 (14 + w) m m' \<and> Q m'"
proof -
  obtain m1 where m1: "set_ether packet m 0 = Some (m1, 14)" "same_outside 0 14 m m1"
    "ether_on_wire e m1 0"
    using set_ether_some [OF assms(1,2), of 0 m] assms(4) by auto
  obtain m2 where m2: "set_ip_packet packet m1 14 = Some (m2, len)" "same_outside 14 w m1 m2" "Q m2"
    using ip [of m1] same_outside_length [OF m1(2)] assms(4,6) by auto
  have "ether_on_wire e m2 0" using ether_on_wire_frame [OF m1(3) m2(2)] by simp
  moreover have "same_outside 0 (14 + w) m m2"
    using same_outside_trans same_outside_mono [OF m1(2), of 0 "14 + w"]
      same_outside_mono [OF m2(2), of 0 "14 + w"] by simp
  ultimately show ?thesis
    using m1(1) m2(1,3) assms(3) by (auto simp: set_packet_def)
qed

lemma set_packet_tcp_layout:
  assumes "pkt_class packet = TCPPacket" and "version (ip packet) = 4" and "ip_wf (ip packet)"
    and "datalink packet = Some (EthernetPacket e)" and "ether_wf e"
    and "pkt_data packet = Some bs" and "length bs \<le> 1546" and "length buf = MAX_PACKET_SIZE"
  shows "\<exists>m. set_packet packet buf True = Some (m, 54 + int (length bs)) \<and> ether_on_wire e m 0 \<and>
     ipv4_sent (ip packet) 6 20 bs m 14 \<and> tcp_on_wire (tcp packet) m 34 \<and> length m = length buf"
proof -
  have "\<exists>m. set_packet packet buf True = Some (m, 40 + int (length bs) + 14) \<and> ether_on_wire e m 0 \<and>
     same_outside 0 (14 + (40 + length bs)) buf m \<and>
     (ipv4_sent (ip packet) 6 20 bs m 14 \<and> tcp_on_wire (tcp packet) m 34)"
  proof (rule set_packet_ether_ip)
    fix m :: mem assume "length m = 1600"
    then show "\<exists>m'. set_ip_packet packet m 14 = Some (m', 40 + int (length bs)) \<and>
        same_outside 14 (40 + length bs) m m' \<and>
        (ipv4_sent (ip packet) 6 20 bs m' 14 \<and> tcp_on_wire (tcp packet) m' 34)"
      using set_ip_packet_tcp [of packet bs 14 m] assms by simp
  qed (use assms in simp_all)
  then obtain m where "set_packet packet buf True = Some (m, 40 + int (length bs) + 14)"
    "ether_on_wire e m 0" "same_outside 0 (14 + (40 + length bs)) buf m"
    "ipv4_sent (ip packet) 6 20 bs m 14" "tcp_on_wire (tcp packet) m 34" by blast
  then show ?thesis
    using same_outside_length by (intro exI [of _ m]) simp
qed

lemma set_packet_udp_layout:
  assumes "pkt_class packet = UDPPacket" and "version (ip packet) = 4" and "ip_wf (ip packet)"
    and "datalink packet = Some (EthernetPacket e)" and "ether_wf e"
    and "pkt_data packet = Some bs" and "length bs \<le> 1558" and "length buf = MAX_PACKET_SIZE"
  shows "\<exists>m. set_packet packet buf True = Some (m, 42 + int (length bs)) \<and> ether_on_wire e m 0 \<and>
     ipv4_sent (ip packet) 17 8 bs m 14 \<and> udp_on_wire (udp packet, length bs) m 34 \<and> length m = length buf"
proof -
  have "\<exists>m. set_packet packet buf True = Some (m, 28 + int (length bs) + 14) \<and> ether_on_wire e m 0 \<and>
     same_outside 0 (14 + (28 + length bs)) buf m \<and>
     (ipv4_sent (ip packet) 17 8 bs m 14 \<and> udp_on_wire (udp packet, length bs) m 34)"
  proof (rule set_packet_ether_ip)
    fix m :: mem assume "length m = 1600"
    then show "\<exists>m'. set_ip_packet packet m 14 = Some (m', 28 + int (length bs)) \<and>
        same_outside 14 (28 + length bs) m m' \<and>
        (ipv4_sent (ip packet) 17 8 bs m' 14 \<and> udp_on_wire (udp packet, length bs) m' 34)"
      using set_ip_packet_udp [of packet bs 14 m] assms by simp
  qed (use assms in simp_all)
  then obtain m where "set_packet packet buf True = Some (m, 28 + int (length bs) + 14)"
    "ether_on_wire e m 0" "same_outside 0 (14 + (28 + length bs)) buf m"
    "ipv4_sent (ip packet) 17 8 bs m 14" "udp_on_wire (udp packet, length bs) m 34" by blast
  then show ?thesis
    using same_outside_length by (intro exI [of _ m]) simp
qed

section \<open>Properties\<close>

text \<open>
  C19: a TCP packet object over IPv4 with an Ethernet header and at most 1546 bytes of data is laid out
  in the send buffer as Ethernet, IP and TCP header and data; total length, protocol and both
  checksums are right, and the returned length is that of the frame.
\<close>

theorem set_packet_tcp:
  assumes "pkt_class packet = TCPPacket" and "version (ip packet) = 4" and "ip_wf (ip packet)"
    and "datalink packet = Some (EthernetPacket e)" and "ether_wf e"
    and "pkt_data packet = Some bs" and "length bs \<le> 1546" and "length buf = MAX_PACKET_SIZE"
  shows "\<exists>m. set_packet packet buf True = Some (m, 54 + int (length bs)) \<and> ether_on_wire e m 0 \<and>
     ipv4_sent (ip packet) 6 20 bs m 14 \<and> tcp_on_wire (tcp packet) m 34"
  using set_packet_tcp_layout [OF assms] by blast

text \<open>Packets for the witnesses.\<close>

definition sample_ether :: ethernet where
  "sample_ether = \<lparr>dst_mac = Some [1, 2, 3, 4, 5, 6], src_mac = Some [7, 8, 9, 10, 11, 12],
     frametype = 0x0800\<rparr>"

definition sample_ip :: ip_fields where
  "sample_ip = alloc_ip\<lparr>version := 4, hop_limit := 64, ident := 7, src_ip := Some [10, 0, 0, 1],
     dst_ip := Some [10, 0, 0, 2]\<rparr>"

definition sample_packet :: "jclass \<Rightarrow> u8 list \<Rightarrow> jpacket" where
  "sample_packet c bs = AllocObject c\<lparr>datalink := Some (EthernetPacket sample_ether), ip := sample_ip,
     tcp := alloc_tcp\<lparr>tcp_src_port := 80, tcp_dst_port := 1024, syn := True\<rparr>,
     udp := alloc_udp\<lparr>udp_src_port := 53, udp_dst_port := 5353\<rparr>, pkt_data := Some bs\<rparr>"

lemma sample_wf [simp]: "ip_wf sample_ip" "ether_wf sample_ether" "version sample_ip = 4"
  by (simp_all add: ip_wf_def sample_ip_def ether_wf_def sample_ether_def alloc_ip_def)

lemma sample_packet_simps [simp]:
  "pkt_class (sample_packet c bs) = c" "ip (sample_packet c bs) = sample_ip"
  "datalink (sample_packet c bs) = Some (EthernetPacket sample_ether)"
  "pkt_data (sample_packet c bs) = Some bs"
  by (simp_all add: sample_packet_def)

theorem set_packet_tcp_witness:
  "let packet = sample_packet TCPPacket [1, 2, 3] in
   \<exists>m. set_packet packet (replicate 1600 0) True = Some (m, 54 + int (length [1, 2, 3 :: u8])) \<and>
     ether_on_wire sample_ether m 0 \<and>
     ipv4_sent (ip packet) 6 20 [1, 2, 3] m 14 \<and> tcp_on_wire (tcp packet) m 34"
  unfolding Let_def by (rule set_packet_tcp) simp_all

text \<open>
  The same for UDP: at most 1558 bytes of data, protocol 17, UDP length and a verifying checksum.
\<close>

theorem set_packet_udp:
  assumes "pkt_class packet = UDPPacket" and "version (ip packet) = 4" and "ip_wf (ip packet)"
    and "datalink packet = Some (EthernetPacket e)" and "ether_wf e"
    and "pkt_data packet = Some bs" and "length bs \<le> 1558" and "length buf = MAX_PACKET_SIZE"
  shows "\<exists>m. set_packet packet buf True = Some (m, 42 + int (length bs)) \<and> ether_on_wire e m 0 \<and>
     ipv4_sent (ip packet) 17 8 bs m 14 \<and> udp_on_wire (udp packet, length bs) m 34"
  using set_packet_udp_layout [OF assms] by blast

theorem set_packet_udp_witness:
  "let packet = sample_packet UDPPacket [1, 2, 3] in
   \<exists>m. set_packet packet (replicate 1600 0) True = Some (m, 42 + int (length [1, 2, 3 :: u8])) \<and>
     ether_on_wire sample_ether m 0 \<and>
     ipv4_sent (ip packet) 17 8 [1, 2, 3] m 14 \<and> udp_on_wire (udp packet, length [1, 2, 3 :: u8]) m 34"
  unfolding Let_def by (rule set_packet_udp) simp_all

text \<open>
  C35: the fragment offset is swapped twice on its way out, once by \<open>set_ip\<close> and once by \<open>set_packet\<close>:
  the receiver of a packet without fragment flags reads the byte-swapped offset.
\<close>

theorem set_packet_swaps_frag_offset:
  assumes "pkt_class packet = TCPPacket" and "version (ip packet) = 4" and "ip_wf (ip packet)"
    and "datalink packet = Some (EthernetPacket e)" and "ether_wf e"
    and "pkt_data packet = Some bs" and "length bs \<le> 1546" and "length buf = MAX_PACKET_SIZE"
    and "\<not> rsv_frag (ip packet)" and "\<not> dont_frag (ip packet)" and "\<not> more_frag (ip packet)"
  shows "\<exists>m n. set_packet packet buf True = Some (m, n) \<and>
     map_option ntohs (rd16 m (14 + ip_off)) = Some (ntohs (frag_offset (ip packet)))"
proof -
  obtain m where "set_packet packet buf True = Some (m, 54 + int (length bs))"
    "ipv4_sent (ip packet) 6 20 bs m 14"
    using set_packet_tcp_layout [OF assms(1-8)] by blast
  then show ?thesis
    using assms(9-11) by (simp add: ipv4_sent_def set_ip_off_def)
qed

theorem set_packet_swaps_frag_offset_witness:
  "let packet = sample_packet TCPPacket [1]\<lparr>ip := sample_ip\<lparr>frag_offset := 0x0102\<rparr>\<rparr> in
   \<exists>m n. set_packet packet (replicate 1600 0) True = Some (m, n) \<and>
     map_option ntohs (rd16 m (14 + ip_off)) = Some (ntohs (frag_offset (ip packet)))"
  unfolding Let_def
  by (rule set_packet_swaps_frag_offset [where e = sample_ether and bs = "[1]"])
     (simp_all add: ip_wf_def sample_ip_def alloc_ip_def)

text \<open>
  C36: the bound \<open>set_tcp\<close> puts on the data does not count the Ethernet header: with 1547 bytes of data
  or more, \<open>set_packet\<close> writes beyond the 1600 bytes of the send buffer.
\<close>

theorem set_packet_tcp_overflow:
  assumes "pkt_class packet = TCPPacket" and "version (ip packet) = 4" and "ip_wf (ip packet)"
    and "datalink packet = Some (EthernetPacket e)" and "ether_wf e"
    and "pkt_data packet = Some bs" and "1547 \<le> length bs" and "length buf = MAX_PACKET_SIZE"
  shows "set_packet packet buf True = None"
proof -
  obtain m1 where m1: "set_ether packet buf 0 = Some (m1, 14)" "same_outside 0 14 buf m1"
    using set_ether_some [of packet e 0 buf] assms by auto
  obtain m2 where m2: "set_ip (ip packet) m1 14 = Some m2" "same_outside 14 20 m1 m2"
    using set_ip_ok [OF assms(3), of 14 m1] assms(8) same_outside_length [OF m1(2)] by auto
  have l2: "length m2 = 1600"
    using same_outside_length [OF m1(2)] same_outside_length [OF m2(2)] assms(8) by simp
  have "set_tcp packet m3 34 (Some bs) 14 = None" if "length m3 = 1600" for m3
    using tcp_seg.assemble_overflow [of m3 14 bs m3 packet] that assms(7) by simp
  moreover have "length m3 = 1600" if "store_proto_len 4 m2 14 6 n = Some m3" for m3 n
    using that l2 store_proto_len_ok [of 14 m2 6 n] same_outside_length by fastforce
  ultimately have "set_ip_packet packet m1 14 = None"
    using m2(1) assms(1,2,6)
    by (auto simp: set_ip_packet_def set_network_def set_transport_def data_len_def Let_def
        bind_eq_None_conv)
  with m1(1) assms(1) show ?thesis by (simp add: set_packet_def)
qed

theorem set_packet_tcp_overflow_witness:
  "set_packet (sample_packet TCPPacket (replicate 1547 7)) (replicate 1600 0) True = None"
  by (rule set_packet_tcp_overflow [where e = sample_ether and bs = "replicate 1547 7"]) simp_all

lemma pad_frame_short:
  assumes "0 \<le> len" and "len < 60" and "61 \<le> length m"
  shows "\<exists>m'. pad_frame m len = Some (m', 60) \<and>
     rd_bytes m' 0 60 = Some (take (nat len) m @ replicate (60 - nat len) 0)"
proof -
  have n: "nat (60 - len + 1) = 61 - nat len" "nat len < 60" using assms(1,2) by linarith+
  have "take 60 (take (nat len) m @ replicate (61 - nat len) 0 @ drop 61 m) =
      take (nat len) m @ replicate (60 - nat len) 0"
    using n(2) assms(3) by (simp add: min_def)
  with n assms show ?thesis
    by (simp add: pad_frame_def wr_bytes_def rd_bytes_def)
qed

text \<open>
  A frame shorter than 60 bytes is padded: \<open>nativeSendPacket\<close> hands exactly 60 bytes to the
  library, the frame followed by zeros, and reports a failing library call as an \<open>IOException\<close> with the
  error text of the instance.
\<close>

theorem nativeSendPacket_pads:
  assumes "set_packet packet buf True = Some (m, len)" and "0 \<le> len" and "len < 60"
    and "61 \<le> length m"
  shows "nativeSendPacket True pcap_sendpacket errbuf buf packet =
     (let frame = take (nat len) m @ replicate (60 - nat len) 0 in
      if pcap_sendpacket frame < 0 then IOException errbuf else Sent frame)"
proof -
  obtain m' where "pad_frame m len = Some (m', 60)"
    "rd_bytes m' 0 60 = Some (take (nat len) m @ replicate (60 - nat len) 0)"
    using pad_frame_short [OF assms(2-4)] by blast
  with assms(1) show ?thesis by (simp add: nativeSendPacket_def Let_def)
qed

theorem nativeSendPacket_pads_witness:
  "let packet = AllocObject Packet\<lparr>pkt_data := Some [1, 2, 3]\<rparr>; buf = replicate 61 9;
       r = the (set_packet packet buf True); m = fst r; len = snd r in
   nativeSendPacket True (\<lambda>bs. int (length bs)) ''error'' buf packet =
     (let frame = take (nat len) m @ replicate (60 - nat len) 0 in
      if int (length frame) < 0 then IOException ''error'' else Sent frame)"
  unfolding Let_def
  by (rule nativeSendPacket_pads [unfolded Let_def, where pcap_sendpacket = "\<lambda>bs. int (length bs)"])
     code_simp+

end
