(* ===== verification/Jpcap_Filter.thy ===== *)
theory Jpcap_Filter
  imports Jpcap_Java
begin

text \<open>
  The packet filter: \<open>JpcapFilter.java\<close>, whose comparison methods the native code calls back, and
  \<open>initJpcapFilter\<close>, \<open>jpcap_host_filter\<close>, \<open>jpcap_port_filter\<close>, \<open>jpcap_protocol_filter\<close>, \<open>isEmpty\<close> and
  \<open>doFilter\<close> of \<open>JpcapCaptor.c\<close>. Host name resolution (\<open>InetAddress.getByName\<close>) is a parameter.
\<close>

section \<open>JpcapFilter.java\<close>

datatype Protocol = TCP | UDP | ICMP | ARP

fun Protocol_name :: "Protocol \<Rightarrow> string" where
  "Protocol_name TCP = ''TCP''"
| "Protocol_name UDP = ''UDP''"
| "Protocol_name ICMP = ''ICMP''"
| "Protocol_name ARP = ''ARP''"

record jpcap_filter =
  hosts :: "string list"
  srcHosts :: "string list"
  destHosts :: "string list"
  ports :: "string list"
  srcPorts :: "string list"
  destPorts :: "string list"
  protocols :: "Protocol list"

definition new_JpcapFilter :: jpcap_filter where
  "new_JpcapFilter =
     \<lparr>hosts = [], srcHosts = [], destHosts = [], ports = [], srcPorts = [], destPorts = [],
      protocols = []\<rparr>"

text \<open>The Java conversion \<open>port + ""\<close>.\<close>

definition digit :: "nat \<Rightarrow> char" where
  "digit n = char_of (48 + n)"

fun show_nat :: "nat \<Rightarrow> string" where
  "show_nat n = (if n < 10 then [digit n] else show_nat (n div 10) @ [digit (n mod 10)])"

declare show_nat.simps [simp del]

definition show_int :: "int \<Rightarrow> string" where
  "show_int i = (if i < 0 then CHR ''-'' # show_nat (nat (- i)) else show_nat (nat i))"

definition addHost :: "string \<Rightarrow> jpcap_filter \<Rightarrow> jpcap_filter" where
  "addHost h f = f\<lparr>hosts := hosts f @ [h]\<rparr>"

definition addSrcHost :: "string \<Rightarrow> jpcap_filter \<Rightarrow> jpcap_filter" where
  "addSrcHost h f = f\<lparr>srcHosts := srcHosts f @ [h]\<rparr>"

definition addDestHost :: "string \<Rightarrow> jpcap_filter \<Rightarrow> jpcap_filter" where
  "addDestHost h f = f\<lparr>destHosts := destHosts f @ [h]\<rparr>"

definition addPort :: "int \<Rightarrow> jpcap_filter \<Rightarrow> jpcap_filter" where
  "addPort p f = f\<lparr>ports := ports f @ [show_int p]\<rparr>"

definition addSrcPort :: "int \<Rightarrow> jpcap_filter \<Rightarrow> jpcap_filter" where
  "addSrcPort p f = f\<lparr>srcPorts := srcPorts f @ [show_int p]\<rparr>"

definition addDestPort :: "int \<Rightarrow> jpcap_filter \<Rightarrow> jpcap_filter" where
  "addDestPort p f = f\<lparr>destPorts := destPorts f @ [show_int p]\<rparr>"

definition addProtocol :: "Protocol \<Rightarrow> jpcap_filter \<Rightarrow> jpcap_filter" where
  "addProtocol p f = f\<lparr>protocols := protocols f @ [p]\<rparr>"

fun match_protocol :: "Protocol list \<Rightarrow> string \<Rightarrow> int" where
  "match_protocol [] s = 0"
| "match_protocol (pro # ps) s = (if Protocol_name pro = s then 1 else match_protocol ps s)"

definition compareProtocol :: "jpcap_filter \<Rightarrow> string \<Rightarrow> int" where
  "compareProtocol f s = (if protocols f = [] then 1 else match_protocol (protocols f) s)"

text \<open>
  \<open>compareAddress\<close>: a name that cannot be resolved, or an array that is no address (null included),
  raises \<open>UnknownHostException\<close>, which is caught and the loop goes on.
\<close>

fun compareAddress ::
  "(string \<Rightarrow> u8 list option) \<Rightarrow> string list \<Rightarrow> u8 list option \<Rightarrow> int" where
  "compareAddress getByName [] address = 0"
| "compareAddress getByName (a # as) address =
     (case (getByName a, Option.bind address getByAddress) of
        (Some x, Some y) \<Rightarrow> if x = y then 1 else compareAddress getByName as address
      | _ \<Rightarrow> compareAddress getByName as address)"

fun comparePort :: "string list \<Rightarrow> int \<Rightarrow> int" where
  "comparePort [] port = 0"
| "comparePort (pt # ps) port = (if pt = show_int port then 1 else comparePort ps port)"

definition isEmpty :: "string list \<Rightarrow> int" where
  "isEmpty xs = (if xs = [] then 0 else 1)"

section \<open>The native side\<close>

text \<open>
  The global \<open>jpcapFilter\<close> is a reference; the lists it hands out are references into the same Java
  object, so the C code always sees the current contents of that one filter. \<open>getJpcapFilter\<close> is the
  filter of the captor at the time of the call.
\<close>

definition initJpcapFilter :: "'r option \<Rightarrow> 'r option \<Rightarrow> 'r option" where
  "initJpcapFilter jpcapFilter getJpcapFilter =
     (case jpcapFilter of None \<Rightarrow> getJpcapFilter | Some f \<Rightarrow> Some f)"

definition jpcap_host_filter ::
  "(string \<Rightarrow> u8 list option) \<Rightarrow> u8 list option \<Rightarrow> string list \<Rightarrow> int" where
  "jpcap_host_filter getByName address hs = compareAddress getByName hs address"

text \<open>The parameter is a \<open>jshort\<close>: the caller's \<open>jint\<close> loses its upper half and gains a sign.\<close>

definition jpcap_port_filter :: "jshort \<Rightarrow> string list \<Rightarrow> int" where
  "jpcap_port_filter port ps = comparePort ps (sint port)"

definition jpcap_protocol_filter :: "jpcap_filter option \<Rightarrow> string \<Rightarrow> int" where
  "jpcap_protocol_filter jpcapFilter s =
     (case jpcapFilter of Some f \<Rightarrow> compareProtocol f s | None \<Rightarrow> 1)"

text \<open>
  The first half of \<open>doFilter\<close>: addresses and ports of the packet and the verdict so far.
  \<open>getSourceAddress\<close> raises on a packet whose address was never set.
\<close>

definition doFilter_fields ::
  "jpcap_filter \<Rightarrow> jpacket \<Rightarrow> (u8 list option \<times> u8 list option \<times> jint \<times> jint \<times> int) option" where
  "doFilter_fields f packet =
     (if IsInstanceOf packet IPPacket then do {
        pkg_src_ip \<leftarrow> src_ip (ip packet);
        pkg_dest_ip \<leftarrow> dst_ip (ip packet);
        (if IsInstanceOf packet TCPPacket
         then Some (Some pkg_src_ip, Some pkg_dest_ip, tcp_src_port (tcp packet),
                tcp_dst_port (tcp packet), 1)
         else Some (Some pkg_src_ip, Some pkg_dest_ip, 0, 0,
                if isEmpty (ports f) \<noteq> 0 \<or> isEmpty (srcPorts f) \<noteq> 0 \<or> isEmpty (destPorts f) \<noteq> 0
                then 0 else 1))
      }
      else Some (None, None, 0, 0,
             if isEmpty (hosts f) \<noteq> 0 \<or> isEmpty (srcHosts f) \<noteq> 0 \<or> isEmpty (destHosts f) \<noteq> 0
             then 0 else 1))"

text \<open>The C expression \<open>a || b\<close>.\<close>

definition c_or :: "int \<Rightarrow> int \<Rightarrow> int" where
  "c_or a b = (if a \<noteq> 0 \<or> b \<noteq> 0 then 1 else 0)"

definition doFilter ::
  "(string \<Rightarrow> u8 list option) \<Rightarrow> jpcap_filter \<Rightarrow> jpacket \<Rightarrow> int option" where
  "doFilter getByName f packet = do {
     (src, dst, sport, dport, pass) \<leftarrow> doFilter_fields f packet;
     let pass = (if pass \<noteq> 0 \<and> isEmpty (hosts f) \<noteq> 0
       then c_or (jpcap_host_filter getByName src (hosts f)) (jpcap_host_filter getByName dst (hosts f))
       else pass);
     let pass = (if pass \<noteq> 0 \<and> isEmpty (srcHosts f) \<noteq> 0
       then jpcap_host_filter getByName src (srcHosts f) else pass);
     let pass = (if pass \<noteq> 0 \<and> isEmpty (destHosts f) \<noteq> 0
       then jpcap_host_filter getByName dst (destHosts f) else pass);
     let pass = (if pass \<noteq> 0 \<and> isEmpty (ports f) \<noteq> 0
       then c_or (jpcap_port_filter (ucast sport) (ports f)) (jpcap_port_filter (ucast dport) (ports f))
       else pass);
     let pass = (if pass \<noteq> 0 \<and> isEmpty (srcPorts f) \<noteq> 0
       then jpcap_port_filter (ucast sport) (srcPorts f) else pass);
     let pass = (if pass \<noteq> 0 \<and> isEmpty (destPorts f) \<noteq> 0
       then jpcap_port_filter (ucast dport) (destPorts f) else pass);
     Some pass
   }"

section \<open>The comparisons as membership\<close>

definition read_nat :: "string \<Rightarrow> nat" where
  "read_nat s = foldl (\<lambda>a c. a * 10 + (of_char c - 48)) 0 s"

lemma of_char_digit: "n < 10 \<Longrightarrow> of_char (digit n) = 48 + n"
  by (simp add: digit_def of_char_of)

lemma read_show_nat: "read_nat (show_nat n) = n"
proof (induction n rule: show_nat.induct)
  case (1 n)
  then show ?case
    by (subst show_nat.simps) (auto simp: read_nat_def of_char_digit)
qed

lemma hd_show_nat: "\<exists>d < 10. hd (show_nat n) = digit d \<and> show_nat n \<noteq> []"
proof (induction n rule: show_nat.induct)
  case (1 n)
  then show ?case by (subst (1 2) show_nat.simps) (auto; blast)
qed

lemma show_nat_no_sign: "show_nat n \<noteq> CHR ''-'' # s"
proof
  assume "show_nat n = CHR ''-'' # s"
  then obtain d where "d < 10" "CHR ''-'' = digit d"
    using hd_show_nat [of n] by auto
  then have "of_char CHR ''-'' = 48 + d"
    using of_char_digit [of d] by metis
  then show False by simp
qed

definition read_int :: "string \<Rightarrow> int" where
  "read_int s = (if hd s = CHR ''-'' then - int (read_nat (tl s)) else int (read_nat s))"

lemma read_show_int: "read_int (show_int i) = i"
proof -
  have "hd (show_nat n) \<noteq> CHR ''-''" for n
    using show_nat_no_sign [of n] hd_show_nat [of n] by (metis list.collapse)
  then show ?thesis by (simp add: read_int_def show_int_def read_show_nat)
qed

lemma show_int_inj: "show_int i = show_int j \<longleftrightarrow> i = j"
  by (metis read_show_int)

lemma comparePort_iff: "comparePort ps port = (if show_int port \<in> set ps then 1 else 0)"
  by (induction ps) auto

lemma comparePort_map: "comparePort (map show_int ps) port = (if port \<in> set ps then 1 else 0)"
  by (auto simp: comparePort_iff show_int_inj)

definition host_match :: "(string \<Rightarrow> u8 list option) \<Rightarrow> string list \<Rightarrow> u8 list option \<Rightarrow> bool" where
  "host_match getByName hs address \<longleftrightarrow>
     (\<exists>h \<in> set hs. \<exists>x. getByName h = Some x \<and> Option.bind address getByAddress = Some x)"

lemma compareAddress_iff:
  "compareAddress getByName hs address = (if host_match getByName hs address then 1 else 0)"
  by (induction hs) (auto simp: host_match_def split: option.splits)

lemma Protocol_name_inj: "inj Protocol_name"
proof (rule injI)
  show "p = q" if "Protocol_name p = Protocol_name q" for p q
    using that by (cases p; cases q) simp_all
qed

lemma compareProtocol_iff:
  "compareProtocol f s =
     (if protocols f = [] \<or> s \<in> Protocol_name ` set (protocols f) then 1 else 0)"
proof -
  have "match_protocol ps s = (if s \<in> Protocol_name ` set ps then 1 else 0)" for ps
    by (induction ps) auto
  then show ?thesis by (simp add: compareProtocol_def)
qed

lemma isEmpty_iff: "isEmpty xs \<noteq> 0 \<longleftrightarrow> xs \<noteq> []"
  by (simp add: isEmpty_def)

section \<open>What the filter accepts\<close>

text \<open>
  The filter as it is documented: every criterion that is filled must hold. A packet that is no IP
  packet has no host, one that is no TCP packet has no port; \<open>port_match\<close> is the comparison of one
  port with a list.
\<close>

definition filter_accepts ::
  "(string \<Rightarrow> u8 list option) \<Rightarrow> (string list \<Rightarrow> jint \<Rightarrow> bool) \<Rightarrow> jpcap_filter \<Rightarrow> jpacket \<Rightarrow> bool" where
  "filter_accepts getByName port_match f packet \<longleftrightarrow>
     (hosts f \<noteq> [] \<longrightarrow> host_match getByName (hosts f) (src_ip (ip packet)) \<or>
        host_match getByName (hosts f) (dst_ip (ip packet))) \<and>
     (srcHosts f \<noteq> [] \<longrightarrow> host_match getByName (srcHosts f) (src_ip (ip packet))) \<and>
     (destHosts f \<noteq> [] \<longrightarrow> host_match getByName (destHosts f) (dst_ip (ip packet))) \<and>
     (ports f \<noteq> [] \<longrightarrow> IsInstanceOf packet TCPPacket \<and>
        (port_match (ports f) (tcp_src_port (tcp packet)) \<or>
         port_match (ports f) (tcp_dst_port (tcp packet)))) \<and>
     (srcPorts f \<noteq> [] \<longrightarrow> IsInstanceOf packet TCPPacket \<and>
        port_match (srcPorts f) (tcp_src_port (tcp packet))) \<and>
     (destPorts f \<noteq> [] \<longrightarrow> IsInstanceOf packet TCPPacket \<and>
        port_match (destPorts f) (tcp_dst_port (tcp packet)))"

text \<open>A port written with its value, and the port the native comparison looks for.\<close>

definition port_listed :: "string list \<Rightarrow> jint \<Rightarrow> bool" where
  "port_listed ps port \<longleftrightarrow> show_int (uint port) \<in> set ps"

definition port_listed_16 :: "string list \<Rightarrow> jint \<Rightarrow> bool" where
  "port_listed_16 ps port \<longleftrightarrow> show_int (sint (ucast port :: jshort)) \<in> set ps"

lemma doFilter_ip:
  assumes "IsInstanceOf packet IPPacket" and "src_ip (ip packet) \<noteq> None"
    and "dst_ip (ip packet) \<noteq> None"
  shows "doFilter getByName f packet =
     Some (if filter_accepts getByName port_listed_16 f packet then 1 else 0)"
proof -
  obtain s d where sd: "src_ip (ip packet) = Some s" "dst_ip (ip packet) = Some d"
    using assms(2,3) by auto
  note defs = doFilter_def doFilter_fields_def filter_accepts_def jpcap_host_filter_def
    jpcap_port_filter_def compareAddress_iff comparePort_iff isEmpty_iff c_or_def Let_def sd
    port_listed_16_def
  show ?thesis
  proof (cases "IsInstanceOf packet TCPPacket")
    case True
    then show ?thesis using assms(1) by (simp add: defs)
  next
    case False
    then show ?thesis
      using assms(1)
      by (cases "ports f = [] \<and> srcPorts f = [] \<and> destPorts f = []") (simp_all add: defs)
  qed
qed

lemma port_listed_small:
  assumes "uint port < 32768"
  shows "sint (ucast port :: jshort) = uint port"
proof -
  have lo: "- 32768 \<le> uint port" using uint_ge_0 [of port] by linarith
  have "take_bit 16 (uint port) = uint port" "signed_take_bit 15 (uint port) = uint port"
    using assms lo by (auto intro!: take_bit_int_eq_self signed_take_bit_int_eq_self)
  then show ?thesis by (simp add: sint_uint unsigned_ucast_eq)
qed

lemma port_listed_large:
  assumes "32768 \<le> uint port" and "uint port < 65536"
  shows "sint (ucast port :: jshort) < 0"
proof -
  have "uint port div 32768 = 1"
    using assms by (intro int_div_pos_eq [where r = "uint port - 32768"]) simp_all
  then have "bit (uint port) 15" by (simp add: bit_iff_odd)
  moreover have "sint (ucast port :: jshort) = signed_take_bit 15 (uint port)"
    by (simp add: sint_uint unsigned_ucast_eq signed_take_bit_take_bit)
  ultimately show ?thesis by simp
qed

section \<open>Properties\<close>





text \<open>
  The protocol test lets a packet pass when the filter names no protocol or names its protocol,
  and every packet when no filter is installed.
\<close>

theorem jpcap_protocol_filter_iff:
  "jpcap_protocol_filter jpcapFilter (Protocol_name p) =
     (case jpcapFilter of None \<Rightarrow> 1
      | Some f \<Rightarrow> if protocols f = [] \<or> p \<in> set (protocols f) then 1 else 0)"
  by (simp add: jpcap_protocol_filter_def compareProtocol_iff inj_image_mem_iff [OF Protocol_name_inj]
      split: option.splits)

end
