(* ===== verification/Jpcap_Captor.thy ===== *)
theory Jpcap_Captor
  imports Packet_Tcp Packet_Udp Packet_Icmp Packet_Arp Packet_Datalink Packet_Ipv6 Jpcap_Filter
begin

text \<open>
  The capture path of \<open>JpcapCaptor.c\<close>: \<open>get_packet\<close> turns one captured frame into a Java object,
  \<open>get_next_packet\<close> fetches another frame when the filter refused one, \<open>getPacket\<close> and
  \<open>dispatcher_handler\<close> are their callers.

  \<open>short\<close> variables are integers kept in range by \<open>to_short\<close>; pointers into the frame are integers,
  because a header length may be negative after it was stored in a \<open>short\<close>. The frame is the list of
  captured bytes, so reading beyond it is undefined.
\<close>

section \<open>Tables and macros\<close>

definition offset_type :: "int list" where
  "offset_type = [0, 12, -1, -1, -1, -1, 20, -1, -1, 2, 19, 6, -1, -1, 5]"

definition offset_data :: "int list" where
  "offset_data = [4, 14, -1, -1, -1, -1, 22, -1, 16, 4, 21, 8, 0, 24, 24]"

definition pppoe_offset :: int where [simp]: "pppoe_offset = 8"

definition UNKNOWN_PROTO :: u16 where [simp]: "UNKNOWN_PROTO = 0xffff"

definition table :: "int list \<Rightarrow> int \<Rightarrow> int option" where
  "table xs i = (if 0 \<le> i \<and> i < int (length xs) then Some (xs ! nat i) else None)"

text \<open>Storing an integer in a \<open>short\<close>, and dereferencing a pointer.\<close>

definition to_short :: "int \<Rightarrow> int" where
  "to_short i = (i + 32768) mod 65536 - 32768"

definition deref :: "int \<Rightarrow> nat option" where
  "deref p = (if 0 \<le> p then Some (nat p) else None)"

definition datalink_hlen :: "int \<Rightarrow> int \<Rightarrow> int option" where
  "datalink_hlen linktype off = map_option (\<lambda>d. d + off) (table offset_data linktype)"

definition get_network_type :: "mem \<Rightarrow> int \<Rightarrow> int \<Rightarrow> u16 option" where
  "get_network_type m linktype off = do {
     t \<leftarrow> table offset_type linktype;
     p \<leftarrow> deref (t + off);
     v \<leftarrow> rd16 m p;
     Some (ntohs v)
   }"

text \<open>\<open>skip_datalink_header\<close> from the start of the frame.\<close>

definition skip_datalink_header :: "int \<Rightarrow> int \<Rightarrow> int option" where
  "skip_datalink_header linktype off = datalink_hlen linktype off"

section \<open>get\_packet, step by step\<close>

text \<open>
  The network protocol: \<open>nproto\<close>, the additional offset, the new value of \<open>linktypes_ext\<close> and the
  remaining length \<open>clen\<close>.
\<close>

definition network_protocol ::
  "mem \<Rightarrow> int \<Rightarrow> int \<Rightarrow> int \<Rightarrow> (u16 \<times> int \<times> int \<times> int) option" where
  "network_protocol m linktype ext clen =
     (if linktype = DLT_RAW then do {
        h \<leftarrow> datalink_hlen linktype 0;
        Some (ETHERTYPE_IP, 0, ext, to_short (clen - h))
      }
      else if linktype = DLT_IEEE802 \<or> linktype = DLT_EN10MB then do {
        nproto \<leftarrow> get_network_type m linktype 0;
        (if nproto = ETHERTYPE_PPPOE then do {
           nproto \<leftarrow> get_network_type m linktype pppoe_offset;
           let nproto = (if nproto = ETHERTYPE_IP_PACKET then ETHERTYPE_IP else nproto);
           h \<leftarrow> datalink_hlen linktype pppoe_offset;
           Some (nproto, pppoe_offset, uint ETHERTYPE_PPPOE, to_short (clen - h))
         }
         else do {
           h \<leftarrow> datalink_hlen linktype 0;
           Some (nproto, 0, ext, to_short (clen - h))
         })
      }
      else Some (UNKNOWN_PROTO, 0, ext, clen))"

text \<open>
  The walk over IPv6 extension headers in search of the transport protocol. It starts at the fixed
  header itself: the source never adds its 40 bytes to \<open>dp\<close>.
\<close>

definition ext_tproto :: "u16 \<Rightarrow> bool" where
  "ext_tproto t \<longleftrightarrow>
     t = IPPROTO_HOPOPTS \<or> t = IPPROTO_DSTOPTS \<or> t = IPPROTO_ROUTING \<or> t = IPPROTO_AH \<or>
     t = IPPROTO_FRAGMENT"

definition ext_step :: "mem \<Rightarrow> u16 \<Rightarrow> nat \<Rightarrow> (u16 \<times> nat) option" where
  "ext_step m t dp = do {
     nxt \<leftarrow> rd8 m (dp + ip6e_nxt);
     (if t = IPPROTO_FRAGMENT then Some (ucast nxt, 8)
      else do {
        len \<leftarrow> rd8 m (dp + ip6e_len);
        Some (ucast nxt, if t = IPPROTO_AH then (unat len + 2) * 4 else (unat len + 1) * 8)
      })
   }"

lemma ext_step_size:
  assumes "ext_step m t dp = Some (t', n)"
  shows "8 \<le> n" "n \<le> 2048"
proof -
  obtain len :: u8 where "n \<in> {8, (unat len + 2) * 4, (unat len + 1) * 8}"
    using assms by (auto simp: ext_step_def bind_eq_Some_conv split: if_splits)
  then show "8 \<le> n" "n \<le> 2048" using unat_u8_less [of len] by auto
qed

function (sequential) ext_walk :: "mem \<Rightarrow> u16 \<Rightarrow> nat \<Rightarrow> int \<Rightarrow> (u16 \<times> int) option" where
  "ext_walk m t dp clen =
     (if ext_tproto t \<and> 0 < clen then do {
        r \<leftarrow> ext_step m t dp;
        (case r of (t', n) \<Rightarrow>
           ext_walk m (if t' = IPPROTO_ESP \<or> t' = IPPROTO_NONE then 0xffff else t') (dp + n)
             (to_short (clen - int n)))
      }
      else Some (t, clen))"
  by pat_completeness auto

text \<open>The walk ends: a round takes at least eight bytes off a positive \<open>clen\<close>, and a \<open>short\<close> never grows.\<close>

lemma to_short_id: "- 32768 \<le> i \<Longrightarrow> i < 32768 \<Longrightarrow> to_short i = i"
  by (simp add: to_short_def)

lemma to_short_le: "- 32768 \<le> i \<Longrightarrow> to_short i \<le> i"
  using zmod_le_nonneg_dividend [of "i + 32768" 65536] by (simp add: to_short_def)

lemma to_short_wrap:
  assumes "32768 \<le> i" and "i < 65536"
  shows "to_short i = i - 65536"
proof -
  have "(i + 32768) mod 65536 = i - 32768"
    using assms by (intro int_mod_pos_eq [where q = 1]) simp_all
  then show ?thesis by (simp add: to_short_def)
qed

lemma to_short_range: "- 32768 \<le> to_short i" "to_short i < 32768"
  using pos_mod_bound [of 65536 "i + 32768"] pos_mod_sign [of 65536 "i + 32768"]
  by (simp_all add: to_short_def)

termination ext_walk
proof (relation "measure (\<lambda>(_, _, _, clen). nat clen)")
  fix m :: mem and t dp r t' n and clen :: int
  assume c: "ext_tproto t \<and> 0 < clen" and r: "ext_step m t dp = Some r" "(t', n) = r"
  have "to_short (clen - int n) \<le> clen - int n"
    using c ext_step_size [of m t dp t' n] r by (intro to_short_le) auto
  then show "((m, if t' = IPPROTO_ESP \<or> t' = IPPROTO_NONE then 0xffff else t', dp + n,
      to_short (clen - int n)), m, t, dp, clen) \<in> measure (\<lambda>(_, _, _, clen). nat clen)"
    using c ext_step_size [of m t dp t' n] r by auto
qed simp

declare ext_walk.simps [simp del]

text \<open>
  The transport protocol. \<open>tproto0\<close> is the value of the uninitialised variable, which survives when
  nothing is left behind the datalink header or behind an ARP or IPv6 header.
\<close>

definition transport_protocol ::
  "mem \<Rightarrow> int \<Rightarrow> int \<Rightarrow> u16 \<Rightarrow> u16 \<Rightarrow> int \<Rightarrow> (u16 \<times> int) option" where
  "transport_protocol m linktype off tproto0 nproto clen =
     (if 0 < clen then
        (if nproto = ETHERTYPE_IP then do {
           d \<leftarrow> skip_datalink_header linktype off;
           p \<leftarrow> deref d;
           hl \<leftarrow> get_ip_hl m p;
           let clen = to_short (clen - int (4 * unat hl));
           (if 0 < clen then do {
              frag \<leftarrow> rd16 m (p + ip_off);
              (if ntohs frag AND IP_OFFMASK = 0
               then do { t \<leftarrow> rd8 m (p + ip_p); Some (ucast t, clen) }
               else Some (ETHERTYPE_IP, clen))
            }
            else Some (ETHERTYPE_IP, clen))
         }
         else if nproto = ETHERTYPE_IPV6 then
           (let clen = to_short (clen - 40) in
            if 0 < clen then do {
              d \<leftarrow> skip_datalink_header linktype off;
              dp \<leftarrow> deref d;
              t \<leftarrow> rd8 m (dp + ip6_nxt);
              ext_walk m (ucast t) dp clen
            }
            else Some (tproto0, clen))
         else if nproto = ETHERTYPE_ARP then
           (let clen = to_short (clen - 28) in
            Some (if 0 < clen then ETHERTYPE_ARP else tproto0, clen))
         else if nproto = UNKNOWN_PROTO then Some (UNKNOWN_PROTO, clen)
         else do { t \<leftarrow> get_network_type m linktype off; Some (t, clen) })
      else Some (tproto0, clen))"

definition truncated_check :: "u16 \<Rightarrow> int \<Rightarrow> u16" where
  "truncated_check tproto clen =
     (if tproto = IPPROTO_TCP \<and> clen < int TCPHDRLEN \<or> tproto = IPPROTO_UDP \<and> clen < int UDPHDRLEN \<or>
         tproto = IPPROTO_ICMP \<and> clen < int ICMPHDRLEN
      then 0xffff else tproto)"

text \<open>The class of the object, or nothing when the protocol filter refuses it.\<close>

definition create_packet :: "jpcap_filter option \<Rightarrow> u16 \<Rightarrow> u16 \<Rightarrow> jpacket option" where
  "create_packet jpcapFilter tproto nproto =
     (if tproto = IPPROTO_TCP
      then (if jpcap_protocol_filter jpcapFilter ''TCP'' \<noteq> 0 then Some (AllocObject TCPPacket) else None)
      else if tproto = IPPROTO_UDP
      then (if jpcap_protocol_filter jpcapFilter ''UDP'' \<noteq> 0 then Some (AllocObject UDPPacket) else None)
      else if tproto = IPPROTO_ICMP
      then (if jpcap_protocol_filter jpcapFilter ''ICMP'' \<noteq> 0 then Some (AllocObject ICMPPacket)
            else None)
      else if nproto = ETHERTYPE_IP then Some (AllocObject IPPacket)
      else if nproto = ETHERTYPE_IPV6 then Some (AllocObject IPPacket)
      else if nproto = ETHERTYPE_ARP \<or> nproto = ETHERTYPE_REVARP
      then (if jpcap_protocol_filter jpcapFilter ''ARP'' \<noteq> 0 then Some (AllocObject ARPPacket) else None)
      else Some (AllocObject Packet))"

text \<open>
  The network layer: the object, the pointer to the network header, \<open>clen\<close> and \<open>hlen\<close>. The comparison
  that bounds \<open>clen\<close> by what was captured is one of unsigned 32-bit values.
\<close>

definition analyze_network ::
  "mem \<Rightarrow> u32 \<Rightarrow> int \<Rightarrow> int \<Rightarrow> u16 \<Rightarrow> jpacket \<Rightarrow> (jpacket \<times> int \<times> int \<times> int) option" where
  "analyze_network m cap linktype off nproto packet = do {
     data \<leftarrow> (if nproto = UNKNOWN_PROTO then Some 0 else skip_datalink_header linktype off);
     (if nproto = ETHERTYPE_IP then do {
        p \<leftarrow> deref data;
        len \<leftarrow> rd16 m (p + ip_len);
        (packet, hlen) \<leftarrow> analyze_ip packet m p;
        Some (packet, data, to_short (uint (ntohs len)), to_short (uint hlen))
      }
      else if nproto = ETHERTYPE_IPV6 then do {
        p \<leftarrow> deref data;
        len \<leftarrow> rd16 m (p + ip6_plen);
        (packet, hlen) \<leftarrow> analyze_ipv6 packet m p;
        Some (packet, data, to_short (to_short (uint (ntohs len)) + 40), to_short (uint hlen))
      }
      else if nproto = ETHERTYPE_ARP then do {
        p \<leftarrow> deref data;
        (packet, hlen) \<leftarrow> analyze_arp packet m p;
        Some (packet, data, to_short (int hlen), to_short (int hlen))
      }
      else if nproto = UNKNOWN_PROTO then Some (packet, data, to_short (uint cap), 0)
      else do {
        h \<leftarrow> datalink_hlen linktype off;
        Some (packet, data, to_short (uint cap - h), 0)
      })
   }"

definition clamp_clen :: "u32 \<Rightarrow> int \<Rightarrow> int \<Rightarrow> u16 \<Rightarrow> u16 \<Rightarrow> int \<Rightarrow> int option" where
  "clamp_clen cap linktype off nproto tproto clen =
     (if nproto \<noteq> UNKNOWN_PROTO \<and> tproto \<noteq> UNKNOWN_PROTO then do {
        h \<leftarrow> datalink_hlen linktype off;
        Some (if cap - word_of_int h < (word_of_int clen :: u32)
              then to_short (uint (cap - word_of_int h)) else clen)
      }
      else Some clen)"

text \<open>The transport layer: the object and \<open>hlen\<close>. \<open>va\<close> is what \<open>analyze_icmp\<close> needs.\<close>

definition analyze_transport ::
  "jshort \<times> jshort \<Rightarrow> mem \<Rightarrow> int \<Rightarrow> int \<Rightarrow> u16 \<Rightarrow> jpacket \<Rightarrow> (jpacket \<times> int) option" where
  "analyze_transport va m data clen tproto packet =
     (if tproto = IPPROTO_TCP then do {
        p \<leftarrow> deref data;
        (packet, hlen) \<leftarrow> analyze_tcp packet m p;
        Some (packet, to_short (uint hlen))
      }
      else if tproto = IPPROTO_UDP then do {
        p \<leftarrow> deref data;
        packet \<leftarrow> analyze_udp packet m p;
        Some (packet, int UDPHDRLEN)
      }
      else if tproto = IPPROTO_ICMP then do {
        p \<leftarrow> deref data;
        packet \<leftarrow> analyze_icmp va packet m p (word_of_int clen);
        Some (packet, int ICMPHDRLEN)
      }
      else Some (packet, 0))"

text \<open>The header and data arrays; a negative array size raises an exception and the copy fails.\<close>

definition set_arrays :: "mem \<Rightarrow> int \<Rightarrow> int \<Rightarrow> int \<Rightarrow> jpacket \<Rightarrow> jpacket option" where
  "set_arrays m data clen hlen packet = do {
     let hlen = (if clen < hlen then clen else hlen);
     let clen = to_short (clen - hlen);
     let data = data + hlen;
     let hlen = to_short (data mod 65536);
     n \<leftarrow> deref hlen;
     hdr \<leftarrow> rd_bytes m 0 n;
     let packet = Packet_setPacketHeader hdr packet;
     (if 0 \<le> clen then do {
        p \<leftarrow> deref data;
        bs \<leftarrow> rd_bytes m p (nat clen);
        Some (Packet_setPacketData bs packet)
      }
      else Some packet)
   }"

text \<open>
  One frame, up to the decision whether it passes: the packet object if it does, nothing if it is
  filtered, and the new \<open>linktypes_ext\<close>.
\<close>

definition fill_packet ::
  "jshort \<times> jshort \<Rightarrow> pcap_pkthdr \<Rightarrow> mem \<Rightarrow> int \<Rightarrow> int \<Rightarrow> int \<Rightarrow> u16 \<Rightarrow> u16 \<Rightarrow> jpacket \<Rightarrow> jpacket option" where
  "fill_packet va hdr m linktype ext off nproto tproto packet = do {
     let packet = Packet_setPacketValue (scast (tv_sec hdr)) (scast (tv_usec hdr)) (hdr_caplen hdr)
       (hdr_len hdr) packet;
     dl \<leftarrow> analyze_datalink m 0 linktype ext;
     let packet = Packet_setDatalinkPacket dl packet;
     (packet, data, clen, hlen) \<leftarrow> analyze_network m (hdr_caplen hdr) linktype off nproto packet;
     clen \<leftarrow> clamp_clen (hdr_caplen hdr) linktype off nproto tproto clen;
     let data = data + hlen;
     let clen = to_short (clen - hlen);
     (packet, hlen) \<leftarrow> analyze_transport va m data clen tproto packet;
     set_arrays m data clen hlen packet
   }"

record uninit =
  un_tproto :: u16
  un_va :: "jshort \<times> jshort"

definition decode_packet ::
  "(string \<Rightarrow> u8 list option) \<Rightarrow> jpcap_filter option \<Rightarrow> int \<Rightarrow> uninit \<Rightarrow> pcap_pkthdr \<Rightarrow> mem \<Rightarrow> int \<Rightarrow>
   (jpacket option \<times> int) option" where
  "decode_packet getByName jpcapFilter linktype un hdr m ext = do {
     let clen = to_short (uint (hdr_caplen hdr));
     (nproto, off, ext, clen) \<leftarrow> network_protocol m linktype ext clen;
     (tproto, clen) \<leftarrow> transport_protocol m linktype off (un_tproto un) nproto clen;
     let tproto = truncated_check tproto clen;
     (case create_packet jpcapFilter tproto nproto of
        None \<Rightarrow> Some (None, ext)
      | Some packet \<Rightarrow> do {
          packet \<leftarrow> fill_packet (un_va un) hdr m linktype ext off nproto tproto packet;
          pass \<leftarrow> (case jpcapFilter of None \<Rightarrow> Some 1 | Some f \<Rightarrow> doFilter getByName f packet);
          Some (if pass \<noteq> 0 then Some packet else None, ext)
        })
   }"

section \<open>The loop through get\_next\_packet\<close>

text \<open>
  What \<open>pcap_next_ex\<close> reports: its return value and, on success, the header and the data pointer,
  which may be null. The capture handle is a state of type \<open>'s\<close>; reading it and the contents of
  uninitialised variables are parameters.
\<close>

datatype next_result = Timeout | ReadError | EndOfFile | Captured pcap_pkthdr "mem option"

record 's session =
  pcap_next_ex :: "'s \<Rightarrow> next_result \<times> 's"
  garbage :: "'s \<Rightarrow> uninit"
  resolve :: "string \<Rightarrow> u8 list option"
  sess_filter :: "jpcap_filter option"
  sess_linktype :: int

text \<open>
  A call returns the C result, the object stored through \<open>packet\<close> (if any), \<open>linktypes_ext\<close> and the
  handle; or it has undefined behaviour; or the given number of calls was not enough.
\<close>

datatype 's outcome = Undefined | OutOfFuel | Returned int "jpacket option" int 's

fun get_packet ::
  "nat \<Rightarrow> 's session \<Rightarrow> pcap_pkthdr \<Rightarrow> mem \<Rightarrow> int \<Rightarrow> 's \<Rightarrow> 's outcome"
and get_next_packet :: "nat \<Rightarrow> 's session \<Rightarrow> int \<Rightarrow> 's \<Rightarrow> 's outcome" where
  "get_packet n c hdr m ext s =
     (case decode_packet (resolve c) (sess_filter c) (sess_linktype c) (garbage c s) hdr m ext of
        None \<Rightarrow> Undefined
      | Some (Some packet, ext) \<Rightarrow> Returned 1 (Some packet) ext s
      | Some (None, ext) \<Rightarrow> (case n of 0 \<Rightarrow> OutOfFuel | Suc k \<Rightarrow> get_next_packet k c ext s))"
| "get_next_packet n c ext s =
     (case pcap_next_ex c s of
        (Timeout, s) \<Rightarrow> Returned 0 None ext s
      | (ReadError, s) \<Rightarrow> Returned 0 None ext s
      | (EndOfFile, s) \<Rightarrow> Returned 1 (Some Packet_EOF) ext s
      | (Captured hdr None, s) \<Rightarrow> Returned 0 None ext s
      | (Captured hdr (Some m), s) \<Rightarrow>
          (case get_packet n c hdr m ext s of
             Returned res packet ext s \<Rightarrow>
               if res = 0 then Returned 0 packet ext s else Returned 1 packet ext s
           | out \<Rightarrow> out))"

section \<open>The entry points\<close>

text \<open>
  \<open>getPacket\<close>: the result is the Java reference that is returned, null as \<open>None\<close>. The global filter
  reference is set by \<open>initJpcapFilter\<close>; \<open>heap\<close> gives the current contents of a filter object.
\<close>

datatype 's native_result = NativeUndefined | NativeOutOfFuel | NativeReturn "jpacket option" int 's

definition with_filter :: "('r \<Rightarrow> jpcap_filter) \<Rightarrow> 'r option \<Rightarrow> 's session \<Rightarrow> 's session" where
  "with_filter heap g c = c\<lparr>sess_filter := map_option heap g\<rparr>"

definition getPacket ::
  "nat \<Rightarrow> ('r \<Rightarrow> jpcap_filter) \<Rightarrow> 'r option \<Rightarrow> 'r option \<Rightarrow> 's session \<Rightarrow> int \<Rightarrow> 's \<Rightarrow>
   'r option \<times> 's native_result" where
  "getPacket n heap jpcapFilter getJpcapFilter c ext s =
     (let g = initJpcapFilter jpcapFilter getJpcapFilter in
      (g, case pcap_next_ex c s of
            (Timeout, s) \<Rightarrow> NativeReturn None ext s
          | (ReadError, s) \<Rightarrow> NativeReturn None ext s
          | (EndOfFile, s) \<Rightarrow> NativeReturn (Some Packet_EOF) ext s
          | (Captured hdr None, s) \<Rightarrow> NativeReturn None ext s
          | (Captured hdr (Some m), s) \<Rightarrow>
              (case get_packet n (with_filter heap g c) hdr m ext s of
                 Undefined \<Rightarrow> NativeUndefined
               | OutOfFuel \<Rightarrow> NativeOutOfFuel
               | Returned res packet ext s \<Rightarrow>
                   if res = 0 then NativeReturn None ext s else NativeReturn packet ext s)))"

text \<open>
  \<open>dispatcher_handler\<close> hands the object to the Java handler; the result lists what was delivered.
\<close>

datatype 's delivery = DeliverUndefined | DeliverOutOfFuel | Delivered "jpacket list" int 's

definition dispatcher_handler ::
  "nat \<Rightarrow> 's session \<Rightarrow> pcap_pkthdr \<Rightarrow> mem \<Rightarrow> int \<Rightarrow> 's \<Rightarrow> 's delivery" where
  "dispatcher_handler n c hdr m ext s =
     (case get_packet n c hdr m ext s of
        Undefined \<Rightarrow> DeliverUndefined
      | OutOfFuel \<Rightarrow> DeliverOutOfFuel
      | Returned res packet ext s \<Rightarrow>
          (if res = 0 then Delivered [] ext s
           else (case packet of None \<Rightarrow> DeliverUndefined | Some q \<Rightarrow> Delivered [q] ext s)))"

text \<open>
  \<open>pcap_loop\<close> and \<open>pcap_dispatch\<close> call the handler for frame after frame; \<open>pcap_callback\<close> is the
  library's choice of the next frame, \<open>k\<close> the number of calls it makes.
\<close>

fun run_callbacks ::
  "nat \<Rightarrow> ('s \<Rightarrow> (pcap_pkthdr \<times> mem) option \<times> 's) \<Rightarrow> nat \<Rightarrow> 's session \<Rightarrow> int \<Rightarrow> 's \<Rightarrow> 's delivery" where
  "run_callbacks n pcap_callback 0 c ext s = Delivered [] ext s"
| "run_callbacks n pcap_callback (Suc k) c ext s =
     (case pcap_callback s of
        (None, s) \<Rightarrow> Delivered [] ext s
      | (Some (hdr, m), s) \<Rightarrow>
          (case dispatcher_handler n c hdr m ext s of
             Delivered qs ext s \<Rightarrow>
               (case run_callbacks n pcap_callback k c ext s of
                  Delivered rs ext s \<Rightarrow> Delivered (qs @ rs) ext s
                | out \<Rightarrow> out)
           | out \<Rightarrow> out))"

text \<open>\<open>loopPacket\<close> refreshes the filter first, \<open>processPacket\<close> uses the one that is installed.\<close>

definition loopPacket where
  "loopPacket n heap jpcapFilter getJpcapFilter pcap_callback k c ext s =
     (let g = initJpcapFilter jpcapFilter getJpcapFilter in
      (g, run_callbacks n pcap_callback k (with_filter heap g c) ext s))"

definition processPacket where
  "processPacket n heap jpcapFilter pcap_callback k c ext s =
     run_callbacks n pcap_callback k (with_filter heap jpcapFilter c) ext s"

section \<open>Header and data arrays\<close>

text \<open>
  The last step always sets both arrays, and they are adjacent pieces of the frame, starting with its
  first byte.
\<close>

lemma set_arrays_SomeD:
  assumes "set_arrays m d clen hlen packet = Some q" and "clen < 32768" and "- 32768 \<le> clen"
    and "0 \<le> hlen" and "hlen < 32768" and "d + hlen < 65536"
  shows "\<exists>k j. header q = Some (take k m) \<and> pkt_data q = Some (take j (drop k m)) \<and>
     k + j \<le> length m \<and> int k = d + min hlen clen \<and> int j = clen - min hlen clen \<and> k < 32768 \<and>
     q = packet\<lparr>header := header q, pkt_data := pkt_data q\<rparr>"
proof -
  let ?h = "if clen < hlen then clen else hlen"
  have h: "?h = min hlen clen" by simp
  have c: "to_short (clen - ?h) = clen - ?h" "0 \<le> clen - ?h"
    using assms(2-5) by (auto intro!: to_short_id)
  obtain n where n: "deref (to_short ((d + ?h) mod 65536)) = Some n" "n \<le> length m"
    "0 \<le> d + ?h" "nat (d + ?h) + nat (clen - ?h) \<le> length m"
    and q: "q = packet\<lparr>header := Some (take n m),
        pkt_data := Some (take (nat (clen - ?h)) (drop (nat (d + ?h)) m))\<rparr>"
    using assms(1) c
    by (auto simp: set_arrays_def Let_def rd_bytes_def deref_def setter_defs bind_eq_Some_conv
        split: if_splits)
  have x: "(d + ?h) mod 65536 = d + ?h" using n(3) assms(6) by auto
  have "d + ?h < 32768"
  proof (rule ccontr)
    assume "\<not> d + ?h < 32768"
    then have "to_short (d + ?h) < 0"
      using assms(6) to_short_wrap [of "d + ?h"] by auto
    then show False using n(1) x by (simp add: deref_def)
  qed
  then have "to_short (d + ?h) = d + ?h" using n(3) by (intro to_short_id) auto
  then have "n = nat (d + ?h)" using n(1) x by (simp add: deref_def split: if_splits)
  with q n(3,4) c(2) \<open>d + ?h < 32768\<close> show ?thesis
    unfolding h
    by (intro exI [where P = "\<lambda>k. \<exists>j. _ k j", OF exI [of _ "nat (clen - min hlen clen)"]])
       (auto simp: nat_less_iff)
qed

lemma table_bound:
  assumes "table offset_data i = Some d"
  shows "d \<le> 24"
proof -
  have "\<forall>x \<in> set offset_data. x \<le> 24" by (simp add: offset_data_def)
  moreover have "d \<in> set offset_data"
    using assms by (auto simp: table_def split: if_splits)
  ultimately show ?thesis by blast
qed

text \<open>The decoders keep the class, the datalink object, the time and the lengths.\<close>

abbreviation same_base :: "jpacket \<Rightarrow> jpacket \<Rightarrow> bool" where
  "same_base p q \<equiv> base q = base p"

lemma CallVoidMethod_class:
  "CallVoidMethod c f p = Some q \<Longrightarrow> (\<And>x. same_base x (f x)) \<Longrightarrow> same_base p q"
  by (auto simp: CallVoidMethod_def split: if_splits)

lemma analyze_ip_class: "analyze_ip packet m p = Some (q, n) \<Longrightarrow> same_base packet q"
  by (auto simp: analyze_ip_def bind_eq_Some_conv Let_def split: if_splits
      dest!: CallVoidMethod_class)

lemma analyze_tcp_class: "analyze_tcp packet m p = Some (q, n) \<Longrightarrow> same_base packet q"
  by (auto simp: analyze_tcp_def bind_eq_Some_conv Let_def split: if_splits
      dest!: CallVoidMethod_class)

lemma analyze_udp_class: "analyze_udp packet m p = Some q \<Longrightarrow> same_base packet q"
  by (auto simp: analyze_udp_def bind_eq_Some_conv dest!: CallVoidMethod_class)

lemma analyze_arp_class: "analyze_arp packet m p = Some (q, n) \<Longrightarrow> same_base packet q"
  by (auto simp: analyze_arp_def bind_eq_Some_conv Let_def dest!: CallVoidMethod_class)

lemma analyze_icmp_switch_class:
  "analyze_icmp_switch packet m p clen ty = Some q \<Longrightarrow> same_base packet q"
  by (auto simp: analyze_icmp_switch_def icmp_case_redirect_def icmp_case_unreach_def
      icmp_case_error_def bind_eq_Some_conv split: if_splits dest!: CallVoidMethod_class)

lemma analyze_icmp_class:
  "analyze_icmp va packet m p clen = Some q \<Longrightarrow> same_base packet q"
  by (auto simp: analyze_icmp_def analyze_icmp_value_def analyze_icmp_id_def bind_eq_Some_conv
      split: if_splits dest!: CallVoidMethod_class analyze_icmp_switch_class)

lemma analyze_ipv6_class:
  assumes "analyze_ipv6 packet m p = Some (q, n)"
  shows "same_base packet q"
proof -
  obtain x k where "ipv6_ext_loop x m (p + 40) 40 (m ! (p + 6)) = Some (q, k)"
    "same_base packet x"
    using assms by (auto simp: analyze_ipv6_def bind_eq_Some_conv rd8_def split: if_splits
        dest!: CallVoidMethod_class)
  then show ?thesis using ipv6_ext_loop_accounts by metis
qed

lemma network_protocol_off:
  "network_protocol m linktype ext clen = Some (nproto, off, ext', clen') \<Longrightarrow> off = 0 \<or> off = 8"
  by (auto simp: network_protocol_def bind_eq_Some_conv Let_def split: if_splits)

lemma analyze_network_bounds:
  assumes "analyze_network m cap linktype off nproto packet = Some (q, d, clen, hlen)"
    and "off = 0 \<or> off = 8"
  shows "d \<le> 32" "hlen < 32768" "same_base packet q"
proof -
  have "d \<le> 32 \<and> hlen < 32768"
    using assms table_bound [of linktype] to_short_range(2)
    by (auto simp: analyze_network_def skip_datalink_header_def datalink_hlen_def bind_eq_Some_conv
        split: if_splits)
  then show "d \<le> 32" "hlen < 32768" by auto
  show "same_base packet q"
    using assms(1)
    by (auto simp: analyze_network_def bind_eq_Some_conv split: if_splits
        dest: analyze_ip_class analyze_ipv6_class analyze_arp_class)
qed

lemma analyze_tcp_hlen:
  assumes "analyze_tcp packet m p = Some (q, h)"
  shows "uint h \<le> 60"
proof -
  obtain v :: u8 where h: "h = ucast (drop_bit 4 v) * 4"
    using assms by (auto simp: analyze_tcp_def get_th_off_def bind_eq_Some_conv Let_def split: if_splits)
  have "unat (drop_bit 4 v) = unat v div 16" unfolding unat_drop_bit_eq by (simp add: drop_bit_eq_div)
  then have "unat h \<le> 60" using unat_hdrlen [of "drop_bit 4 v"] unat_u8_less [of v] h by simp
  then show ?thesis by (metis of_nat_le_iff of_nat_numeral uint_nat)
qed

lemma analyze_transport_bounds:
  assumes "analyze_transport va m d clen tproto packet = Some (q, hlen)"
  shows "0 \<le> hlen \<and> hlen \<le> 60 \<and> same_base packet q"
proof (cases "tproto = IPPROTO_TCP")
  case True
  then obtain p h where h: "analyze_tcp packet m p = Some (q, h)" "hlen = to_short (uint h)"
    using assms by (auto simp: analyze_transport_def bind_eq_Some_conv)
  have "to_short (uint h) = uint h"
    using analyze_tcp_hlen [OF h(1)] uint_ge_0 [of h] by (intro to_short_id) linarith+
  with h show ?thesis using analyze_tcp_hlen analyze_tcp_class by simp
next
  case False
  with assms show ?thesis
    by (auto simp: analyze_transport_def bind_eq_Some_conv split: if_splits
        dest: analyze_udp_class analyze_icmp_class)
qed

lemma bindE:
  assumes "Option.bind x f = Some y"
  obtains z where "x = Some z" and "f z = Some y"
  using assms by (cases x) simp_all

lemma pkt_class_setters [simp]:
  "pkt_class (Packet_setPacketValue a b c d p) = pkt_class p"
  "pkt_class (Packet_setDatalinkPacket dl p) = pkt_class p"
  "datalink (Packet_setPacketValue a b c d p) = datalink p"
  "datalink (Packet_setDatalinkPacket dl p) = Some dl"
  by (simp_all add: setter_defs)

lemma fill_packet_SomeD:
  assumes "fill_packet va hdr m linktype ext off nproto tproto packet = Some q"
    and "off = 0 \<or> off = 8"
  shows "\<exists>k j. header q = Some (take k m) \<and> pkt_data q = Some (take j (drop k m)) \<and>
     k + j \<le> length m"
    and "pkt_class q = pkt_class packet"
    and "datalink q \<noteq> None \<and> analyze_datalink m 0 linktype ext = datalink q"
    and "sec q = scast (tv_sec hdr)" and "usec q = scast (tv_usec hdr)"
    and "caplen q = hdr_caplen hdr" and "pkt_len q = hdr_len hdr"
proof -
  obtain p0 p1 d c0 h0 c1 p2 h1 where
    n: "analyze_network m (hdr_caplen hdr) linktype off nproto p0 = Some (p1, d, c0, h0)"
      "pkt_class p0 = pkt_class packet \<and> datalink p0 \<noteq> None \<and>
        analyze_datalink m 0 linktype ext = datalink p0 \<and> sec p0 = scast (tv_sec hdr) \<and>
        usec p0 = scast (tv_usec hdr) \<and> caplen p0 = hdr_caplen hdr \<and> pkt_len p0 = hdr_len hdr"
    and t: "analyze_transport va m (d + h0) (to_short (c1 - h0)) tproto p1 = Some (p2, h1)"
    and s: "set_arrays m (d + h0) (to_short (c1 - h0)) h1 p2 = Some q"
    using assms(1)
    by (simp only: fill_packet_def Let_def bind_eq_Some_conv split_paired_Ex prod.case)
       (elim exE conjE, rule that, assumption, simp add: setter_defs, assumption+)
  have b: "d \<le> 32" "h0 < 32768" "0 \<le> h1" "h1 \<le> 60"
    using analyze_network_bounds [OF n(1) assms(2)] analyze_transport_bounds [OF t] by auto
  have "h1 < 32768" "d + h0 + h1 < 65536" using b by simp_all
  then obtain k j where kj:
    "header q = Some (take k m)" "pkt_data q = Some (take j (drop k m))" "k + j \<le> length m"
    "q = p2\<lparr>header := header q, pkt_data := pkt_data q\<rparr>"
    using set_arrays_SomeD [OF s to_short_range(2,1) b(3)] by blast
  then show "\<exists>k j. header q = Some (take k m) \<and> pkt_data q = Some (take j (drop k m)) \<and>
     k + j \<le> length m" by blast
  have "same_base p2 q"
    by (subst kj(4)) simp
  then show "pkt_class q = pkt_class packet"
    "datalink q \<noteq> None \<and> analyze_datalink m 0 linktype ext = datalink q"
    "sec q = scast (tv_sec hdr)" "usec q = scast (tv_usec hdr)"
    "caplen q = hdr_caplen hdr" "pkt_len q = hdr_len hdr"
    using n(2) analyze_network_bounds(3) [OF n(1) assms(2)] analyze_transport_bounds [OF t]
    by (simp_all add: base_def)
qed

lemma decode_packet_passD:
  assumes "decode_packet getByName jpcapFilter linktype un hdr m ext = Some (Some q, ext')"
  obtains nproto off tproto packet
  where "off = 0 \<or> off = 8" and "create_packet jpcapFilter tproto nproto = Some packet"
    and "fill_packet (un_va un) hdr m linktype ext' off nproto tproto packet = Some q"
    and "\<And>f. jpcapFilter = Some f \<Longrightarrow> \<exists>v. doFilter getByName f q = Some v \<and> v \<noteq> 0"
proof -
  obtain nproto off e clen t clen'
    where n: "network_protocol m linktype ext (to_short (uint (hdr_caplen hdr))) =
        Some (nproto, off, e, clen)"
      and r: "(case create_packet jpcapFilter (truncated_check t clen') nproto of
          None \<Rightarrow> Some (None, e)
        | Some packet \<Rightarrow> do {
            packet \<leftarrow> fill_packet (un_va un) hdr m linktype e off nproto (truncated_check t clen') packet;
            pass \<leftarrow> (case jpcapFilter of None \<Rightarrow> Some 1 | Some f \<Rightarrow> doFilter getByName f packet);
            Some (if pass \<noteq> 0 then Some packet else None, e)
          }) = Some (Some q, ext')"
    using assms
    by (simp only: decode_packet_def Let_def bind_eq_Some_conv [of "network_protocol _ _ _ _"]
        bind_eq_Some_conv [of "transport_protocol _ _ _ _ _ _"] split_paired_Ex prod.case)
       (elim exE conjE, rule that)
  then obtain packet where c: "create_packet jpcapFilter (truncated_check t clen') nproto = Some packet"
    by (cases "create_packet jpcapFilter (truncated_check t clen') nproto") simp_all
  have e: "e = ext'"
    and f: "fill_packet (un_va un) hdr m linktype ext' off nproto (truncated_check t clen') packet = Some q"
    and d: "\<exists>v. (case jpcapFilter of None \<Rightarrow> Some 1 | Some f \<Rightarrow> doFilter getByName f q) = Some v \<and> v \<noteq> 0"
    using r unfolding c by (auto simp: bind_eq_Some_conv split: if_splits)
  show thesis
    by (rule that [OF network_protocol_off [OF n] c f]) (use d in simp)
qed

section \<open>Properties of one frame\<close>


definition class_protocol :: "jclass \<Rightarrow> Protocol option" where
  "class_protocol c =
     (case c of TCPPacket \<Rightarrow> Some TCP | UDPPacket \<Rightarrow> Some UDP | ICMPPacket \<Rightarrow> Some ICMP
      | ARPPacket \<Rightarrow> Some ARP | _ \<Rightarrow> None)"

lemma create_packet_protocol:
  assumes "create_packet (Some f) tproto nproto = Some packet"
    and "class_protocol (pkt_class packet) = Some pr"
  shows "protocols f = [] \<or> pr \<in> set (protocols f)"
proof -
  have "jpcap_protocol_filter (Some f) (Protocol_name pr) \<noteq> 0"
    using assms by (auto simp: create_packet_def class_protocol_def split: if_splits)
  then have "protocols f = [] \<or> Protocol_name pr \<in> Protocol_name ` set (protocols f)"
    by (auto simp: jpcap_protocol_filter_def compareProtocol_iff split: if_splits)
  then show ?thesis by (simp add: inj_image_mem_iff [OF Protocol_name_inj])
qed




section \<open>Frames on Ethernet\<close>

text \<open>The header length of the IP packet in a frame, in words.\<close>

definition frame_ihl :: "mem \<Rightarrow> nat" where
  "frame_ihl m = unat (m ! 14 AND 0x0f)"

lemma uint_frame_ihl: "uint (m ! 14 AND 0x0f) = int (frame_ihl m)"
  by (simp add: frame_ihl_def)

lemma frame_ihl_less: "frame_ihl m < 256"
  by (simp add: frame_ihl_def unat_u8_less)

lemma datalink_hlen_ether: "datalink_hlen 1 off = Some (14 + off)"
  by (simp add: datalink_hlen_def table_def offset_data_def)

lemma get_network_type_ether:
  "14 \<le> length m \<Longrightarrow> get_network_type m 1 0 = Some (le16 (m ! 13) (m ! 12))"
  by (simp add: get_network_type_def table_def offset_type_def deref_def rd16_def)

text \<open>A frame that is captured completely and whose length fits a \<open>short\<close>.\<close>

definition frame_ok :: "pcap_pkthdr \<Rightarrow> mem \<Rightarrow> bool" where
  "frame_ok hdr m \<longleftrightarrow> unat (hdr_caplen hdr) = length m \<and> length m < 32768 \<and> 14 \<le> length m"

lemma uint_caplen: "frame_ok hdr m \<Longrightarrow> uint (hdr_caplen hdr) = int (length m)"
  by (metis frame_ok_def uint_nat)

lemma network_protocol_ip:
  assumes "14 \<le> length m" and "le16 (m ! 13) (m ! 12) = 0x0800"
  shows "network_protocol m 1 ext clen = Some (0x0800, 0, ext, to_short (clen - 14))"
  using assms by (simp add: network_protocol_def get_network_type_ether datalink_hlen_ether)

lemma transport_protocol_ip:
  assumes "34 \<le> length m" and "length m < 32768" and "14 + 4 * frame_ihl m < length m"
    and "le16 (m ! 21) (m ! 20) AND 0x1fff = 0"
  shows "transport_protocol m 1 0 t0 0x0800 (int (length m) - 14) =
     Some (ucast (m ! 23), int (length m) - 14 - 4 * int (frame_ihl m))"
proof -
  have "to_short (int (length m) - 14 - int (4 * frame_ihl m)) = int (length m) - 14 - 4 * int (frame_ihl m)"
    using assms(2,3) by (subst to_short_id) auto
  moreover have "get_ip_hl m 14 = Some (m ! 14 AND 0x0f)"
    using assms(1) by (simp add: get_ip_hl_def access_ok)
  moreover have "rd16 m 20 = Some (le16 (m ! 20) (m ! 21))" "rd8 m 23 = Some (m ! 23)"
    using assms(1) by (simp_all add: access_ok)
  ultimately show ?thesis
    using assms
    by (simp add: transport_protocol_def skip_datalink_header_def datalink_hlen_ether deref_def
        Let_def uint_frame_ihl)
qed

lemma analyze_network_ip:
  assumes "34 \<le> length m" and "14 + 4 * frame_ihl m \<le> length m" and "IsInstanceOf packet IPPacket"
  shows "analyze_network m cap 1 0 0x0800 packet =
     Some (packet\<lparr>ip := ip_decoded m 14 (ip packet)\<rparr>, 14,
       to_short (uint (le16 (m ! 17) (m ! 16))), 4 * int (frame_ihl m))"
proof -
  have "to_short (4 * int (frame_ihl m)) = 4 * int (frame_ihl m)"
    using frame_ihl_less [of m] by (intro to_short_id) auto
  then have h: "to_short (uint (push_bit 2 (ucast (m ! 14 AND 0x0f) :: u16))) = 4 * int (frame_ihl m)"
    using unat_ip_hdrlen [of "m ! 14 AND 0x0f"] by (simp add: frame_ihl_def uint_nat [of "push_bit 2 _"] mult.commute
        del: of_nat_unat)
  have a: "analyze_ip packet m 14 =
      Some (packet\<lparr>ip := ip_decoded m 14 (ip packet)\<rparr>, push_bit 2 (ucast (m ! 14 AND 0x0f)))"
    using analyze_ip_eq [of 14 m packet] assms by (simp add: frame_ihl_def)
  have r: "rd16 m 16 = Some (le16 (m ! 16) (m ! 17))"
    using assms(1) by (simp add: access_ok)
  show ?thesis
    by (simp add: analyze_network_def skip_datalink_header_def datalink_hlen_ether deref_def a r h)
qed

lemma clamp_clen_fits:
  assumes "frame_ok hdr m" and "0 \<le> clen" and "14 + clen \<le> int (length m)"
  shows "clamp_clen (hdr_caplen hdr) 1 0 0x0800 tproto clen = Some clen"
proof -
  let ?w = "hdr_caplen hdr - 14"
  have len: "unat (hdr_caplen hdr) = length m" "14 \<le> length m" "length m < 32768"
    using assms(1) by (simp_all add: frame_ok_def)
  have "14 \<le> hdr_caplen hdr" using len by (simp add: word_le_nat_alt)
  then have "unat ?w = length m - 14" using len(1) by (simp add: unat_sub)
  moreover have "unat (word_of_int clen :: u32) = nat clen"
    using assms(2,3) len(3) by (simp add: unsigned_of_int take_bit_int_eq_self)
  ultimately have "\<not> ?w < word_of_int clen"
    using assms(2,3) len(2) by (simp add: word_less_nat_alt)
  then show ?thesis by (simp add: clamp_clen_def datalink_hlen_ether)
qed

lemma analyze_tcp_in_bounds:
  assumes "pkt_class packet = TCPPacket" and "p + 20 \<le> length m"
    and "p + 4 * unat (drop_bit 4 (m ! (p + 12))) \<le> length m"
  shows "\<exists>t. analyze_tcp packet m p =
      Some (packet\<lparr>tcp := t\<rparr>, ucast (drop_bit 4 (m ! (p + 12))) * 4) \<and>
    tcp_src_port t = ucast (le16 (m ! (p + 1)) (m ! p)) \<and>
    tcp_dst_port t = ucast (le16 (m ! (p + 3)) (m ! (p + 2)))"
  using assms
  by (simp add: analyze_tcp_def get_th_off_def access_ok rd_bytes_def CallVoidMethod_def Let_def
      unat_hdrlen setter_defs add.commute numeral_3_eq_3)
     (intro conjI impI exI, (rule refl | simp)+)

text \<open>The arrays of a packet whose header and data lie inside the frame.\<close>

lemma set_arrays_ok:
  assumes "hlen \<le> clen" and "d + clen \<le> length m" and "length m < 32768"
  shows "set_arrays m (int d) (int clen) (int hlen) packet =
     Some (packet\<lparr>header := Some (take (d + hlen) m),
       pkt_data := Some (take (clen - hlen) (drop (d + hlen) m))\<rparr>)"
proof -
  have "to_short (int clen - int hlen) = int (clen - hlen)"
    "to_short ((int d + int hlen) mod 65536) = int (d + hlen)"
    using assms by (simp_all add: to_short_id of_nat_diff)
  moreover have "nat (int d + int hlen) = d + hlen" "nat (int clen - int hlen) = clen - hlen"
    using assms(1) by linarith+
  ultimately show ?thesis
    using assms by (simp add: set_arrays_def Let_def deref_def rd_bytes_def setter_defs)
qed

text \<open>The TCP segment of a frame: its offset and its data offset, in words.\<close>

definition frame_seg :: "mem \<Rightarrow> nat" where
  "frame_seg m = 14 + 4 * frame_ihl m"

definition frame_thl :: "mem \<Rightarrow> nat" where
  "frame_thl m = unat (drop_bit 4 (m ! (frame_seg m + 12)))"

lemma uint_thl: "to_short (uint (ucast (drop_bit 4 (m ! (frame_seg m + 12))) * 4 :: u16)) = 4 * int (frame_thl m)"
proof -
  have "frame_thl m < 256" by (simp add: frame_thl_def unat_u8_less)
  moreover have "uint (ucast (drop_bit 4 (m ! (frame_seg m + 12))) * 4 :: u16) = 4 * int (frame_thl m)"
    unfolding uint_nat unat_hdrlen by (simp add: frame_thl_def)
  ultimately show ?thesis by (simp add: to_short_id)
qed

text \<open>
  A well-formed IPv4/TCP frame on Ethernet: complete, unfragmented, the length of the IP packet inside
  the frame, and room for both headers.
\<close>

definition tcp_frame :: "pcap_pkthdr \<Rightarrow> mem \<Rightarrow> bool" where
  "tcp_frame hdr m \<longleftrightarrow>
     frame_ok hdr m \<and> 34 \<le> length m \<and> le16 (m ! 13) (m ! 12) = ETHERTYPE_IP \<and>
     le16 (m ! 21) (m ! 20) AND IP_OFFMASK = 0 \<and> m ! 23 = 6 \<and>
     5 \<le> frame_ihl m \<and> 5 \<le> frame_thl m \<and>
     4 * frame_ihl m + 4 * frame_thl m \<le> unat (le16 (m ! 17) (m ! 16)) \<and>
     14 + unat (le16 (m ! 17) (m ! 16)) \<le> length m"

text \<open>
  An unfragmented IPv4 packet inside a complete frame, and what \<open>fill_packet\<close> does with it around the
  transport layer: \<open>p1\<close> is the object the transport codec is given, \<open>hl\<close> the length of the transport header.
\<close>

definition ip_frame :: "pcap_pkthdr \<Rightarrow> mem \<Rightarrow> u8 \<Rightarrow> nat \<Rightarrow> bool" where
  "ip_frame hdr m proto hl \<longleftrightarrow>
     frame_ok hdr m \<and> 34 \<le> length m \<and> le16 (m ! 13) (m ! 12) = ETHERTYPE_IP \<and>
     le16 (m ! 21) (m ! 20) AND IP_OFFMASK = 0 \<and> m ! 23 = proto \<and> 5 \<le> frame_ihl m \<and>
     4 * frame_ihl m + hl \<le> unat (le16 (m ! 17) (m ! 16)) \<and> 14 + unat (le16 (m ! 17) (m ! 16)) \<le> length m"

definition before_transport :: "pcap_pkthdr \<Rightarrow> mem \<Rightarrow> jpacket \<Rightarrow> jpacket" where
  "before_transport hdr m packet =
     (let p0 = Packet_setDatalinkPacket
          (EthernetPacket (EthernetPacket_setValue (take 6 m) (take 6 (drop 6 m)) (le16 (m ! 13) (m ! 12))))
          (Packet_setPacketValue (scast (tv_sec hdr)) (scast (tv_usec hdr)) (hdr_caplen hdr) (hdr_len hdr) packet)
      in p0\<lparr>ip := ip_decoded m 14 (ip p0)\<rparr>)"

lemma before_transport_simps [simp]:
  "pkt_class (before_transport hdr m packet) = pkt_class packet"
  "ip (before_transport hdr m packet) = ip_decoded m 14 (ip packet)"
  "tcp (before_transport hdr m packet) = tcp packet"
  "udp (before_transport hdr m packet) = udp packet"
  by (simp_all add: before_transport_def setter_defs Let_def)

lemma fill_packet_ip:
  fixes m :: mem
  defines "L \<equiv> unat (le16 (m ! 17) (m ! 16))"
  assumes fr: "ip_frame hdr m proto hl" and ext: "ext \<noteq> uint ETHERTYPE_PPPOE"
    and cl: "IsInstanceOf packet IPPacket"
    and tr: "analyze_transport va m (int (frame_seg m)) (int (L - 4 * frame_ihl m)) tproto
        (before_transport hdr m packet) = Some (p2, int hl)"
  shows "fill_packet va hdr m 1 ext 0 0x0800 tproto packet =
     Some (p2\<lparr>header := Some (take (frame_seg m + hl) m),
       pkt_data := Some (take (L - 4 * frame_ihl m - hl) (drop (frame_seg m + hl) m))\<rparr>)"
proof -
  let ?e = "EthernetPacket (EthernetPacket_setValue (take 6 m) (take 6 (drop 6 m)) (le16 (m ! 13) (m ! 12)))"
  define p0 where "p0 = Packet_setDatalinkPacket ?e (Packet_setPacketValue (scast (tv_sec hdr))
      (scast (tv_usec hdr)) (hdr_caplen hdr) (hdr_len hdr) packet)"
  have p0: "IsInstanceOf p0 IPPacket" using cl by (simp add: p0_def setter_defs IsInstanceOf_def)
  have fm: "frame_ok hdr m" "34 \<le> length m" "4 * frame_ihl m + hl \<le> L" "14 + L \<le> length m"
    "5 \<le> frame_ihl m" "length m < 32768"
    using fr by (simp_all add: ip_frame_def frame_ok_def L_def)
  have dl: "analyze_datalink m 0 1 ext = Some ?e"
    using ext fm(2) by (simp add: analyze_datalink_def access_ok rd_bytes_def)
  have L: "to_short (uint (le16 (m ! 17) (m ! 16))) = int L"
    using fm(4,6) unfolding uint_nat L_def by (intro to_short_id) linarith+
  have net: "analyze_network m (hdr_caplen hdr) 1 0 0x0800 p0 =
      Some (before_transport hdr m packet, 14, int L, 4 * int (frame_ihl m))"
    using analyze_network_ip [of m p0 "hdr_caplen hdr"] fm p0 L
    by (simp add: before_transport_def Let_def p0_def)
  have clamp: "clamp_clen (hdr_caplen hdr) 1 0 0x0800 tproto (int L) = Some (int L)"
    using clamp_clen_fits [OF fm(1), of "int L" tproto] fm(4) by simp
  have seg: "14 + 4 * int (frame_ihl m) = int (frame_seg m)" by (simp add: frame_seg_def)
  have c1: "to_short (int L - 4 * int (frame_ihl m)) = int (L - 4 * frame_ihl m)"
    using fm by (subst to_short_id) auto
  have sa: "set_arrays m (int (frame_seg m)) (int (L - 4 * frame_ihl m)) (int hl) p2 =
      Some (p2\<lparr>header := Some (take (frame_seg m + hl) m),
       pkt_data := Some (take (L - 4 * frame_ihl m - hl) (drop (frame_seg m + hl) m))\<rparr>)"
    using fm by (intro set_arrays_ok) (auto simp: frame_seg_def)
  show ?thesis
    using dl net clamp tr sa c1 seg by (simp add: fill_packet_def Let_def flip: p0_def)
qed

lemma fill_packet_tcp:
  fixes m :: mem
  defines "L \<equiv> unat (le16 (m ! 17) (m ! 16))"
  assumes fr: "tcp_frame hdr m" and ext: "ext \<noteq> uint ETHERTYPE_PPPOE"
    and cl: "pkt_class packet = TCPPacket"
  shows "\<exists>q. fill_packet va hdr m 1 ext 0 0x0800 6 packet = Some q \<and> pkt_class q = TCPPacket \<and>
     ip q = ip_decoded m 14 (ip packet) \<and>
     (\<forall>t. tcp_on_wire t m (frame_seg m) \<longrightarrow> tcp q = tcp_truncated t (tcp_option (tcp packet))) \<and>
     tcp_src_port (tcp q) = ucast (le16 (m ! (frame_seg m + 1)) (m ! frame_seg m)) \<and>
     tcp_dst_port (tcp q) = ucast (le16 (m ! (frame_seg m + 3)) (m ! (frame_seg m + 2))) \<and>
     header q = Some (take (frame_seg m + 4 * frame_thl m) m) \<and>
     pkt_data q = Some (take (L - 4 * frame_ihl m - 4 * frame_thl m)
        (drop (frame_seg m + 4 * frame_thl m) m))"
proof -
  let ?p1 = "before_transport hdr m packet"
  have ipf: "ip_frame hdr m 6 (4 * frame_thl m)" and thl: "5 \<le> frame_thl m"
    using fr by (simp_all add: tcp_frame_def ip_frame_def)
  obtain t where t: "analyze_tcp ?p1 m (frame_seg m) =
      Some (?p1\<lparr>tcp := t\<rparr>, ucast (drop_bit 4 (m ! (frame_seg m + 12))) * 4)"
    "tcp_src_port t = ucast (le16 (m ! (frame_seg m + 1)) (m ! frame_seg m))"
    "tcp_dst_port t = ucast (le16 (m ! (frame_seg m + 3)) (m ! (frame_seg m + 2)))"
    using analyze_tcp_in_bounds [of ?p1 "frame_seg m" m] ipf thl cl
    by (auto simp: frame_seg_def frame_thl_def ip_frame_def)
  have tr: "analyze_transport va m (int (frame_seg m)) (int (L - 4 * frame_ihl m)) 6 ?p1 =
      Some (?p1\<lparr>tcp := t\<rparr>, int (4 * frame_thl m))"
    using t(1) by (simp add: analyze_transport_def deref_def uint_thl)
  have "t = tcp_truncated x (tcp_option (tcp packet))" if "tcp_on_wire x m (frame_seg m)" for x
  proof -
    have "?p1\<lparr>tcp := t\<rparr> = ?p1\<lparr>tcp := tcp_truncated x (tcp_option (tcp packet))\<rparr>"
      using analyze_tcp_on_wire [OF that, of ?p1] t(1) cl by simp
    from arg_cong [OF this, of tcp] show ?thesis by simp
  qed
  with fill_packet_ip [OF ipf ext _ tr [unfolded L_def]] cl t(2,3) show ?thesis
    by (simp add: L_def)
qed

lemma decode_ip_frame:
  assumes fr: "ip_frame hdr m proto hl" and hl: "8 \<le> hl" and hlt: "proto = 6 \<Longrightarrow> 20 \<le> hl"
    and cp: "create_packet None (ucast proto) 0x0800 = Some packet"
    and fp: "fill_packet (un_va un) hdr m 1 ext 0 0x0800 (ucast proto) packet = Some q"
  shows "decode_packet getByName None 1 un hdr m ext = Some (Some q, ext)"
proof -
  have fm: "frame_ok hdr m" "34 \<le> length m" "length m < 32768" "le16 (m ! 13) (m ! 12) = 0x0800"
    "le16 (m ! 21) (m ! 20) AND 0x1fff = 0" "m ! 23 = proto" "14 + 4 * frame_ihl m + hl \<le> length m"
    using fr by (auto simp: ip_frame_def frame_ok_def)
  have c: "to_short (uint (hdr_caplen hdr)) = int (length m)"
    "to_short (int (length m) - 14) = int (length m) - 14"
    using fm(2,3) uint_caplen [OF fm(1)] by (simp_all add: to_short_id)
  have n: "network_protocol m 1 ext (int (length m)) = Some (0x0800, 0, ext, int (length m) - 14)"
    using network_protocol_ip [of m ext "int (length m)"] fm(2,4) c(2) by simp
  have t: "transport_protocol m 1 0 (un_tproto un) 0x0800 (int (length m) - 14) =
      Some (ucast proto, int (length m) - 14 - 4 * int (frame_ihl m))"
    using transport_protocol_ip [of m "un_tproto un"] fm hl by simp
  have "(ucast proto :: u16) = 6 \<Longrightarrow> proto = 6" by (transfer; simp)
  then have k: "truncated_check (ucast proto) (int (length m) - 14 - 4 * int (frame_ihl m)) = ucast proto"
    using fm(7) hl hlt by (auto simp: truncated_check_def)
  show ?thesis using c(1) n t k fp cp by (simp add: decode_packet_def)
qed

lemma decode_tcp_frame:
  assumes "tcp_frame hdr m" and "ext \<noteq> uint ETHERTYPE_PPPOE"
  shows "\<exists>q. decode_packet getByName None 1 un hdr m ext = Some (Some q, ext) \<and>
     pkt_class q = TCPPacket \<and> ip q = ip_decoded m 14 alloc_ip \<and>
     (\<forall>t. tcp_on_wire t m (frame_seg m) \<longrightarrow> tcp q = tcp_truncated t (tcp_option alloc_tcp)) \<and>
     tcp_src_port (tcp q) = ucast (le16 (m ! (frame_seg m + 1)) (m ! frame_seg m)) \<and>
     tcp_dst_port (tcp q) = ucast (le16 (m ! (frame_seg m + 3)) (m ! (frame_seg m + 2))) \<and>
     header q = Some (take (frame_seg m + 4 * frame_thl m) m) \<and>
     pkt_data q = Some (take (unat (le16 (m ! 17) (m ! 16)) - 4 * frame_ihl m - 4 * frame_thl m)
        (drop (frame_seg m + 4 * frame_thl m) m))"
proof -
  have ipf: "ip_frame hdr m 6 (4 * frame_thl m)" and thl: "5 \<le> frame_thl m"
    using assms(1) by (simp_all add: tcp_frame_def ip_frame_def)
  obtain q where q: "fill_packet (un_va un) hdr m 1 ext 0 0x0800 6 (AllocObject TCPPacket) = Some q"
    "pkt_class q = TCPPacket" "ip q = ip_decoded m 14 (ip (AllocObject TCPPacket))"
    "\<forall>t. tcp_on_wire t m (frame_seg m) \<longrightarrow> tcp q = tcp_truncated t (tcp_option (tcp (AllocObject TCPPacket)))"
     "tcp_src_port (tcp q) = ucast (le16 (m ! (frame_seg m + 1)) (m ! frame_seg m))"
     "tcp_dst_port (tcp q) = ucast (le16 (m ! (frame_seg m + 3)) (m ! (frame_seg m + 2)))"
     "header q = Some (take (frame_seg m + 4 * frame_thl m) m)"
     "pkt_data q = Some (take (unat (le16 (m ! 17) (m ! 16)) - 4 * frame_ihl m - 4 * frame_thl m)
        (drop (frame_seg m + 4 * frame_thl m) m))"
    using fill_packet_tcp [OF assms, of "AllocObject TCPPacket" "un_va un"] by auto
  have "decode_packet getByName None 1 un hdr m ext = Some (Some q, ext)"
    by (rule decode_ip_frame [OF ipf, where packet = "AllocObject TCPPacket"])
      (use thl q(1) in \<open>simp_all add: create_packet_def jpcap_protocol_filter_def\<close>)
  with q show ?thesis by (simp add: AllocObject_def)
qed

text \<open>
  C5: a complete, unfragmented IPv4/TCP frame on an Ethernet link, without a filter, becomes a
  \<open>TCPPacket\<close> with the decoded IP header and ports; its header array is the Ethernet, IP and TCP headers
  with their options, and its data array is exactly the TCP payload, without the Ethernet padding.
\<close>

theorem decode_packet_tcp:
  assumes "tcp_frame hdr m" and "ext \<noteq> uint ETHERTYPE_PPPOE"
  shows "\<exists>q. decode_packet getByName None DLT_EN10MB un hdr m ext = Some (Some q, ext) \<and>
     pkt_class q = TCPPacket \<and> ip q = ip_decoded m 14 alloc_ip \<and>
     tcp_src_port (tcp q) = ucast (le16 (m ! (frame_seg m + 1)) (m ! frame_seg m)) \<and>
     tcp_dst_port (tcp q) = ucast (le16 (m ! (frame_seg m + 3)) (m ! (frame_seg m + 2))) \<and>
     header q = Some (take (frame_seg m + 4 * frame_thl m) m) \<and>
     pkt_data q = Some (take (unat (le16 (m ! 17) (m ! 16)) - 4 * frame_ihl m - 4 * frame_thl m)
        (drop (frame_seg m + 4 * frame_thl m) m))"
  using decode_tcp_frame [OF assms, of getByName un] by auto

text \<open>A frame for the witnesses: a SYN segment with two bytes of payload and two of padding.\<close>

definition sample_frame :: mem where
  "sample_frame =
     [1, 2, 3, 4, 5, 6, 7, 8, 9, 10, 11, 12, 8, 0,
      0x45, 0, 0, 42, 0, 1, 0, 0, 64, 6, 0, 0, 10, 0, 0, 1, 10, 0, 0, 2,
      0, 80, 4, 0, 0, 0, 0, 1, 0, 0, 0, 0, 0x50, 2, 0, 16, 0, 0, 0, 0, 0xaa, 0xbb, 0, 0]"

definition sample_hdr :: pcap_pkthdr where
  "sample_hdr = \<lparr>tv_sec = 1, tv_usec = 2, hdr_caplen = 58, hdr_len = 58\<rparr>"

lemma sample_tcp_frame: "tcp_frame sample_hdr sample_frame"
  by code_simp

theorem decode_packet_tcp_witness:
  "let m = sample_frame; un = \<lparr>un_tproto = 0, un_va = (0, 0)\<rparr> in
   \<exists>q. decode_packet (\<lambda>_. None) None DLT_EN10MB un sample_hdr m 0 = Some (Some q, 0) \<and>
     pkt_class q = TCPPacket \<and> ip q = ip_decoded m 14 alloc_ip \<and>
     tcp_src_port (tcp q) = ucast (le16 (m ! (frame_seg m + 1)) (m ! frame_seg m)) \<and>
     tcp_dst_port (tcp q) = ucast (le16 (m ! (frame_seg m + 3)) (m ! (frame_seg m + 2))) \<and>
     header q = Some (take (frame_seg m + 4 * frame_thl m) m) \<and>
     pkt_data q = Some (take (unat (le16 (m ! 17) (m ! 16)) - 4 * frame_ihl m - 4 * frame_thl m)
        (drop (frame_seg m + 4 * frame_thl m) m))"
  unfolding Let_def by (rule decode_packet_tcp [OF sample_tcp_frame]) simp

end
