(* ===== verification/Captor_Session.thy ===== *)
theory Captor_Session
  imports Jpcap_Captor
begin

text \<open>
  The mutual recursion of \<open>get_packet\<close> and \<open>get_next_packet\<close> over a capture: enough calls always give a
  result when the capture pauses or ends, what is delivered passed the filter, and which filter that
  is.
\<close>

section \<open>Enough calls\<close>

text \<open>
  \<open>pauses_within n c s\<close>: among the next \<open>n\<close> reads of the handle there is one that is not a frame (a
  timeout, an error, the end of the file or a null pointer).
\<close>

fun pauses_within :: "nat \<Rightarrow> 's session \<Rightarrow> 's \<Rightarrow> bool" where
  "pauses_within 0 c s = False"
| "pauses_within (Suc n) c s =
     (case pcap_next_ex c s of
        (Captured hdr (Some m), s) \<Rightarrow> pauses_within n c s
      | _ \<Rightarrow> True)"

declare get_packet.simps [simp del] get_next_packet.simps [simp del]

lemma get_next_packet_enough:
  "pauses_within (Suc n) c s \<Longrightarrow> get_next_packet n c ext s \<noteq> OutOfFuel"
proof (induction n arbitrary: ext s)
  case 0
  then show ?case
    by (auto simp: get_next_packet.simps [of 0] split: prod.splits next_result.splits option.splits)
next
  case (Suc n)
  show ?case
  proof (cases "pcap_next_ex c s")
    case (Pair r s')
    show ?thesis
    proof (cases "\<exists>hdr m. r = Captured hdr (Some m)")
      case True
      then obtain hdr m where r: "r = Captured hdr (Some m)" by blast
      have "pauses_within (Suc n) c s'" using Suc.prems Pair r by simp
      then have "get_packet (Suc n) c hdr m ext s' \<noteq> OutOfFuel"
        using Suc.IH by (auto simp: get_packet.simps [of "Suc n"] split: option.splits)
      then show ?thesis
        using Pair r by (auto simp: get_next_packet.simps [of "Suc n"] split: outcome.splits)
    next
      case False
      then show ?thesis
        using Pair by (auto simp: get_next_packet.simps [of "Suc n"] split: next_result.splits option.splits)
    qed
  qed
qed

lemma get_packet_enough:
  assumes "pauses_within n c s"
  shows "get_packet n c hdr m ext s \<noteq> OutOfFuel"
proof (cases n)
  case (Suc k)
  then show ?thesis
    using assms get_next_packet_enough [of k c s]
    by (auto simp: get_packet.simps [of "Suc k"] split: option.splits)
qed (use assms in simp)

section \<open>What is returned\<close>

text \<open>A packet that may be handed to Java under the filter of the session.\<close>

definition acceptable :: "'s session \<Rightarrow> jpacket \<Rightarrow> bool" where
  "acceptable c q \<longleftrightarrow> q = Packet_EOF \<or>
     (\<forall>f. sess_filter c = Some f \<longrightarrow> (\<exists>v. doFilter (resolve c) f q = Some v \<and> v \<noteq> 0))"

lemma decode_acceptable:
  assumes "decode_packet (resolve c) (sess_filter c) lt un hdr m ext = Some (Some q, ext')"
  shows "acceptable c q"
  using assms
proof (rule decode_packet_passD)
  assume "\<And>f. sess_filter c = Some f \<Longrightarrow> \<exists>v. doFilter (resolve c) f q = Some v \<and> v \<noteq> 0"
  then show ?thesis by (simp add: acceptable_def)
qed

text \<open>The shape of a result: one with an acceptable packet, or zero with none.\<close>

fun good_outcome :: "'s session \<Rightarrow> 's outcome \<Rightarrow> bool" where
  "good_outcome c (Returned r p ext s) \<longleftrightarrow>
     (r = 0 \<and> p = None \<or> r = 1 \<and> (\<exists>q. p = Some q \<and> acceptable c q))"
| "good_outcome c _ \<longleftrightarrow> True"

lemma get_packet_good_step:
  assumes "\<And>k ext s. n = Suc k \<Longrightarrow> good_outcome c (get_next_packet k c ext s)"
  shows "good_outcome c (get_packet n c hdr m ext s)"
  using assms decode_acceptable [of c]
  by (auto simp: get_packet.simps [of n] split: option.splits nat.splits)

lemma get_next_packet_good_step:
  assumes "\<And>hdr m ext s. good_outcome c (get_packet n c hdr m ext s)"
  shows "good_outcome c (get_next_packet n c ext s)"
proof (cases "pcap_next_ex c s")
  case (Pair r s')
  show ?thesis
  proof (cases "\<exists>hdr m. r = Captured hdr (Some m)")
    case True
    then obtain hdr m where r: "r = Captured hdr (Some m)" by blast
    show ?thesis
      using assms [of hdr m ext s'] Pair r
      by (cases "get_packet n c hdr m ext s'") (auto simp: get_next_packet.simps [of n])
  next
    case False
    then show ?thesis
      using Pair by (cases r) (auto simp: get_next_packet.simps [of n] acceptable_def split: option.splits)
  qed
qed

lemma get_next_packet_good: "good_outcome c (get_next_packet n c ext s)"
proof (induction n arbitrary: ext s)
  case 0
  show ?case
    by (rule get_next_packet_good_step, rule get_packet_good_step) simp
next
  case (Suc n)
  show ?case
    by (rule get_next_packet_good_step, rule get_packet_good_step) (auto simp: Suc.IH)
qed

lemma get_packet_good: "good_outcome c (get_packet n c hdr m ext s)"
  by (rule get_packet_good_step) (simp add: get_next_packet_good)

section \<open>What the callbacks deliver\<close>

lemma dispatcher_handler_good:
  "case dispatcher_handler n c hdr m ext s of
     Delivered qs ext' s' \<Rightarrow> \<forall>q \<in> set qs. acceptable c q | _ \<Rightarrow> True"
  using get_packet_good [of c n hdr m ext s]
  by (cases "get_packet n c hdr m ext s") (auto simp: dispatcher_handler_def)

lemma run_callbacks_good:
  "run_callbacks n cb k c ext s = Delivered qs ext' s' \<Longrightarrow> \<forall>q \<in> set qs. acceptable c q"
proof (induction k arbitrary: ext s qs ext' s')
  case (Suc k)
  show ?case
  proof (cases "cb s")
    case (Pair x s1)
    show ?thesis
    proof (cases x)
      case (Some hm)
      obtain hdr m where hm: "hm = (hdr, m)" by (cases hm)
      obtain ps e1 s2 where d: "dispatcher_handler n c hdr m ext s1 = Delivered ps e1 s2"
        using Suc.prems Pair Some hm by (cases "dispatcher_handler n c hdr m ext s1") auto
      obtain rs where r: "run_callbacks n cb k c e1 s2 = Delivered rs ext' s'" "qs = ps @ rs"
        using Suc.prems Pair Some hm d by (cases "run_callbacks n cb k c e1 s2") auto
      show ?thesis
        using dispatcher_handler_good [where n = n and c = c and hdr = hdr and m = m and ext = ext
            and s = s1] d Suc.IH [OF r(1)] r(2) by auto
    qed (use Suc.prems Pair in auto)
  qed
qed simp

section \<open>Properties\<close>

text \<open>
  C11: \<open>get_packet\<close> returns: if the capture pauses or ends within \<open>n\<close> reads, then following at most \<open>n\<close>
  refused frames is enough, so the recursion through \<open>get_next_packet\<close> reaches an end.
\<close>

theorem get_packet_terminates:
  assumes "pauses_within n c s"
  shows "get_packet n c hdr m ext s \<noteq> OutOfFuel"
  using get_packet_enough [OF assms] .

text \<open>A session over a list of reads that ends with the end of the file.\<close>

definition list_session :: "jpcap_filter option \<Rightarrow> next_result list session" where
  "list_session f =
     \<lparr>pcap_next_ex = (\<lambda>rs. case rs of [] \<Rightarrow> (EndOfFile, []) | r # rs \<Rightarrow> (r, rs)),
      garbage = (\<lambda>_. \<lparr>un_tproto = 0, un_va = (0, 0)\<rparr>), resolve = (\<lambda>_. None),
      sess_filter = f, sess_linktype = 1\<rparr>"

theorem get_packet_terminates_witness:
  "get_packet 3 (list_session (Some (addProtocol UDP new_JpcapFilter))) sample_hdr sample_frame 0
     [Captured sample_hdr (Some sample_frame), Timeout] \<noteq> OutOfFuel"
  by (rule get_packet_terminates) code_simp




definition sample_loop where
  "sample_loop = loopPacket 0 (\<lambda>_ :: unit. addProtocol TCP new_JpcapFilter) None (Some ())
     (\<lambda>rs :: next_result list. (Some (sample_hdr, sample_frame), rs)) 1 (list_session None) 0 []"

fun delivered :: "'s delivery \<Rightarrow> jpacket list" where
  "delivered (Delivered qs ext s) = qs"
| "delivered _ = []"


text \<open>
  C36: the filter is fetched once: as soon as the global reference is set, \<open>getPacket\<close> and \<open>loopPacket\<close>
  ignore any other filter object that the captor, or another captor, has been given since.
\<close>

theorem filter_fetched_once:
  "getPacket n heap (Some r) f c ext s = getPacket n heap (Some r) f' c ext s \<and>
   loopPacket n heap (Some r) f cb k c ext s = loopPacket n heap (Some r) f' cb k c ext s"
  by (simp add: getPacket_def loopPacket_def initJpcapFilter_def)

end
