(* ===== verification/Captor_Frames.thy ===== *)
theory Captor_Frames
  imports Jpcap_Captor
begin

text \<open>
  What \<open>get_packet\<close> makes of complete UDP datagrams and ARP packets on an Ethernet link; TCP segments are in
  \<open>Jpcap_Captor\<close>.
\<close>

section \<open>UDP datagrams\<close>

text \<open>The length of the datagram is taken from the IP header, as \<open>get_packet\<close> does.\<close>

definition udp_frame :: "pcap_pkthdr \<Rightarrow> mem \<Rightarrow> bool" where
  "udp_frame hdr m \<longleftrightarrow> ip_frame hdr m 17 8"

definition udp_decoded :: "mem \<Rightarrow> nat \<Rightarrow> udp_fields \<Rightarrow> udp_fields" where
  "udp_decoded m p =
     UDPPacket_setValue (ucast (le16 (m ! (p + 1)) (m ! p))) (ucast (le16 (m ! (p + 3)) (m ! (p + 2))))
       (ucast (le16 (m ! (p + 5)) (m ! (p + 4))))"

lemma analyze_udp_in_bounds:
  assumes "pkt_class packet = UDPPacket" and "p + 8 \<le> length m"
  shows "analyze_udp packet m p = Some (packet\<lparr>udp := udp_decoded m p (udp packet)\<rparr>)"
  using assms by (simp add: analyze_udp_def access_ok CallVoidMethod_def udp_decoded_def numeral_2_eq_2 numeral_3_eq_3 add.commute)

lemma decode_udp_frame:
  assumes "udp_frame hdr m" and "ext \<noteq> uint ETHERTYPE_PPPOE"
  shows "\<exists>q. decode_packet getByName None 1 un hdr m ext = Some (Some q, ext) \<and>
     pkt_class q = UDPPacket \<and> ip q = ip_decoded m 14 alloc_ip \<and>
     udp q = udp_decoded m (frame_seg m) alloc_udp \<and>
     (\<forall>u n. udp_on_wire (u, n) m (frame_seg m) \<longrightarrow> n < 65528 \<longrightarrow> udp q = udp_truncated u n) \<and>
     header q = Some (take (frame_seg m + 8) m) \<and>
     pkt_data q = Some (take (unat (le16 (m ! 17) (m ! 16)) - 4 * frame_ihl m - 8) (drop (frame_seg m + 8) m))"
proof -
  let ?p1 = "before_transport hdr m (AllocObject UDPPacket)"
  let ?n = "int (unat (le16 (m ! 17) (m ! 16)) - 4 * frame_ihl m)"
  have ipf: "ip_frame hdr m 17 8" using assms(1) by (simp add: udp_frame_def)
  then have "frame_seg m + 8 \<le> length m" by (auto simp: ip_frame_def frame_seg_def)
  then have u: "analyze_udp ?p1 m (frame_seg m) = Some (?p1\<lparr>udp := udp_decoded m (frame_seg m) (udp ?p1)\<rparr>)"
    by (intro analyze_udp_in_bounds) simp_all
  then have tr: "analyze_transport (un_va un) m (int (frame_seg m)) ?n 17 ?p1 =
      Some (?p1\<lparr>udp := udp_decoded m (frame_seg m) (udp ?p1)\<rparr>, int 8)"
    by (simp add: analyze_transport_def deref_def)
  have w: "udp_decoded m (frame_seg m) (udp ?p1) = udp_truncated x n"
    if "udp_on_wire (x, n) m (frame_seg m)" "n < 65528" for x n
    using arg_cong [OF trans [OF u [symmetric] analyze_udp_on_wire [OF that(1) _ that(2)]], of "\<lambda>q. udp (the q)"]
    by (simp add: udp_truncated_def)
  have "decode_packet getByName None 1 un hdr m ext = Some (Some (?p1\<lparr>udp := udp_decoded m (frame_seg m) (udp ?p1),
      header := Some (take (frame_seg m + 8) m),
      pkt_data := Some (take (unat (le16 (m ! 17) (m ! 16)) - 4 * frame_ihl m - 8) (drop (frame_seg m + 8) m))\<rparr>), ext)"
    by (rule decode_ip_frame [OF ipf, where packet = "AllocObject UDPPacket"])
      (use fill_packet_ip [OF ipf assms(2) _ tr] in \<open>simp_all add: create_packet_def jpcap_protocol_filter_def\<close>)
  then show ?thesis using w by (simp add: AllocObject_def)
qed

end
