(* ===== verification/Send_Capture.thy ===== *)
theory Send_Capture
  imports Jpcap_Sender Captor_Session Captor_Frames
begin

text \<open>
  The two halves of the library meet on the wire: the frame that \<open>nativeSendPacket\<close> hands to libpcap, and
  what \<open>get_packet\<close> makes of such a frame when it is captured. This theory has the lemmas that carry the
  layout of the send buffer over to the captured frame.
\<close>

section \<open>The frame that is sent\<close>

lemma rd_prefix [simp]:
  assumes "k \<le> length m"
  shows "p < k \<Longrightarrow> rd8 (take k m @ z) p = rd8 m p"
    and "p + 2 \<le> k \<Longrightarrow> rd16 (take k m @ z) p = rd16 m p"
    and "p + 4 \<le> k \<Longrightarrow> rd32 (take k m @ z) p = rd32 m p"
    and "p + n \<le> k \<Longrightarrow> rd_bytes (take k m @ z) p n = rd_bytes m p n"
  using assms by (simp_all add: rd8_def rd16_def rd32_def rd_bytes_def nth_append min_def take_drop)

text \<open>The bytes of the frame, padded with zeros to 60.\<close>

definition padded :: "mem \<Rightarrow> nat \<Rightarrow> u8 list" where
  "padded m len = take len m @ replicate (60 - len) 0"

lemma pad_frame_padded:
  assumes "len \<le> length m" and "61 \<le> length m"
  shows "do { (m, len) \<leftarrow> pad_frame m (int len); rd_bytes m 0 (nat len) } = Some (padded m len)"
proof (cases "len < 60")
  case True
  with pad_frame_short [of "int len" m] assms(2) show ?thesis by (auto simp: padded_def)
next
  case False
  with assms show ?thesis by (simp add: pad_frame_def padded_def rd_bytes_def)
qed

lemma nativeSendPacket_frame:
  assumes "set_packet packet buf True = Some (m, int len)" and "len \<le> length m" and "61 \<le> length m"
  shows "nativeSendPacket True pcap_sendpacket errbuf buf packet =
    (if pcap_sendpacket (padded m len) < 0 then IOException errbuf else Sent (padded m len))"
  using assms pad_frame_padded [OF assms(2,3)] by (simp add: nativeSendPacket_def)

section \<open>Reading it back\<close>

lemma tcp_on_wire_padded:
  assumes "tcp_on_wire t m p" and "p + 20 \<le> len" and "len \<le> length m"
  shows "tcp_on_wire t (padded m len) p"
  using assms by (simp add: tcp_on_wire_def padded_def get_th_off_def)

lemma rd16_net: "rd16 m p = Some (htons v) \<Longrightarrow> le16 (m ! (p + 1)) (m ! p) = v"
  by (auto simp: rd16_def split: if_splits) (metis ntohs_le16 ntohs_ntohs)

lemma rd8_nth: "rd8 m p = Some v \<Longrightarrow> m ! p = v"
  by (simp add: rd8_def split: if_splits)

lemma set_ip_off_no_fragment:
  assumes "frag_offset h = 0"
  shows "set_ip_off h AND IP_OFFMASK = 0"
proof -
  have z: "ntohs 0 = 0" by code_simp
  show ?thesis
    by (cases "rsv_frag h"; cases "dont_frag h"; cases "more_frag h") (simp_all add: set_ip_off_def assms z)
qed

text \<open>The IP packet in the padded frame, for any transport protocol with a header of \<open>hl\<close> bytes.\<close>

lemma ip_frame_padded:
  assumes e: "ether_on_wire e m 0" and ft: "frametype e = 0x0800"
    and i: "ipv4_sent h proto hl bs m 14" and off: "frag_offset h = 0"
    and bs: "hl + length bs \<le> 1566" and m: "34 + hl + length bs \<le> length m"
    and hdr: "unat (hdr_caplen hdr) = length (padded m (34 + hl + length bs))"
  shows "ip_frame hdr (padded m (34 + hl + length bs)) proto hl"
    and "frame_seg (padded m (34 + hl + length bs)) = 34"
    and "frame_ihl (padded m (34 + hl + length bs)) = 5"
    and "unat (le16 (padded m (34 + hl + length bs) ! 17) (padded m (34 + hl + length bs) ! 16)) = 20 + hl + length bs"
proof -
  let ?n = "34 + hl + length bs"
  let ?f = "padded m ?n"
  have rd: "rd16 ?f 12 = rd16 m 12" "rd8 ?f 14 = rd8 m 14" "rd16 ?f 16 = rd16 m 16" "rd16 ?f 20 = rd16 m 20"
    "rd8 ?f 23 = rd8 m 23"
    using m by (simp_all add: padded_def)
  have f: "le16 (?f ! 13) (?f ! 12) = 0x0800" "?f ! 14 = 0x45" "?f ! 23 = proto"
    "le16 (?f ! 17) (?f ! 16) = of_nat (20 + hl + length bs)" "le16 (?f ! 21) (?f ! 20) = set_ip_off h"
    using rd16_net [of ?f 12] rd8_nth [of ?f 14] rd8_nth [of ?f 23] rd16_net [of ?f 16] rd16_net [of ?f 20] e i ft
    unfolding rd ether_on_wire_def ipv4_sent_def ip_on_wire_def by simp_all
  have ihl: "frame_ihl ?f = 5" by (simp add: frame_ihl_def f(2))
  have len: "unat (le16 (?f ! 17) (?f ! 16)) = 20 + hl + length bs"
    using bs unfolding f(4) unat_of_nat by simp
  have flen: "length ?f = max 60 ?n" using m by (auto simp: padded_def)
  show "ip_frame hdr ?f proto hl"
    using f(1,3) set_ip_off_no_fragment [OF off] ihl len flen hdr bs
    by (simp add: ip_frame_def frame_ok_def f(5) max_def)
  show "frame_seg ?f = 34" "frame_ihl ?f = 5" "unat (le16 (?f ! 17) (?f ! 16)) = 20 + hl + length bs"
    using ihl len by (simp_all add: frame_seg_def)
qed

lemma tcp_frame_padded:
  assumes e: "ether_on_wire e m 0" and ft: "frametype e = 0x0800"
    and i: "ipv4_sent h 6 20 bs m 14" and off: "frag_offset h = 0" and t: "tcp_on_wire t m 34"
    and bs: "length bs \<le> 1546" and m: "54 + length bs \<le> length m"
    and hdr: "unat (hdr_caplen hdr) = length (padded m (54 + length bs))"
  shows "tcp_frame hdr (padded m (54 + length bs))"
    and "frame_seg (padded m (54 + length bs)) = 34"
    and "frame_thl (padded m (54 + length bs)) = 5"
    and "frame_ihl (padded m (54 + length bs)) = 5"
    and "unat (le16 (padded m (54 + length bs) ! 17) (padded m (54 + length bs) ! 16)) = 40 + length bs"
proof -
  let ?f = "padded m (54 + length bs)"
  have ip: "ip_frame hdr ?f 6 20" "frame_seg ?f = 34" "frame_ihl ?f = 5"
    "unat (le16 (?f ! 17) (?f ! 16)) = 40 + length bs"
    using ip_frame_padded [OF e ft i off] bs m hdr by simp_all
  have "rd8 ?f 46 = rd8 m 46" using m by (simp add: padded_def)
  then have "drop_bit 4 (?f ! 46) = 5"
    using t m by (auto simp: tcp_on_wire_def get_th_off_def rd8_def padded_def bind_eq_Some_conv)
  with ip(2) have thl: "frame_thl ?f = 5" by (simp add: frame_thl_def)
  with ip show "tcp_frame hdr ?f" "frame_seg ?f = 34" "frame_thl ?f = 5" "frame_ihl ?f = 5"
    "unat (le16 (?f ! 17) (?f ! 16)) = 40 + length bs"
    by (simp_all add: tcp_frame_def ip_frame_def)
qed

lemma udp_on_wire_padded:
  assumes "udp_on_wire u m p" and "p + 8 \<le> len" and "len \<le> length m"
  shows "udp_on_wire u (padded m len) p"
  using assms by (simp add: udp_on_wire_def padded_def)

text \<open>The payload behind a transport header of \<open>hl\<close> bytes is not touched by the padding.\<close>

lemma payload_padded:
  assumes "ipv4_sent h proto hl bs m 14" and "34 + hl + length bs \<le> length m"
  shows "take (length bs) (drop (34 + hl) (padded m (34 + hl + length bs))) = bs"
  using assms rd_prefix(4) [of "34 + hl + length bs" m "34 + hl" "length bs" "replicate (60 - (34 + hl + length bs)) 0"]
  by (simp add: ipv4_sent_def padded_def rd_bytes_def split: if_splits)

text \<open>The addresses of the decoded header are the first four bytes of those of the packet that was sent.\<close>

lemma ip_decoded_addresses:
  assumes "ipv4_sent h proto hl bs m 14" and "34 \<le> len" and "len \<le> length m"
  shows "src_ip (ip_decoded (padded m len) 14 x) = map_option (take 4) (src_ip h)"
    and "dst_ip (ip_decoded (padded m len) 14 x) = map_option (take 4) (dst_ip h)"
proof -
  have a: "take 4 (drop 26 (padded m len)) = take 4 (drop 26 m)" "take 4 (drop 30 (padded m len)) = take 4 (drop 30 m)"
    using rd_prefix(4) [of len m 26 4 "replicate (60 - len) 0"] rd_prefix(4) [of len m 30 4 "replicate (60 - len) 0"] assms(2,3)
    by (simp_all add: rd_bytes_def padded_def)
  have h: "map_option (take 4) (src_ip h) = Some (take 4 (drop 26 m))"
    "map_option (take 4) (dst_ip h) = Some (take 4 (drop 30 m))"
    using assms by (auto simp: ipv4_sent_def ip_on_wire_def rd_bytes_def)
  have l: "length (take 4 (drop 26 m)) = 4" "length (take 4 (drop 30 m)) = 4" using assms(2,3) by auto
  show "src_ip (ip_decoded (padded m len) 14 x) = map_option (take 4) (src_ip h)"
    "dst_ip (ip_decoded (padded m len) 14 x) = map_option (take 4) (dst_ip h)"
    unfolding h by (simp_all add: ip_decoded_def Let_def setter_defs set_addresses_def a getByAddress_4 [OF l(1)]
        getByAddress_4 [OF l(2)])
qed

text \<open>
  The frame of a sent TCP packet, and what the captor makes of it.
\<close>

lemma sent_tcp_frame:
  assumes "pkt_class packet = TCPPacket" and "version (ip packet) = 4" and "ip_wf (ip packet)"
    and "datalink packet = Some (EthernetPacket e)" and "ether_wf e" and "frametype e = ETHERTYPE_IP"
    and "frag_offset (ip packet) = 0" and "pkt_data packet = Some bs" and "length bs \<le> 1546"
    and "length buf = MAX_PACKET_SIZE"
  obtains f where "60 \<le> length f"
    and "\<And>pcap_sendpacket errbuf. 0 \<le> pcap_sendpacket f \<Longrightarrow>
       nativeSendPacket True pcap_sendpacket errbuf buf packet = Sent f"
    and "\<And>hdr un getByName. unat (hdr_caplen hdr) = length f \<Longrightarrow>
       \<exists>q. decode_packet getByName None 1 un hdr f 0 = Some (Some q, 0) \<and>
          pkt_class q = TCPPacket \<and> tcp q = tcp_truncated (tcp packet) None \<and>
          src_ip (ip q) = map_option (take 4) (src_ip (ip packet)) \<and>
          dst_ip (ip q) = map_option (take 4) (dst_ip (ip packet)) \<and> pkt_data q = Some bs"
proof -
  let ?n = "54 + length bs"
  obtain m where m: "set_packet packet buf True = Some (m, 54 + int (length bs))" "ether_on_wire e m 0"
    "ipv4_sent (ip packet) 6 20 bs m 14" "tcp_on_wire (tcp packet) m 34" "length m = 1600"
    using set_packet_tcp_layout [OF assms(1-5,8-10)] assms(10) by auto
  let ?f = "padded m ?n"
  have room: "?n \<le> length m" using assms(9) m(5) by simp
  have send: "nativeSendPacket True pcap_sendpacket errbuf buf packet = Sent ?f"
    if "0 \<le> pcap_sendpacket ?f" for pcap_sendpacket errbuf
    using nativeSendPacket_frame [of packet buf m ?n pcap_sendpacket errbuf] m(1,5) room that by simp
  have data: "take (length bs) (drop 54 ?f) = bs"
    using payload_padded [OF m(3)] room by simp
  have "\<exists>q. decode_packet getByName None 1 un hdr ?f 0 = Some (Some q, 0) \<and>
      pkt_class q = TCPPacket \<and> tcp q = tcp_truncated (tcp packet) None \<and>
      src_ip (ip q) = map_option (take 4) (src_ip (ip packet)) \<and>
      dst_ip (ip q) = map_option (take 4) (dst_ip (ip packet)) \<and> pkt_data q = Some bs"
    if "unat (hdr_caplen hdr) = length ?f" for hdr un getByName
  proof -
    note fr = tcp_frame_padded [OF m(2) _ m(3) assms(7) m(4) assms(9) room that]
    have "frametype e = 0x0800" using assms(6) by simp
    note fr = fr [OF this]
    have "tcp_on_wire (tcp packet) ?f 34" using m(4) room by (intro tcp_on_wire_padded) simp_all
    then show ?thesis
      using decode_tcp_frame [OF fr(1), of 0 getByName un] fr(2-5) data
        ip_decoded_addresses [OF m(3) _ room, of alloc_ip] by (auto simp: alloc_tcp_def)
  qed
  moreover have "60 \<le> length ?f" using room by (simp add: padded_def)
  ultimately show ?thesis using send that [of ?f] by blast
qed

end
