(* ===== verification/Captor_Safety.thy ===== *)
theory Captor_Safety
  imports Jpcap_Captor
begin

text \<open>
  What a frame can make \<open>get_packet\<close> do: the over-read on a truncated segment, the influence of the
  uninitialised transport protocol, and the PPPoE mark that is never taken back.
\<close>

section \<open>Truncated segments\<close>

text \<open>Past its network layer a frame without a transport header only fills the arrays.\<close>

lemma analyze_transport_none:
  "t \<notin> {1, 6, 17} \<Longrightarrow> analyze_transport va m d clen t packet = Some (packet, 0)"
  by (simp add: analyze_transport_def)

lemma set_arrays_overread:
  assumes "0 \<le> clen" and "clen < 32768" and "0 \<le> d" and "int (length m) < d + clen"
  shows "set_arrays m d clen 0 packet = None"
proof -
  have "to_short clen = clen" using assms by (intro to_short_id) auto
  moreover have "length m < nat d + nat clen" using assms by linarith
  ultimately show ?thesis
    using assms by (simp add: set_arrays_def Let_def deref_def rd_bytes_def)
qed



section \<open>The uninitialised protocol\<close>

text \<open>
  The variable \<open>tproto\<close> keeps its initial contents only when nothing is left of the frame; in all
  other cases the result does not depend on it.
\<close>

lemma transport_protocol_garbage:
  "(\<forall>t t'. transport_protocol m lt off t np clen = transport_protocol m lt off t' np clen) \<or>
   (\<exists>c \<le> 0. \<forall>t. transport_protocol m lt off t np clen = Some (t, c))"
proof (cases "0 < clen")
  case True
  then show ?thesis
    by (cases "np = 0x0800"; cases "np = 0x86dd"; cases "np = 0x0806";
        cases "0 < to_short (clen - 40)"; cases "0 < to_short (clen - 28)")
       (auto simp: transport_protocol_def Let_def)
qed (auto simp: transport_protocol_def)

lemma create_packet_garbage:
  "c \<le> 0 \<Longrightarrow> create_packet f (truncated_check t c) np = create_packet f 0xffff np"
  by (auto simp: truncated_check_def create_packet_def)

text \<open>
  The class of the object does not depend on the uninitialised \<open>tproto\<close>: whatever the variable
  contained, \<open>get_packet\<close> builds an object of the same class for the same frame, because stale values
  that name a transport protocol are caught by the truncation check.
\<close>

theorem decode_packet_class_deterministic:
  assumes "decode_packet getByName jpcapFilter linktype un hdr m ext = Some (Some q, e)"
    and "decode_packet getByName jpcapFilter linktype un' hdr m ext = Some (Some q', e')"
  shows "pkt_class q = pkt_class q'"
proof -
  let ?c = "to_short (uint (hdr_caplen hdr))"
  obtain np off e0 c0 where n: "network_protocol m linktype ext ?c = Some (np, off, e0, c0)"
    using assms(1) by (cases "network_protocol m linktype ext ?c")
      (auto simp: decode_packet_def Let_def)
  have off: "off = 0 \<or> off = 8" using network_protocol_off [OF n] .
  have cls: "\<exists>t c. transport_protocol m linktype off (un_tproto u) np c0 = Some (t, c) \<and>
      map_option pkt_class (create_packet jpcapFilter (truncated_check t c) np) = Some (pkt_class r)"
    if d: "decode_packet getByName jpcapFilter linktype u hdr m ext = Some (Some r, x)" for u r x
  proof -
    obtain t c where t: "transport_protocol m linktype off (un_tproto u) np c0 = Some (t, c)"
      using d n by (cases "transport_protocol m linktype off (un_tproto u) np c0")
        (auto simp: decode_packet_def Let_def)
    obtain p where p: "create_packet jpcapFilter (truncated_check t c) np = Some p"
      using d n t by (cases "create_packet jpcapFilter (truncated_check t c) np")
        (auto simp: decode_packet_def Let_def)
    have "fill_packet (un_va u) hdr m linktype e0 off np (truncated_check t c) p = Some r"
      using d n t p by (auto simp: decode_packet_def Let_def bind_eq_Some_conv split: if_splits)
    then have "pkt_class r = pkt_class p" using fill_packet_SomeD(2) off by blast
    with t p show ?thesis by simp
  qed
  obtain t c t' c' where
    t: "transport_protocol m linktype off (un_tproto un) np c0 = Some (t, c)"
      "map_option pkt_class (create_packet jpcapFilter (truncated_check t c) np) = Some (pkt_class q)"
    and t': "transport_protocol m linktype off (un_tproto un') np c0 = Some (t', c')"
      "map_option pkt_class (create_packet jpcapFilter (truncated_check t' c') np) = Some (pkt_class q')"
    using cls [OF assms(1)] cls [OF assms(2)] by blast
  from transport_protocol_garbage [of m linktype off np c0] show ?thesis
  proof
    assume "\<forall>t t'. transport_protocol m linktype off t np c0 = transport_protocol m linktype off t' np c0"
    then have "Some (t, c) = Some (t', c')" using t(1) t'(1) by metis
    with t(2) t'(2) show ?thesis by auto
  next
    assume "\<exists>c \<le> 0. \<forall>t. transport_protocol m linktype off t np c0 = Some (t, c)"
    then have "c \<le> 0" "c' \<le> 0" using t(1) t'(1) by auto
    with t(2) t'(2) show ?thesis by (auto simp: create_packet_garbage)
  qed
qed

theorem decode_packet_class_deterministic_witness:
  "let m = [1, 2, 3, 4, 5, 6, 7, 8, 9, 10, 11, 12, 8, 6] @
         [0, 1, 8, 0, 6, 4, 0, 1, 7, 8, 9, 10, 11, 12, 10, 0, 0, 1, 0, 0, 0, 0, 0, 0, 10, 0, 0, 2];
       hdr = sample_hdr\<lparr>hdr_caplen := 42\<rparr>;
       dec = (\<lambda>g. decode_packet (\<lambda>_. None) None 1 \<lparr>un_tproto = g, un_va = (0, 0)\<rparr> hdr m 0) in
   pkt_class (the (fst (the (dec 6)))) = pkt_class (the (fst (the (dec 99))))"
  unfolding Let_def
  by (rule decode_packet_class_deterministic [where getByName = "\<lambda>_. None" and jpcapFilter = None
        and linktype = 1 and un = "\<lparr>un_tproto = 6, un_va = (0, 0)\<rparr>" and ext = 0 and e = 0 and e' = 0
        and un' = "\<lparr>un_tproto = 99, un_va = (0, 0)\<rparr>" and hdr = "sample_hdr\<lparr>hdr_caplen := 42\<rparr>"
        and m = "[1, 2, 3, 4, 5, 6, 7, 8, 9, 10, 11, 12, 8, 6] @
         [0, 1, 8, 0, 6, 4, 0, 1, 7, 8, 9, 10, 11, 12, 10, 0, 0, 1, 0, 0, 0, 0, 0, 0, 10, 0, 0, 2]"])
     code_simp+

section \<open>The PPPoE mark\<close>

lemma network_protocol_pppoe_sticky:
  "network_protocol m linktype (uint ETHERTYPE_PPPOE) clen = Some (np, off, ext', c) \<Longrightarrow>
   ext' = uint ETHERTYPE_PPPOE"
  by (auto simp: network_protocol_def bind_eq_Some_conv Let_def split: if_splits)

lemma decode_packet_ext:
  assumes "decode_packet getByName jpcapFilter linktype un hdr m ext = Some (r, ext')"
  obtains np off c where "network_protocol m linktype ext (to_short (uint (hdr_caplen hdr))) =
      Some (np, off, ext', c)"
proof -
  let ?c = "to_short (uint (hdr_caplen hdr))"
  obtain np off e0 c0 where n: "network_protocol m linktype ext ?c = Some (np, off, e0, c0)"
    using assms by (cases "network_protocol m linktype ext ?c") (auto simp: decode_packet_def Let_def)
  moreover have "e0 = ext'"
    using assms n by (auto simp: decode_packet_def Let_def bind_eq_Some_conv split: option.splits)
  ultimately show thesis using that by simp
qed

text \<open>
  After one PPPoE frame the Ethernet link stays marked: the mark survives every later frame, and
  every later packet object, whatever its frame contains, gets a \<open>PPPOEPacket\<close> as its datalink object.
\<close>

theorem pppoe_mark_sticks:
  assumes "decode_packet getByName jpcapFilter DLT_EN10MB un hdr m (uint ETHERTYPE_PPPOE) = Some (r, ext')"
  shows "ext' = uint ETHERTYPE_PPPOE \<and>
     (\<forall>q. r = Some q \<longrightarrow> (\<exists>e h. datalink q = Some (PPPOEPacket e h)))"
proof
  show e: "ext' = uint ETHERTYPE_PPPOE"
    using assms by (rule decode_packet_ext) (rule network_protocol_pppoe_sticky)
  show "\<forall>q. r = Some q \<longrightarrow> (\<exists>e h. datalink q = Some (PPPOEPacket e h))"
  proof (intro allI impI)
    fix q assume "r = Some q"
    with assms e have "decode_packet getByName jpcapFilter DLT_EN10MB un hdr m (uint ETHERTYPE_PPPOE) =
        Some (Some q, uint ETHERTYPE_PPPOE)" by simp
    then obtain nproto off tproto packet where "off = 0 \<or> off = 8"
      "fill_packet (un_va un) hdr m DLT_EN10MB (uint ETHERTYPE_PPPOE) off nproto tproto packet = Some q"
      by (rule decode_packet_passD)
    then show "\<exists>e h. datalink q = Some (PPPOEPacket e h)"
      using fill_packet_SomeD(3) by (fastforce simp: analyze_datalink_def Let_def bind_eq_Some_conv)
  qed
qed

theorem pppoe_mark_sticks_witness:
  "let d = decode_packet (\<lambda>_. None) None DLT_EN10MB \<lparr>un_tproto = 0, un_va = (0, 0)\<rparr> sample_hdr
         sample_frame (uint ETHERTYPE_PPPOE); r = fst (the d); ext' = snd (the d) in
   ext' = uint ETHERTYPE_PPPOE \<and>
     (\<forall>q. r = Some q \<longrightarrow> (\<exists>e h. datalink q = Some (PPPOEPacket e h)))"
  unfolding Let_def
  by (rule pppoe_mark_sticks [where getByName = "\<lambda>_. None" and jpcapFilter = None
        and un = "\<lparr>un_tproto = 0, un_va = (0, 0)\<rparr>" and hdr = sample_hdr and m = sample_frame])
     code_simp

end
