(* ===== verification/Jpcap_Writer.thy ===== *)
theory Jpcap_Writer
  imports Jpcap_Captor
begin

text \<open>
  \<open>JpcapWriter.writePacket\<close>: a packet object is written back to a dump file. The object carries the
  captured frame as two arrays; the method puts them one after the other into a buffer of
  \<open>MAX_PACKET_SIZE\<close> bytes, rebuilds the capture header and calls \<open>pcap_dump\<close>, which is a parameter.
\<close>

text \<open>
  The buffer is an uninitialised local variable, so its contents are an argument. \<open>(long)\<close> of a
  \<open>jlong\<close> and the fields of \<open>timeval\<close> are 32 bits wide, as they are for the Windows build and for
  dump files. A null \<open>pdt\<close> or a null array is undefined.
\<close>

definition writePacket ::
  "('d \<Rightarrow> pcap_pkthdr \<Rightarrow> mem \<Rightarrow> 'f \<Rightarrow> 'f option) \<Rightarrow> 'd option \<Rightarrow> mem \<Rightarrow> jpacket \<Rightarrow> 'f \<Rightarrow> 'f option" where
  "writePacket pcap_dump pdt buf packet file = do {
     let hdr = \<lparr>tv_sec = ucast (sec packet), tv_usec = ucast (usec packet), hdr_caplen = caplen packet,
       hdr_len = pkt_len packet\<rparr>;
     hs \<leftarrow> header packet;
     body \<leftarrow> pkt_data packet;
     let hlen = length hs;
     let blen = length body;
     buf \<leftarrow> GetByteArrayRegion (Some hs) hlen buf 0;
     buf \<leftarrow> GetByteArrayRegion (Some body) blen buf hlen;
     d \<leftarrow> pdt;
     pcap_dump d hdr buf file
   }"

text \<open>The buffer after both arrays have been copied: the rest keeps what the stack held.\<close>

lemma writePacket_buffer:
  assumes "header packet = Some hs" and "pkt_data packet = Some body" and "length buf = MAX_PACKET_SIZE"
  shows "writePacket pcap_dump (Some d) buf packet file =
    (if length hs + length body \<le> 1600
     then pcap_dump d \<lparr>tv_sec = ucast (sec packet), tv_usec = ucast (usec packet), hdr_caplen = caplen packet,
       hdr_len = pkt_len packet\<rparr> (hs @ body @ drop (length hs + length body) buf) file
     else None)"
proof -
  consider "length hs + length body \<le> 1600" | "length hs \<le> 1600" "1600 < length hs + length body" | "1600 < length hs"
    by linarith
  then show ?thesis
    using assms
    by cases (simp_all add: writePacket_def GetByteArrayRegion_def wr_bytes_def add.commute [of "length hs" "length body"])
qed

lemma ucast_scast_u32 [simp]: "(ucast (scast (x :: u32) :: u64) :: u32) = x"
  by (rule bit_word_eqI) (auto simp: bit_simps min_def dest: le_antisym [of 31])

text \<open>
  \<open>pcap_dump\<close> as documented: it appends a record of the capture header and the first \<open>caplen\<close> bytes
  of the buffer; a buffer shorter than that is read past its end.
\<close>

definition dumps_records :: "('d \<Rightarrow> pcap_pkthdr \<Rightarrow> mem \<Rightarrow> 'f \<Rightarrow> 'f option) \<Rightarrow> ('f \<Rightarrow> (pcap_pkthdr \<times> mem) list) \<Rightarrow> bool" where
  "dumps_records pcap_dump records \<longleftrightarrow>
     (\<forall>d h b f. unat (hdr_caplen h) \<le> length b \<longrightarrow>
        (\<exists>f'. pcap_dump d h b f = Some f' \<and> records f' = records f @ [(h, take (unat (hdr_caplen h)) b)]))"

definition list_dump :: "nat \<Rightarrow> pcap_pkthdr \<Rightarrow> mem \<Rightarrow> (pcap_pkthdr \<times> mem) list \<Rightarrow> (pcap_pkthdr \<times> mem) list option" where
  "list_dump d h b f =
     (if unat (hdr_caplen h) \<le> length b then Some (f @ [(h, take (unat (hdr_caplen h)) b)]) else None)"

lemma list_dump_records: "dumps_records list_dump id"
  by (simp add: dumps_records_def list_dump_def)

lemma writePacket_covered:
  assumes "decode_packet getByName jpcapFilter linktype un hdr m ext = Some (Some q, ext')"
    and "length (the (header q)) + length (the (pkt_data q)) = length m"
    and "unat (hdr_caplen hdr) = length m" and "length m \<le> MAX_PACKET_SIZE"
    and "length buf = MAX_PACKET_SIZE" and "dumps_records pcap_dump records"
  shows "\<exists>file'. writePacket pcap_dump (Some d) buf q file = Some file' \<and>
    records file' = records file @ [(hdr, m)]"
proof -
  from assms(1) obtain nproto off tproto packet where off: "off = 0 \<or> off = 8"
    and f: "fill_packet (un_va un) hdr m linktype ext' off nproto tproto packet = Some q"
    by (rule decode_packet_passD)
  from fill_packet_SomeD(1) [OF f off] obtain k j where kj: "header q = Some (take k m)"
    "pkt_data q = Some (take j (drop k m))" "k + j \<le> length m" by blast
  have len: "length (take k m) + length (take j (drop k m)) = length m" using assms(2) kj by simp
  have "k + j = length m" using assms(2) kj by (simp add: min_def split: if_splits)
  then have m: "take k m @ take j (drop k m) = m" by (metis take_add take_all order_refl)
  have h: "\<lparr>tv_sec = ucast (sec q), tv_usec = ucast (usec q), hdr_caplen = caplen q, hdr_len = pkt_len q\<rparr> = hdr"
    using fill_packet_SomeD(4-7) [OF f off] by simp
  have "writePacket pcap_dump (Some d) buf q file = pcap_dump d hdr (m @ drop (length m) buf) file"
    using assms(4) arg_cong [OF m, of "\<lambda>x. pcap_dump d hdr (x @ drop (length m) buf) file"]
    by (simp only: writePacket_buffer [OF kj(1,2) assms(5)] len h append_assoc MAX_PACKET_SIZE_def if_True)
  moreover have "unat (hdr_caplen hdr) \<le> length (m @ drop (length m) buf)" using assms(3) by simp
  ultimately show ?thesis using assms(6) assms(3) by (force simp: dumps_records_def)
qed

text \<open>
  C15: Capturing and writing back. When a captured frame of at most 1600 bytes is decoded and its
  header and data arrays together cover all that was captured, writing the packet object appends
  to the dump file exactly the record that was captured: same time, same lengths, same bytes.
\<close>

theorem writePacket_captured:
  assumes "decode_packet getByName jpcapFilter linktype un hdr m ext = Some (Some q, ext')"
    and "length (the (header q)) + length (the (pkt_data q)) = length m"
    and "unat (hdr_caplen hdr) = length m" and "length m \<le> MAX_PACKET_SIZE"
    and "length buf = MAX_PACKET_SIZE" and "dumps_records pcap_dump records"
  shows "\<exists>file'. writePacket pcap_dump (Some d) buf q file = Some file' \<and>
    records file' = records file @ [(hdr, m)]"
  by (rule writePacket_covered [OF assms])

lemma writePacket_captured_witness:
  "\<exists>file'. writePacket list_dump (Some 3) (replicate 1600 0)
     (the (fst (the (decode_packet (\<lambda>_. None) None 1 \<lparr>un_tproto = 0, un_va = (0, 0)\<rparr>
        (sample_hdr\<lparr>hdr_caplen := 56\<rparr>) (take 56 sample_frame) 0)))) [] = Some file' \<and>
     id file' = id [] @ [(sample_hdr\<lparr>hdr_caplen := 56\<rparr>, take 56 sample_frame)]"
  by (rule writePacket_captured [where getByName = "\<lambda>_. None" and jpcapFilter = None and linktype = 1 and ext = 0
        and ext' = 0 and un = "\<lparr>un_tproto = 0, un_va = (0, 0)\<rparr>", OF _ _ _ _ _ list_dump_records]) code_simp+

text \<open>
  Padding is not written back. When the arrays cover less than the capture length (the trailer of a
  short Ethernet frame belongs to neither), the record in the dump file ends in bytes of
  the uninitialised buffer instead of the captured ones.
\<close>

theorem writePacket_leaks_stack:
  assumes "header q = Some hs" and "pkt_data q = Some body"
    and "length hs + length body \<le> unat (caplen q)" and "unat (caplen q) \<le> MAX_PACKET_SIZE"
    and "length buf = MAX_PACKET_SIZE" and "dumps_records pcap_dump records"
  shows "\<exists>file' h. writePacket pcap_dump (Some d) buf q file = Some file' \<and>
    records file' = records file @
      [(h, hs @ body @ take (unat (caplen q) - (length hs + length body)) (drop (length hs + length body) buf))]"
proof -
  let ?h = "\<lparr>tv_sec = ucast (sec q), tv_usec = ucast (usec q), hdr_caplen = caplen q, hdr_len = pkt_len q\<rparr>"
  let ?b = "hs @ body @ drop (length hs + length body) buf"
  have w: "writePacket pcap_dump (Some d) buf q file = pcap_dump d ?h ?b file"
    using assms by (simp add: writePacket_buffer)
  have "unat (hdr_caplen ?h) \<le> length ?b" using assms(3-5) by simp
  moreover have "take (unat (caplen q)) ?b =
      hs @ body @ take (unat (caplen q) - (length hs + length body)) (drop (length hs + length body) buf)"
    using assms(3) by (simp add: take_all)
  ultimately show ?thesis using assms(6) unfolding w dumps_records_def by force
qed

lemma writePacket_leaks_stack_witness:
  "\<exists>file' h. writePacket list_dump (Some 3) (replicate 1600 0xEE)
      ((AllocObject Packet)\<lparr>header := Some [1, 2], pkt_data := Some [3], caplen := 5\<rparr>) [] = Some file' \<and>
    id file' = id [] @ [(h, [1, 2] @ [3] @
      take (unat (caplen ((AllocObject Packet)\<lparr>header := Some [1, 2], pkt_data := Some [3], caplen := 5\<rparr>)) -
        (length [1, 2 :: u8] + length [3 :: u8])) (drop (length [1, 2 :: u8] + length [3 :: u8]) (replicate 1600 0xEE)))]"
  by (rule writePacket_leaks_stack [OF _ _ _ _ _ list_dump_records]) simp_all

text \<open>
  A packet whose arrays are together longer than 1600 bytes overruns the buffer; the method has no
  check. A capture length of up to 65535 is accepted when the captor is opened.
\<close>

theorem writePacket_overruns:
  assumes "header q = Some hs" and "pkt_data q = Some body" and "length buf = MAX_PACKET_SIZE"
    and "MAX_PACKET_SIZE < length hs + length body"
  shows "writePacket pcap_dump pdt buf q file = None"
proof (cases pdt)
  case (Some d)
  with assms show ?thesis by (simp add: writePacket_buffer)
next
  case None
  then show ?thesis by (simp add: writePacket_def bind_eq_None_conv assms(1,2))
qed

lemma writePacket_overruns_witness:
  "writePacket list_dump (Some 3) (replicate 1600 0)
     ((AllocObject Packet)\<lparr>header := Some (replicate 54 0), pkt_data := Some (replicate 1547 0)\<rparr>) [] = None"
  by (rule writePacket_overruns [where hs = "replicate 54 0" and body = "replicate 1547 0"]) simp_all

end
