(* ===== verification/Dump_Replay.thy ===== *)
theory Dump_Replay
  imports Captor_Session Jpcap_Writer
begin

text \<open>
  Capturing, dumping and reading back as one: packet objects that a captor built are written by successive
  calls of \<open>JpcapWriter.writePacket\<close>, and the dump file is read by \<open>JpcapCaptor.loopPacket\<close>.
\<close>

text \<open>Successive calls of \<open>writePacket\<close>, each with a stack buffer of unknown contents.\<close>

fun write_packets ::
  "('d \<Rightarrow> pcap_pkthdr \<Rightarrow> mem \<Rightarrow> 'f \<Rightarrow> 'f option) \<Rightarrow> 'd \<Rightarrow> (mem \<times> jpacket) list \<Rightarrow> 'f \<Rightarrow> 'f option" where
  "write_packets pcap_dump d [] file = Some file"
| "write_packets pcap_dump d ((buf, q) # ps) file = do {
     file \<leftarrow> writePacket pcap_dump (Some d) buf q file;
     write_packets pcap_dump d ps file
   }"

text \<open>
  \<open>recorded c ext (hdr, m) q\<close>: the frame was captured completely, becomes the object \<open>q\<close>, and header and
  data array of \<open>q\<close> together hold all of it.
\<close>

definition recorded :: "'s session \<Rightarrow> int \<Rightarrow> pcap_pkthdr \<times> mem \<Rightarrow> jpacket \<Rightarrow> bool" where
  "recorded c ext r q \<longleftrightarrow> (case r of (hdr, m) \<Rightarrow>
     unat (hdr_caplen hdr) = length m \<and> length m \<le> MAX_PACKET_SIZE \<and>
     (\<forall>s. decode_packet (resolve c) None (sess_linktype c) (garbage c s) hdr m ext = Some (Some q, ext)) \<and>
     length (the (header q)) + length (the (pkt_data q)) = length m)"

text \<open>\<open>pcap_loop\<close> over a dump file: it passes the records to the callback in the order of the file.\<close>

fun next_record :: "(pcap_pkthdr \<times> mem) list \<Rightarrow> (pcap_pkthdr \<times> mem) option \<times> (pcap_pkthdr \<times> mem) list" where
  "next_record [] = (None, [])"
| "next_record (r # rs) = (Some r, rs)"

lemma writePacket_recorded:
  assumes "recorded c ext r q" and "length buf = MAX_PACKET_SIZE" and "dumps_records pcap_dump records"
  shows "\<exists>file'. writePacket pcap_dump (Some d) buf q file = Some file' \<and> records file' = records file @ [r]"
  using assms by (cases r) (auto simp: recorded_def intro!: writePacket_covered)

lemma dispatcher_handler_recorded:
  assumes "recorded c ext (hdr, m) q" and "sess_filter c = None"
  shows "dispatcher_handler n c hdr m ext s = Delivered [q] ext s"
  using assms by (simp add: recorded_def dispatcher_handler_def get_packet.simps [of n])

lemma write_packets_recorded:
  assumes "list_all2 (recorded c ext) recs qs" and "length bufs = length qs"
    and "\<And>buf. buf \<in> set bufs \<Longrightarrow> length buf = MAX_PACKET_SIZE" and "dumps_records pcap_dump records"
  shows "\<exists>file'. write_packets pcap_dump d (zip bufs qs) f0 = Some file' \<and> records file' = records f0 @ recs"
  using assms(1-3)
proof (induction recs qs arbitrary: bufs f0 rule: list_all2_induct)
  case (Cons r recs q qs)
  then obtain buf bufs' where b: "bufs = buf # bufs'" "length bufs' = length qs"
    by (cases bufs) auto
  obtain f1 where f1: "writePacket pcap_dump (Some d) buf q f0 = Some f1" "records f1 = records f0 @ [r]"
    using writePacket_recorded [OF Cons.hyps(1) Cons.prems(2) assms(4)] b(1) by (meson list.set_intros(1))
  obtain f2 where "write_packets pcap_dump d (zip bufs' qs) f1 = Some f2" "records f2 = records f1 @ recs"
    using Cons.IH [of bufs' f1] b Cons.prems(2) by auto
  with f1 b(1) show ?case by simp
qed simp

lemma run_callbacks_recorded:
  assumes "list_all2 (recorded c ext) recs qs" and "sess_filter c = None"
  shows "run_callbacks n next_record (length recs) c ext recs = Delivered qs ext []"
  using assms(1)
  by (induction rule: list_all2_induct) (auto simp: dispatcher_handler_recorded assms(2))

text \<open>
  C3: A dump file replays. When packet objects whose arrays cover the captured frames are written to an empty
  dump file one after the other, looping over that file without a filter, on the same link
  type, delivers exactly the same packet objects in the same order.
\<close>

theorem dump_replays:
  assumes "list_all2 (recorded c ext) recs qs" and "length bufs = length qs"
    and "\<And>buf. buf \<in> set bufs \<Longrightarrow> length buf = MAX_PACKET_SIZE" and "dumps_records pcap_dump records"
    and "records f0 = []"
  shows "\<exists>file'. write_packets pcap_dump d (zip bufs qs) f0 = Some file' \<and>
    loopPacket n heap None None next_record (length (records file')) c ext (records file') =
      (None, Delivered qs ext [])"
proof -
  obtain file' where "write_packets pcap_dump d (zip bufs qs) f0 = Some file'" "records file' = recs"
    using write_packets_recorded [OF assms(1-4), of d f0] assms(5) by auto
  moreover have "list_all2 (recorded (with_filter heap None c) ext) recs qs"
    using assms(1) by (rule list_all2_mono) (auto simp: recorded_def with_filter_def)
  then have "run_callbacks n next_record (length recs) (with_filter heap None c) ext recs = Delivered qs ext []"
    by (rule run_callbacks_recorded) (simp add: with_filter_def)
  ultimately show ?thesis by (simp add: loopPacket_def initJpcapFilter_def)
qed

text \<open>The session over an open dump file of an Ethernet capture.\<close>

definition file_session :: "(pcap_pkthdr \<times> mem) list session" where
  "file_session =
     \<lparr>pcap_next_ex = (\<lambda>rs. case rs of [] \<Rightarrow> (EndOfFile, []) | (h, m) # rs \<Rightarrow> (Captured h (Some m), rs)),
      garbage = (\<lambda>_. \<lparr>un_tproto = 0, un_va = (0, 0)\<rparr>), resolve = (\<lambda>_. None),
      sess_filter = None, sess_linktype = 1\<rparr>"

text \<open>A TCP segment and a UDP datagram, and the objects they become.\<close>

definition sample_records :: "(pcap_pkthdr \<times> mem) list" where
  "sample_records = [(sample_hdr\<lparr>hdr_caplen := 56\<rparr>, take 56 sample_frame),
     (sample_hdr\<lparr>tv_sec := 3, hdr_caplen := 44\<rparr>,
      [1, 2, 3, 4, 5, 6, 7, 8, 9, 10, 11, 12, 8, 0,
       0x45, 0, 0, 30, 0, 2, 0, 0, 64, 17, 0, 0, 10, 0, 0, 1, 10, 0, 0, 2, 0, 53, 4, 0, 0, 10, 0, 0, 0xcc, 0xdd])]"

definition sample_captured :: "jpacket list" where
  "sample_captured = List.map (\<lambda>(hdr, m). the (fst (the (decode_packet (\<lambda>_. None) None 1
     \<lparr>un_tproto = 0, un_va = (0, 0)\<rparr> hdr m 0)))) sample_records"

lemma sample_recorded: "list_all2 (recorded file_session 0) sample_records sample_captured"
proof -
  have "decode_packet (\<lambda>_. None) None 1 \<lparr>un_tproto = 0, un_va = (0, 0)\<rparr> hdr m 0 =
      Some (Some (the (fst (the (decode_packet (\<lambda>_. None) None 1 \<lparr>un_tproto = 0, un_va = (0, 0)\<rparr> hdr m 0)))), 0) \<and>
    unat (hdr_caplen hdr) = length m \<and> length m \<le> MAX_PACKET_SIZE \<and>
    (let q = the (fst (the (decode_packet (\<lambda>_. None) None 1 \<lparr>un_tproto = 0, un_va = (0, 0)\<rparr> hdr m 0)))
     in length (the (header q)) + length (the (pkt_data q)) = length m)"
    if "(hdr, m) \<in> set sample_records" for hdr m
    using that unfolding sample_records_def by (simp only: list.set insert_iff empty_iff, elim disjE)
      (simp_all only: prod.inject, code_simp+)
  then show ?thesis
    unfolding sample_captured_def list_all2_map2 list_all2_same
    by (auto simp: recorded_def file_session_def Let_def)
qed

lemma dump_replays_witness:
  "\<exists>file'. write_packets list_dump 0 (zip [replicate 1600 0xEE, replicate 1600 0] sample_captured) [] = Some file' \<and>
    loopPacket 0 (\<lambda>_ :: unit. new_JpcapFilter) None None next_record (length (id file')) file_session 0 (id file') =
      (None, Delivered sample_captured 0 [])"
  by (rule dump_replays [OF sample_recorded _ _ list_dump_records])
    (auto simp: sample_captured_def sample_records_def)

end
