(* ===== verification/Jpcap_Devices.thy ===== *)
theory Jpcap_Devices
  imports Jpcap_Java
begin

text \<open>
  \<open>getDeviceList\<close> of \<open>JpcapCaptor.c\<close> with \<open>getAddressByteArray\<close>: the linked lists of libpcap become Java
  arrays. The calls into libpcap and the operating system are parameters; the three platforms of the
  source differ in how they find the hardware address.
\<close>

section \<open>Addresses\<close>

datatype sockaddr = AF_INET "u8 list" | AF_INET6 "u8 list" | AF_OTHER nat

text \<open>A null pointer and an unknown family give no array.\<close>

definition getAddressByteArray :: "sockaddr option \<Rightarrow> u8 list option" where
  "getAddressByteArray a =
     (case a of
        None \<Rightarrow> None
      | Some (AF_INET bs) \<Rightarrow> Some (take 4 bs)
      | Some (AF_INET6 bs) \<Rightarrow> Some (take 16 bs)
      | Some (AF_OTHER _) \<Rightarrow> None)"

record pcap_addr =
  addr :: "sockaddr option"
  netmask :: "sockaddr option"
  broadaddr :: "sockaddr option"
  dstaddr :: "sockaddr option"

record if_address =
  address :: "u8 list option"
  subnet :: "u8 list option"
  broadcast :: "u8 list option"
  destination :: "u8 list option"

text \<open>
  The constructor of \<open>NetworkInterfaceAddress\<close>: the four assignments stand in one \<open>try\<close>, a null array
  is skipped and an array of a wrong length ends them.
\<close>

fun assign_addresses :: "(u8 list option \<times> (u8 list \<Rightarrow> if_address \<Rightarrow> if_address)) list \<Rightarrow> if_address \<Rightarrow> if_address" where
  "assign_addresses [] x = x"
| "assign_addresses ((None, upd) # rest) x = assign_addresses rest x"
| "assign_addresses ((Some bs, upd) # rest) x =
     (case getByAddress bs of None \<Rightarrow> x | Some b \<Rightarrow> assign_addresses rest (upd b x))"

definition NetworkInterfaceAddress ::
  "u8 list option \<Rightarrow> u8 list option \<Rightarrow> u8 list option \<Rightarrow> u8 list option \<Rightarrow> if_address" where
  "NetworkInterfaceAddress a s b d =
     assign_addresses
       [(a, \<lambda>v x. x\<lparr>address := Some v\<rparr>), (s, \<lambda>v x. x\<lparr>subnet := Some v\<rparr>),
        (b, \<lambda>v x. x\<lparr>broadcast := Some v\<rparr>), (d, \<lambda>v x. x\<lparr>destination := Some v\<rparr>)]
       \<lparr>address = None, subnet = None, broadcast = None, destination = None\<rparr>"

text \<open>The counting loop and the filling loop; storing outside the array raises an exception.\<close>

fun count_addresses :: "pcap_addr list \<Rightarrow> nat" where
  "count_addresses [] = 0"
| "count_addresses (a # as) =
     (if getAddressByteArray (addr a) \<noteq> None then Suc (count_addresses as) else count_addresses as)"

definition make_address :: "pcap_addr \<Rightarrow> u8 list \<Rightarrow> if_address" where
  "make_address a bs =
     NetworkInterfaceAddress (Some bs) (getAddressByteArray (netmask a))
       (getAddressByteArray (broadaddr a)) (getAddressByteArray (dstaddr a))"

fun fill_addresses ::
  "pcap_addr list \<Rightarrow> nat \<Rightarrow> if_address option list \<Rightarrow> if_address option list option" where
  "fill_addresses [] j arr = Some arr"
| "fill_addresses (a # as) j arr =
     (case getAddressByteArray (addr a) of
        None \<Rightarrow> fill_addresses as j arr
      | Some bs \<Rightarrow>
          if j < length arr then fill_addresses as (Suc j) (arr[j := Some (make_address a bs)])
          else None)"

section \<open>Hardware addresses\<close>

text \<open>
  Windows: the device name and the adapter name are compared backwards from their terminating zero;
  the comparison has no bound at the start of the strings. At least 30 equal characters are a match;
  the last match wins.
\<close>

fun suffix_match :: "string \<Rightarrow> string \<Rightarrow> nat option" where
  "suffix_match (x # xs) (y # ys) =
     (if x = y then map_option Suc (suffix_match xs ys) else Some 0)"
| "suffix_match _ _ = None"

definition name_match :: "string \<Rightarrow> string \<Rightarrow> nat option" where
  "name_match a b = suffix_match (CHR 0x00 # rev a) (CHR 0x00 # rev b)"

fun win32_mac :: "string \<Rightarrow> (string \<times> u8 list) list \<Rightarrow> u8 list \<Rightarrow> u8 list option" where
  "win32_mac dev [] mac = Some mac"
| "win32_mac dev ((nm, phys) # as) mac = do {
     k \<leftarrow> name_match dev nm;
     (if k < 30 then win32_mac dev as mac
      else do {
        mac \<leftarrow> wr_bytes mac 0 phys;
        win32_mac dev as mac
      })
   }"

text \<open>FreeBSD: the entries whose link-layer name is a prefix of the device name.\<close>

fun freebsd_mac :: "string \<Rightarrow> (string \<times> u8 list) list \<Rightarrow> u8 list \<Rightarrow> u8 list" where
  "freebsd_mac dev [] mac = mac"
| "freebsd_mac dev ((nm, ll) # as) mac =
     freebsd_mac dev as
       (if 0 < length nm \<and> take (length nm) dev = nm then take 6 ll else mac)"

datatype platform =
    Win32 "(string \<times> u8 list) list option"
  | Linux "int" "string \<Rightarrow> u8 list"
  | FreeBSD "(string \<times> u8 list) list"

text \<open>The interface name that fits the request structure, \<open>IFNAMSIZ\<close> characters.\<close>

definition IFNAMSIZ :: nat where [simp]: "IFNAMSIZ = 16"

datatype 'a dev_result = DevUndefined | DevIOException string | DevOk 'a

definition device_mac :: "platform \<Rightarrow> string \<Rightarrow> u8 list dev_result" where
  "device_mac pl dev =
     (case pl of
        Win32 None \<Rightarrow> DevIOException ''GetInterfaceInfo failed.''
      | Win32 (Some adapters) \<Rightarrow>
          (case win32_mac dev adapters (replicate 6 0) of None \<Rightarrow> DevUndefined | Some mac \<Rightarrow> DevOk mac)
      | Linux sd ioctl \<Rightarrow>
          (if sd < 0 then DevIOException ''cannot open socket.''
           else DevOk (take 6 (ioctl (take IFNAMSIZ dev))))
      | FreeBSD ifs \<Rightarrow> DevOk (freebsd_mac dev ifs (replicate 6 0)))"

section \<open>Devices\<close>

record pcap_if =
  if_name :: string
  if_description :: "string option"
  if_addresses :: "pcap_addr list"
  if_flags :: u32

record network_interface =
  ni_name :: string
  ni_description :: "string option"
  ni_loopback :: bool
  ni_datalink_name :: "string option"
  ni_datalink_description :: "string option"
  ni_mac :: "u8 list"
  ni_addresses :: "if_address option list"

definition PCAP_IF_LOOPBACK :: u32 where [simp]: "PCAP_IF_LOOPBACK = 1"

text \<open>
  What the code asks libpcap: the link type of a device (if it can be opened) and the name and
  description of a link type.
\<close>

record pcap_names =
  open_linktype :: "string \<Rightarrow> int option"
  val_to_name :: "int \<Rightarrow> string option"
  val_to_description :: "int \<Rightarrow> string option"

definition make_device :: "platform \<Rightarrow> pcap_names \<Rightarrow> pcap_if \<Rightarrow> network_interface dev_result" where
  "make_device pl lib d =
     (case device_mac pl (if_name d) of
        DevUndefined \<Rightarrow> DevUndefined
      | DevIOException e \<Rightarrow> DevIOException e
      | DevOk mac \<Rightarrow>
          (case fill_addresses (if_addresses d) 0
                  (replicate (count_addresses (if_addresses d)) None) of
             None \<Rightarrow> DevUndefined
           | Some addrs \<Rightarrow>
               DevOk
                 (case open_linktype lib (if_name d) of
                    Some linktype \<Rightarrow>
                      \<lparr>ni_name = if_name d, ni_description = if_description d,
                       ni_loopback = (if_flags d AND PCAP_IF_LOOPBACK \<noteq> 0),
                       ni_datalink_name = val_to_name lib linktype,
                       ni_datalink_description = val_to_description lib linktype,
                       ni_mac = mac, ni_addresses = addrs\<rparr>
                  | None \<Rightarrow>
                      \<lparr>ni_name = if_name d, ni_description = if_description d,
                       ni_loopback = (if_flags d AND PCAP_IF_LOOPBACK \<noteq> 0),
                       ni_datalink_name = Some ''Unknown'', ni_datalink_description = Some ''Unknown'',
                       ni_mac = mac, ni_addresses = addrs\<rparr>)))"

fun fill_devices ::
  "platform \<Rightarrow> pcap_names \<Rightarrow> pcap_if list \<Rightarrow> nat \<Rightarrow> network_interface option list \<Rightarrow>
   network_interface option list dev_result" where
  "fill_devices pl lib [] i arr = DevOk arr"
| "fill_devices pl lib (d # ds) i arr =
     (case make_device pl lib d of
        DevOk dev \<Rightarrow>
          if i < length arr then fill_devices pl lib ds (Suc i) (arr[i := Some dev])
          else DevUndefined
      | DevUndefined \<Rightarrow> DevUndefined
      | DevIOException e \<Rightarrow> DevIOException e)"

text \<open>
  \<open>None\<close> is the null reference returned when \<open>pcap_findalldevs\<close> fails; on Windows the adapter table is
  asked for before the loop.
\<close>

fun no_adapters :: "platform \<Rightarrow> bool" where
  "no_adapters (Win32 None) = True"
| "no_adapters _ = False"

definition getDeviceList ::
  "platform \<Rightarrow> pcap_names \<Rightarrow> pcap_if list option \<Rightarrow> network_interface option list option dev_result" where
  "getDeviceList pl lib alldevs =
     (case alldevs of
        None \<Rightarrow> DevOk None
      | Some ds \<Rightarrow>
          if no_adapters pl then DevIOException ''GetInterfaceInfo failed.''
          else (case fill_devices pl lib ds 0 (replicate (length ds) None) of
                  DevOk arr \<Rightarrow> DevOk (Some arr)
                | DevUndefined \<Rightarrow> DevUndefined
                | DevIOException e \<Rightarrow> DevIOException e))"

section \<open>The arrays are filled exactly\<close>

definition kept_addresses :: "pcap_addr list \<Rightarrow> if_address list" where
  "kept_addresses as =
     map (\<lambda>a. make_address a (the (getAddressByteArray (addr a))))
       (filter (\<lambda>a. getAddressByteArray (addr a) \<noteq> None) as)"

lemma count_addresses_eq: "count_addresses as = length (kept_addresses as)"
  by (induction as) (auto simp: kept_addresses_def)

lemma fill_addresses_eq:
  "fill_addresses as (length done) (map Some done @ replicate (count_addresses as) None) =
   Some (map Some (done @ kept_addresses as))"
proof (induction as arbitrary: "done")
  case Nil
  then show ?case by (simp add: kept_addresses_def)
next
  case (Cons a as)
  show ?case
  proof (cases "getAddressByteArray (addr a)")
    case None
    then show ?thesis using Cons by (simp add: kept_addresses_def)
  next
    case (Some bs)
    have "(map Some done @ replicate (Suc (count_addresses as)) None)[length done := Some (make_address a bs)] =
        map Some (done @ [make_address a bs]) @ replicate (count_addresses as) None"
      by (simp add: list_update_append)
    with Some Cons.IH [of "done @ [make_address a bs]"] show ?thesis
      by (simp add: kept_addresses_def)
  qed
qed

lemma fill_addresses_ok:
  "fill_addresses as 0 (replicate (count_addresses as) None) = Some (map Some (kept_addresses as))"
  using fill_addresses_eq [of as "[]"] by simp

lemma make_device_ok:
  assumes "device_mac pl (if_name d) = DevOk mac"
  shows "\<exists>dev. make_device pl lib d = DevOk dev \<and> ni_name dev = if_name d \<and> ni_mac dev = mac \<and>
     ni_addresses dev = map Some (kept_addresses (if_addresses d)) \<and>
     ni_loopback dev = (if_flags d AND PCAP_IF_LOOPBACK \<noteq> 0)"
  using assms by (auto simp: make_device_def fill_addresses_ok split: option.splits)

lemma fill_devices_eq:
  assumes "\<And>d. d \<in> set ds \<Longrightarrow> make_device pl lib d = DevOk (f d)"
  shows "fill_devices pl lib ds (length done) (map Some done @ replicate (length ds) None) =
     DevOk (map Some (done @ map f ds))"
  using assms
proof (induction ds arbitrary: "done")
  case (Cons d ds)
  have "(map Some done @ replicate (Suc (length ds)) None)[length done := Some (f d)] =
      map Some (done @ [f d]) @ replicate (length ds) None"
    by (simp add: list_update_append)
  with Cons.IH [of "done @ [f d]"] Cons.prems show ?case by simp
qed simp

section \<open>Properties\<close>

text \<open>
  C29: \<open>getDeviceList\<close> on Linux returns one object per device of libpcap, in the same order and without
  null elements; each carries its name, the loopback flag, the hardware address and exactly the
  addresses of the families the code knows.
\<close>

theorem getDeviceList_complete:
  assumes "0 \<le> sd"
  shows "\<exists>devs. getDeviceList (Linux sd ioctl) lib (Some ds) = DevOk (Some (map Some devs)) \<and>
     length devs = length ds \<and>
     (\<forall>i < length ds. ni_name (devs ! i) = if_name (ds ! i) \<and>
        ni_loopback (devs ! i) = (if_flags (ds ! i) AND PCAP_IF_LOOPBACK \<noteq> 0) \<and>
        ni_mac (devs ! i) = take 6 (ioctl (take IFNAMSIZ (if_name (ds ! i)))) \<and>
        ni_addresses (devs ! i) = map Some (kept_addresses (if_addresses (ds ! i))))"
proof -
  let ?pl = "Linux sd ioctl"
  have mac: "device_mac ?pl (if_name d) = DevOk (take 6 (ioctl (take IFNAMSIZ (if_name d))))" for d
    using assms by (simp add: device_mac_def)
  define f where "f d = (case make_device ?pl lib d of DevOk dev \<Rightarrow> dev)" for d
  have f: "make_device ?pl lib d = DevOk (f d)" "ni_name (f d) = if_name d"
    "ni_loopback (f d) = (if_flags d AND PCAP_IF_LOOPBACK \<noteq> 0)"
    "ni_mac (f d) = take 6 (ioctl (take IFNAMSIZ (if_name d)))"
    "ni_addresses (f d) = map Some (kept_addresses (if_addresses d))" for d
    using make_device_ok [OF mac, of lib d] by (auto simp: f_def)
  have "fill_devices ?pl lib ds 0 (replicate (length ds) None) = DevOk (map Some (map f ds))"
    using fill_devices_eq [of ds ?pl lib f "[]"] f(1) by simp
  then show ?thesis
    using f by (intro exI [of _ "map f ds"]) (simp add: getDeviceList_def)
qed

theorem getDeviceList_complete_witness:
  "let lib = \<lparr>open_linktype = (\<lambda>_. None), val_to_name = (\<lambda>_. None), val_to_description = (\<lambda>_. None)\<rparr>;
       a = \<lparr>addr = Some (AF_INET [10, 0, 0, 1]), netmask = None, broadaddr = None, dstaddr = None\<rparr>;
       ds = [\<lparr>if_name = ''eth0'', if_description = None, if_addresses = [a, a\<lparr>addr := None\<rparr>], if_flags = 0\<rparr>] in
   \<exists>devs. getDeviceList (Linux 3 (\<lambda>_. replicate 14 5)) lib (Some ds) = DevOk (Some (map Some devs)) \<and>
     length devs = length ds \<and>
     (\<forall>i < length ds. ni_name (devs ! i) = if_name (ds ! i) \<and>
        ni_loopback (devs ! i) = (if_flags (ds ! i) AND PCAP_IF_LOOPBACK \<noteq> 0) \<and>
        ni_mac (devs ! i) = take 6 ((\<lambda>_. replicate 14 5) (take IFNAMSIZ (if_name (ds ! i)))) \<and>
        ni_addresses (devs ! i) = map Some (kept_addresses (if_addresses (ds ! i))))"
  unfolding Let_def by (rule getDeviceList_complete) simp

lemma suffix_match_prefix: "suffix_match xs (xs @ ys) = None"
  by (induction xs) auto

text \<open>
  On Windows the backward comparison of a device name with an adapter name has no lower bound: when
  the adapter name ends with the whole device name (in particular when they are equal) it leaves the
  strings, and \<open>getDeviceList\<close> is undefined.
\<close>

theorem device_mac_overruns_names:
  "device_mac (Win32 (Some ((prefix @ dev, phys) # as))) dev = DevUndefined"
  by (simp add: device_mac_def name_match_def suffix_match_prefix)

end
