(* ===== verification/Jpcap_Instances.thy ===== *)
theory Jpcap_Instances
  imports Jpcap_Headers "HOL-Library.Signed_Division"
begin

text \<open>
  The instance tables of \<open>JpcapCaptor.c\<close>, \<open>JpcapSender.c\<close> and \<open>JpcapWriter.c\<close>: opening and closing of
  captors, senders, raw sockets and dump files, and the small native methods around them. libpcap and
  the socket calls are parameters.

  A \<open>pcap_t\<close> pointer is a number; the set \<open>live\<close> records which of them libpcap has handed out and not
  yet taken back, so that a second \<open>pcap_close\<close> of the same pointer is undefined.
\<close>

section \<open>State\<close>

type_synonym pcap_t = nat

record jstate =
  pcds :: "nat \<Rightarrow> pcap_t option"
  jni_envs :: "nat \<Rightarrow> bool"
  linktypes :: "nat \<Rightarrow> int"
  linktypes_ext :: "nat \<Rightarrow> int"
  netnums :: "nat \<Rightarrow> u32"
  netmasks :: "nat \<Rightarrow> u32"
  pcap_errbuf :: "nat \<Rightarrow> string"
  live :: "pcap_t set"
  soc_num :: int
  open_fds :: "int set"
  pcdd :: "pcap_t option"
  pdt :: "nat option"
  instanciatedFlag :: "nat \<Rightarrow> bool"

definition initial :: jstate where
  "initial =
     \<lparr>pcds = (\<lambda>_. None), jni_envs = (\<lambda>_. False), linktypes = (\<lambda>_. 0), linktypes_ext = (\<lambda>_. 0),
      netnums = (\<lambda>_. 0), netmasks = (\<lambda>_. 0), pcap_errbuf = (\<lambda>_. ''''), live = {}, soc_num = -1,
      open_fds = {}, pcdd = None, pdt = None, instanciatedFlag = (\<lambda>_. False)\<rparr>"

text \<open>Access to a table of \<open>MAX_NUMBER_OF_INSTANCE\<close> entries.\<close>

definition in_table :: "int \<Rightarrow> nat option" where
  "in_table i = (if 0 \<le> i \<and> i < int MAX_NUMBER_OF_INSTANCE then Some (nat i) else None)"

section \<open>Captors\<close>

text \<open>
  What libpcap answers when a device is opened: the handle or null and the text left in the error
  buffer; network number and netmask of a device, or the error text; the link type of a handle.
\<close>

record pcap_lib =
  pcap_open_live :: "string \<Rightarrow> int \<Rightarrow> int \<Rightarrow> int \<Rightarrow> pcap_t option \<times> string"
  pcap_open_offline :: "string \<Rightarrow> pcap_t option \<times> string"
  pcap_lookupnet :: "string \<Rightarrow> (u32 \<times> u32) + string"
  pcap_datalink :: "pcap_t \<Rightarrow> int"

definition nativeOpenLive ::
  "pcap_lib \<Rightarrow> int \<Rightarrow> string option \<Rightarrow> int \<Rightarrow> int \<Rightarrow> int \<Rightarrow> jstate \<Rightarrow> (string option \<times> jstate) option" where
  "nativeOpenLive lib ID device snaplen promisc to_ms st = do {
     i \<leftarrow> in_table ID;
     (if pcds st i \<noteq> None then Some (Some ''Another Jpcap instance is being used.'', st)
      else (let st = st\<lparr>jni_envs := (jni_envs st)(i := True)\<rparr> in
        case device of
          None \<Rightarrow> Some (Some ''Please specify device name.'', st)
        | Some dev \<Rightarrow>
            (let (h, err) = pcap_open_live lib dev snaplen promisc to_ms;
                 st = st\<lparr>pcds := (pcds st)(i := h), live := live st \<union> set_option h,
                   pcap_errbuf := (pcap_errbuf st)(i := err)\<rparr>;
                 st = (case pcap_lookupnet lib dev of
                     Inl (net, nm) \<Rightarrow> st\<lparr>netnums := (netnums st)(i := net), netmasks := (netmasks st)(i := nm)\<rparr>
                   | Inr msg \<Rightarrow> st\<lparr>netmasks := (netmasks st)(i := 0),
                       pcap_errbuf := (pcap_errbuf st)(i := msg)\<rparr>)
             in case h of
                  None \<Rightarrow> Some (Some (pcap_errbuf st i), st)
                | Some p \<Rightarrow> Some (None, st\<lparr>linktypes := (linktypes st)(i := pcap_datalink lib p)\<rparr>))))
   }"

definition nativeOpenOffline ::
  "pcap_lib \<Rightarrow> int \<Rightarrow> string option \<Rightarrow> jstate \<Rightarrow> (string option \<times> jstate) option" where
  "nativeOpenOffline lib ID filename st = do {
     i \<leftarrow> in_table ID;
     (if pcds st i \<noteq> None then Some (Some ''Another Jpcap instance is being used.'', st)
      else do {
        file \<leftarrow> filename;
        let (h, err) = pcap_open_offline lib file;
        let st = st\<lparr>jni_envs := (jni_envs st)(i := True), pcds := (pcds st)(i := h),
          live := live st \<union> set_option h, pcap_errbuf := (pcap_errbuf st)(i := err)\<rparr>;
        (case h of
           None \<Rightarrow> Some (Some (pcap_errbuf st i), st)
         | Some p \<Rightarrow> Some (None, st\<lparr>linktypes := (linktypes st)(i := pcap_datalink lib p)\<rparr>))
      })
   }"

text \<open>\<open>pcap_close\<close> and \<open>free\<close> on a pointer that is not allocated are undefined.\<close>

definition release :: "pcap_t \<Rightarrow> jstate \<Rightarrow> jstate option" where
  "release h st = (if h \<in> live st then Some (st\<lparr>live := live st - {h}\<rparr>) else None)"

definition nativeClose :: "int \<Rightarrow> jstate \<Rightarrow> jstate option" where
  "nativeClose ID st = do {
     i \<leftarrow> in_table ID;
     st \<leftarrow> (case pcds st i of None \<Rightarrow> Some st | Some h \<Rightarrow> release h st);
     Some (st\<lparr>pcds := (pcds st)(i := None)\<rparr>)
   }"

section \<open>Senders\<close>

definition nativeOpenDevice ::
  "pcap_lib \<Rightarrow> int \<Rightarrow> string option \<Rightarrow> jstate \<Rightarrow> (string option \<times> jstate) option" where
  "nativeOpenDevice lib ID device st = do {
     i \<leftarrow> in_table ID;
     let st = st\<lparr>jni_envs := (jni_envs st)(i := True)\<rparr>;
     (if pcds st i \<noteq> None then Some (Some ''Another Jpcap instance is being used.'', st)
      else (case device of
          None \<Rightarrow> Some (Some ''Please specify device name.'', st)
        | Some dev \<Rightarrow>
            (let (h, err) = pcap_open_live lib dev 65535 0 1000;
                 st = st\<lparr>pcds := (pcds st)(i := h), live := live st \<union> set_option h,
                   pcap_errbuf := (pcap_errbuf st)(i := err)\<rparr>
             in Some (if h = None then Some (pcap_errbuf st i) else None, st))))
   }"

definition nativeCloseDevice :: "int \<Rightarrow> jstate \<Rightarrow> jstate option" where
  "nativeCloseDevice ID st = do {
     i \<leftarrow> in_table ID;
     st \<leftarrow> (case pcds st i of None \<Rightarrow> Some st | Some h \<Rightarrow> release h st);
     Some (st\<lparr>pcds := (pcds st)(i := None)\<rparr>)
   }"

text \<open>
  Raw sockets. \<open>winsock\<close> is whether \<open>WSAStartup\<close> succeeds (\<open>None\<close> on the other platforms), \<open>soc\<close> what
  \<open>socket\<close> or \<open>WSASocket\<close> returns (\<open>-1\<close> is \<open>INVALID_SOCKET\<close>); \<open>soc_num\<close> is the global of that name, or
  \<open>sockRaw\<close> on Windows. The result is the exception raised, if any.
\<close>

definition nativeOpenRawSocket :: "bool option \<Rightarrow> int \<Rightarrow> jstate \<Rightarrow> string option \<times> jstate" where
  "nativeOpenRawSocket winsock soc st =
     (if 0 \<le> soc_num st then (Some ''Raw Socket is already opened.'', st)
      else if winsock = Some False then (Some ''Failed to find Winsock 2.1 or better.'', st)
      else if soc < 0 then
        (Some (if winsock = None then ''can'' @ [CHR 0x27] @ ''t initialize socket''
               else ''Failed to create raw socket.''), st\<lparr>soc_num := soc\<rparr>)
      else (None, st\<lparr>soc_num := soc, open_fds := insert soc (open_fds st)\<rparr>))"

text \<open>\<open>close(soc_num)\<close> releases the descriptor; the variable keeps its value.\<close>

definition nativeCloseRawSocket :: "jstate \<Rightarrow> jstate" where
  "nativeCloseRawSocket st = st\<lparr>open_fds := open_fds st - {soc_num st}\<rparr>"

section \<open>Dump files\<close>

text \<open>\<open>JpcapWriter\<close>: \<open>dump_open\<close> is the result of \<open>pcap_dump_open\<close> on the handle, or its error text.\<close>

definition nativeOpenDumpFile ::
  "(pcap_t \<Rightarrow> string \<Rightarrow> nat + string) \<Rightarrow> string option \<Rightarrow> int \<Rightarrow> jstate \<Rightarrow> (string option \<times> jstate) option" where
  "nativeOpenDumpFile dump_open filename ID st = do {
     i \<leftarrow> in_table ID;
     (case pcds st i of
        None \<Rightarrow> Some (Some ''The jpcap is not instantiated.'', st)
      | Some h \<Rightarrow> do {
          file \<leftarrow> filename;
          let st = st\<lparr>pcdd := Some h\<rparr>;
          (case dump_open h file of
             Inl d \<Rightarrow> Some (None, st\<lparr>pdt := Some d\<rparr>)
           | Inr err \<Rightarrow> Some (Some err, st\<lparr>pdt := None\<rparr>))
        })
   }"

definition JpcapWriter_close :: "jstate \<Rightarrow> jstate option" where
  "JpcapWriter_close st = do {
     st \<leftarrow> (if pdt st \<noteq> None then do {
         st \<leftarrow> (case pcdd st of None \<Rightarrow> Some st | Some h \<Rightarrow> release h st);
         Some (st\<lparr>pcdd := None\<rparr>)
       }
       else Some st);
     Some (st\<lparr>pdt := None\<rparr>)
   }"

section \<open>The small native methods\<close>

text \<open>A call on the handle of an instance; a null or released handle is undefined.\<close>

definition handle_of :: "int \<Rightarrow> jstate \<Rightarrow> pcap_t option" where
  "handle_of ID st = do {
     i \<leftarrow> in_table ID;
     h \<leftarrow> pcds st i;
     (if h \<in> live st then Some h else None)
   }"

definition note_error :: "nat \<Rightarrow> string option \<Rightarrow> jstate \<Rightarrow> jstate" where
  "note_error i err st =
     (case err of None \<Rightarrow> st | Some m \<Rightarrow> st\<lparr>pcap_errbuf := (pcap_errbuf st)(i := m)\<rparr>)"

definition setNonBlockingMode ::
  "(pcap_t \<Rightarrow> bool \<Rightarrow> string option) \<Rightarrow> int \<Rightarrow> bool \<Rightarrow> jstate \<Rightarrow> jstate option" where
  "setNonBlockingMode pcap_setnonblock ID non_blocking st = do {
     h \<leftarrow> handle_of ID st;
     Some (note_error (nat ID) (pcap_setnonblock h non_blocking) st)
   }"

definition isNonBlockinMode ::
  "(pcap_t \<Rightarrow> int \<times> string option) \<Rightarrow> int \<Rightarrow> jstate \<Rightarrow> (bool \<times> jstate) option" where
  "isNonBlockinMode pcap_getnonblock ID st = do {
     h \<leftarrow> handle_of ID st;
     let (nonblocking, err) = pcap_getnonblock h;
     Some (nonblocking \<noteq> 0, note_error (nat ID) err st)
   }"

definition breakLoop :: "(pcap_t \<Rightarrow> 'r) \<Rightarrow> int \<Rightarrow> jstate \<Rightarrow> 'r option" where
  "breakLoop pcap_breakloop ID st = do {
     h \<leftarrow> handle_of ID st;
     Some (pcap_breakloop h)
   }"

text \<open>
  \<open>setFilter\<close>: compile, then install; a failing step leaves a text, from libpcap or a fixed one, which
  becomes the message of the exception, cut to the 2047 characters of the buffer.
\<close>

definition filter_prefix :: string where
  "filter_prefix = ''Error occurred while compiling or setting filter: ''"

definition filter_message :: "string \<Rightarrow> string" where
  "filter_message err = filter_prefix @ take (2047 - length filter_prefix) err"

definition setFilter ::
  "(pcap_t \<Rightarrow> string \<Rightarrow> int \<Rightarrow> u32 \<Rightarrow> 'prog + string option) \<Rightarrow> (pcap_t \<Rightarrow> 'prog \<Rightarrow> string option option) \<Rightarrow>
   int \<Rightarrow> string option \<Rightarrow> bool \<Rightarrow> jstate \<Rightarrow> string option option" where
  "setFilter pcap_compile pcap_setfilter ID condition opt st = do {
     cdt \<leftarrow> condition;
     i \<leftarrow> in_table ID;
     h \<leftarrow> handle_of ID st;
     let err = (case pcap_compile h cdt (if opt then -1 else 0) (netmasks st i) of
         Inr e \<Rightarrow> Some (case e of Some m \<Rightarrow> m | None \<Rightarrow> ''pcap_compile failed'')
       | Inl program \<Rightarrow>
           (case pcap_setfilter h program of
              None \<Rightarrow> None
            | Some e \<Rightarrow> Some (case e of Some m \<Rightarrow> m | None \<Rightarrow> ''pcap_setfilter failed'')));
     Some (map_option filter_message err)
   }"

text \<open>
  The two counters of the captor object, \<open>received_packets\<close> and \<open>dropped_packets\<close>: what the structure
  holds after \<open>pcap_stats\<close>, whose result code is ignored.
\<close>

record pcap_stat =
  ps_recv :: u32
  ps_drop :: u32
  ps_ifdrop :: u32

definition updateStat :: "(pcap_t \<Rightarrow> int \<times> pcap_stat) \<Rightarrow> int \<Rightarrow> jstate \<Rightarrow> (int \<times> int) option" where
  "updateStat pcap_stats ID st = do {
     h \<leftarrow> handle_of ID st;
     let (r, stat) = pcap_stats h;
     Some (sint (ps_recv stat), sint (ps_drop stat))
   }"

definition getErrorMessage :: "int \<Rightarrow> jstate \<Rightarrow> string option" where
  "getErrorMessage ID st = do { i \<leftarrow> in_table ID; Some (pcap_errbuf st i) }"

text \<open>
  Read timeouts, with the division of C. \<open>None\<close> as socket option function stands for Windows, where
  both methods do nothing; \<open>getsockopt\<close> gives its result, the structure and the length it filled.
\<close>

record timeval =
  t_sec :: int
  t_usec :: int

definition sizeof_timeval :: int where [simp]: "sizeof_timeval = 16"

definition setPacketReadTimeout ::
  "(pcap_t \<Rightarrow> timeval \<Rightarrow> int) option \<Rightarrow> int \<Rightarrow> int \<Rightarrow> jstate \<Rightarrow> bool option" where
  "setPacketReadTimeout setsockopt ID millis st =
     (case setsockopt of
        None \<Rightarrow> Some False
      | Some f \<Rightarrow> do {
          h \<leftarrow> handle_of ID st;
          Some (f h \<lparr>t_sec = millis sdiv 1000, t_usec = (millis smod 1000) * 1000\<rparr> = 0)
        })"

definition getPacketReadTimeout ::
  "(pcap_t \<Rightarrow> int \<times> timeval \<times> int) option \<Rightarrow> int \<Rightarrow> jstate \<Rightarrow> int option" where
  "getPacketReadTimeout getsockopt ID st =
     (case getsockopt of
        None \<Rightarrow> Some (-1)
      | Some f \<Rightarrow> do {
          h \<leftarrow> handle_of ID st;
          let (s, tv, len) = f h;
          Some (if s = 0 \<and> len = sizeof_timeval
                then signed_take_bit 31 (t_usec tv sdiv 1000 + t_sec tv * 1000) else -1)
        })"

section \<open>The table invariant\<close>

text \<open>Every handle in the table is allocated, and no two instances share one.\<close>

definition table_inv :: "jstate \<Rightarrow> bool" where
  "table_inv st \<longleftrightarrow>
     (\<forall>i h. pcds st i = Some h \<longrightarrow> h \<in> live st) \<and>
     (\<forall>i j h. pcds st i = Some h \<longrightarrow> pcds st j = Some h \<longrightarrow> i = j)"

text \<open>libpcap returns pointers that are not in use.\<close>

definition fresh_lib :: "pcap_lib \<Rightarrow> jstate \<Rightarrow> bool" where
  "fresh_lib lib st \<longleftrightarrow>
     (\<forall>dev s p t h e. pcap_open_live lib dev s p t = (Some h, e) \<longrightarrow> h \<notin> live st) \<and>
     (\<forall>dev h e. pcap_open_offline lib dev = (Some h, e) \<longrightarrow> h \<notin> live st)"

text \<open>How a step may change the table: not at all, one entry filled with a new handle, one entry emptied.\<close>

lemma table_inv_keep:
  "table_inv st \<Longrightarrow> pcds st' = pcds st \<Longrightarrow> live st' = live st \<Longrightarrow> table_inv st'"
  by (simp add: table_inv_def)

lemma table_inv_fill:
  "table_inv st \<Longrightarrow> pcds st' = (pcds st)(i := h) \<Longrightarrow> live st' = live st \<union> set_option h \<Longrightarrow>
   (\<And>x. h = Some x \<Longrightarrow> x \<notin> live st) \<Longrightarrow> table_inv st'"
  unfolding table_inv_def by (cases h) (auto split: if_splits)

lemma table_inv_empty:
  assumes "table_inv st" and "pcds st' = (pcds st)(i := None)"
    and "live st' = live st - set_option (pcds st i)"
  shows "table_inv st'"
  using assms unfolding table_inv_def by (auto split: if_splits)

text \<open>
  The interface of the three operations that open a handle, as the Java side relies on it: nothing but
  one empty entry of the handle table changes, it is filled with what libpcap returned, and no error
  text means that the entry holds a handle.
\<close>

locale opener =
  fixes open_native :: "pcap_lib \<Rightarrow> int \<Rightarrow> jstate \<Rightarrow> (string option \<times> jstate) option"
  assumes busy: "\<And>lib i st. i < 255 \<Longrightarrow> pcds st i \<noteq> None \<Longrightarrow>
      \<exists>st'. open_native lib (int i) st = Some (Some ''Another Jpcap instance is being used.'', st') \<and>
        pcds st' = pcds st \<and> live st' = live st \<and> instanciatedFlag st' = instanciatedFlag st"
    and effect: "\<And>lib ID st r st'. open_native lib ID st = Some (r, st') \<Longrightarrow> fresh_lib lib st \<Longrightarrow>
      instanciatedFlag st' = instanciatedFlag st \<and>
      (pcds st' = pcds st \<and> live st' = live st \<and> r \<noteq> None \<or>
       (\<exists>i. ID = int i \<and> i < 255 \<and> pcds st i = None \<and> pcds st' = (pcds st)(i := pcds st' i) \<and>
          live st' = live st \<union> set_option (pcds st' i) \<and> (\<forall>x. pcds st' i = Some x \<longrightarrow> x \<notin> live st) \<and>
          (r = None) = (pcds st' i \<noteq> None)))"
begin

lemma keeps_table_inv:
  "open_native lib ID st = Some (r, st') \<Longrightarrow> fresh_lib lib st \<Longrightarrow> table_inv st \<Longrightarrow> table_inv st'"
  by (drule (1) effect) (auto intro: table_inv_keep table_inv_fill)

lemma only_entry:
  assumes "open_native lib ID st = Some (r, st')" and "fresh_lib lib st" and "int j \<noteq> ID"
  shows "pcds st' j = pcds st j"
  using effect [OF assms(1,2)] assms(3) by (metis fun_upd_other)

lemma success_fills:
  assumes "open_native lib ID st = Some (None, st')" and "fresh_lib lib st"
  shows "\<exists>i h. ID = int i \<and> i < 255 \<and> pcds st i = None \<and> pcds st' i = Some h \<and> h \<in> live st' \<and> h \<notin> live st"
  using effect [OF assms] by auto

end

lemma in_table_eq [simp]: "in_table i = Some k \<longleftrightarrow> i = int k \<and> k < 255"
  by (auto simp: in_table_def)

lemma in_table_int [simp]: "i < 255 \<Longrightarrow> in_table (int i) = Some i"
  by simp

lemma fresh_live: "fresh_lib lib st \<Longrightarrow> pcap_open_live lib dev s p t = (Some h, e) \<Longrightarrow> h \<in> live st \<Longrightarrow> False"
  unfolding fresh_lib_def by blast

lemma fresh_offline: "fresh_lib lib st \<Longrightarrow> pcap_open_offline lib dev = (Some h, e) \<Longrightarrow> h \<in> live st \<Longrightarrow> False"
  unfolding fresh_lib_def by blast

interpretation live: opener "\<lambda>lib ID. nativeOpenLive lib ID device snaplen promisc to_ms"
  for device snaplen promisc to_ms
proof (unfold_locales, goal_cases)
  case (1 lib i st)
  then show ?case by (auto simp: nativeOpenLive_def)
next
  case (2 lib ID st r st')
  then obtain i where i: "ID = int i" "i < 255" by (auto simp: nativeOpenLive_def bind_eq_Some_conv)
  obtain h e where he: "pcap_open_live lib (the device) snaplen promisc to_ms = (h, e)" by fastforce
  show ?case
    using 2 i he fresh_live [OF 2(2), of "the device" snaplen promisc to_ms "the h" e]
    by (cases device; cases h; cases "pcap_lookupnet lib (the device)")
      (auto simp: nativeOpenLive_def split: if_splits)
qed

interpretation offline: opener "\<lambda>lib ID. nativeOpenOffline lib ID filename"
  for filename
proof (unfold_locales, goal_cases)
  case (1 lib i st)
  then show ?case by (auto simp: nativeOpenOffline_def)
next
  case (2 lib ID st r st')
  then obtain i where i: "ID = int i" "i < 255" by (auto simp: nativeOpenOffline_def bind_eq_Some_conv)
  obtain h e where he: "pcap_open_offline lib (the filename) = (h, e)" by fastforce
  show ?case
    using 2 i he fresh_offline [OF 2(2), of "the filename" "the h" e]
    by (cases filename; cases h) (auto simp: nativeOpenOffline_def split: if_splits)
qed

interpretation sender: opener "\<lambda>lib ID. nativeOpenDevice lib ID device"
  for device
proof (unfold_locales, goal_cases)
  case (1 lib i st)
  then show ?case by (auto simp: nativeOpenDevice_def)
next
  case (2 lib ID st r st')
  then obtain i where i: "ID = int i" "i < 255" by (auto simp: nativeOpenDevice_def bind_eq_Some_conv)
  obtain h e where he: "pcap_open_live lib (the device) 65535 0 1000 = (h, e)" by fastforce
  show ?case
    using 2 i he fresh_live [OF 2(2), of "the device" 65535 0 1000 "the h" e]
    by (cases "pcds st i"; cases device; cases h) (simp_all add: nativeOpenDevice_def, auto)
qed

section \<open>Closing\<close>

text \<open>The two close methods have the same text.\<close>

lemma nativeCloseDevice_eq: "nativeCloseDevice = nativeClose"
  by (intro ext) (simp add: nativeCloseDevice_def nativeClose_def)

lemma nativeClose_some:
  assumes "table_inv st" and "i < 255"
  shows "\<exists>st'. nativeClose (int i) st = Some st' \<and> pcds st' = (pcds st)(i := None) \<and>
    live st' = live st - set_option (pcds st i) \<and> instanciatedFlag st' = instanciatedFlag st"
  using assms by (cases "pcds st i") (auto simp: nativeClose_def release_def table_inv_def)

lemma nativeClose_inv:
  assumes "nativeClose ID st = Some st'" and "table_inv st"
  obtains i where "ID = int i" "i < 255" "table_inv st'" "pcds st' = (pcds st)(i := None)"
    "instanciatedFlag st' = instanciatedFlag st"
proof -
  from assms(1) obtain i where "ID = int i" "i < 255"
    by (auto simp: nativeClose_def bind_eq_Some_conv)
  with nativeClose_some [OF assms(2), of i] assms that show ?thesis
    by (metis option.sel table_inv_empty)
qed

lemma table_inv_initial: "table_inv initial"
  by (simp add: table_inv_def initial_def)

section \<open>Properties\<close>

text \<open>A library whose pointers are counted up from a given one, used by the examples.\<close>

definition sample_lib :: "nat \<Rightarrow> pcap_lib" where
  "sample_lib n =
     \<lparr>pcap_open_live = (\<lambda>dev s p t. if dev = ''eth0'' then (Some n, '''') else (None, ''no such device'')),
      pcap_open_offline = (\<lambda>file. (Some n, '''')), pcap_lookupnet = (\<lambda>dev. Inl (0, 0xFFFFFF)),
      pcap_datalink = (\<lambda>h. 1)\<rparr>"

text \<open>
  Opening a captor, a file or a sending device on an instance whose entry is already taken is
  refused with the documented text, and nothing changes but, for a sender, the thread environment noted
  for the instance: the handle of the other user is safe.
\<close>

theorem open_busy_refused:
  assumes "i < 255" and "pcds st i = Some h"
  shows "nativeOpenLive lib (int i) device snaplen promisc to_ms st =
      Some (Some ''Another Jpcap instance is being used.'', st) \<and>
    nativeOpenOffline lib (int i) filename st =
      Some (Some ''Another Jpcap instance is being used.'', st) \<and>
    nativeOpenDevice lib (int i) device st =
      Some (Some ''Another Jpcap instance is being used.'', st\<lparr>jni_envs := (jni_envs st)(i := True)\<rparr>)"
  using assms by (simp_all add: nativeOpenLive_def nativeOpenOffline_def nativeOpenDevice_def)

lemma open_busy_refused_witness:
  "nativeOpenLive (sample_lib 9) (int 0) (Some ''eth0'') 100 0 20 (initial\<lparr>pcds := [0 \<mapsto> 5], live := {5}\<rparr>) =
     Some (Some ''Another Jpcap instance is being used.'', initial\<lparr>pcds := [0 \<mapsto> 5], live := {5}\<rparr>)"
  using open_busy_refused [of 0 "initial\<lparr>pcds := [0 \<mapsto> 5], live := {5}\<rparr>" 5 "sample_lib 9" "Some ''eth0''" 100 0 20]
  by simp

text \<open>
  C39: A dump file opened on a captor takes the captor's own handle, and closing the dump file frees
  it. Closing the captor afterwards, which every caller that follows the documentation does, passes
  the freed pointer to \<open>pcap_close\<close> again.
\<close>

theorem writer_close_frees_captor:
  assumes "table_inv st" and "i < 255" and "pcds st i = Some h" and "dump_open h file = Inl d"
  shows "\<exists>st1 st2. nativeOpenDumpFile dump_open (Some file) (int i) st = Some (None, st1) \<and>
    JpcapWriter_close st1 = Some st2 \<and> pcds st2 i = Some h \<and> h \<notin> live st2 \<and> nativeClose (int i) st2 = None"
proof -
  have "h \<in> live st" using assms(1,3) by (simp add: table_inv_def)
  then show ?thesis
    using assms(2-) by (simp add: nativeOpenDumpFile_def JpcapWriter_close_def nativeClose_def release_def)
qed

lemma writer_close_frees_captor_witness:
  "\<exists>st1 st2. nativeOpenDumpFile (\<lambda>h f. Inl 3) (Some ''out'') (int 0)
      (initial\<lparr>pcds := (pcds initial)(0 := Some 5), live := {5}\<rparr>) = Some (None, st1) \<and>
    JpcapWriter_close st1 = Some st2 \<and> pcds st2 0 = Some 5 \<and> 5 \<notin> live st2 \<and> nativeClose (int 0) st2 = None"
  by (rule writer_close_frees_captor [where d = 3]) (auto simp: table_inv_def initial_def)



text \<open>
  The text of the exception that \<open>setFilter\<close> raises always fits the buffer of 2048 characters
  with its terminator, begins with the fixed prefix, and carries the text of libpcap, whole when it has
  at most 1997 characters.
\<close>

theorem setFilter_message_bounded:
  assumes "setFilter pcap_compile pcap_setfilter ID condition opt st = Some (Some msg)"
  shows "length msg < 2048 \<and> (\<exists>err. msg = filter_prefix @ take 1997 err)"
proof -
  from assms obtain err where "msg = filter_message err"
    by (auto simp: setFilter_def bind_eq_Some_conv)
  moreover have "length filter_prefix = 50" by (simp add: filter_prefix_def)
  ultimately show ?thesis by (auto simp: filter_message_def)
qed

lemma setFilter_message_bounded_witness:
  "length (filter_message ''syntax error'') < 2048 \<and>
   (\<exists>err. filter_message ''syntax error'' = filter_prefix @ take 1997 err)"
  by (rule setFilter_message_bounded
      [of "\<lambda>h c b m. Inr (Some ''syntax error'')" "\<lambda>h p. None" 0 "Some ''tcp port''" True
        "initial\<lparr>pcds := [0 \<mapsto> 5], live := {5}\<rparr>"])
    (simp add: setFilter_def handle_of_def in_table_def)

end
