(* ===== verification/Jpcap_Api.thy ===== *)
theory Jpcap_Api
  imports Jpcap_Instances
begin

text \<open>
  The Java classes \<open>JpcapInstance\<close>, \<open>JpcapCaptor\<close> and \<open>JpcapSender\<close> as callers of the instance table:
  identifiers are reserved, a native method opens the entry of that identifier, and closing releases
  both. The states reachable through these methods keep the table sound.
\<close>

section \<open>JpcapInstance.java\<close>

fun find_free :: "(nat \<Rightarrow> bool) \<Rightarrow> nat \<Rightarrow> nat \<Rightarrow> nat option" where
  "find_free flag i 0 = None"
| "find_free flag i (Suc n) = (if \<not> flag i then Some i else find_free flag (Suc i) n)"

definition reserveID :: "jstate \<Rightarrow> int \<times> jstate" where
  "reserveID st =
     (case find_free (instanciatedFlag st) 0 MAX_NUMBER_OF_INSTANCE of
        None \<Rightarrow> (-1, st)
      | Some i \<Rightarrow> (int i, st\<lparr>instanciatedFlag := (instanciatedFlag st)(i := True)\<rparr>))"

text \<open>An identifier outside the table raises \<open>ArrayIndexOutOfBoundsException\<close> (\<open>None\<close>).\<close>

definition unreserveID :: "int \<Rightarrow> jstate \<Rightarrow> jstate option" where
  "unreserveID i st = do {
     k \<leftarrow> in_table i;
     Some (st\<lparr>instanciatedFlag := (instanciatedFlag st)(k := False)\<rparr>)
   }"

section \<open>JpcapCaptor.java and JpcapSender.java\<close>

text \<open>
  A method that opens yields the text of the \<open>IOException\<close> or the identifier of the new object. The
  private constructors of the two classes are the same: they reserve an identifier or raise.
\<close>

definition too_many :: string where
  "too_many = ''Unable to open a device: 255 devices are already opened.''"

definition java_open ::
  "(int \<Rightarrow> jstate \<Rightarrow> (string option \<times> jstate) option) \<Rightarrow> jstate \<Rightarrow> ((string + int) \<times> jstate) option" where
  "java_open open_native st =
     (let (ID, st) = reserveID st in
      if ID < 0 then Some (Inl too_many, st)
      else do {
        (ret, st) \<leftarrow> open_native ID st;
        Some (case ret of Some e \<Rightarrow> Inl e | None \<Rightarrow> Inr ID, st)
      })"

definition openDevice ::
  "pcap_lib \<Rightarrow> string option \<Rightarrow> int \<Rightarrow> bool \<Rightarrow> int \<Rightarrow> jstate \<Rightarrow> ((string + int) \<times> jstate) option" where
  "openDevice lib name snaplen promisc to_ms =
     java_open (\<lambda>ID. nativeOpenLive lib ID name snaplen (if promisc then 1 else 0) to_ms)"

definition openFile :: "pcap_lib \<Rightarrow> string option \<Rightarrow> jstate \<Rightarrow> ((string + int) \<times> jstate) option" where
  "openFile lib filename = java_open (\<lambda>ID. nativeOpenOffline lib ID filename)"

definition JpcapCaptor_close :: "int \<Rightarrow> jstate \<Rightarrow> jstate option" where
  "JpcapCaptor_close ID st = do {
     st \<leftarrow> nativeClose ID st;
     unreserveID ID st
   }"

definition JpcapSender_openDevice ::
  "pcap_lib \<Rightarrow> string option \<Rightarrow> jstate \<Rightarrow> ((string + int) \<times> jstate) option" where
  "JpcapSender_openDevice lib name = java_open (\<lambda>ID. nativeOpenDevice lib ID name)"

definition RAW_SOCKET_ID :: int where [simp]: "RAW_SOCKET_ID = 99999"

text \<open>\<open>openRawSocket\<close> reserves an identifier like the others and then overwrites it.\<close>

definition openRawSocket :: "bool option \<Rightarrow> int \<Rightarrow> jstate \<Rightarrow> (string + int) \<times> jstate" where
  "openRawSocket winsock soc st =
     (let (ID, st) = reserveID st in
      if ID < 0 then (Inl too_many, st)
      else (case nativeOpenRawSocket winsock soc st of
          (Some e, st) \<Rightarrow> (Inl e, st)
        | (None, st) \<Rightarrow> (Inr RAW_SOCKET_ID, st)))"

definition JpcapSender_close :: "int \<Rightarrow> jstate \<Rightarrow> jstate option" where
  "JpcapSender_close ID st = do {
     st \<leftarrow> (if ID = RAW_SOCKET_ID then Some (nativeCloseRawSocket st) else nativeCloseDevice ID st);
     unreserveID ID st
   }"

section \<open>Reachable states\<close>

text \<open>
  One call of the Java methods, in any order and on any identifier. A call that raises or is undefined
  is no step; \<open>close_raw\<close> is the state that \<open>close\<close> leaves when it raises. The close method of
  \<open>JpcapWriter\<close> is not among them: it breaks the table (\<open>writer_close_frees_captor\<close> shows how).
\<close>

inductive api_step :: "jstate \<Rightarrow> jstate \<Rightarrow> bool" where
  open_live: "fresh_lib lib st \<Longrightarrow> openDevice lib name snaplen promisc to_ms st = Some (r, st') \<Longrightarrow> api_step st st'"
| open_file: "fresh_lib lib st \<Longrightarrow> openFile lib filename st = Some (r, st') \<Longrightarrow> api_step st st'"
| open_send: "fresh_lib lib st \<Longrightarrow> JpcapSender_openDevice lib name st = Some (r, st') \<Longrightarrow> api_step st st'"
| open_raw: "openRawSocket winsock soc st = (r, st') \<Longrightarrow> api_step st st'"
| open_dump: "nativeOpenDumpFile dump_open filename ID st = Some (e, st') \<Longrightarrow> api_step st st'"
| close_captor: "JpcapCaptor_close ID st = Some st' \<Longrightarrow> api_step st st'"
| close_sender: "JpcapSender_close ID st = Some st' \<Longrightarrow> api_step st st'"
| close_raw: "nativeCloseRawSocket st = st' \<Longrightarrow> api_step st st'"

inductive reachable :: "jstate \<Rightarrow> bool" where
  start: "reachable initial"
| call: "reachable st \<Longrightarrow> api_step st st' \<Longrightarrow> reachable st'"

text \<open>Beside the soundness of the table: an entry holds a handle only while its identifier is reserved.\<close>

definition api_inv :: "jstate \<Rightarrow> bool" where
  "api_inv st \<longleftrightarrow> table_inv st \<and> (\<forall>i h. pcds st i = Some h \<longrightarrow> i < 255 \<and> instanciatedFlag st i)"

section \<open>Reservation\<close>

lemma find_free_None: "find_free flag i n = None \<longleftrightarrow> (\<forall>k. i \<le> k \<and> k < i + n \<longrightarrow> flag k)"
  by (induction n arbitrary: i) (auto, metis le_antisym not_less_eq_eq)

lemma find_free_Some:
  "find_free flag i n = Some k \<longleftrightarrow> i \<le> k \<and> k < i + n \<and> \<not> flag k \<and> (\<forall>j. i \<le> j \<and> j < k \<longrightarrow> flag j)"
proof (induction n arbitrary: i)
  case (Suc n)
  show ?case
  proof (cases "flag i")
    case True
    then show ?thesis using Suc [of "Suc i"] by simp (metis Suc_leD Suc_leI le_neq_implies_less)
  next
    case False
    then show ?thesis by simp (metis le_eq_less_or_eq le_add1 add_Suc_right less_add_Suc1 leI order.strict_iff_not)
  qed
qed auto

text \<open>The least identifier that is free, or \<open>-1\<close> when there is none.\<close>

lemma reserveID_cases:
  obtains (full) "reserveID st = (-1, st)" "\<forall>k<255. instanciatedFlag st k"
  | (free) i where "reserveID st = (int i, st\<lparr>instanciatedFlag := (instanciatedFlag st)(i := True)\<rparr>)"
      "i < 255" "\<not> instanciatedFlag st i" "\<forall>j<i. instanciatedFlag st j"
proof (cases "find_free (instanciatedFlag st) 0 255")
  case None
  with full show ?thesis by (simp add: reserveID_def find_free_None)
next
  case (Some i)
  with free [of i] show ?thesis by (auto simp: reserveID_def find_free_Some)
qed

lemma fresh_lib_live: "live st' = live st \<Longrightarrow> fresh_lib lib st' = fresh_lib lib st"
  by (simp add: fresh_lib_def)

lemma api_inv_keep:
  "api_inv st \<Longrightarrow> pcds st' = pcds st \<Longrightarrow> live st' = live st \<Longrightarrow>
   (\<forall>i. instanciatedFlag st i \<longrightarrow> instanciatedFlag st' i) \<Longrightarrow> api_inv st'"
  unfolding api_inv_def by (auto intro: table_inv_keep)

section \<open>Opening through the Java methods\<close>

context opener
begin

lemma java_open_keeps:
  assumes op: "java_open (open_native lib) st = Some (r, st')" and fresh: "fresh_lib lib st" and inv: "api_inv st"
  shows "api_inv st'"
proof (cases rule: reserveID_cases [of st])
  case full
  with op inv show ?thesis by (simp add: java_open_def)
next
  case (free i)
  let ?st = "st\<lparr>instanciatedFlag := (instanciatedFlag st)(i := True)\<rparr>"
  from op free obtain ret where nat: "open_native lib (int i) ?st = Some (ret, st')"
    by (auto simp: java_open_def bind_eq_Some_conv)
  have inv1: "api_inv ?st" using inv by (rule api_inv_keep) auto
  have fresh1: "fresh_lib lib ?st" using fresh by (simp add: fresh_lib_def)
  have "table_inv st'" using keeps_table_inv [OF nat fresh1] inv1 by (simp add: api_inv_def)
  moreover have "pcds st' j = Some h \<Longrightarrow> j < 255 \<and> instanciatedFlag st' j" for j h
    using effect [OF nat fresh1] only_entry [OF nat fresh1, of j] inv1 free(2)
    by (cases "j = i") (auto simp: api_inv_def)
  ultimately show ?thesis by (simp add: api_inv_def)
qed

text \<open>With a free identifier the entry found is empty, so the native method does open the device.\<close>

lemma java_open_entry:
  assumes inv: "api_inv st" and free: "\<exists>k<255. \<not> instanciatedFlag st k"
  obtains i where "i < 255" "\<not> instanciatedFlag st i" "\<forall>j<i. instanciatedFlag st j" "pcds st i = None"
    "java_open (open_native lib) st =
       open_native lib (int i) (st\<lparr>instanciatedFlag := (instanciatedFlag st)(i := True)\<rparr>) \<bind>
         (\<lambda>(ret, st). Some (case ret of Some e \<Rightarrow> Inl e | None \<Rightarrow> Inr (int i), st))"
proof (cases rule: reserveID_cases [of st])
  case full
  with free show ?thesis by auto
next
  case (free i)
  moreover have "pcds st i = None"
    using inv free(3) by (cases "pcds st i") (auto simp: api_inv_def)
  ultimately show ?thesis by (intro that [of i]) (simp_all add: java_open_def)
qed

end

section \<open>Closing through the Java methods\<close>

lemma JpcapCaptor_close_some:
  assumes inv: "api_inv st" and i: "i < 255"
  shows "\<exists>st'. JpcapCaptor_close (int i) st = Some st' \<and> pcds st' = (pcds st)(i := None) \<and>
    live st' = live st - set_option (pcds st i) \<and> instanciatedFlag st' = (instanciatedFlag st)(i := False)"
  using nativeClose_some [of st i] assms by (auto simp: JpcapCaptor_close_def unreserveID_def api_inv_def)

lemma close_keeps:
  assumes close: "nativeClose ID st = Some st1" and unres: "unreserveID ID st1 = Some st'" and inv: "api_inv st"
  shows "api_inv st'"
proof -
  have "table_inv st" using inv by (simp add: api_inv_def)
  from close this obtain i where i: "ID = int i" "i < 255" "table_inv st1" "pcds st1 = (pcds st)(i := None)"
    "instanciatedFlag st1 = instanciatedFlag st" by (rule nativeClose_inv)
  from unres i have st': "st' = st1\<lparr>instanciatedFlag := (instanciatedFlag st1)(i := False)\<rparr>"
    by (simp add: unreserveID_def)
  have "table_inv st'" using i(3) by (rule table_inv_keep) (simp_all add: st')
  then show ?thesis using inv i by (auto simp: api_inv_def st' split: if_splits)
qed

lemma openRawSocket_keeps:
  assumes "openRawSocket winsock soc st = (r, st')" and "api_inv st"
  shows "api_inv st'"
  by (rule api_inv_keep [OF assms(2)]; cases rule: reserveID_cases [of st])
    (use assms(1) in \<open>auto simp: openRawSocket_def nativeOpenRawSocket_def split: if_splits\<close>)

lemma nativeOpenDumpFile_keeps:
  assumes op: "nativeOpenDumpFile dump_open filename ID st = Some (e, st')" and inv: "api_inv st"
  shows "api_inv st'"
proof -
  from op obtain i where i: "ID = int i" "i < 255" by (auto simp: nativeOpenDumpFile_def bind_eq_Some_conv)
  have "pcds st' = pcds st \<and> live st' = live st \<and> instanciatedFlag st' = instanciatedFlag st"
    using op i
    by (cases "pcds st i"; cases filename; cases "dump_open (the (pcds st i)) (the filename)")
      (auto simp: nativeOpenDumpFile_def)
  with inv show ?thesis by (intro api_inv_keep [OF inv]) auto
qed

lemma JpcapSender_close_keeps:
  assumes "JpcapSender_close ID st = Some st'" and "api_inv st"
  shows "api_inv st'"
proof (cases "ID = 99999")
  case True
  with assms(1) show ?thesis by (simp add: JpcapSender_close_def unreserveID_def in_table_def)
next
  case False
  with assms(1) obtain st1 where "nativeClose ID st = Some st1" "unreserveID ID st1 = Some st'"
    by (auto simp: JpcapSender_close_def nativeCloseDevice_eq bind_eq_Some_conv)
  then show ?thesis using assms(2) by (rule close_keeps)
qed

lemma api_step_keeps: "api_step st st' \<Longrightarrow> api_inv st \<Longrightarrow> api_inv st'"
proof (induction rule: api_step.induct)
  case (open_live lib st name snaplen promisc to_ms r st')
  from live.java_open_keeps [OF open_live(2) [unfolded openDevice_def] open_live(1,3)] show ?case .
next
  case (open_file lib st filename r st')
  from offline.java_open_keeps [OF open_file(2) [unfolded openFile_def] open_file(1,3)] show ?case .
next
  case (open_send lib st name r st')
  from sender.java_open_keeps [OF open_send(2) [unfolded JpcapSender_openDevice_def] open_send(1,3)] show ?case .
next
  case (close_captor ID st st')
  then show ?case by (auto simp: JpcapCaptor_close_def bind_eq_Some_conv intro: close_keeps)
next
  case (close_raw st st')
  show ?case by (rule api_inv_keep [OF close_raw(2)]) (simp_all add: close_raw(1) [symmetric] nativeCloseRawSocket_def)
next
  case (open_raw winsock soc st r st')
  then show ?case by (rule openRawSocket_keeps)
next
  case (open_dump dump_open filename ID st e st')
  then show ?case by (rule nativeOpenDumpFile_keeps)
next
  case (close_sender ID st st')
  then show ?case by (rule JpcapSender_close_keeps)
qed

lemma reachable_inv: "reachable st \<Longrightarrow> api_inv st"
proof (induction rule: reachable.induct)
  case start
  then show ?case by (simp add: api_inv_def table_inv_initial) (simp add: initial_def)
next
  case (call st st')
  then show ?case by (auto intro: api_step_keeps)
qed

section \<open>Properties\<close>


text \<open>Two captors on the same device: the second gets a fresh handle and its own entry.\<close>

definition two_captors :: jstate where
  "two_captors =
     snd (the (openDevice (sample_lib 8) (Some ''eth0'') 96 True 20
       (snd (the (openDevice (sample_lib 7) (Some ''eth0'') 96 True 20 initial)))))"

lemma find_free_first:
  "\<not> flag 0 \<Longrightarrow> find_free flag 0 255 = Some 0"
  "flag 0 \<Longrightarrow> \<not> flag 1 \<Longrightarrow> find_free flag 0 255 = Some 1"
  by (simp_all add: find_free_Some)

lemma fresh_sample: "n \<notin> live st \<Longrightarrow> fresh_lib (sample_lib n) st"
  by (simp add: fresh_lib_def sample_lib_def)

lemma first_captor: "fresh_lib (sample_lib 7) initial"
  by (rule fresh_sample) (simp add: initial_def)

lemma two_captors_tables:
  "pcds two_captors = [0 \<mapsto> 7, 1 \<mapsto> 8]" "live two_captors = {7, 8}"
  "instanciatedFlag two_captors = (\<lambda>i. i < 2)"
  unfolding two_captors_def
  by (auto simp: openDevice_def java_open_def reserveID_def nativeOpenLive_def sample_lib_def initial_def
      in_table_def find_free_first fun_eq_iff)

lemma two_captors_reachable: "reachable two_captors"
proof -
  let ?s = "snd (the (openDevice (sample_lib 7) (Some ''eth0'') 96 True 20 initial))"
  have 1: "openDevice (sample_lib 7) (Some ''eth0'') 96 True 20 initial = Some (Inr 0, ?s)"
    and l: "live ?s = {7}"
    and 2: "openDevice (sample_lib 8) (Some ''eth0'') 96 True 20 ?s = Some (Inr 1, two_captors)"
    unfolding two_captors_def
    by (simp_all add: openDevice_def java_open_def reserveID_def nativeOpenLive_def sample_lib_def initial_def
        in_table_def find_free_first)
  have "reachable ?s" by (rule reachable.call [OF reachable.start api_step.open_live [OF first_captor 1]])
  moreover have "fresh_lib (sample_lib 8) ?s" by (rule fresh_sample) (simp add: l)
  ultimately show ?thesis using api_step.open_live [OF _ 2] reachable.call by blast
qed




text \<open>
  C14: In a reachable state with an identifier left, opening a device that libpcap opens succeeds: the
  new captor has the least free identifier, its entry holds the handle libpcap returned, and every other
  instance keeps its handle. The refusal \<open>Another Jpcap instance is being used\<close> cannot happen here.
\<close>

theorem openDevice_succeeds:
  assumes "reachable st" and "\<exists>k<255. \<not> instanciatedFlag st k" and "fresh_lib lib st"
    and "pcap_open_live lib dev snaplen (if promisc then 1 else 0) to_ms = (Some h, err)"
  shows "\<exists>i st'. openDevice lib (Some dev) snaplen promisc to_ms st = Some (Inr (int i), st') \<and> i < 255 \<and>
    \<not> instanciatedFlag st i \<and> (\<forall>j<i. instanciatedFlag st j) \<and> handle_of (int i) st' = Some h \<and>
    linktypes st' i = pcap_datalink lib h \<and> (\<forall>j. j \<noteq> i \<longrightarrow> pcds st' j = pcds st j)"
proof -
  from reachable_inv [OF assms(1)] have inv: "api_inv st" .
  from live.java_open_entry [OF inv assms(2), of lib "Some dev" snaplen "if promisc then 1 else 0" to_ms]
  obtain i where i: "i < 255" "\<not> instanciatedFlag st i" "\<forall>j<i. instanciatedFlag st j" "pcds st i = None"
    and op: "openDevice lib (Some dev) snaplen promisc to_ms st =
       nativeOpenLive lib (int i) (Some dev) snaplen (if promisc then 1 else 0) to_ms
         (st\<lparr>instanciatedFlag := (instanciatedFlag st)(i := True)\<rparr>) \<bind>
         (\<lambda>(ret, st). Some (case ret of Some e \<Rightarrow> Inl e | None \<Rightarrow> Inr (int i), st))"
    unfolding openDevice_def by blast
  show ?thesis
    using i assms(4)
    by (intro exI [of _ i]; cases "pcap_lookupnet lib dev") (auto simp: op nativeOpenLive_def handle_of_def)
qed

lemma openDevice_succeeds_witness:
  "\<exists>i st'. openDevice (sample_lib 9) (Some ''eth0'') 96 False 20 two_captors = Some (Inr (int i), st') \<and> i < 255 \<and>
    \<not> instanciatedFlag two_captors i \<and> (\<forall>j<i. instanciatedFlag two_captors j) \<and> handle_of (int i) st' = Some 9 \<and>
    linktypes st' i = pcap_datalink (sample_lib 9) 9 \<and> (\<forall>j. j \<noteq> i \<longrightarrow> pcds st' j = pcds two_captors j)"
proof (rule openDevice_succeeds [OF two_captors_reachable])
  show "\<exists>k<255. \<not> instanciatedFlag two_captors k" by (rule exI [of _ 5]) (simp add: two_captors_tables)
  show "fresh_lib (sample_lib 9) two_captors" by (rule fresh_sample) (simp add: two_captors_tables)
  show "pcap_open_live (sample_lib 9) ''eth0'' 96 (if False then 1 else 0) 20 = (Some 9, '''')"
    by (simp add: sample_lib_def)
qed

text \<open>
  C40: A raw-socket sender cannot be closed properly. \<open>close\<close> raises for the identifier that
  \<open>openRawSocket\<close> stored, after the descriptor has been released; the identifier reserved at the start
  stays reserved, and since the global keeps the old descriptor every later \<open>openRawSocket\<close> fails.
\<close>

theorem openRawSocket_only_once:
  assumes "openRawSocket winsock soc st = (Inr ID, st1)"
  shows "JpcapSender_close ID st1 = None \<and> soc \<notin> open_fds (nativeCloseRawSocket st1) \<and>
    (\<exists>i<255. \<not> instanciatedFlag st i \<and> instanciatedFlag (nativeCloseRawSocket st1) i) \<and>
    (\<forall>w s. \<exists>e st2. openRawSocket w s (nativeCloseRawSocket st1) = (Inl e, st2))"
proof (cases rule: reserveID_cases [of st])
  case full
  with assms show ?thesis by (simp add: openRawSocket_def)
next
  case (free i)
  with assms have st1: "ID = 99999" "0 \<le> soc" "soc_num st1 = soc" "instanciatedFlag st1 i"
    by (auto simp: openRawSocket_def nativeOpenRawSocket_def split: if_splits)
  have "\<exists>e st2. openRawSocket w s (nativeCloseRawSocket st1) = (Inl e, st2)" for w s
    by (cases rule: reserveID_cases [of "nativeCloseRawSocket st1"])
      (use st1 in \<open>simp_all add: openRawSocket_def nativeOpenRawSocket_def nativeCloseRawSocket_def\<close>)
  with st1 free show ?thesis
    by (auto simp: JpcapSender_close_def unreserveID_def in_table_def nativeCloseRawSocket_def)
qed

lemma openRawSocket_only_once_witness:
  "JpcapSender_close 99999 (snd (openRawSocket None 4 initial)) = None \<and>
    4 \<notin> open_fds (nativeCloseRawSocket (snd (openRawSocket None 4 initial))) \<and>
    (\<exists>i<255. \<not> instanciatedFlag initial i \<and> instanciatedFlag (nativeCloseRawSocket (snd (openRawSocket None 4 initial))) i) \<and>
    (\<forall>w s. \<exists>e st2. openRawSocket w s (nativeCloseRawSocket (snd (openRawSocket None 4 initial))) = (Inl e, st2))"
  by (rule openRawSocket_only_once [of None])
    (simp add: openRawSocket_def reserveID_def find_free_first initial_def nativeOpenRawSocket_def)

text \<open>One failing open after the other reserves the identifiers in order.\<close>

lemma failing_open:
  assumes "pcap_open_live lib dev snaplen (if promisc then 1 else 0) to_ms = (None, err)" and "n < 255"
    and "instanciatedFlag st = (\<lambda>k. k < n)" and "pcds st = Map.empty"
  shows "instanciatedFlag (snd (the (openDevice lib (Some dev) snaplen promisc to_ms st))) = (\<lambda>k. k < Suc n) \<and>
    pcds (snd (the (openDevice lib (Some dev) snaplen promisc to_ms st))) = Map.empty"
proof -
  have "find_free (\<lambda>k. k < n) 0 255 = Some n" using assms(2) by (simp add: find_free_Some)
  moreover have "(\<lambda>k. k < n)(n := True) = (\<lambda>k. k < Suc n)" by (auto simp: fun_eq_iff)
  ultimately show ?thesis
    using assms
    by (cases "pcap_lookupnet lib dev")
      (auto simp: openDevice_def java_open_def reserveID_def nativeOpenLive_def)
qed

lemma failing_opens:
  assumes fail: "pcap_open_live lib dev snaplen (if promisc then 1 else 0) to_ms = (None, err)" and "n \<le> 255"
  shows "let st = ((\<lambda>st. snd (the (openDevice lib (Some dev) snaplen promisc to_ms st))) ^^ n) initial
    in instanciatedFlag st = (\<lambda>k. k < n) \<and> pcds st = Map.empty"
  using \<open>n \<le> 255\<close>
proof (induction n)
  case 0
  then show ?case by (simp add: initial_def)
next
  case (Suc n)
  then show ?case using failing_open [OF fail, of n] by (simp add: Let_def)
qed

text \<open>
  An open that fails keeps its identifier reserved: after 255 failures on a device that cannot be
  opened, no device can be opened any more, although no handle is in use.
\<close>

theorem failed_opens_exhaust_ids:
  assumes "pcap_open_live lib dev snaplen (if promisc then 1 else 0) to_ms = (None, err)"
  shows "let st = ((\<lambda>st. snd (the (openDevice lib (Some dev) snaplen promisc to_ms st))) ^^ 255) initial
    in pcds st = Map.empty \<and>
      openDevice lib' name snaplen' promisc' to_ms' st = Some (Inl too_many, st)"
proof -
  have none: "find_free (\<lambda>k. k < 255) 0 255 = None" by (simp add: find_free_None)
  define st where "st = ((\<lambda>st. snd (the (openDevice lib (Some dev) snaplen promisc to_ms st))) ^^ 255) initial"
  have "instanciatedFlag st = (\<lambda>k. k < 255)" "pcds st = Map.empty"
    using failing_opens [OF assms, of 255] by (simp_all only: st_def Let_def order.refl)
  with none show ?thesis
    by (simp only: Let_def st_def [symmetric]) (simp add: openDevice_def java_open_def reserveID_def)
qed

lemma failed_opens_exhaust_ids_witness:
  "let st = ((\<lambda>st. snd (the (openDevice (sample_lib 1) (Some ''none'') 96 True 20 st))) ^^ 255) initial
    in pcds st = Map.empty \<and>
      openDevice (sample_lib 1) (Some ''eth0'') 96 True 20 st = Some (Inl too_many, st)"
  by (rule failed_opens_exhaust_ids) (simp add: sample_lib_def)

end
