(* ===== verification/Jpcap_Jni.thy ===== *)
theory Jpcap_Jni
  imports Main
begin

text \<open>
  The interface between the native code and the Java classes: the declarations of the classes the
  native code uses, the lookups of JNI on them, \<open>set_Java_env\<close> with its tables of classes and method
  identifiers, the calls and field accesses of the native code, and the native methods with the C
  functions that implement them. The theorems are consistency checks across the two languages that
  neither compiler makes.
\<close>

section \<open>Java declarations\<close>

datatype jty = Boolean | Byte | Char | Short | Integer | Long | Void | Ref string | Arr jty

fun descriptor :: "jty \<Rightarrow> string" where
  "descriptor Boolean = ''Z''"
| "descriptor Byte = ''B''"
| "descriptor Char = ''C''"
| "descriptor Short = ''S''"
| "descriptor Integer = ''I''"
| "descriptor Long = ''J''"
| "descriptor Void = ''V''"
| "descriptor (Ref c) = ''L'' @ c @ '';''"
| "descriptor (Arr t) = ''['' @ descriptor t"

definition method_descriptor :: "jty list \<Rightarrow> jty \<Rightarrow> string" where
  "method_descriptor args ret = ''('' @ concat (map descriptor args) @ '')'' @ descriptor ret"

record java_class =
  cls_name :: string
  cls_super :: "string option"
  cls_fields :: "(string \<times> jty) list"
  cls_methods :: "(string \<times> jty list \<times> jty) list"

abbreviation JString :: jty where "JString \<equiv> Ref ''java/lang/String''"
abbreviation JList :: jty where "JList \<equiv> Ref ''java/util/List''"
abbreviation Bytes :: jty where "Bytes \<equiv> Arr Byte"

text \<open>The classes with the members that native code can see; constructors are named \<open><init>\<close>.\<close>

definition class_JpcapInstance :: java_class where
  "class_JpcapInstance = \<lparr>cls_name = ''jpcap/JpcapInstance'', cls_super = None, cls_fields = [(''ID'', Integer)],
     cls_methods = [(''reserveID'', [], Integer), (''unreserveID'', [], Void)]\<rparr>"

definition class_JpcapCaptor :: java_class where
  "class_JpcapCaptor = \<lparr>cls_name = ''jpcap/JpcapCaptor'', cls_super = Some ''jpcap/JpcapInstance'',
     cls_fields = [(''received_packets'', Integer), (''dropped_packets'', Integer), (''jpcapFilter'', Ref ''jpcap/JpcapFilter'')],
     cls_methods = [(''getJpcapFilter'', [], Ref ''jpcap/JpcapFilter'')]\<rparr>"

definition class_JpcapSender :: java_class where
  "class_JpcapSender = \<lparr>cls_name = ''jpcap/JpcapSender'', cls_super = Some ''jpcap/JpcapInstance'',
     cls_fields = [], cls_methods = []\<rparr>"

definition class_PacketReceiver :: java_class where
  "class_PacketReceiver = \<lparr>cls_name = ''jpcap/PacketReceiver'', cls_super = None, cls_fields = [],
     cls_methods = [(''receivePacket'', [Ref ''jpcap/packet/Packet''], Void)]\<rparr>"

definition class_JpcapFilter :: java_class where
  "class_JpcapFilter = \<lparr>cls_name = ''jpcap/JpcapFilter'', cls_super = None,
     cls_fields = [(''hosts'', JList), (''srcHosts'', JList), (''destHosts'', JList), (''ports'', JList),
       (''srcPorts'', JList), (''destPorts'', JList), (''protocols'', JList)],
     cls_methods = [(''getHosts'', [], JList), (''addHost'', [JString], Void), (''getPorts'', [], JList),
       (''addPort'', [Integer], Void), (''getProtocols'', [], JList),
       (''addProtocol'', [Ref ''jpcap/JpcapFilter$Protocol''], Void), (''getSrcHosts'', [], JList),
       (''addSrcHost'', [JString], Void), (''getDestHosts'', [], JList), (''addDestHost'', [JString], Void),
       (''getSrcPorts'', [], JList), (''addSrcPort'', [Integer], Void), (''getDestPorts'', [], JList),
       (''addDestPort'', [Integer], Void), (''compareProtocol'', [JString], Integer),
       (''compareAddress'', [JList, Bytes], Integer), (''comparePort'', [JList, Integer], Integer),
       (''isEmpty'', [JList], Integer)]\<rparr>"

definition class_Packet :: java_class where
  "class_Packet = \<lparr>cls_name = ''jpcap/packet/Packet'', cls_super = None,
     cls_fields = [(''sec'', Long), (''usec'', Long), (''caplen'', Integer), (''len'', Integer),
       (''datalink'', Ref ''jpcap/packet/DatalinkPacket''), (''header'', Bytes), (''data'', Bytes),
       (''EOF'', Ref ''jpcap/packet/Packet'')],
     cls_methods = [(''setPacketValue'', [Long, Long, Integer, Integer], Void),
       (''setDatalinkPacket'', [Ref ''jpcap/packet/DatalinkPacket''], Void), (''setPacketData'', [Bytes], Void),
       (''setPacketHeader'', [Bytes], Void)]\<rparr>"

definition class_DatalinkPacket :: java_class where
  "class_DatalinkPacket = \<lparr>cls_name = ''jpcap/packet/DatalinkPacket'', cls_super = None, cls_fields = [],
     cls_methods = []\<rparr>"

definition class_EthernetPacket :: java_class where
  "class_EthernetPacket = \<lparr>cls_name = ''jpcap/packet/EthernetPacket'',
     cls_super = Some ''jpcap/packet/DatalinkPacket'',
     cls_fields = [(''dst_mac'', Bytes), (''src_mac'', Bytes), (''frametype'', Short)],
     cls_methods = [(''setValue'', [Bytes, Bytes, Short], Void)]\<rparr>"

definition class_PPPOEPacket :: java_class where
  "class_PPPOEPacket = \<lparr>cls_name = ''jpcap/packet/PPPOEPacket'',
     cls_super = Some ''jpcap/packet/EthernetPacket'',
     cls_fields = [(''version'', Byte), (''type'', Byte), (''code'', Byte), (''sessionId'', Bytes),
       (''payloadLen'', Short)],
     cls_methods = [(''setValue'', [Byte, Byte, Byte, Bytes, Short], Void)]\<rparr>"

definition class_IPPacket :: java_class where
  "class_IPPacket = \<lparr>cls_name = ''jpcap/packet/IPPacket'', cls_super = Some ''jpcap/packet/Packet'',
     cls_fields = [(''version'', Byte), (''priority'', Byte), (''d_flag'', Boolean), (''t_flag'', Boolean),
       (''r_flag'', Boolean), (''rsv_tos'', Byte), (''length'', Short), (''rsv_frag'', Boolean),
       (''dont_frag'', Boolean), (''more_frag'', Boolean), (''offset'', Short), (''hop_limit'', Short),
       (''protocol'', Short), (''ident'', Integer), (''flow_label'', Integer), (''src_ip'', Ref ''java/net/InetAddress''),
       (''dst_ip'', Ref ''java/net/InetAddress''), (''option'', Bytes), (''options'', JList)],
     cls_methods = [(''setIPv4Value'', [Byte, Byte, Boolean, Boolean, Boolean, Byte, Boolean, Boolean, Boolean,
         Short, Short, Short, Short, Short, Bytes, Bytes], Void),
       (''setOption'', [Bytes], Void),
       (''setIPv6Value'', [Byte, Byte, Integer, Short, Byte, Short, Bytes, Bytes], Void),
       (''addOptionHeader'', [Ref ''jpcap/packet/IPv6Option''], Void), (''getSourceAddress'', [], Bytes),
       (''getDestinationAddress'', [], Bytes)]\<rparr>"

definition class_TCPPacket :: java_class where
  "class_TCPPacket = \<lparr>cls_name = ''jpcap/packet/TCPPacket'', cls_super = Some ''jpcap/packet/IPPacket'',
     cls_fields = [(''src_port'', Integer), (''dst_port'', Integer), (''sequence'', Long), (''ack_num'', Long),
       (''urg'', Boolean), (''ack'', Boolean), (''psh'', Boolean), (''rst'', Boolean), (''syn'', Boolean),
       (''fin'', Boolean), (''rsv1'', Boolean), (''rsv2'', Boolean), (''window'', Integer),
       (''urgent_pointer'', Short), (''option'', Bytes)],
     cls_methods = [(''setValue'', [Integer, Integer, Long, Long, Boolean, Boolean, Boolean, Boolean, Boolean, Boolean,
         Boolean, Boolean, Integer, Short], Void),
       (''setOption'', [Bytes], Void)]\<rparr>"

definition class_UDPPacket :: java_class where
  "class_UDPPacket = \<lparr>cls_name = ''jpcap/packet/UDPPacket'', cls_super = Some ''jpcap/packet/IPPacket'',
     cls_fields = [(''src_port'', Integer), (''dst_port'', Integer), (''length'', Integer)],
     cls_methods = [(''setValue'', [Integer, Integer, Integer], Void)]\<rparr>"

definition class_ICMPPacket :: java_class where
  "class_ICMPPacket = \<lparr>cls_name = ''jpcap/packet/ICMPPacket'', cls_super = Some ''jpcap/packet/IPPacket'',
     cls_fields = [(''type'', Byte), (''code'', Byte), (''checksum'', Short), (''id'', Short), (''seq'', Short),
       (''subnetmask'', Integer), (''orig_timestamp'', Integer), (''recv_timestamp'', Integer), (''trans_timestamp'', Integer),
       (''mtu'', Short), (''ippacket'', Ref ''jpcap/packet/IPPacket''), (''redir_ip'', Ref ''java/net/InetAddress''),
       (''addr_num'', Byte), (''addr_entry_size'', Byte), (''alive_time'', Short),
       (''router_ip'', Arr (Ref ''java/net/InetAddress'')), (''preference'', Arr Integer)],
     cls_methods = [(''setValue'', [Byte, Byte, Short, Short, Short], Void), (''setID'', [Short, Short], Void),
       (''setTimestampValue'', [Integer, Integer, Integer], Void), (''setRedirectIP'', [Bytes], Void),
       (''getRedirectIP'', [], Bytes),
       (''setRouterAdValue'', [Byte, Byte, Short, Arr JString, Arr Integer], Void)]\<rparr>"

definition class_IPv6Option :: java_class where
  "class_IPv6Option = \<lparr>cls_name = ''jpcap/packet/IPv6Option'', cls_super = None,
     cls_fields = [(''type'', Byte), (''next_header'', Byte), (''hlen'', Byte), (''option'', Bytes),
       (''routing_type'', Byte), (''hop_left'', Byte), (''addrs'', Arr (Ref ''java/net/InetAddress'')),
       (''offset'', Short), (''m_flag'', Boolean), (''identification'', Integer), (''spi'', Integer), (''sequence'', Integer)],
     cls_methods = [(''setValue'', [Byte, Byte, Byte], Void), (''setOptionData'', [Bytes], Void),
       (''setRoutingOption'', [Byte, Byte, Arr Bytes], Void), (''setFragmentOption'', [Short, Boolean, Integer], Void),
       (''setAHOption'', [Integer, Integer], Void)]\<rparr>"

definition class_ARPPacket :: java_class where
  "class_ARPPacket = \<lparr>cls_name = ''jpcap/packet/ARPPacket'', cls_super = Some ''jpcap/packet/Packet'',
     cls_fields = [(''hardtype'', Short), (''prototype'', Short), (''hlen'', Short), (''plen'', Short),
       (''operation'', Short), (''sender_hardaddr'', Bytes), (''sender_protoaddr'', Bytes),
       (''target_hardaddr'', Bytes), (''target_protoaddr'', Bytes)],
     cls_methods = [(''setValue'', [Short, Short, Short, Short, Short, Bytes, Bytes, Bytes, Bytes], Void)]\<rparr>"

definition class_NetworkInterface :: java_class where
  "class_NetworkInterface = \<lparr>cls_name = ''jpcap/NetworkInterface'', cls_super = None,
     cls_fields = [(''name'', JString), (''description'', JString), (''loopback'', Boolean),
       (''datalink_name'', JString), (''datalink_description'', JString), (''mac_address'', Bytes),
       (''addresses'', Arr (Ref ''jpcap/NetworkInterfaceAddress''))],
     cls_methods = [(''<init>'', [JString, JString, Boolean, JString, JString, Bytes,
       Arr (Ref ''jpcap/NetworkInterfaceAddress'')], Void)]\<rparr>"

definition class_NetworkInterfaceAddress :: java_class where
  "class_NetworkInterfaceAddress = \<lparr>cls_name = ''jpcap/NetworkInterfaceAddress'', cls_super = None,
     cls_fields = [(''address'', Ref ''java/net/InetAddress''), (''subnet'', Ref ''java/net/InetAddress''),
       (''broadcast'', Ref ''java/net/InetAddress''), (''destination'', Ref ''java/net/InetAddress'')],
     cls_methods = [(''<init>'', [Bytes, Bytes, Bytes, Bytes], Void)]\<rparr>"

text \<open>What the native code uses of the Java library.\<close>

definition library_classes :: "java_class list" where
  "library_classes =
     [\<lparr>cls_name = ''java/lang/String'', cls_super = None, cls_fields = [], cls_methods = [(''<init>'', [Bytes], Void)]\<rparr>,
      \<lparr>cls_name = ''java/lang/Thread'', cls_super = None, cls_fields = [], cls_methods = [(''yield'', [], Void)]\<rparr>,
      \<lparr>cls_name = ''java/net/UnknownHostException'', cls_super = None, cls_fields = [], cls_methods = []\<rparr>,
      \<lparr>cls_name = ''java/io/IOException'', cls_super = None, cls_fields = [], cls_methods = []\<rparr>]"

definition jpcap_program :: "java_class list" where
  "jpcap_program =
     [class_JpcapInstance, class_JpcapCaptor, class_JpcapSender, class_PacketReceiver, class_JpcapFilter,
      class_Packet, class_DatalinkPacket, class_EthernetPacket, class_PPPOEPacket, class_IPPacket,
      class_TCPPacket, class_UDPPacket, class_ICMPPacket, class_IPv6Option, class_ARPPacket,
      class_NetworkInterface, class_NetworkInterfaceAddress] @ library_classes"

section \<open>The lookups of JNI\<close>

definition FindClass :: "java_class list \<Rightarrow> string \<Rightarrow> java_class option" where
  "FindClass P n = find (\<lambda>c. cls_name c = n) P"

text \<open>A member is searched in the class and then upwards; a chain is never longer than the program.\<close>

fun resolve :: "java_class list \<Rightarrow> (java_class \<Rightarrow> 'a option) \<Rightarrow> nat \<Rightarrow> string \<Rightarrow> 'a option" where
  "resolve P f 0 n = None"
| "resolve P f (Suc k) n =
     (case FindClass P n of
        None \<Rightarrow> None
      | Some c \<Rightarrow>
          (case f c of
             Some x \<Rightarrow> Some x
           | None \<Rightarrow> (case cls_super c of None \<Rightarrow> None | Some s \<Rightarrow> resolve P f k s)))"

record method_id =
  mid_class :: string
  mid_name :: string
  mid_args :: "jty list"
  mid_ret :: jty

definition GetMethodID :: "java_class list \<Rightarrow> string \<Rightarrow> string \<Rightarrow> string \<Rightarrow> method_id option" where
  "GetMethodID P c n sig =
     resolve P (\<lambda>d. map_option (\<lambda>(_, args, ret). \<lparr>mid_class = cls_name d, mid_name = n, mid_args = args, mid_ret = ret\<rparr>)
         (find (\<lambda>(m, args, ret). m = n \<and> method_descriptor args ret = sig) (cls_methods d)))
       (length P) c"

definition GetFieldID :: "java_class list \<Rightarrow> string \<Rightarrow> string \<Rightarrow> string \<Rightarrow> (string \<times> string) option" where
  "GetFieldID P c n sig =
     resolve P (\<lambda>d. map_option (\<lambda>_. (cls_name d, n)) (find (\<lambda>(m, t). m = n \<and> descriptor t = sig) (cls_fields d)))
       (length P) c"

section \<open>set\_Java\_env\<close>

record jni_globals =
  class_refs :: "string \<Rightarrow> string option"
  method_ids :: "string \<Rightarrow> method_id option"
  jpcapID :: "(string \<times> string) option"

definition no_globals :: jni_globals where
  "no_globals = \<lparr>class_refs = (\<lambda>_. None), method_ids = (\<lambda>_. None), jpcapID = None\<rparr>"

text \<open>The global variables that hold class references, with the class each is looked up by.\<close>

definition global_classes :: "(string \<times> string) list" where
  "global_classes =
     [(''Jpcap'', ''jpcap/JpcapCaptor''), (''JpcapHandler'', ''jpcap/PacketReceiver''),
      (''Packet'', ''jpcap/packet/Packet''), (''DatalinkPacket'', ''jpcap/packet/DatalinkPacket''),
      (''EthernetPacket'', ''jpcap/packet/EthernetPacket''), (''IPPacket'', ''jpcap/packet/IPPacket''),
      (''TCPPacket'', ''jpcap/packet/TCPPacket''), (''UDPPacket'', ''jpcap/packet/UDPPacket''),
      (''ICMPPacket'', ''jpcap/packet/ICMPPacket''), (''IPv6Option'', ''jpcap/packet/IPv6Option''),
      (''ARPPacket'', ''jpcap/packet/ARPPacket''), (''String'', ''java/lang/String''),
      (''Thread'', ''java/lang/Thread''), (''UnknownHostException'', ''java/net/UnknownHostException''),
      (''IOException'', ''java/io/IOException''), (''PPPOEPacket'', ''jpcap/packet/PPPOEPacket''),
      (''JpcapFilter'', ''jpcap/JpcapFilter'')]"

text \<open>The method identifiers: variable, class variable, method and signature.\<close>

definition global_methods :: "(string \<times> string \<times> string \<times> string) list" where
  "global_methods =
     [(''handleMID'', ''JpcapHandler'', ''receivePacket'', ''(Ljpcap/packet/Packet;)V''),
      (''setPacketValueMID'', ''Packet'', ''setPacketValue'', ''(JJII)V''),
      (''setDatalinkPacketMID'', ''Packet'', ''setDatalinkPacket'', ''(Ljpcap/packet/DatalinkPacket;)V''),
      (''setPacketHeaderMID'', ''Packet'', ''setPacketHeader'', ''([B)V''),
      (''setPacketDataMID'', ''Packet'', ''setPacketData'', ''([B)V''),
      (''setEthernetValueMID'', ''EthernetPacket'', ''setValue'', ''([B[BS)V''),
      (''setPPPOEValueMID'', ''PPPOEPacket'', ''setValue'', ''(BBB[BS)V''),
      (''setIPValueMID'', ''IPPacket'', ''setIPv4Value'', ''(BBZZZBZZZSSSSS[B[B)V''),
      (''setIPv4OptionMID'', ''IPPacket'', ''setOption'', ''([B)V''),
      (''setIPv6ValueMID'', ''IPPacket'', ''setIPv6Value'', ''(BBISBS[B[B)V''),
      (''addIPv6OptHdrMID'', ''IPPacket'', ''addOptionHeader'', ''(Ljpcap/packet/IPv6Option;)V''),
      (''setTCPValueMID'', ''TCPPacket'', ''setValue'', ''(IIJJZZZZZZZZIS)V''),
      (''setTCPOptionMID'', ''TCPPacket'', ''setOption'', ''([B)V''),
      (''setUDPValueMID'', ''UDPPacket'', ''setValue'', ''(III)V''),
      (''setICMPValueMID'', ''ICMPPacket'', ''setValue'', ''(BBSSS)V''),
      (''setICMPIDMID'', ''ICMPPacket'', ''setID'', ''(SS)V''),
      (''setICMPTimestampMID'', ''ICMPPacket'', ''setTimestampValue'', ''(III)V''),
      (''setICMPRedirectIPMID'', ''ICMPPacket'', ''setRedirectIP'', ''([B)V''),
      (''getICMPRedirectIPMID'', ''ICMPPacket'', ''getRedirectIP'', ''()[B''),
      (''setICMPRouterAdMID'', ''ICMPPacket'', ''setRouterAdValue'', ''(BBS[Ljava/lang/String;[I)V''),
      (''setV6OptValueMID'', ''IPv6Option'', ''setValue'', ''(BBB)V''),
      (''setV6OptOptionMID'', ''IPv6Option'', ''setOptionData'', ''([B)V''),
      (''setV6OptRoutingMID'', ''IPv6Option'', ''setRoutingOption'', ''(BB[[B)V''),
      (''setV6OptFragmentMID'', ''IPv6Option'', ''setFragmentOption'', ''(SZI)V''),
      (''setV6OptAHMID'', ''IPv6Option'', ''setAHOption'', ''(II)V''),
      (''getSourceAddressMID'', ''IPPacket'', ''getSourceAddress'', ''()[B''),
      (''getDestinationAddressMID'', ''IPPacket'', ''getDestinationAddress'', ''()[B''),
      (''setARPValueMID'', ''ARPPacket'', ''setValue'', ''(SSSSS[B[B[B[B)V''),
      (''compareProtocolMID'', ''JpcapFilter'', ''compareProtocol'', ''(Ljava/lang/String;)I''),
      (''compareAddressMID'', ''JpcapFilter'', ''compareAddress'', ''(Ljava/util/List;[B)I''),
      (''comparePortMID'', ''JpcapFilter'', ''comparePort'', ''(Ljava/util/List;I)I''),
      (''getHostsMID'', ''JpcapFilter'', ''getHosts'', ''()Ljava/util/List;''),
      (''getPortsMID'', ''JpcapFilter'', ''getPorts'', ''()Ljava/util/List;''),
      (''getProtocolsMID'', ''JpcapFilter'', ''getProtocols'', ''()Ljava/util/List;''),
      (''getSrcHostsMID'', ''JpcapFilter'', ''getSrcHosts'', ''()Ljava/util/List;''),
      (''getDestHostsMID'', ''JpcapFilter'', ''getDestHosts'', ''()Ljava/util/List;''),
      (''getSrcPortsMID'', ''JpcapFilter'', ''getSrcPorts'', ''()Ljava/util/List;''),
      (''getDestPortsMID'', ''JpcapFilter'', ''getDestPorts'', ''()Ljava/util/List;''),
      (''getJpcapFilterMID'', ''Jpcap'', ''getJpcapFilter'', ''()Ljpcap/JpcapFilter;''),
      (''isListEmptyMID'', ''JpcapFilter'', ''isEmpty'', ''(Ljava/util/List;)I'')]"

text \<open>
  \<open>GlobalClassRef\<close>: a class that is not found leaves null in the variable and an exception pending.
\<close>

definition GlobalClassRef :: "java_class list \<Rightarrow> string \<times> string \<Rightarrow> (string \<Rightarrow> string option) \<Rightarrow> (string \<Rightarrow> string option)" where
  "GlobalClassRef P cls refs = refs(fst cls := map_option cls_name (FindClass P (snd cls)))"

definition set_method_id ::
  "java_class list \<Rightarrow> (string \<Rightarrow> string option) \<Rightarrow> string \<times> string \<times> string \<times> string \<Rightarrow>
   (string \<Rightarrow> method_id option) \<Rightarrow> (string \<Rightarrow> method_id option)" where
  "set_method_id P refs entry mids =
     (case entry of (v, c, n, sig) \<Rightarrow> mids(v := Option.bind (refs c) (\<lambda>cn. GetMethodID P cn n sig)))"

text \<open>
  \<open>set_Java_env\<close> runs once, guarded by the class variable it sets first. Both checks for a pending exception
  return; the method identifiers are looked up only when all classes were found.
\<close>

definition set_Java_env :: "java_class list \<Rightarrow> jni_globals \<Rightarrow> jni_globals" where
  "set_Java_env P g =
     (if class_refs g ''Jpcap'' \<noteq> None then g
      else (let g = g\<lparr>class_refs := fold (GlobalClassRef P) global_classes (class_refs g)\<rparr> in
        if list_ex (\<lambda>(_, n). FindClass P n = None) global_classes then g
        else g\<lparr>method_ids := fold (set_method_id P (class_refs g)) global_methods (method_ids g),
               jpcapID := Option.bind (class_refs g ''Jpcap'') (\<lambda>cn. GetFieldID P cn ''ID'' ''I'')\<rparr>))"

text \<open>The two constructors \<open>getDeviceList\<close> looks up, and that of \<open>chars_to_jstring\<close>.\<close>

definition constructors :: "(string \<times> string) list" where
  "constructors =
     [(''jpcap/NetworkInterface'', ''(Ljava/lang/String;Ljava/lang/String;ZLjava/lang/String;Ljava/lang/String;[B[Ljpcap/NetworkInterfaceAddress;)V''),
      (''jpcap/NetworkInterfaceAddress'', ''([B[B[B[B)V''),
      (''java/lang/String'', ''([B)V'')]"

text \<open>The accessor macros and the object whose identifier the native methods read.\<close>

definition getJpcapID :: "java_class list \<Rightarrow> (string \<times> string \<Rightarrow> int) \<Rightarrow> int option" where
  "getJpcapID P obj = map_option obj (GetFieldID P ''jpcap/JpcapCaptor'' ''ID'' (descriptor Integer))"

definition getJpcapSenderID :: "java_class list \<Rightarrow> (string \<times> string \<Rightarrow> int) \<Rightarrow> int option" where
  "getJpcapSenderID P obj = map_option obj (GetFieldID P ''jpcap/JpcapSender'' ''ID'' (descriptor Integer))"

text \<open>
  \<open>chars_to_jstring\<close>: the bytes of a C string, without the terminator, become the argument of the
  constructor of \<open>String\<close>, whose effect is \<open>new_String\<close>. The class is named by a descriptor instead of a
  name; \<open>find_class\<close> is what the virtual machine answers.
\<close>

definition chars_to_jstring ::
    "java_class list \<Rightarrow> (string \<Rightarrow> java_class option) \<Rightarrow> (string \<Rightarrow> 'j) \<Rightarrow> string \<Rightarrow> 'j option" where
  "chars_to_jstring P find_class new_String pat =
     (case find_class ''Ljava/lang/String;'' of
        None \<Rightarrow> None
      | Some strClass \<Rightarrow>
          (case GetMethodID P (cls_name strClass) ''<init>'' ''([B)V'' of
             None \<Rightarrow> None
           | Some ctorID \<Rightarrow> Some (new_String pat)))"

text \<open>Some virtual machines also accept a descriptor where a class name is asked for.\<close>

definition lenient_FindClass :: "java_class list \<Rightarrow> string \<Rightarrow> java_class option" where
  "lenient_FindClass P n =
     (if n \<noteq> [] \<and> hd n = CHR ''L'' \<and> last n = CHR '';'' then FindClass P (butlast (tl n)) else FindClass P n)"

section \<open>Calls and field accesses of the native code\<close>

text \<open>Each call: the function it is in, the method identifier, and the C types of the arguments passed.\<close>

definition calls_tcp :: "(string \<times> string \<times> jty list) list" where
  "calls_tcp =
     [(''analyze_tcp'', ''setTCPValueMID'', [Integer, Integer, Long, Long, Boolean, Boolean, Boolean, Boolean, Boolean,
         Boolean, Boolean, Boolean, Integer, Short]),
      (''analyze_tcp'', ''setTCPOptionMID'', [Bytes])]"

definition calls_udp :: "(string \<times> string \<times> jty list) list" where
  "calls_udp = [(''analyze_udp'', ''setUDPValueMID'', [Integer, Integer, Integer])]"

definition calls_ip :: "(string \<times> string \<times> jty list) list" where
  "calls_ip =
     [(''analyze_ip'', ''setIPValueMID'', [Byte, Byte, Boolean, Boolean, Boolean, Byte, Boolean, Boolean, Boolean, Short,
         Short, Integer, Short, Short, Bytes, Bytes]),
      (''analyze_ip'', ''setIPv4OptionMID'', [Bytes]), (''set_ip'', ''getSourceAddressMID'', []),
      (''set_ip'', ''getDestinationAddressMID'', [])]"

definition calls_ipv6 :: "(string \<times> string \<times> jty list) list" where
  "calls_ipv6 =
     [(''analyze_ipv6'', ''setIPv6ValueMID'', [Byte, Integer, Integer, Short, Byte, Short, Bytes, Bytes]),
      (''analyze_ipv6'', ''setV6OptValueMID'', [Byte, Byte, Byte]), (''analyze_ipv6'', ''setV6OptOptionMID'', [Bytes]),
      (''analyze_ipv6'', ''setV6OptRoutingMID'', [Byte, Byte, Arr Bytes]),
      (''analyze_ipv6'', ''setV6OptFragmentMID'', [Short, Boolean, Integer]),
      (''analyze_ipv6'', ''setV6OptAHMID'', [Integer, Integer]), (''analyze_ipv6'', ''setV6OptOptionMID'', [Bytes]),
      (''analyze_ipv6'', ''addIPv6OptHdrMID'', [Ref ''jpcap/packet/IPv6Option'']),
      (''set_ipv6'', ''getSourceAddressMID'', []), (''set_ipv6'', ''getDestinationAddressMID'', [])]"

definition calls_icmp :: "(string \<times> string \<times> jty list) list" where
  "calls_icmp =
     [(''analyze_icmp'', ''setICMPValueMID'', [Byte, Byte, Short]), (''analyze_icmp'', ''setICMPIDMID'', [Integer, Integer]),
      (''analyze_icmp'', ''setICMPRedirectIPMID'', [Bytes]),
      (''analyze_icmp'', ''setICMPTimestampMID'', [Integer, Integer, Integer]),
      (''set_icmp'', ''getICMPRedirectIPMID'', [])]"

definition calls_datalink :: "(string \<times> string \<times> jty list) list" where
  "calls_datalink =
     [(''analyze_datalink'', ''setEthernetValueMID'', [Bytes, Bytes, Char]),
      (''analyze_datalink'', ''setPPPOEValueMID'', [Byte, Byte, Byte, Bytes, Short]),
      (''analyze_datalink'', ''setEthernetValueMID'', [Bytes, Bytes, Char])]"

definition calls_arp :: "(string \<times> string \<times> jty list) list" where
  "calls_arp =
     [(''analyze_arp'', ''setARPValueMID'', [Short, Short, Short, Short, Short, Bytes, Bytes, Bytes, Bytes])]"

definition calls_captor :: "(string \<times> string \<times> jty list) list" where
  "calls_captor =
     [(''dispatcher_handler'', ''handleMID'', [Ref ''jpcap/packet/Packet'']),
      (''get_packet'', ''setPacketValueMID'', [Long, Long, Integer, Integer]),
      (''get_packet'', ''setDatalinkPacketMID'', [Ref ''jpcap/packet/DatalinkPacket'']),
      (''get_packet'', ''setPacketHeaderMID'', [Bytes]), (''get_packet'', ''setPacketDataMID'', [Bytes]),
      (''initJpcapFilter'', ''getJpcapFilterMID'', []), (''initJpcapFilter'', ''getHostsMID'', []),
      (''initJpcapFilter'', ''getSrcHostsMID'', []), (''initJpcapFilter'', ''getDestHostsMID'', []),
      (''initJpcapFilter'', ''getPortsMID'', []), (''initJpcapFilter'', ''getSrcPortsMID'', []),
      (''initJpcapFilter'', ''getDestPortsMID'', []), (''jpcap_host_filter'', ''compareAddressMID'', [JList, Bytes]),
      (''jpcap_port_filter'', ''comparePortMID'', [JList, Short]),
      (''jpcap_protocol_filter'', ''compareProtocolMID'', [JString]), (''isEmpty'', ''isListEmptyMID'', [JList]),
      (''doFilter'', ''getSourceAddressMID'', []), (''doFilter'', ''getDestinationAddressMID'', [])]"

definition native_calls :: "(string \<times> string \<times> jty list) list" where
  "native_calls = calls_tcp @ calls_udp @ calls_ip @ calls_ipv6 @ calls_icmp @ calls_datalink @ calls_arp @ calls_captor"

text \<open>
  The arguments go through a variable argument list: small integers are promoted to \<open>int\<close>, and the
  virtual machine takes them off by the declared types. Two lists conform when that reads back what was
  passed.
\<close>

fun promoted :: "jty \<Rightarrow> jty" where
  "promoted Boolean = Integer"
| "promoted Byte = Integer"
| "promoted Char = Integer"
| "promoted Short = Integer"
| "promoted t = t"

fun is_ref :: "jty \<Rightarrow> bool" where
  "is_ref (Ref _) = True"
| "is_ref (Arr _) = True"
| "is_ref _ = False"

fun conforms :: "jty list \<Rightarrow> jty list \<Rightarrow> bool" where
  "conforms [] [] = True"
| "conforms (a # as) (d # ds) =
     ((if is_ref a then is_ref d else promoted a = promoted d) \<and> conforms as ds)"
| "conforms _ _ = False"

text \<open>Fields read or written through the macros of \<open>Jpcap_sub.h\<close>, with the descriptor each macro uses.\<close>

definition field_accesses :: "(string \<times> string \<times> string) list" where
  "field_accesses =
     [(''jpcap/JpcapCaptor'', ''ID'', ''I''), (''jpcap/JpcapCaptor'', ''received_packets'', ''I''),
      (''jpcap/JpcapCaptor'', ''dropped_packets'', ''I''), (''jpcap/JpcapSender'', ''ID'', ''I''),
      (''jpcap/packet/Packet'', ''EOF'', ''Ljpcap/packet/Packet;''), (''jpcap/packet/Packet'', ''data'', ''[B''),
      (''jpcap/packet/Packet'', ''header'', ''[B''), (''jpcap/packet/Packet'', ''sec'', ''J''),
      (''jpcap/packet/Packet'', ''usec'', ''J''), (''jpcap/packet/Packet'', ''caplen'', ''I''),
      (''jpcap/packet/Packet'', ''len'', ''I''), (''jpcap/packet/Packet'', ''datalink'', ''Ljpcap/packet/DatalinkPacket;''),
      (''jpcap/packet/EthernetPacket'', ''src_mac'', ''[B''), (''jpcap/packet/EthernetPacket'', ''dst_mac'', ''[B''),
      (''jpcap/packet/EthernetPacket'', ''frametype'', ''S''), (''jpcap/packet/IPPacket'', ''version'', ''B''),
      (''jpcap/packet/IPPacket'', ''protocol'', ''S''), (''jpcap/packet/IPPacket'', ''ident'', ''I''),
      (''jpcap/packet/IPPacket'', ''rsv_frag'', ''Z''), (''jpcap/packet/IPPacket'', ''dont_frag'', ''Z''),
      (''jpcap/packet/IPPacket'', ''more_frag'', ''Z''), (''jpcap/packet/IPPacket'', ''offset'', ''S''),
      (''jpcap/packet/IPPacket'', ''hop_limit'', ''S''), (''jpcap/packet/IPPacket'', ''priority'', ''B''),
      (''jpcap/packet/IPPacket'', ''rsv_tos'', ''B''), (''jpcap/packet/IPPacket'', ''d_flag'', ''Z''),
      (''jpcap/packet/IPPacket'', ''t_flag'', ''Z''), (''jpcap/packet/IPPacket'', ''r_flag'', ''Z''),
      (''jpcap/packet/IPPacket'', ''flow_label'', ''I''), (''jpcap/packet/TCPPacket'', ''src_port'', ''I''),
      (''jpcap/packet/TCPPacket'', ''dst_port'', ''I''), (''jpcap/packet/TCPPacket'', ''sequence'', ''J''),
      (''jpcap/packet/TCPPacket'', ''ack_num'', ''J''), (''jpcap/packet/TCPPacket'', ''rsv1'', ''Z''),
      (''jpcap/packet/TCPPacket'', ''rsv2'', ''Z''), (''jpcap/packet/TCPPacket'', ''urg'', ''Z''),
      (''jpcap/packet/TCPPacket'', ''ack'', ''Z''), (''jpcap/packet/TCPPacket'', ''psh'', ''Z''),
      (''jpcap/packet/TCPPacket'', ''rst'', ''Z''), (''jpcap/packet/TCPPacket'', ''syn'', ''Z''),
      (''jpcap/packet/TCPPacket'', ''fin'', ''Z''), (''jpcap/packet/TCPPacket'', ''window'', ''I''),
      (''jpcap/packet/TCPPacket'', ''urgent_pointer'', ''S''), (''jpcap/packet/UDPPacket'', ''src_port'', ''I''),
      (''jpcap/packet/UDPPacket'', ''dst_port'', ''I''), (''jpcap/packet/ICMPPacket'', ''type'', ''B''),
      (''jpcap/packet/ICMPPacket'', ''code'', ''B''), (''jpcap/packet/ICMPPacket'', ''id'', ''S''),
      (''jpcap/packet/ICMPPacket'', ''seq'', ''S''), (''jpcap/packet/ICMPPacket'', ''mtu'', ''S''),
      (''jpcap/packet/ICMPPacket'', ''ippacket'', ''Ljpcap/packet/IPPacket;''),
      (''jpcap/packet/ICMPPacket'', ''orig_timestamp'', ''I''), (''jpcap/packet/ICMPPacket'', ''recv_timestamp'', ''I''),
      (''jpcap/packet/ICMPPacket'', ''trans_timestamp'', ''I''), (''jpcap/packet/ICMPPacket'', ''subnetmask'', ''I''),
      (''jpcap/packet/ARPPacket'', ''hardtype'', ''S''), (''jpcap/packet/ARPPacket'', ''prototype'', ''S''),
      (''jpcap/packet/ARPPacket'', ''operation'', ''S''), (''jpcap/packet/ARPPacket'', ''hlen'', ''S''),
      (''jpcap/packet/ARPPacket'', ''plen'', ''S''), (''jpcap/packet/ARPPacket'', ''sender_hardaddr'', ''[B''),
      (''jpcap/packet/ARPPacket'', ''sender_protoaddr'', ''[B''), (''jpcap/packet/ARPPacket'', ''target_hardaddr'', ''[B''),
      (''jpcap/packet/ARPPacket'', ''target_protoaddr'', ''[B'')]"

section \<open>Native methods\<close>

datatype cty = C_void | C_jint | C_jboolean | C_jstring | C_jobject | C_jobjectArray | C_other

fun c_type :: "jty \<Rightarrow> cty" where
  "c_type Void = C_void"
| "c_type Integer = C_jint"
| "c_type Boolean = C_jboolean"
| "c_type (Ref c) = (if c = ''java/lang/String'' then C_jstring else C_jobject)"
| "c_type (Arr t) = (if is_ref t then C_jobjectArray else C_other)"
| "c_type _ = C_other"

text \<open>The name of the C function for a native method: a slash or an underscore of the names is encoded.\<close>

fun mangle_char :: "char \<Rightarrow> string" where
  "mangle_char c = (if c = CHR ''/'' then ''_'' else if c = CHR ''_'' then ''_1'' else [c])"

definition mangle :: "string \<Rightarrow> string \<Rightarrow> string" where
  "mangle cls m = ''Java_'' @ concat (map mangle_char cls) @ ''_'' @ concat (map mangle_char m)"

text \<open>The native declarations of the three Java classes: method, argument types, result type.\<close>

definition natives_JpcapCaptor :: "(string \<times> jty list \<times> jty) list" where
  "natives_JpcapCaptor =
     [(''nativeOpenLive'', [JString, Integer, Integer, Integer], JString), (''nativeOpenOffline'', [JString], JString),
      (''nativeClose'', [], Void), (''getDeviceList'', [], Arr (Ref ''jpcap/NetworkInterface'')),
      (''getPacket'', [], Ref ''jpcap/packet/Packet''),
      (''processPacket'', [Integer, Ref ''jpcap/PacketReceiver''], Integer),
      (''loopPacket'', [Integer, Ref ''jpcap/PacketReceiver''], Integer), (''setNonBlockingMode'', [Boolean], Void),
      (''isNonBlockinMode'', [], Boolean), (''breakLoop'', [], Void), (''setPacketReadTimeout'', [Integer], Boolean),
      (''getPacketReadTimeout'', [], Integer), (''setFilter'', [JString, Boolean], Void), (''updateStat'', [], Void),
      (''getErrorMessage'', [], JString)]"

definition natives_JpcapSender :: "(string \<times> jty list \<times> jty) list" where
  "natives_JpcapSender =
     [(''nativeOpenDevice'', [JString], JString), (''nativeSendPacket'', [Ref ''jpcap/packet/Packet''], Void),
      (''nativeCloseDevice'', [], Void), (''nativeOpenRawSocket'', [], Void),
      (''nativeSendPacketViaRawSocket'', [Ref ''jpcap/packet/Packet''], Void), (''nativeCloseRawSocket'', [], Void)]"

definition natives_JpcapWriter :: "(string \<times> jty list \<times> jty) list" where
  "natives_JpcapWriter =
     [(''nativeOpenDumpFile'', [JString, Integer], JString), (''close'', [], Void),
      (''writePacket'', [Ref ''jpcap/packet/Packet''], Void)]"

text \<open>
  The generated headers: function, result type, types of the parameters after the environment and the
  object or class.
\<close>

definition exports_JpcapCaptor :: "(string \<times> cty \<times> cty list) list" where
  "exports_JpcapCaptor =
     [(''Java_jpcap_JpcapCaptor_nativeOpenLive'', C_jstring, [C_jstring, C_jint, C_jint, C_jint]),
      (''Java_jpcap_JpcapCaptor_nativeOpenOffline'', C_jstring, [C_jstring]),
      (''Java_jpcap_JpcapCaptor_nativeClose'', C_void, []),
      (''Java_jpcap_JpcapCaptor_getDeviceList'', C_jobjectArray, []),
      (''Java_jpcap_JpcapCaptor_getPacket'', C_jobject, []),
      (''Java_jpcap_JpcapCaptor_processPacket'', C_jint, [C_jint, C_jobject]),
      (''Java_jpcap_JpcapCaptor_loopPacket'', C_jint, [C_jint, C_jobject]),
      (''Java_jpcap_JpcapCaptor_setNonBlockingMode'', C_void, [C_jboolean]),
      (''Java_jpcap_JpcapCaptor_isNonBlockinMode'', C_jboolean, []),
      (''Java_jpcap_JpcapCaptor_breakLoop'', C_void, []),
      (''Java_jpcap_JpcapCaptor_setPacketReadTimeout'', C_jboolean, [C_jint]),
      (''Java_jpcap_JpcapCaptor_getPacketReadTimeout'', C_jint, []),
      (''Java_jpcap_JpcapCaptor_setFilter'', C_void, [C_jstring, C_jboolean]),
      (''Java_jpcap_JpcapCaptor_setJpcapFilter'', C_void, [C_jobject]),
      (''Java_jpcap_JpcapCaptor_updateStat'', C_void, []),
      (''Java_jpcap_JpcapCaptor_getErrorMessage'', C_jstring, [])]"

definition exports_JpcapSender :: "(string \<times> cty \<times> cty list) list" where
  "exports_JpcapSender =
     [(''Java_jpcap_JpcapSender_nativeOpenDevice'', C_jstring, [C_jstring]),
      (''Java_jpcap_JpcapSender_nativeSendPacket'', C_void, [C_jobject]),
      (''Java_jpcap_JpcapSender_nativeCloseDevice'', C_void, []),
      (''Java_jpcap_JpcapSender_nativeOpenRawSocket'', C_void, []),
      (''Java_jpcap_JpcapSender_nativeSendPacketViaRawSocket'', C_void, [C_jobject]),
      (''Java_jpcap_JpcapSender_nativeCloseRawSocket'', C_void, [])]"

definition exports_JpcapWriter :: "(string \<times> cty \<times> cty list) list" where
  "exports_JpcapWriter =
     [(''Java_jpcap_JpcapWriter_nativeOpenDumpFile'', C_jstring, [C_jstring, C_jint]),
      (''Java_jpcap_JpcapWriter_close'', C_void, []),
      (''Java_jpcap_JpcapWriter_writePacket'', C_void, [C_jobject])]"

text \<open>The C prototype a native declaration calls for.\<close>

definition prototype :: "string \<Rightarrow> string \<times> jty list \<times> jty \<Rightarrow> string \<times> cty \<times> cty list" where
  "prototype cls d = (case d of (m, args, ret) \<Rightarrow> (mangle cls m, c_type ret, map c_type args))"

section \<open>Properties\<close>

abbreviation resolved :: jni_globals where
  "resolved \<equiv> set_Java_env jpcap_program no_globals"

lemma resolved_classes: "map (\<lambda>(v, n). class_refs resolved v) global_classes = map (\<lambda>(v, n). Some n) global_classes"
  by code_simp

text \<open>A table of distinct variables filled by one pass over a list.\<close>

lemma fold_fun_upd:
  assumes "distinct (map fst xs)" and "(v, e) \<in> set xs"
  shows "fold (\<lambda>(v, e) m. m(v := f e)) xs m v = f e"
  using assms
proof (induction xs arbitrary: m)
  case (Cons x xs)
  have "fold (\<lambda>(v, e) m. m(v := f e)) ys m v = m v" if "v \<notin> fst ` set ys" for ys m
    using that by (induction ys arbitrary: m) (auto split: prod.splits)
  with Cons show ?case by (cases x) (auto simp: fun_upd_same simp del: fun_upd_apply)
qed simp

lemma classes_found: "\<not> list_ex (\<lambda>(_, n). FindClass jpcap_program n = None) global_classes"
  by code_simp

lemma class_refs_resolved: "(v, n) \<in> set global_classes \<Longrightarrow> class_refs resolved v = Some n"
  using resolved_classes by (auto simp: map_eq_conv)

lemma global_methods_distinct: "distinct (map fst global_methods)"
  by code_simp

lemma set_method_id_fold:
  "fold (set_method_id P refs) xs m =
   fold (\<lambda>(v, e) m. m(v := (case e of (c, n, sig) \<Rightarrow> Option.bind (refs c) (\<lambda>cn. GetMethodID P cn n sig)))) xs m"
  by (rule arg_cong [where f = "\<lambda>f. fold f xs m"]) (auto simp: set_method_id_def fun_eq_iff)

lemma method_ids_resolved:
  assumes "(v, c, n, sig) \<in> set global_methods"
  shows "method_ids resolved v = Option.bind (class_refs resolved c) (\<lambda>cn. GetMethodID jpcap_program cn n sig)"
proof -
  have r: "method_ids resolved = fold (set_method_id jpcap_program (class_refs resolved)) global_methods (\<lambda>_. None)"
    using classes_found by (simp add: set_Java_env_def Let_def no_globals_def)
  show ?thesis
    unfolding r set_method_id_fold by (subst fold_fun_upd [OF global_methods_distinct assms]) simp
qed

lemma global_methods_declared:
  "list_all (\<lambda>(v, c, n, sig). case map_of global_classes c of
       None \<Rightarrow> False
     | Some cn \<Rightarrow> (case GetMethodID jpcap_program cn n sig of
         None \<Rightarrow> False
       | Some mid \<Rightarrow> mid_name mid = n \<and> mid_class mid = cn \<and> method_descriptor (mid_args mid) (mid_ret mid) = sig))
     global_methods"
  by code_simp

lemma declared_methodD:
  assumes "(v, c, n, sig) \<in> set global_methods"
  obtains cn mid where "class_refs resolved c = Some cn" "method_ids resolved v = Some mid" "mid_class mid = cn"
    "mid_name mid = n" "method_descriptor (mid_args mid) (mid_ret mid) = sig" "GetMethodID jpcap_program cn n sig = Some mid"
proof -
  from global_methods_declared assms obtain cn mid where d: "map_of global_classes c = Some cn"
    "GetMethodID jpcap_program cn n sig = Some mid" "mid_name mid = n" "mid_class mid = cn"
    "method_descriptor (mid_args mid) (mid_ret mid) = sig"
    by (fastforce simp: list_all_iff split: option.splits)
  from class_refs_resolved [OF map_of_SomeD [OF d(1)]] have c: "class_refs resolved c = Some cn" .
  show thesis
    by (rule that [OF c]) (use d method_ids_resolved [OF assms] c in simp_all)
qed

text \<open>
  C18: After \<open>set_Java_env\<close> every global class reference and every global method identifier of the native
  code is valid: each class exists among the Java sources, and each method is declared in that very
  class with exactly the signature the native code asks for; the field that holds the identifier
  of an instance is found in the superclass.
\<close>

theorem set_Java_env_resolves:
  "map (\<lambda>(v, n). class_refs (set_Java_env jpcap_program no_globals) v) global_classes = map (\<lambda>(v, n). Some n) global_classes \<and>
   list_all (\<lambda>(v, c, n, sig). \<exists>mid. method_ids (set_Java_env jpcap_program no_globals) v = Some mid \<and>
       mid_name mid = n \<and> class_refs (set_Java_env jpcap_program no_globals) c = Some (mid_class mid) \<and>
       method_descriptor (mid_args mid) (mid_ret mid) = sig) global_methods \<and>
   jpcapID (set_Java_env jpcap_program no_globals) = Some (''jpcap/JpcapInstance'', ''ID'')"
proof (intro conjI)
  show "map (\<lambda>(v, n). class_refs resolved v) global_classes = map (\<lambda>(v, n). Some n) global_classes"
    by (rule resolved_classes)
  show "list_all (\<lambda>(v, c, n, sig). \<exists>mid. method_ids resolved v = Some mid \<and> mid_name mid = n \<and>
      class_refs resolved c = Some (mid_class mid) \<and> method_descriptor (mid_args mid) (mid_ret mid) = sig) global_methods"
    unfolding list_all_iff by (auto elim!: declared_methodD)
  have "GetFieldID jpcap_program ''jpcap/JpcapCaptor'' ''ID'' ''I'' = Some (''jpcap/JpcapInstance'', ''ID'')" by code_simp
  moreover have "class_refs resolved ''Jpcap'' = Some ''jpcap/JpcapCaptor''"
    by (rule class_refs_resolved) (simp add: global_classes_def)
  moreover have "jpcapID resolved = Option.bind (class_refs resolved ''Jpcap'') (\<lambda>cn. GetFieldID jpcap_program cn ''ID'' ''I'')"
    using classes_found by (simp add: set_Java_env_def Let_def no_globals_def)
  ultimately show "jpcapID resolved = Some (''jpcap/JpcapInstance'', ''ID'')" by simp
qed

text \<open>The method a variable refers to, by way of the tables.\<close>

definition method_of :: "string \<Rightarrow> method_id option" where
  "method_of v =
     (case map_of global_methods v of
        None \<Rightarrow> None
      | Some (c, n, sig) \<Rightarrow> Option.bind (map_of global_classes c) (\<lambda>cn. GetMethodID jpcap_program cn n sig))"

lemma native_calls_known: "list_all (\<lambda>(f, v, args). v \<in> set (map fst global_methods)) native_calls"
  by code_simp

lemma method_of_resolved:
  assumes "(f, v, args) \<in> set native_calls"
  shows "method_ids resolved v = method_of v" and "method_of v \<noteq> None"
proof -
  have "v \<in> fst ` set global_methods" using native_calls_known assms by (force simp: list_all_iff)
  then obtain e where e: "map_of global_methods v = Some e"
    by (cases "map_of global_methods v") (auto simp: map_of_eq_None_iff)
  obtain c n sig where [simp]: "e = (c, n, sig)" by (cases e)
  from map_of_SomeD [OF e] have "(v, c, n, sig) \<in> set global_methods" by simp
  then obtain cn mid where m: "class_refs resolved c = Some cn" "method_ids resolved v = Some mid"
    "GetMethodID jpcap_program cn n sig = Some mid" "mid_name mid = n"
    by (rule declared_methodD)
  have "map_of global_classes c = Some cn"
    using global_methods_declared \<open>(v, c, n, sig) \<in> set global_methods\<close> m(1) class_refs_resolved [OF map_of_SomeD, of c]
    by (fastforce simp: list_all_iff split: option.splits)
  with e m show "method_ids resolved v = method_of v" "method_of v \<noteq> None" by (simp_all add: method_of_def)
qed

definition call_ok :: "string \<times> string \<times> jty list \<Rightarrow> bool" where
  "call_ok call =
     (case call of (f, v, args) \<Rightarrow> (case method_of v of None \<Rightarrow> False | Some mid \<Rightarrow> conforms args (mid_args mid)))"

lemma call_ok_iff:
  assumes "(f, v, args) \<in> set native_calls"
  shows "call_ok (f, v, args) \<longleftrightarrow> (\<exists>mid. method_ids resolved v = Some mid \<and> conforms args (mid_args mid))"
  using method_of_resolved [OF assms] by (auto simp: call_ok_def)


text \<open>
  Every field that the native code reads or writes through the accessor macros is declared, with
  the type of the macro, in the class named or a superclass; so are the constructors it calls.
\<close>

theorem field_accesses_declared:
  "list_all (\<lambda>(c, n, sig). GetFieldID jpcap_program c n sig \<noteq> None) field_accesses \<and>
   list_all (\<lambda>(c, sig). GetMethodID jpcap_program c ''<init>'' sig \<noteq> None) constructors"
proof
  show "list_all (\<lambda>(c, n, sig). GetFieldID jpcap_program c n sig \<noteq> None) field_accesses" by code_simp
  show "list_all (\<lambda>(c, sig). GetMethodID jpcap_program c ''<init>'' sig \<noteq> None) constructors" by code_simp
qed

text \<open>
  The exported C functions are those of the native declarations of the Java classes, with the
  names and types the virtual machine links by, and in their order; the header of \<open>JpcapCaptor\<close> has one more,
  \<open>setJpcapFilter\<close>, which is neither a native method of the class nor defined in C.
\<close>

theorem native_methods_linked:
  "filter (\<lambda>e. fst e \<noteq> mangle ''jpcap/JpcapCaptor'' ''setJpcapFilter'') exports_JpcapCaptor =
     map (prototype ''jpcap/JpcapCaptor'') natives_JpcapCaptor \<and>
   exports_JpcapSender = map (prototype ''jpcap/JpcapSender'') natives_JpcapSender \<and>
   exports_JpcapWriter = map (prototype ''jpcap/JpcapWriter'') natives_JpcapWriter"
proof (intro conjI)
  show "filter (\<lambda>e. fst e \<noteq> mangle ''jpcap/JpcapCaptor'' ''setJpcapFilter'') exports_JpcapCaptor =
     map (prototype ''jpcap/JpcapCaptor'') natives_JpcapCaptor" by code_simp
  show "exports_JpcapSender = map (prototype ''jpcap/JpcapSender'') natives_JpcapSender" by code_simp
  show "exports_JpcapWriter = map (prototype ''jpcap/JpcapWriter'') natives_JpcapWriter" by code_simp
qed

text \<open>
  \<open>set_Java_env\<close> is not repeatable. When the class of the captor is found but another class is not,
  it returns with no method identifier set, and no later call sets them, whatever has become of the
  class path: every call through them is then undefined.
\<close>

theorem set_Java_env_not_retried:
  assumes "FindClass P ''jpcap/JpcapCaptor'' = Some c" and "(v, n) \<in> set global_classes" and "FindClass P n = None"
  shows "method_ids (set_Java_env P no_globals) = (\<lambda>_. None) \<and>
    set_Java_env Q (set_Java_env P no_globals) = set_Java_env P no_globals"
proof -
  have missing: "list_ex (\<lambda>(_, n). FindClass P n = None) global_classes"
    using assms(2,3) by (fastforce simp: list_ex_iff)
  have "class_refs (set_Java_env P no_globals) ''Jpcap'' =
      fold (GlobalClassRef P) global_classes (\<lambda>_. None) ''Jpcap''"
    using missing by (simp add: set_Java_env_def Let_def no_globals_def)
  also have "\<dots> = Some (cls_name c)"
    using assms(1) by (simp add: global_classes_def GlobalClassRef_def)
  finally have "class_refs (set_Java_env P no_globals) ''Jpcap'' \<noteq> None" by simp
  then have "set_Java_env Q (set_Java_env P no_globals) = set_Java_env P no_globals"
    by (simp add: set_Java_env_def [of Q])
  moreover have "method_ids (set_Java_env P no_globals) = (\<lambda>_. None)"
    using missing by (simp add: set_Java_env_def Let_def no_globals_def)
  ultimately show ?thesis by simp
qed

text \<open>
  The identifiers of captors and senders are the field of their common superclass; the string conversion
  works only on a virtual machine that accepts a descriptor as a class name.
\<close>

theorem native_lookups:
  "getJpcapID jpcap_program obj = Some (obj (''jpcap/JpcapInstance'', ''ID'')) \<and>
   getJpcapSenderID jpcap_program obj = Some (obj (''jpcap/JpcapInstance'', ''ID'')) \<and>
   chars_to_jstring jpcap_program (FindClass jpcap_program) new_String pat = None \<and>
   chars_to_jstring jpcap_program (lenient_FindClass jpcap_program) new_String pat = Some (new_String pat)"
proof -
  have "GetFieldID jpcap_program ''jpcap/JpcapCaptor'' ''ID'' (descriptor Integer) = Some (''jpcap/JpcapInstance'', ''ID'')"
    "GetFieldID jpcap_program ''jpcap/JpcapSender'' ''ID'' (descriptor Integer) = Some (''jpcap/JpcapInstance'', ''ID'')"
    "FindClass jpcap_program ''Ljava/lang/String;'' = None"
    "map_option cls_name (lenient_FindClass jpcap_program ''Ljava/lang/String;'') = Some ''java/lang/String''"
    "GetMethodID jpcap_program ''java/lang/String'' ''<init>'' ''([B)V'' \<noteq> None"
    by code_simp+
  then show ?thesis by (auto simp: getJpcapID_def getJpcapSenderID_def chars_to_jstring_def)
qed

end
