(* ===== verification/Jni_Interface.thy ===== *)
theory Jni_Interface
  imports Jpcap_Jni
begin

text \<open>
  The function table of the bundled \<open>jni.h\<close>, through which every call of the native code into the virtual machine
  goes: the types of the header, the slots of \<open>JNINativeInterface_\<close> in their order with their C prototypes, and
  the slots the native code calls. The inline functions for C++ are in \<open>Jni_Inline\<close>.
\<close>

section \<open>Types\<close>

text \<open>
  The types that occur in prototypes; \<open>ConstPtr t\<close> is \<open>const t *\<close>, \<open>Varargs\<close> the ellipsis. \<open>jsize\<close> and \<open>jweak\<close> are
  type definitions.
\<close>

datatype jni_type =
    C_void_t | C_char_t | jboolean | jbyte | jchar | jshort | jint | jlong | jfloat | jdouble
  | jobject | jclass | jthrowable | jstring | jarray | jbooleanArray | jbyteArray | jcharArray | jshortArray
  | jintArray | jlongArray | jfloatArray | jdoubleArray | jobjectArray
  | jfieldID | jmethodID | jvalue | JNINativeMethod | JNIEnv | JavaVM | va_list | Varargs
  | Ptr jni_type | ConstPtr jni_type

definition jsize :: jni_type where [simp]: "jsize = jint"

definition jweak :: jni_type where [simp]: "jweak = jobject"

text \<open>The class a reference class is derived from in C++; in C the same names are type definitions.\<close>

fun base_class :: "jni_type \<Rightarrow> jni_type option" where
  "base_class jclass = Some jobject"
| "base_class jthrowable = Some jobject"
| "base_class jstring = Some jobject"
| "base_class jarray = Some jobject"
| "base_class jbooleanArray = Some jarray"
| "base_class jbyteArray = Some jarray"
| "base_class jcharArray = Some jarray"
| "base_class jshortArray = Some jarray"
| "base_class jintArray = Some jarray"
| "base_class jlongArray = Some jarray"
| "base_class jfloatArray = Some jarray"
| "base_class jdoubleArray = Some jarray"
| "base_class jobjectArray = Some jarray"
| "base_class t = None"

section \<open>The table\<close>

datatype slot = Reserved string | Slot string jni_type "jni_type list"

definition slots_basic :: "slot list" where
  "slots_basic =
    [Reserved ''reserved0'',
     Reserved ''reserved1'',
     Reserved ''reserved2'',
     Reserved ''reserved3'',
     Slot ''GetVersion'' jint [Ptr JNIEnv],
     Slot ''DefineClass'' jclass [Ptr JNIEnv, ConstPtr C_char_t, jobject, ConstPtr jbyte, jsize],
     Slot ''FindClass'' jclass [Ptr JNIEnv, ConstPtr C_char_t],
     Slot ''FromReflectedMethod'' jmethodID [Ptr JNIEnv, jobject],
     Slot ''FromReflectedField'' jfieldID [Ptr JNIEnv, jobject],
     Slot ''ToReflectedMethod'' jobject [Ptr JNIEnv, jclass, jmethodID, jboolean],
     Slot ''GetSuperclass'' jclass [Ptr JNIEnv, jclass],
     Slot ''IsAssignableFrom'' jboolean [Ptr JNIEnv, jclass, jclass],
     Slot ''ToReflectedField'' jobject [Ptr JNIEnv, jclass, jfieldID, jboolean],
     Slot ''Throw'' jint [Ptr JNIEnv, jthrowable],
     Slot ''ThrowNew'' jint [Ptr JNIEnv, jclass, ConstPtr C_char_t],
     Slot ''ExceptionOccurred'' jthrowable [Ptr JNIEnv],
     Slot ''ExceptionDescribe'' C_void_t [Ptr JNIEnv],
     Slot ''ExceptionClear'' C_void_t [Ptr JNIEnv],
     Slot ''FatalError'' C_void_t [Ptr JNIEnv, ConstPtr C_char_t],
     Slot ''PushLocalFrame'' jint [Ptr JNIEnv, jint],
     Slot ''PopLocalFrame'' jobject [Ptr JNIEnv, jobject],
     Slot ''NewGlobalRef'' jobject [Ptr JNIEnv, jobject],
     Slot ''DeleteGlobalRef'' C_void_t [Ptr JNIEnv, jobject],
     Slot ''DeleteLocalRef'' C_void_t [Ptr JNIEnv, jobject],
     Slot ''IsSameObject'' jboolean [Ptr JNIEnv, jobject, jobject],
     Slot ''NewLocalRef'' jobject [Ptr JNIEnv, jobject],
     Slot ''EnsureLocalCapacity'' jint [Ptr JNIEnv, jint],
     Slot ''AllocObject'' jobject [Ptr JNIEnv, jclass],
     Slot ''NewObject'' jobject [Ptr JNIEnv, jclass, jmethodID, Varargs],
     Slot ''NewObjectV'' jobject [Ptr JNIEnv, jclass, jmethodID, va_list],
     Slot ''NewObjectA'' jobject [Ptr JNIEnv, jclass, jmethodID, ConstPtr jvalue],
     Slot ''GetObjectClass'' jclass [Ptr JNIEnv, jobject],
     Slot ''IsInstanceOf'' jboolean [Ptr JNIEnv, jobject, jclass]]"

definition slots_virtual :: "slot list" where
  "slots_virtual =
    [Slot ''GetMethodID'' jmethodID [Ptr JNIEnv, jclass, ConstPtr C_char_t, ConstPtr C_char_t],
     Slot ''CallObjectMethod'' jobject [Ptr JNIEnv, jobject, jmethodID, Varargs],
     Slot ''CallObjectMethodV'' jobject [Ptr JNIEnv, jobject, jmethodID, va_list],
     Slot ''CallObjectMethodA'' jobject [Ptr JNIEnv, jobject, jmethodID, ConstPtr jvalue],
     Slot ''CallBooleanMethod'' jboolean [Ptr JNIEnv, jobject, jmethodID, Varargs],
     Slot ''CallBooleanMethodV'' jboolean [Ptr JNIEnv, jobject, jmethodID, va_list],
     Slot ''CallBooleanMethodA'' jboolean [Ptr JNIEnv, jobject, jmethodID, ConstPtr jvalue],
     Slot ''CallByteMethod'' jbyte [Ptr JNIEnv, jobject, jmethodID, Varargs],
     Slot ''CallByteMethodV'' jbyte [Ptr JNIEnv, jobject, jmethodID, va_list],
     Slot ''CallByteMethodA'' jbyte [Ptr JNIEnv, jobject, jmethodID, ConstPtr jvalue],
     Slot ''CallCharMethod'' jchar [Ptr JNIEnv, jobject, jmethodID, Varargs],
     Slot ''CallCharMethodV'' jchar [Ptr JNIEnv, jobject, jmethodID, va_list],
     Slot ''CallCharMethodA'' jchar [Ptr JNIEnv, jobject, jmethodID, ConstPtr jvalue],
     Slot ''CallShortMethod'' jshort [Ptr JNIEnv, jobject, jmethodID, Varargs],
     Slot ''CallShortMethodV'' jshort [Ptr JNIEnv, jobject, jmethodID, va_list],
     Slot ''CallShortMethodA'' jshort [Ptr JNIEnv, jobject, jmethodID, ConstPtr jvalue],
     Slot ''CallIntMethod'' jint [Ptr JNIEnv, jobject, jmethodID, Varargs],
     Slot ''CallIntMethodV'' jint [Ptr JNIEnv, jobject, jmethodID, va_list],
     Slot ''CallIntMethodA'' jint [Ptr JNIEnv, jobject, jmethodID, ConstPtr jvalue],
     Slot ''CallLongMethod'' jlong [Ptr JNIEnv, jobject, jmethodID, Varargs],
     Slot ''CallLongMethodV'' jlong [Ptr JNIEnv, jobject, jmethodID, va_list],
     Slot ''CallLongMethodA'' jlong [Ptr JNIEnv, jobject, jmethodID, ConstPtr jvalue],
     Slot ''CallFloatMethod'' jfloat [Ptr JNIEnv, jobject, jmethodID, Varargs],
     Slot ''CallFloatMethodV'' jfloat [Ptr JNIEnv, jobject, jmethodID, va_list],
     Slot ''CallFloatMethodA'' jfloat [Ptr JNIEnv, jobject, jmethodID, ConstPtr jvalue],
     Slot ''CallDoubleMethod'' jdouble [Ptr JNIEnv, jobject, jmethodID, Varargs],
     Slot ''CallDoubleMethodV'' jdouble [Ptr JNIEnv, jobject, jmethodID, va_list],
     Slot ''CallDoubleMethodA'' jdouble [Ptr JNIEnv, jobject, jmethodID, ConstPtr jvalue],
     Slot ''CallVoidMethod'' C_void_t [Ptr JNIEnv, jobject, jmethodID, Varargs],
     Slot ''CallVoidMethodV'' C_void_t [Ptr JNIEnv, jobject, jmethodID, va_list],
     Slot ''CallVoidMethodA'' C_void_t [Ptr JNIEnv, jobject, jmethodID, ConstPtr jvalue]]"

definition slots_nonvirtual :: "slot list" where
  "slots_nonvirtual =
    [Slot ''CallNonvirtualObjectMethod'' jobject [Ptr JNIEnv, jobject, jclass, jmethodID, Varargs],
     Slot ''CallNonvirtualObjectMethodV'' jobject [Ptr JNIEnv, jobject, jclass, jmethodID, va_list],
     Slot ''CallNonvirtualObjectMethodA'' jobject [Ptr JNIEnv, jobject, jclass, jmethodID, ConstPtr jvalue],
     Slot ''CallNonvirtualBooleanMethod'' jboolean [Ptr JNIEnv, jobject, jclass, jmethodID, Varargs],
     Slot ''CallNonvirtualBooleanMethodV'' jboolean [Ptr JNIEnv, jobject, jclass, jmethodID, va_list],
     Slot ''CallNonvirtualBooleanMethodA'' jboolean [Ptr JNIEnv, jobject, jclass, jmethodID, ConstPtr jvalue],
     Slot ''CallNonvirtualByteMethod'' jbyte [Ptr JNIEnv, jobject, jclass, jmethodID, Varargs],
     Slot ''CallNonvirtualByteMethodV'' jbyte [Ptr JNIEnv, jobject, jclass, jmethodID, va_list],
     Slot ''CallNonvirtualByteMethodA'' jbyte [Ptr JNIEnv, jobject, jclass, jmethodID, ConstPtr jvalue],
     Slot ''CallNonvirtualCharMethod'' jchar [Ptr JNIEnv, jobject, jclass, jmethodID, Varargs],
     Slot ''CallNonvirtualCharMethodV'' jchar [Ptr JNIEnv, jobject, jclass, jmethodID, va_list],
     Slot ''CallNonvirtualCharMethodA'' jchar [Ptr JNIEnv, jobject, jclass, jmethodID, ConstPtr jvalue],
     Slot ''CallNonvirtualShortMethod'' jshort [Ptr JNIEnv, jobject, jclass, jmethodID, Varargs],
     Slot ''CallNonvirtualShortMethodV'' jshort [Ptr JNIEnv, jobject, jclass, jmethodID, va_list],
     Slot ''CallNonvirtualShortMethodA'' jshort [Ptr JNIEnv, jobject, jclass, jmethodID, ConstPtr jvalue],
     Slot ''CallNonvirtualIntMethod'' jint [Ptr JNIEnv, jobject, jclass, jmethodID, Varargs],
     Slot ''CallNonvirtualIntMethodV'' jint [Ptr JNIEnv, jobject, jclass, jmethodID, va_list],
     Slot ''CallNonvirtualIntMethodA'' jint [Ptr JNIEnv, jobject, jclass, jmethodID, ConstPtr jvalue],
     Slot ''CallNonvirtualLongMethod'' jlong [Ptr JNIEnv, jobject, jclass, jmethodID, Varargs],
     Slot ''CallNonvirtualLongMethodV'' jlong [Ptr JNIEnv, jobject, jclass, jmethodID, va_list],
     Slot ''CallNonvirtualLongMethodA'' jlong [Ptr JNIEnv, jobject, jclass, jmethodID, ConstPtr jvalue],
     Slot ''CallNonvirtualFloatMethod'' jfloat [Ptr JNIEnv, jobject, jclass, jmethodID, Varargs],
     Slot ''CallNonvirtualFloatMethodV'' jfloat [Ptr JNIEnv, jobject, jclass, jmethodID, va_list],
     Slot ''CallNonvirtualFloatMethodA'' jfloat [Ptr JNIEnv, jobject, jclass, jmethodID, ConstPtr jvalue],
     Slot ''CallNonvirtualDoubleMethod'' jdouble [Ptr JNIEnv, jobject, jclass, jmethodID, Varargs],
     Slot ''CallNonvirtualDoubleMethodV'' jdouble [Ptr JNIEnv, jobject, jclass, jmethodID, va_list],
     Slot ''CallNonvirtualDoubleMethodA'' jdouble [Ptr JNIEnv, jobject, jclass, jmethodID, ConstPtr jvalue],
     Slot ''CallNonvirtualVoidMethod'' C_void_t [Ptr JNIEnv, jobject, jclass, jmethodID, Varargs],
     Slot ''CallNonvirtualVoidMethodV'' C_void_t [Ptr JNIEnv, jobject, jclass, jmethodID, va_list],
     Slot ''CallNonvirtualVoidMethodA'' C_void_t [Ptr JNIEnv, jobject, jclass, jmethodID, ConstPtr jvalue]]"

definition slots_fields :: "slot list" where
  "slots_fields =
    [Slot ''GetFieldID'' jfieldID [Ptr JNIEnv, jclass, ConstPtr C_char_t, ConstPtr C_char_t],
     Slot ''GetObjectField'' jobject [Ptr JNIEnv, jobject, jfieldID],
     Slot ''GetBooleanField'' jboolean [Ptr JNIEnv, jobject, jfieldID],
     Slot ''GetByteField'' jbyte [Ptr JNIEnv, jobject, jfieldID],
     Slot ''GetCharField'' jchar [Ptr JNIEnv, jobject, jfieldID],
     Slot ''GetShortField'' jshort [Ptr JNIEnv, jobject, jfieldID],
     Slot ''GetIntField'' jint [Ptr JNIEnv, jobject, jfieldID],
     Slot ''GetLongField'' jlong [Ptr JNIEnv, jobject, jfieldID],
     Slot ''GetFloatField'' jfloat [Ptr JNIEnv, jobject, jfieldID],
     Slot ''GetDoubleField'' jdouble [Ptr JNIEnv, jobject, jfieldID],
     Slot ''SetObjectField'' C_void_t [Ptr JNIEnv, jobject, jfieldID, jobject],
     Slot ''SetBooleanField'' C_void_t [Ptr JNIEnv, jobject, jfieldID, jboolean],
     Slot ''SetByteField'' C_void_t [Ptr JNIEnv, jobject, jfieldID, jbyte],
     Slot ''SetCharField'' C_void_t [Ptr JNIEnv, jobject, jfieldID, jchar],
     Slot ''SetShortField'' C_void_t [Ptr JNIEnv, jobject, jfieldID, jshort],
     Slot ''SetIntField'' C_void_t [Ptr JNIEnv, jobject, jfieldID, jint],
     Slot ''SetLongField'' C_void_t [Ptr JNIEnv, jobject, jfieldID, jlong],
     Slot ''SetFloatField'' C_void_t [Ptr JNIEnv, jobject, jfieldID, jfloat],
     Slot ''SetDoubleField'' C_void_t [Ptr JNIEnv, jobject, jfieldID, jdouble]]"

definition slots_static_methods :: "slot list" where
  "slots_static_methods =
    [Slot ''GetStaticMethodID'' jmethodID [Ptr JNIEnv, jclass, ConstPtr C_char_t, ConstPtr C_char_t],
     Slot ''CallStaticObjectMethod'' jobject [Ptr JNIEnv, jclass, jmethodID, Varargs],
     Slot ''CallStaticObjectMethodV'' jobject [Ptr JNIEnv, jclass, jmethodID, va_list],
     Slot ''CallStaticObjectMethodA'' jobject [Ptr JNIEnv, jclass, jmethodID, ConstPtr jvalue],
     Slot ''CallStaticBooleanMethod'' jboolean [Ptr JNIEnv, jclass, jmethodID, Varargs],
     Slot ''CallStaticBooleanMethodV'' jboolean [Ptr JNIEnv, jclass, jmethodID, va_list],
     Slot ''CallStaticBooleanMethodA'' jboolean [Ptr JNIEnv, jclass, jmethodID, ConstPtr jvalue],
     Slot ''CallStaticByteMethod'' jbyte [Ptr JNIEnv, jclass, jmethodID, Varargs],
     Slot ''CallStaticByteMethodV'' jbyte [Ptr JNIEnv, jclass, jmethodID, va_list],
     Slot ''CallStaticByteMethodA'' jbyte [Ptr JNIEnv, jclass, jmethodID, ConstPtr jvalue],
     Slot ''CallStaticCharMethod'' jchar [Ptr JNIEnv, jclass, jmethodID, Varargs],
     Slot ''CallStaticCharMethodV'' jchar [Ptr JNIEnv, jclass, jmethodID, va_list],
     Slot ''CallStaticCharMethodA'' jchar [Ptr JNIEnv, jclass, jmethodID, ConstPtr jvalue],
     Slot ''CallStaticShortMethod'' jshort [Ptr JNIEnv, jclass, jmethodID, Varargs],
     Slot ''CallStaticShortMethodV'' jshort [Ptr JNIEnv, jclass, jmethodID, va_list],
     Slot ''CallStaticShortMethodA'' jshort [Ptr JNIEnv, jclass, jmethodID, ConstPtr jvalue],
     Slot ''CallStaticIntMethod'' jint [Ptr JNIEnv, jclass, jmethodID, Varargs],
     Slot ''CallStaticIntMethodV'' jint [Ptr JNIEnv, jclass, jmethodID, va_list],
     Slot ''CallStaticIntMethodA'' jint [Ptr JNIEnv, jclass, jmethodID, ConstPtr jvalue],
     Slot ''CallStaticLongMethod'' jlong [Ptr JNIEnv, jclass, jmethodID, Varargs],
     Slot ''CallStaticLongMethodV'' jlong [Ptr JNIEnv, jclass, jmethodID, va_list],
     Slot ''CallStaticLongMethodA'' jlong [Ptr JNIEnv, jclass, jmethodID, ConstPtr jvalue],
     Slot ''CallStaticFloatMethod'' jfloat [Ptr JNIEnv, jclass, jmethodID, Varargs],
     Slot ''CallStaticFloatMethodV'' jfloat [Ptr JNIEnv, jclass, jmethodID, va_list],
     Slot ''CallStaticFloatMethodA'' jfloat [Ptr JNIEnv, jclass, jmethodID, ConstPtr jvalue],
     Slot ''CallStaticDoubleMethod'' jdouble [Ptr JNIEnv, jclass, jmethodID, Varargs],
     Slot ''CallStaticDoubleMethodV'' jdouble [Ptr JNIEnv, jclass, jmethodID, va_list],
     Slot ''CallStaticDoubleMethodA'' jdouble [Ptr JNIEnv, jclass, jmethodID, ConstPtr jvalue],
     Slot ''CallStaticVoidMethod'' C_void_t [Ptr JNIEnv, jclass, jmethodID, Varargs],
     Slot ''CallStaticVoidMethodV'' C_void_t [Ptr JNIEnv, jclass, jmethodID, va_list],
     Slot ''CallStaticVoidMethodA'' C_void_t [Ptr JNIEnv, jclass, jmethodID, ConstPtr jvalue]]"

definition slots_static_fields :: "slot list" where
  "slots_static_fields =
    [Slot ''GetStaticFieldID'' jfieldID [Ptr JNIEnv, jclass, ConstPtr C_char_t, ConstPtr C_char_t],
     Slot ''GetStaticObjectField'' jobject [Ptr JNIEnv, jclass, jfieldID],
     Slot ''GetStaticBooleanField'' jboolean [Ptr JNIEnv, jclass, jfieldID],
     Slot ''GetStaticByteField'' jbyte [Ptr JNIEnv, jclass, jfieldID],
     Slot ''GetStaticCharField'' jchar [Ptr JNIEnv, jclass, jfieldID],
     Slot ''GetStaticShortField'' jshort [Ptr JNIEnv, jclass, jfieldID],
     Slot ''GetStaticIntField'' jint [Ptr JNIEnv, jclass, jfieldID],
     Slot ''GetStaticLongField'' jlong [Ptr JNIEnv, jclass, jfieldID],
     Slot ''GetStaticFloatField'' jfloat [Ptr JNIEnv, jclass, jfieldID],
     Slot ''GetStaticDoubleField'' jdouble [Ptr JNIEnv, jclass, jfieldID],
     Slot ''SetStaticObjectField'' C_void_t [Ptr JNIEnv, jclass, jfieldID, jobject],
     Slot ''SetStaticBooleanField'' C_void_t [Ptr JNIEnv, jclass, jfieldID, jboolean],
     Slot ''SetStaticByteField'' C_void_t [Ptr JNIEnv, jclass, jfieldID, jbyte],
     Slot ''SetStaticCharField'' C_void_t [Ptr JNIEnv, jclass, jfieldID, jchar],
     Slot ''SetStaticShortField'' C_void_t [Ptr JNIEnv, jclass, jfieldID, jshort],
     Slot ''SetStaticIntField'' C_void_t [Ptr JNIEnv, jclass, jfieldID, jint],
     Slot ''SetStaticLongField'' C_void_t [Ptr JNIEnv, jclass, jfieldID, jlong],
     Slot ''SetStaticFloatField'' C_void_t [Ptr JNIEnv, jclass, jfieldID, jfloat],
     Slot ''SetStaticDoubleField'' C_void_t [Ptr JNIEnv, jclass, jfieldID, jdouble]]"

definition slots_strings_arrays :: "slot list" where
  "slots_strings_arrays =
    [Slot ''NewString'' jstring [Ptr JNIEnv, ConstPtr jchar, jsize],
     Slot ''GetStringLength'' jsize [Ptr JNIEnv, jstring],
     Slot ''GetStringChars'' (ConstPtr jchar) [Ptr JNIEnv, jstring, Ptr jboolean],
     Slot ''ReleaseStringChars'' C_void_t [Ptr JNIEnv, jstring, ConstPtr jchar],
     Slot ''NewStringUTF'' jstring [Ptr JNIEnv, ConstPtr C_char_t],
     Slot ''GetStringUTFLength'' jsize [Ptr JNIEnv, jstring],
     Slot ''GetStringUTFChars'' (ConstPtr C_char_t) [Ptr JNIEnv, jstring, Ptr jboolean],
     Slot ''ReleaseStringUTFChars'' C_void_t [Ptr JNIEnv, jstring, ConstPtr C_char_t],
     Slot ''GetArrayLength'' jsize [Ptr JNIEnv, jarray],
     Slot ''NewObjectArray'' jobjectArray [Ptr JNIEnv, jsize, jclass, jobject],
     Slot ''GetObjectArrayElement'' jobject [Ptr JNIEnv, jobjectArray, jsize],
     Slot ''SetObjectArrayElement'' C_void_t [Ptr JNIEnv, jobjectArray, jsize, jobject],
     Slot ''NewBooleanArray'' jbooleanArray [Ptr JNIEnv, jsize],
     Slot ''NewByteArray'' jbyteArray [Ptr JNIEnv, jsize],
     Slot ''NewCharArray'' jcharArray [Ptr JNIEnv, jsize],
     Slot ''NewShortArray'' jshortArray [Ptr JNIEnv, jsize],
     Slot ''NewIntArray'' jintArray [Ptr JNIEnv, jsize],
     Slot ''NewLongArray'' jlongArray [Ptr JNIEnv, jsize],
     Slot ''NewFloatArray'' jfloatArray [Ptr JNIEnv, jsize],
     Slot ''NewDoubleArray'' jdoubleArray [Ptr JNIEnv, jsize],
     Slot ''GetBooleanArrayElements'' (Ptr jboolean) [Ptr JNIEnv, jbooleanArray, Ptr jboolean],
     Slot ''GetByteArrayElements'' (Ptr jbyte) [Ptr JNIEnv, jbyteArray, Ptr jboolean],
     Slot ''GetCharArrayElements'' (Ptr jchar) [Ptr JNIEnv, jcharArray, Ptr jboolean],
     Slot ''GetShortArrayElements'' (Ptr jshort) [Ptr JNIEnv, jshortArray, Ptr jboolean],
     Slot ''GetIntArrayElements'' (Ptr jint) [Ptr JNIEnv, jintArray, Ptr jboolean],
     Slot ''GetLongArrayElements'' (Ptr jlong) [Ptr JNIEnv, jlongArray, Ptr jboolean],
     Slot ''GetFloatArrayElements'' (Ptr jfloat) [Ptr JNIEnv, jfloatArray, Ptr jboolean],
     Slot ''GetDoubleArrayElements'' (Ptr jdouble) [Ptr JNIEnv, jdoubleArray, Ptr jboolean],
     Slot ''ReleaseBooleanArrayElements'' C_void_t [Ptr JNIEnv, jbooleanArray, Ptr jboolean, jint],
     Slot ''ReleaseByteArrayElements'' C_void_t [Ptr JNIEnv, jbyteArray, Ptr jbyte, jint],
     Slot ''ReleaseCharArrayElements'' C_void_t [Ptr JNIEnv, jcharArray, Ptr jchar, jint],
     Slot ''ReleaseShortArrayElements'' C_void_t [Ptr JNIEnv, jshortArray, Ptr jshort, jint],
     Slot ''ReleaseIntArrayElements'' C_void_t [Ptr JNIEnv, jintArray, Ptr jint, jint],
     Slot ''ReleaseLongArrayElements'' C_void_t [Ptr JNIEnv, jlongArray, Ptr jlong, jint],
     Slot ''ReleaseFloatArrayElements'' C_void_t [Ptr JNIEnv, jfloatArray, Ptr jfloat, jint],
     Slot ''ReleaseDoubleArrayElements'' C_void_t [Ptr JNIEnv, jdoubleArray, Ptr jdouble, jint],
     Slot ''GetBooleanArrayRegion'' C_void_t [Ptr JNIEnv, jbooleanArray, jsize, jsize, Ptr jboolean],
     Slot ''GetByteArrayRegion'' C_void_t [Ptr JNIEnv, jbyteArray, jsize, jsize, Ptr jbyte],
     Slot ''GetCharArrayRegion'' C_void_t [Ptr JNIEnv, jcharArray, jsize, jsize, Ptr jchar],
     Slot ''GetShortArrayRegion'' C_void_t [Ptr JNIEnv, jshortArray, jsize, jsize, Ptr jshort],
     Slot ''GetIntArrayRegion'' C_void_t [Ptr JNIEnv, jintArray, jsize, jsize, Ptr jint],
     Slot ''GetLongArrayRegion'' C_void_t [Ptr JNIEnv, jlongArray, jsize, jsize, Ptr jlong],
     Slot ''GetFloatArrayRegion'' C_void_t [Ptr JNIEnv, jfloatArray, jsize, jsize, Ptr jfloat],
     Slot ''GetDoubleArrayRegion'' C_void_t [Ptr JNIEnv, jdoubleArray, jsize, jsize, Ptr jdouble],
     Slot ''SetBooleanArrayRegion'' C_void_t [Ptr JNIEnv, jbooleanArray, jsize, jsize, ConstPtr jboolean],
     Slot ''SetByteArrayRegion'' C_void_t [Ptr JNIEnv, jbyteArray, jsize, jsize, ConstPtr jbyte],
     Slot ''SetCharArrayRegion'' C_void_t [Ptr JNIEnv, jcharArray, jsize, jsize, ConstPtr jchar],
     Slot ''SetShortArrayRegion'' C_void_t [Ptr JNIEnv, jshortArray, jsize, jsize, ConstPtr jshort],
     Slot ''SetIntArrayRegion'' C_void_t [Ptr JNIEnv, jintArray, jsize, jsize, ConstPtr jint],
     Slot ''SetLongArrayRegion'' C_void_t [Ptr JNIEnv, jlongArray, jsize, jsize, ConstPtr jlong],
     Slot ''SetFloatArrayRegion'' C_void_t [Ptr JNIEnv, jfloatArray, jsize, jsize, ConstPtr jfloat],
     Slot ''SetDoubleArrayRegion'' C_void_t [Ptr JNIEnv, jdoubleArray, jsize, jsize, ConstPtr jdouble]]"

definition slots_natives :: "slot list" where
  "slots_natives =
    [Slot ''RegisterNatives'' jint [Ptr JNIEnv, jclass, ConstPtr JNINativeMethod, jint],
     Slot ''UnregisterNatives'' jint [Ptr JNIEnv, jclass],
     Slot ''MonitorEnter'' jint [Ptr JNIEnv, jobject],
     Slot ''MonitorExit'' jint [Ptr JNIEnv, jobject],
     Slot ''GetJavaVM'' jint [Ptr JNIEnv, Ptr (Ptr JavaVM)],
     Slot ''GetStringRegion'' C_void_t [Ptr JNIEnv, jstring, jsize, jsize, Ptr jchar],
     Slot ''GetStringUTFRegion'' C_void_t [Ptr JNIEnv, jstring, jsize, jsize, Ptr C_char_t],
     Slot ''GetPrimitiveArrayCritical'' (Ptr C_void_t) [Ptr JNIEnv, jarray, Ptr jboolean],
     Slot ''ReleasePrimitiveArrayCritical'' C_void_t [Ptr JNIEnv, jarray, Ptr C_void_t, jint],
     Slot ''GetStringCritical'' (ConstPtr jchar) [Ptr JNIEnv, jstring, Ptr jboolean],
     Slot ''ReleaseStringCritical'' C_void_t [Ptr JNIEnv, jstring, ConstPtr jchar],
     Slot ''NewWeakGlobalRef'' jweak [Ptr JNIEnv, jobject],
     Slot ''DeleteWeakGlobalRef'' C_void_t [Ptr JNIEnv, jweak],
     Slot ''ExceptionCheck'' jboolean [Ptr JNIEnv],
     Slot ''NewDirectByteBuffer'' jobject [Ptr JNIEnv, Ptr C_void_t, jlong],
     Slot ''GetDirectBufferAddress'' (Ptr C_void_t) [Ptr JNIEnv, jobject],
     Slot ''GetDirectBufferCapacity'' jlong [Ptr JNIEnv, jobject]]"

definition JNINativeInterface :: "slot list" where
  "JNINativeInterface = slots_basic @ slots_virtual @ slots_nonvirtual @ slots_fields @ slots_static_methods @
     slots_static_fields @ slots_strings_arrays @ slots_natives"

text \<open>The functions of a table: its slots without the reserved ones.\<close>

fun slot_functions :: "slot list \<Rightarrow> (string \<times> jni_type \<times> jni_type list) list" where
  "slot_functions [] = []"
| "slot_functions (Reserved n # ss) = slot_functions ss"
| "slot_functions (Slot n r ps # ss) = (n, r, ps) # slot_functions ss"

lemma slot_functions_append: "slot_functions (ss @ ts) = slot_functions ss @ slot_functions ts"
  by (induction ss rule: slot_functions.induct) simp_all

end
