(* ===== verification/Jni_Inline.thy ===== *)
theory Jni_Inline
  imports Jni_Interface
begin

text \<open>
  The inline member functions of \<open>JNIEnv_\<close> in \<open>jni.h\<close>, which let C++ write \<open>env->f(x)\<close> for \<open>(*env)->f(env, x)\<close>,
  with their parameters and the call in their bodies. Functions with an ellipsis collect the
  remaining arguments with \<open>va_start\<close> and call the \<open>V\<close> variant of the slot.
\<close>

section \<open>The functions\<close>

text \<open>
  \<open>Inline n r ps t as\<close>: result \<open>r\<close>, named parameters \<open>ps\<close>, body \<open>functions->t(as)\<close>. \<open>Variadic n r ps l t as\<close>: the same
  behind \<open>va_start(args, l)\<close>, with an ellipsis after \<open>ps\<close>.
\<close>

datatype wrapper =
    Inline string jni_type "(jni_type \<times> string) list" string "string list"
  | Variadic string jni_type "(jni_type \<times> string) list" string string "string list"

definition inline_basic :: "wrapper list" where
  "inline_basic =
    [Inline ''GetVersion'' jint []
        ''GetVersion'' [''this''],
     Inline ''DefineClass'' jclass [(ConstPtr C_char_t, ''name''), (jobject, ''loader''), (ConstPtr jbyte, ''buf''), (jsize, ''len'')]
        ''DefineClass'' [''this'', ''name'', ''loader'', ''buf'', ''len''],
     Inline ''FindClass'' jclass [(ConstPtr C_char_t, ''name'')]
        ''FindClass'' [''this'', ''name''],
     Inline ''FromReflectedMethod'' jmethodID [(jobject, ''method'')]
        ''FromReflectedMethod'' [''this'', ''method''],
     Inline ''FromReflectedField'' jfieldID [(jobject, ''field'')]
        ''FromReflectedField'' [''this'', ''field''],
     Inline ''ToReflectedMethod'' jobject [(jclass, ''cls''), (jmethodID, ''methodID''), (jboolean, ''isStatic'')]
        ''ToReflectedMethod'' [''this'', ''cls'', ''methodID'', ''isStatic''],
     Inline ''GetSuperclass'' jclass [(jclass, ''sub'')]
        ''GetSuperclass'' [''this'', ''sub''],
     Inline ''IsAssignableFrom'' jboolean [(jclass, ''sub''), (jclass, ''sup'')]
        ''IsAssignableFrom'' [''this'', ''sub'', ''sup''],
     Inline ''ToReflectedField'' jobject [(jclass, ''cls''), (jfieldID, ''fieldID''), (jboolean, ''isStatic'')]
        ''ToReflectedField'' [''this'', ''cls'', ''fieldID'', ''isStatic''],
     Inline ''Throw'' jint [(jthrowable, ''obj'')]
        ''Throw'' [''this'', ''obj''],
     Inline ''ThrowNew'' jint [(jclass, ''clazz''), (ConstPtr C_char_t, ''msg'')]
        ''ThrowNew'' [''this'', ''clazz'', ''msg''],
     Inline ''ExceptionOccurred'' jthrowable []
        ''ExceptionOccurred'' [''this''],
     Inline ''ExceptionDescribe'' C_void_t []
        ''ExceptionDescribe'' [''this''],
     Inline ''ExceptionClear'' C_void_t []
        ''ExceptionClear'' [''this''],
     Inline ''FatalError'' C_void_t [(ConstPtr C_char_t, ''msg'')]
        ''FatalError'' [''this'', ''msg''],
     Inline ''PushLocalFrame'' jint [(jint, ''capacity'')]
        ''PushLocalFrame'' [''this'', ''capacity''],
     Inline ''PopLocalFrame'' jobject [(jobject, ''result'')]
        ''PopLocalFrame'' [''this'', ''result''],
     Inline ''NewGlobalRef'' jobject [(jobject, ''lobj'')]
        ''NewGlobalRef'' [''this'', ''lobj''],
     Inline ''DeleteGlobalRef'' C_void_t [(jobject, ''gref'')]
        ''DeleteGlobalRef'' [''this'', ''gref''],
     Inline ''DeleteLocalRef'' C_void_t [(jobject, ''obj'')]
        ''DeleteLocalRef'' [''this'', ''obj''],
     Inline ''IsSameObject'' jboolean [(jobject, ''obj1''), (jobject, ''obj2'')]
        ''IsSameObject'' [''this'', ''obj1'', ''obj2''],
     Inline ''NewLocalRef'' jobject [(jobject, ''ref'')]
        ''NewLocalRef'' [''this'', ''ref''],
     Inline ''EnsureLocalCapacity'' jint [(jint, ''capacity'')]
        ''EnsureLocalCapacity'' [''this'', ''capacity''],
     Inline ''AllocObject'' jobject [(jclass, ''clazz'')]
        ''AllocObject'' [''this'', ''clazz''],
     Variadic ''NewObject'' jobject [(jclass, ''clazz''), (jmethodID, ''methodID'')]
        ''methodID'' ''NewObjectV'' [''this'', ''clazz'', ''methodID'', ''args''],
     Inline ''NewObjectV'' jobject [(jclass, ''clazz''), (jmethodID, ''methodID''), (va_list, ''args'')]
        ''NewObjectV'' [''this'', ''clazz'', ''methodID'', ''args''],
     Inline ''NewObjectA'' jobject [(jclass, ''clazz''), (jmethodID, ''methodID''), (ConstPtr jvalue, ''args'')]
        ''NewObjectA'' [''this'', ''clazz'', ''methodID'', ''args''],
     Inline ''GetObjectClass'' jclass [(jobject, ''obj'')]
        ''GetObjectClass'' [''this'', ''obj''],
     Inline ''IsInstanceOf'' jboolean [(jobject, ''obj''), (jclass, ''clazz'')]
        ''IsInstanceOf'' [''this'', ''obj'', ''clazz'']]"

definition inline_virtual_1 :: "wrapper list" where
  "inline_virtual_1 =
    [Inline ''GetMethodID'' jmethodID [(jclass, ''clazz''), (ConstPtr C_char_t, ''name''), (ConstPtr C_char_t, ''sig'')]
        ''GetMethodID'' [''this'', ''clazz'', ''name'', ''sig''],
     Variadic ''CallObjectMethod'' jobject [(jobject, ''obj''), (jmethodID, ''methodID'')]
        ''methodID'' ''CallObjectMethodV'' [''this'', ''obj'', ''methodID'', ''args''],
     Inline ''CallObjectMethodV'' jobject [(jobject, ''obj''), (jmethodID, ''methodID''), (va_list, ''args'')]
        ''CallObjectMethodV'' [''this'', ''obj'', ''methodID'', ''args''],
     Inline ''CallObjectMethodA'' jobject [(jobject, ''obj''), (jmethodID, ''methodID''), (ConstPtr jvalue, ''args'')]
        ''CallObjectMethodA'' [''this'', ''obj'', ''methodID'', ''args''],
     Variadic ''CallBooleanMethod'' jboolean [(jobject, ''obj''), (jmethodID, ''methodID'')]
        ''methodID'' ''CallBooleanMethodV'' [''this'', ''obj'', ''methodID'', ''args''],
     Inline ''CallBooleanMethodV'' jboolean [(jobject, ''obj''), (jmethodID, ''methodID''), (va_list, ''args'')]
        ''CallBooleanMethodV'' [''this'', ''obj'', ''methodID'', ''args''],
     Inline ''CallBooleanMethodA'' jboolean [(jobject, ''obj''), (jmethodID, ''methodID''), (ConstPtr jvalue, ''args'')]
        ''CallBooleanMethodA'' [''this'', ''obj'', ''methodID'', ''args''],
     Variadic ''CallByteMethod'' jbyte [(jobject, ''obj''), (jmethodID, ''methodID'')]
        ''methodID'' ''CallByteMethodV'' [''this'', ''obj'', ''methodID'', ''args''],
     Inline ''CallByteMethodV'' jbyte [(jobject, ''obj''), (jmethodID, ''methodID''), (va_list, ''args'')]
        ''CallByteMethodV'' [''this'', ''obj'', ''methodID'', ''args''],
     Inline ''CallByteMethodA'' jbyte [(jobject, ''obj''), (jmethodID, ''methodID''), (ConstPtr jvalue, ''args'')]
        ''CallByteMethodA'' [''this'', ''obj'', ''methodID'', ''args''],
     Variadic ''CallCharMethod'' jchar [(jobject, ''obj''), (jmethodID, ''methodID'')]
        ''methodID'' ''CallCharMethodV'' [''this'', ''obj'', ''methodID'', ''args''],
     Inline ''CallCharMethodV'' jchar [(jobject, ''obj''), (jmethodID, ''methodID''), (va_list, ''args'')]
        ''CallCharMethodV'' [''this'', ''obj'', ''methodID'', ''args''],
     Inline ''CallCharMethodA'' jchar [(jobject, ''obj''), (jmethodID, ''methodID''), (ConstPtr jvalue, ''args'')]
        ''CallCharMethodA'' [''this'', ''obj'', ''methodID'', ''args''],
     Variadic ''CallShortMethod'' jshort [(jobject, ''obj''), (jmethodID, ''methodID'')]
        ''methodID'' ''CallShortMethodV'' [''this'', ''obj'', ''methodID'', ''args''],
     Inline ''CallShortMethodV'' jshort [(jobject, ''obj''), (jmethodID, ''methodID''), (va_list, ''args'')]
        ''CallShortMethodV'' [''this'', ''obj'', ''methodID'', ''args''],
     Inline ''CallShortMethodA'' jshort [(jobject, ''obj''), (jmethodID, ''methodID''), (ConstPtr jvalue, ''args'')]
        ''CallShortMethodA'' [''this'', ''obj'', ''methodID'', ''args'']]"

definition inline_virtual_2 :: "wrapper list" where
  "inline_virtual_2 =
    [Variadic ''CallIntMethod'' jint [(jobject, ''obj''), (jmethodID, ''methodID'')]
        ''methodID'' ''CallIntMethodV'' [''this'', ''obj'', ''methodID'', ''args''],
     Inline ''CallIntMethodV'' jint [(jobject, ''obj''), (jmethodID, ''methodID''), (va_list, ''args'')]
        ''CallIntMethodV'' [''this'', ''obj'', ''methodID'', ''args''],
     Inline ''CallIntMethodA'' jint [(jobject, ''obj''), (jmethodID, ''methodID''), (ConstPtr jvalue, ''args'')]
        ''CallIntMethodA'' [''this'', ''obj'', ''methodID'', ''args''],
     Variadic ''CallLongMethod'' jlong [(jobject, ''obj''), (jmethodID, ''methodID'')]
        ''methodID'' ''CallLongMethodV'' [''this'', ''obj'', ''methodID'', ''args''],
     Inline ''CallLongMethodV'' jlong [(jobject, ''obj''), (jmethodID, ''methodID''), (va_list, ''args'')]
        ''CallLongMethodV'' [''this'', ''obj'', ''methodID'', ''args''],
     Inline ''CallLongMethodA'' jlong [(jobject, ''obj''), (jmethodID, ''methodID''), (ConstPtr jvalue, ''args'')]
        ''CallLongMethodA'' [''this'', ''obj'', ''methodID'', ''args''],
     Variadic ''CallFloatMethod'' jfloat [(jobject, ''obj''), (jmethodID, ''methodID'')]
        ''methodID'' ''CallFloatMethodV'' [''this'', ''obj'', ''methodID'', ''args''],
     Inline ''CallFloatMethodV'' jfloat [(jobject, ''obj''), (jmethodID, ''methodID''), (va_list, ''args'')]
        ''CallFloatMethodV'' [''this'', ''obj'', ''methodID'', ''args''],
     Inline ''CallFloatMethodA'' jfloat [(jobject, ''obj''), (jmethodID, ''methodID''), (ConstPtr jvalue, ''args'')]
        ''CallFloatMethodA'' [''this'', ''obj'', ''methodID'', ''args''],
     Variadic ''CallDoubleMethod'' jdouble [(jobject, ''obj''), (jmethodID, ''methodID'')]
        ''methodID'' ''CallDoubleMethodV'' [''this'', ''obj'', ''methodID'', ''args''],
     Inline ''CallDoubleMethodV'' jdouble [(jobject, ''obj''), (jmethodID, ''methodID''), (va_list, ''args'')]
        ''CallDoubleMethodV'' [''this'', ''obj'', ''methodID'', ''args''],
     Inline ''CallDoubleMethodA'' jdouble [(jobject, ''obj''), (jmethodID, ''methodID''), (ConstPtr jvalue, ''args'')]
        ''CallDoubleMethodA'' [''this'', ''obj'', ''methodID'', ''args''],
     Variadic ''CallVoidMethod'' C_void_t [(jobject, ''obj''), (jmethodID, ''methodID'')]
        ''methodID'' ''CallVoidMethodV'' [''this'', ''obj'', ''methodID'', ''args''],
     Inline ''CallVoidMethodV'' C_void_t [(jobject, ''obj''), (jmethodID, ''methodID''), (va_list, ''args'')]
        ''CallVoidMethodV'' [''this'', ''obj'', ''methodID'', ''args''],
     Inline ''CallVoidMethodA'' C_void_t [(jobject, ''obj''), (jmethodID, ''methodID''), (ConstPtr jvalue, ''args'')]
        ''CallVoidMethodA'' [''this'', ''obj'', ''methodID'', ''args'']]"

definition inline_nonvirtual_1 :: "wrapper list" where
  "inline_nonvirtual_1 =
    [Variadic ''CallNonvirtualObjectMethod'' jobject [(jobject, ''obj''), (jclass, ''clazz''), (jmethodID, ''methodID'')]
        ''methodID'' ''CallNonvirtualObjectMethodV'' [''this'', ''obj'', ''clazz'', ''methodID'', ''args''],
     Inline ''CallNonvirtualObjectMethodV'' jobject [(jobject, ''obj''), (jclass, ''clazz''), (jmethodID, ''methodID''), (va_list, ''args'')]
        ''CallNonvirtualObjectMethodV'' [''this'', ''obj'', ''clazz'', ''methodID'', ''args''],
     Inline ''CallNonvirtualObjectMethodA'' jobject [(jobject, ''obj''), (jclass, ''clazz''), (jmethodID, ''methodID''), (ConstPtr jvalue, ''args'')]
        ''CallNonvirtualObjectMethodA'' [''this'', ''obj'', ''clazz'', ''methodID'', ''args''],
     Variadic ''CallNonvirtualBooleanMethod'' jboolean [(jobject, ''obj''), (jclass, ''clazz''), (jmethodID, ''methodID'')]
        ''methodID'' ''CallNonvirtualBooleanMethodV'' [''this'', ''obj'', ''clazz'', ''methodID'', ''args''],
     Inline ''CallNonvirtualBooleanMethodV'' jboolean [(jobject, ''obj''), (jclass, ''clazz''), (jmethodID, ''methodID''), (va_list, ''args'')]
        ''CallNonvirtualBooleanMethodV'' [''this'', ''obj'', ''clazz'', ''methodID'', ''args''],
     Inline ''CallNonvirtualBooleanMethodA'' jboolean [(jobject, ''obj''), (jclass, ''clazz''), (jmethodID, ''methodID''), (ConstPtr jvalue, ''args'')]
        ''CallNonvirtualBooleanMethodA'' [''this'', ''obj'', ''clazz'', ''methodID'', ''args''],
     Variadic ''CallNonvirtualByteMethod'' jbyte [(jobject, ''obj''), (jclass, ''clazz''), (jmethodID, ''methodID'')]
        ''methodID'' ''CallNonvirtualByteMethodV'' [''this'', ''obj'', ''clazz'', ''methodID'', ''args''],
     Inline ''CallNonvirtualByteMethodV'' jbyte [(jobject, ''obj''), (jclass, ''clazz''), (jmethodID, ''methodID''), (va_list, ''args'')]
        ''CallNonvirtualByteMethodV'' [''this'', ''obj'', ''clazz'', ''methodID'', ''args''],
     Inline ''CallNonvirtualByteMethodA'' jbyte [(jobject, ''obj''), (jclass, ''clazz''), (jmethodID, ''methodID''), (ConstPtr jvalue, ''args'')]
        ''CallNonvirtualByteMethodA'' [''this'', ''obj'', ''clazz'', ''methodID'', ''args''],
     Variadic ''CallNonvirtualCharMethod'' jchar [(jobject, ''obj''), (jclass, ''clazz''), (jmethodID, ''methodID'')]
        ''methodID'' ''CallNonvirtualCharMethodV'' [''this'', ''obj'', ''clazz'', ''methodID'', ''args''],
     Inline ''CallNonvirtualCharMethodV'' jchar [(jobject, ''obj''), (jclass, ''clazz''), (jmethodID, ''methodID''), (va_list, ''args'')]
        ''CallNonvirtualCharMethodV'' [''this'', ''obj'', ''clazz'', ''methodID'', ''args''],
     Inline ''CallNonvirtualCharMethodA'' jchar [(jobject, ''obj''), (jclass, ''clazz''), (jmethodID, ''methodID''), (ConstPtr jvalue, ''args'')]
        ''CallNonvirtualCharMethodA'' [''this'', ''obj'', ''clazz'', ''methodID'', ''args''],
     Variadic ''CallNonvirtualShortMethod'' jshort [(jobject, ''obj''), (jclass, ''clazz''), (jmethodID, ''methodID'')]
        ''methodID'' ''CallNonvirtualShortMethodV'' [''this'', ''obj'', ''clazz'', ''methodID'', ''args''],
     Inline ''CallNonvirtualShortMethodV'' jshort [(jobject, ''obj''), (jclass, ''clazz''), (jmethodID, ''methodID''), (va_list, ''args'')]
        ''CallNonvirtualShortMethodV'' [''this'', ''obj'', ''clazz'', ''methodID'', ''args''],
     Inline ''CallNonvirtualShortMethodA'' jshort [(jobject, ''obj''), (jclass, ''clazz''), (jmethodID, ''methodID''), (ConstPtr jvalue, ''args'')]
        ''CallNonvirtualShortMethodA'' [''this'', ''obj'', ''clazz'', ''methodID'', ''args'']]"

definition inline_nonvirtual_2 :: "wrapper list" where
  "inline_nonvirtual_2 =
    [Variadic ''CallNonvirtualIntMethod'' jint [(jobject, ''obj''), (jclass, ''clazz''), (jmethodID, ''methodID'')]
        ''methodID'' ''CallNonvirtualIntMethodV'' [''this'', ''obj'', ''clazz'', ''methodID'', ''args''],
     Inline ''CallNonvirtualIntMethodV'' jint [(jobject, ''obj''), (jclass, ''clazz''), (jmethodID, ''methodID''), (va_list, ''args'')]
        ''CallNonvirtualIntMethodV'' [''this'', ''obj'', ''clazz'', ''methodID'', ''args''],
     Inline ''CallNonvirtualIntMethodA'' jint [(jobject, ''obj''), (jclass, ''clazz''), (jmethodID, ''methodID''), (ConstPtr jvalue, ''args'')]
        ''CallNonvirtualIntMethodA'' [''this'', ''obj'', ''clazz'', ''methodID'', ''args''],
     Variadic ''CallNonvirtualLongMethod'' jlong [(jobject, ''obj''), (jclass, ''clazz''), (jmethodID, ''methodID'')]
        ''methodID'' ''CallNonvirtualLongMethodV'' [''this'', ''obj'', ''clazz'', ''methodID'', ''args''],
     Inline ''CallNonvirtualLongMethodV'' jlong [(jobject, ''obj''), (jclass, ''clazz''), (jmethodID, ''methodID''), (va_list, ''args'')]
        ''CallNonvirtualLongMethodV'' [''this'', ''obj'', ''clazz'', ''methodID'', ''args''],
     Inline ''CallNonvirtualLongMethodA'' jlong [(jobject, ''obj''), (jclass, ''clazz''), (jmethodID, ''methodID''), (ConstPtr jvalue, ''args'')]
        ''CallNonvirtualLongMethodA'' [''this'', ''obj'', ''clazz'', ''methodID'', ''args''],
     Variadic ''CallNonvirtualFloatMethod'' jfloat [(jobject, ''obj''), (jclass, ''clazz''), (jmethodID, ''methodID'')]
        ''methodID'' ''CallNonvirtualFloatMethodV'' [''this'', ''obj'', ''clazz'', ''methodID'', ''args''],
     Inline ''CallNonvirtualFloatMethodV'' jfloat [(jobject, ''obj''), (jclass, ''clazz''), (jmethodID, ''methodID''), (va_list, ''args'')]
        ''CallNonvirtualFloatMethodV'' [''this'', ''obj'', ''clazz'', ''methodID'', ''args''],
     Inline ''CallNonvirtualFloatMethodA'' jfloat [(jobject, ''obj''), (jclass, ''clazz''), (jmethodID, ''methodID''), (ConstPtr jvalue, ''args'')]
        ''CallNonvirtualFloatMethodA'' [''this'', ''obj'', ''clazz'', ''methodID'', ''args''],
     Variadic ''CallNonvirtualDoubleMethod'' jdouble [(jobject, ''obj''), (jclass, ''clazz''), (jmethodID, ''methodID'')]
        ''methodID'' ''CallNonvirtualDoubleMethodV'' [''this'', ''obj'', ''clazz'', ''methodID'', ''args''],
     Inline ''CallNonvirtualDoubleMethodV'' jdouble [(jobject, ''obj''), (jclass, ''clazz''), (jmethodID, ''methodID''), (va_list, ''args'')]
        ''CallNonvirtualDoubleMethodV'' [''this'', ''obj'', ''clazz'', ''methodID'', ''args''],
     Inline ''CallNonvirtualDoubleMethodA'' jdouble [(jobject, ''obj''), (jclass, ''clazz''), (jmethodID, ''methodID''), (ConstPtr jvalue, ''args'')]
        ''CallNonvirtualDoubleMethodA'' [''this'', ''obj'', ''clazz'', ''methodID'', ''args''],
     Variadic ''CallNonvirtualVoidMethod'' C_void_t [(jobject, ''obj''), (jclass, ''clazz''), (jmethodID, ''methodID'')]
        ''methodID'' ''CallNonvirtualVoidMethodV'' [''this'', ''obj'', ''clazz'', ''methodID'', ''args''],
     Inline ''CallNonvirtualVoidMethodV'' C_void_t [(jobject, ''obj''), (jclass, ''clazz''), (jmethodID, ''methodID''), (va_list, ''args'')]
        ''CallNonvirtualVoidMethodV'' [''this'', ''obj'', ''clazz'', ''methodID'', ''args''],
     Inline ''CallNonvirtualVoidMethodA'' C_void_t [(jobject, ''obj''), (jclass, ''clazz''), (jmethodID, ''methodID''), (ConstPtr jvalue, ''args'')]
        ''CallNonvirtualVoidMethodA'' [''this'', ''obj'', ''clazz'', ''methodID'', ''args'']]"

definition inline_fields :: "wrapper list" where
  "inline_fields =
    [Inline ''GetFieldID'' jfieldID [(jclass, ''clazz''), (ConstPtr C_char_t, ''name''), (ConstPtr C_char_t, ''sig'')]
        ''GetFieldID'' [''this'', ''clazz'', ''name'', ''sig''],
     Inline ''GetObjectField'' jobject [(jobject, ''obj''), (jfieldID, ''fieldID'')]
        ''GetObjectField'' [''this'', ''obj'', ''fieldID''],
     Inline ''GetBooleanField'' jboolean [(jobject, ''obj''), (jfieldID, ''fieldID'')]
        ''GetBooleanField'' [''this'', ''obj'', ''fieldID''],
     Inline ''GetByteField'' jbyte [(jobject, ''obj''), (jfieldID, ''fieldID'')]
        ''GetByteField'' [''this'', ''obj'', ''fieldID''],
     Inline ''GetCharField'' jchar [(jobject, ''obj''), (jfieldID, ''fieldID'')]
        ''GetCharField'' [''this'', ''obj'', ''fieldID''],
     Inline ''GetShortField'' jshort [(jobject, ''obj''), (jfieldID, ''fieldID'')]
        ''GetShortField'' [''this'', ''obj'', ''fieldID''],
     Inline ''GetIntField'' jint [(jobject, ''obj''), (jfieldID, ''fieldID'')]
        ''GetIntField'' [''this'', ''obj'', ''fieldID''],
     Inline ''GetLongField'' jlong [(jobject, ''obj''), (jfieldID, ''fieldID'')]
        ''GetLongField'' [''this'', ''obj'', ''fieldID''],
     Inline ''GetFloatField'' jfloat [(jobject, ''obj''), (jfieldID, ''fieldID'')]
        ''GetFloatField'' [''this'', ''obj'', ''fieldID''],
     Inline ''GetDoubleField'' jdouble [(jobject, ''obj''), (jfieldID, ''fieldID'')]
        ''GetDoubleField'' [''this'', ''obj'', ''fieldID''],
     Inline ''SetObjectField'' C_void_t [(jobject, ''obj''), (jfieldID, ''fieldID''), (jobject, ''val'')]
        ''SetObjectField'' [''this'', ''obj'', ''fieldID'', ''val''],
     Inline ''SetBooleanField'' C_void_t [(jobject, ''obj''), (jfieldID, ''fieldID''), (jboolean, ''val'')]
        ''SetBooleanField'' [''this'', ''obj'', ''fieldID'', ''val''],
     Inline ''SetByteField'' C_void_t [(jobject, ''obj''), (jfieldID, ''fieldID''), (jbyte, ''val'')]
        ''SetByteField'' [''this'', ''obj'', ''fieldID'', ''val''],
     Inline ''SetCharField'' C_void_t [(jobject, ''obj''), (jfieldID, ''fieldID''), (jchar, ''val'')]
        ''SetCharField'' [''this'', ''obj'', ''fieldID'', ''val''],
     Inline ''SetShortField'' C_void_t [(jobject, ''obj''), (jfieldID, ''fieldID''), (jshort, ''val'')]
        ''SetShortField'' [''this'', ''obj'', ''fieldID'', ''val''],
     Inline ''SetIntField'' C_void_t [(jobject, ''obj''), (jfieldID, ''fieldID''), (jint, ''val'')]
        ''SetIntField'' [''this'', ''obj'', ''fieldID'', ''val''],
     Inline ''SetLongField'' C_void_t [(jobject, ''obj''), (jfieldID, ''fieldID''), (jlong, ''val'')]
        ''SetLongField'' [''this'', ''obj'', ''fieldID'', ''val''],
     Inline ''SetFloatField'' C_void_t [(jobject, ''obj''), (jfieldID, ''fieldID''), (jfloat, ''val'')]
        ''SetFloatField'' [''this'', ''obj'', ''fieldID'', ''val''],
     Inline ''SetDoubleField'' C_void_t [(jobject, ''obj''), (jfieldID, ''fieldID''), (jdouble, ''val'')]
        ''SetDoubleField'' [''this'', ''obj'', ''fieldID'', ''val'']]"

definition inline_static_methods_1 :: "wrapper list" where
  "inline_static_methods_1 =
    [Inline ''GetStaticMethodID'' jmethodID [(jclass, ''clazz''), (ConstPtr C_char_t, ''name''), (ConstPtr C_char_t, ''sig'')]
        ''GetStaticMethodID'' [''this'', ''clazz'', ''name'', ''sig''],
     Variadic ''CallStaticObjectMethod'' jobject [(jclass, ''clazz''), (jmethodID, ''methodID'')]
        ''methodID'' ''CallStaticObjectMethodV'' [''this'', ''clazz'', ''methodID'', ''args''],
     Inline ''CallStaticObjectMethodV'' jobject [(jclass, ''clazz''), (jmethodID, ''methodID''), (va_list, ''args'')]
        ''CallStaticObjectMethodV'' [''this'', ''clazz'', ''methodID'', ''args''],
     Inline ''CallStaticObjectMethodA'' jobject [(jclass, ''clazz''), (jmethodID, ''methodID''), (ConstPtr jvalue, ''args'')]
        ''CallStaticObjectMethodA'' [''this'', ''clazz'', ''methodID'', ''args''],
     Variadic ''CallStaticBooleanMethod'' jboolean [(jclass, ''clazz''), (jmethodID, ''methodID'')]
        ''methodID'' ''CallStaticBooleanMethodV'' [''this'', ''clazz'', ''methodID'', ''args''],
     Inline ''CallStaticBooleanMethodV'' jboolean [(jclass, ''clazz''), (jmethodID, ''methodID''), (va_list, ''args'')]
        ''CallStaticBooleanMethodV'' [''this'', ''clazz'', ''methodID'', ''args''],
     Inline ''CallStaticBooleanMethodA'' jboolean [(jclass, ''clazz''), (jmethodID, ''methodID''), (ConstPtr jvalue, ''args'')]
        ''CallStaticBooleanMethodA'' [''this'', ''clazz'', ''methodID'', ''args''],
     Variadic ''CallStaticByteMethod'' jbyte [(jclass, ''clazz''), (jmethodID, ''methodID'')]
        ''methodID'' ''CallStaticByteMethodV'' [''this'', ''clazz'', ''methodID'', ''args''],
     Inline ''CallStaticByteMethodV'' jbyte [(jclass, ''clazz''), (jmethodID, ''methodID''), (va_list, ''args'')]
        ''CallStaticByteMethodV'' [''this'', ''clazz'', ''methodID'', ''args''],
     Inline ''CallStaticByteMethodA'' jbyte [(jclass, ''clazz''), (jmethodID, ''methodID''), (ConstPtr jvalue, ''args'')]
        ''CallStaticByteMethodA'' [''this'', ''clazz'', ''methodID'', ''args''],
     Variadic ''CallStaticCharMethod'' jchar [(jclass, ''clazz''), (jmethodID, ''methodID'')]
        ''methodID'' ''CallStaticCharMethodV'' [''this'', ''clazz'', ''methodID'', ''args''],
     Inline ''CallStaticCharMethodV'' jchar [(jclass, ''clazz''), (jmethodID, ''methodID''), (va_list, ''args'')]
        ''CallStaticCharMethodV'' [''this'', ''clazz'', ''methodID'', ''args''],
     Inline ''CallStaticCharMethodA'' jchar [(jclass, ''clazz''), (jmethodID, ''methodID''), (ConstPtr jvalue, ''args'')]
        ''CallStaticCharMethodA'' [''this'', ''clazz'', ''methodID'', ''args''],
     Variadic ''CallStaticShortMethod'' jshort [(jclass, ''clazz''), (jmethodID, ''methodID'')]
        ''methodID'' ''CallStaticShortMethodV'' [''this'', ''clazz'', ''methodID'', ''args''],
     Inline ''CallStaticShortMethodV'' jshort [(jclass, ''clazz''), (jmethodID, ''methodID''), (va_list, ''args'')]
        ''CallStaticShortMethodV'' [''this'', ''clazz'', ''methodID'', ''args''],
     Inline ''CallStaticShortMethodA'' jshort [(jclass, ''clazz''), (jmethodID, ''methodID''), (ConstPtr jvalue, ''args'')]
        ''CallStaticShortMethodA'' [''this'', ''clazz'', ''methodID'', ''args'']]"

definition inline_static_methods_2 :: "wrapper list" where
  "inline_static_methods_2 =
    [Variadic ''CallStaticIntMethod'' jint [(jclass, ''clazz''), (jmethodID, ''methodID'')]
        ''methodID'' ''CallStaticIntMethodV'' [''this'', ''clazz'', ''methodID'', ''args''],
     Inline ''CallStaticIntMethodV'' jint [(jclass, ''clazz''), (jmethodID, ''methodID''), (va_list, ''args'')]
        ''CallStaticIntMethodV'' [''this'', ''clazz'', ''methodID'', ''args''],
     Inline ''CallStaticIntMethodA'' jint [(jclass, ''clazz''), (jmethodID, ''methodID''), (ConstPtr jvalue, ''args'')]
        ''CallStaticIntMethodA'' [''this'', ''clazz'', ''methodID'', ''args''],
     Variadic ''CallStaticLongMethod'' jlong [(jclass, ''clazz''), (jmethodID, ''methodID'')]
        ''methodID'' ''CallStaticLongMethodV'' [''this'', ''clazz'', ''methodID'', ''args''],
     Inline ''CallStaticLongMethodV'' jlong [(jclass, ''clazz''), (jmethodID, ''methodID''), (va_list, ''args'')]
        ''CallStaticLongMethodV'' [''this'', ''clazz'', ''methodID'', ''args''],
     Inline ''CallStaticLongMethodA'' jlong [(jclass, ''clazz''), (jmethodID, ''methodID''), (ConstPtr jvalue, ''args'')]
        ''CallStaticLongMethodA'' [''this'', ''clazz'', ''methodID'', ''args''],
     Variadic ''CallStaticFloatMethod'' jfloat [(jclass, ''clazz''), (jmethodID, ''methodID'')]
        ''methodID'' ''CallStaticFloatMethodV'' [''this'', ''clazz'', ''methodID'', ''args''],
     Inline ''CallStaticFloatMethodV'' jfloat [(jclass, ''clazz''), (jmethodID, ''methodID''), (va_list, ''args'')]
        ''CallStaticFloatMethodV'' [''this'', ''clazz'', ''methodID'', ''args''],
     Inline ''CallStaticFloatMethodA'' jfloat [(jclass, ''clazz''), (jmethodID, ''methodID''), (ConstPtr jvalue, ''args'')]
        ''CallStaticFloatMethodA'' [''this'', ''clazz'', ''methodID'', ''args''],
     Variadic ''CallStaticDoubleMethod'' jdouble [(jclass, ''clazz''), (jmethodID, ''methodID'')]
        ''methodID'' ''CallStaticDoubleMethodV'' [''this'', ''clazz'', ''methodID'', ''args''],
     Inline ''CallStaticDoubleMethodV'' jdouble [(jclass, ''clazz''), (jmethodID, ''methodID''), (va_list, ''args'')]
        ''CallStaticDoubleMethodV'' [''this'', ''clazz'', ''methodID'', ''args''],
     Inline ''CallStaticDoubleMethodA'' jdouble [(jclass, ''clazz''), (jmethodID, ''methodID''), (ConstPtr jvalue, ''args'')]
        ''CallStaticDoubleMethodA'' [''this'', ''clazz'', ''methodID'', ''args''],
     Variadic ''CallStaticVoidMethod'' C_void_t [(jclass, ''cls''), (jmethodID, ''methodID'')]
        ''methodID'' ''CallStaticVoidMethodV'' [''this'', ''cls'', ''methodID'', ''args''],
     Inline ''CallStaticVoidMethodV'' C_void_t [(jclass, ''cls''), (jmethodID, ''methodID''), (va_list, ''args'')]
        ''CallStaticVoidMethodV'' [''this'', ''cls'', ''methodID'', ''args''],
     Inline ''CallStaticVoidMethodA'' C_void_t [(jclass, ''cls''), (jmethodID, ''methodID''), (ConstPtr jvalue, ''args'')]
        ''CallStaticVoidMethodA'' [''this'', ''cls'', ''methodID'', ''args'']]"

definition inline_static_fields :: "wrapper list" where
  "inline_static_fields =
    [Inline ''GetStaticFieldID'' jfieldID [(jclass, ''clazz''), (ConstPtr C_char_t, ''name''), (ConstPtr C_char_t, ''sig'')]
        ''GetStaticFieldID'' [''this'', ''clazz'', ''name'', ''sig''],
     Inline ''GetStaticObjectField'' jobject [(jclass, ''clazz''), (jfieldID, ''fieldID'')]
        ''GetStaticObjectField'' [''this'', ''clazz'', ''fieldID''],
     Inline ''GetStaticBooleanField'' jboolean [(jclass, ''clazz''), (jfieldID, ''fieldID'')]
        ''GetStaticBooleanField'' [''this'', ''clazz'', ''fieldID''],
     Inline ''GetStaticByteField'' jbyte [(jclass, ''clazz''), (jfieldID, ''fieldID'')]
        ''GetStaticByteField'' [''this'', ''clazz'', ''fieldID''],
     Inline ''GetStaticCharField'' jchar [(jclass, ''clazz''), (jfieldID, ''fieldID'')]
        ''GetStaticCharField'' [''this'', ''clazz'', ''fieldID''],
     Inline ''GetStaticShortField'' jshort [(jclass, ''clazz''), (jfieldID, ''fieldID'')]
        ''GetStaticShortField'' [''this'', ''clazz'', ''fieldID''],
     Inline ''GetStaticIntField'' jint [(jclass, ''clazz''), (jfieldID, ''fieldID'')]
        ''GetStaticIntField'' [''this'', ''clazz'', ''fieldID''],
     Inline ''GetStaticLongField'' jlong [(jclass, ''clazz''), (jfieldID, ''fieldID'')]
        ''GetStaticLongField'' [''this'', ''clazz'', ''fieldID''],
     Inline ''GetStaticFloatField'' jfloat [(jclass, ''clazz''), (jfieldID, ''fieldID'')]
        ''GetStaticFloatField'' [''this'', ''clazz'', ''fieldID''],
     Inline ''GetStaticDoubleField'' jdouble [(jclass, ''clazz''), (jfieldID, ''fieldID'')]
        ''GetStaticDoubleField'' [''this'', ''clazz'', ''fieldID''],
     Inline ''SetStaticObjectField'' C_void_t [(jclass, ''clazz''), (jfieldID, ''fieldID''), (jobject, ''value'')]
        ''SetStaticObjectField'' [''this'', ''clazz'', ''fieldID'', ''value''],
     Inline ''SetStaticBooleanField'' C_void_t [(jclass, ''clazz''), (jfieldID, ''fieldID''), (jboolean, ''value'')]
        ''SetStaticBooleanField'' [''this'', ''clazz'', ''fieldID'', ''value''],
     Inline ''SetStaticByteField'' C_void_t [(jclass, ''clazz''), (jfieldID, ''fieldID''), (jbyte, ''value'')]
        ''SetStaticByteField'' [''this'', ''clazz'', ''fieldID'', ''value''],
     Inline ''SetStaticCharField'' C_void_t [(jclass, ''clazz''), (jfieldID, ''fieldID''), (jchar, ''value'')]
        ''SetStaticCharField'' [''this'', ''clazz'', ''fieldID'', ''value''],
     Inline ''SetStaticShortField'' C_void_t [(jclass, ''clazz''), (jfieldID, ''fieldID''), (jshort, ''value'')]
        ''SetStaticShortField'' [''this'', ''clazz'', ''fieldID'', ''value''],
     Inline ''SetStaticIntField'' C_void_t [(jclass, ''clazz''), (jfieldID, ''fieldID''), (jint, ''value'')]
        ''SetStaticIntField'' [''this'', ''clazz'', ''fieldID'', ''value''],
     Inline ''SetStaticLongField'' C_void_t [(jclass, ''clazz''), (jfieldID, ''fieldID''), (jlong, ''value'')]
        ''SetStaticLongField'' [''this'', ''clazz'', ''fieldID'', ''value''],
     Inline ''SetStaticFloatField'' C_void_t [(jclass, ''clazz''), (jfieldID, ''fieldID''), (jfloat, ''value'')]
        ''SetStaticFloatField'' [''this'', ''clazz'', ''fieldID'', ''value''],
     Inline ''SetStaticDoubleField'' C_void_t [(jclass, ''clazz''), (jfieldID, ''fieldID''), (jdouble, ''value'')]
        ''SetStaticDoubleField'' [''this'', ''clazz'', ''fieldID'', ''value'']]"

definition inline_strings_arrays_1 :: "wrapper list" where
  "inline_strings_arrays_1 =
    [Inline ''NewString'' jstring [(ConstPtr jchar, ''unicode''), (jsize, ''len'')]
        ''NewString'' [''this'', ''unicode'', ''len''],
     Inline ''GetStringLength'' jsize [(jstring, ''str'')]
        ''GetStringLength'' [''this'', ''str''],
     Inline ''GetStringChars'' (ConstPtr jchar) [(jstring, ''str''), (Ptr jboolean, ''isCopy'')]
        ''GetStringChars'' [''this'', ''str'', ''isCopy''],
     Inline ''ReleaseStringChars'' C_void_t [(jstring, ''str''), (ConstPtr jchar, ''chars'')]
        ''ReleaseStringChars'' [''this'', ''str'', ''chars''],
     Inline ''NewStringUTF'' jstring [(ConstPtr C_char_t, ''utf'')]
        ''NewStringUTF'' [''this'', ''utf''],
     Inline ''GetStringUTFLength'' jsize [(jstring, ''str'')]
        ''GetStringUTFLength'' [''this'', ''str''],
     Inline ''GetStringUTFChars'' (ConstPtr C_char_t) [(jstring, ''str''), (Ptr jboolean, ''isCopy'')]
        ''GetStringUTFChars'' [''this'', ''str'', ''isCopy''],
     Inline ''ReleaseStringUTFChars'' C_void_t [(jstring, ''str''), (ConstPtr C_char_t, ''chars'')]
        ''ReleaseStringUTFChars'' [''this'', ''str'', ''chars''],
     Inline ''GetArrayLength'' jsize [(jarray, ''array'')]
        ''GetArrayLength'' [''this'', ''array''],
     Inline ''NewObjectArray'' jobjectArray [(jsize, ''len''), (jclass, ''clazz''), (jobject, ''init'')]
        ''NewObjectArray'' [''this'', ''len'', ''clazz'', ''init''],
     Inline ''GetObjectArrayElement'' jobject [(jobjectArray, ''array''), (jsize, ''index'')]
        ''GetObjectArrayElement'' [''this'', ''array'', ''index''],
     Inline ''SetObjectArrayElement'' C_void_t [(jobjectArray, ''array''), (jsize, ''index''), (jobject, ''val'')]
        ''SetObjectArrayElement'' [''this'', ''array'', ''index'', ''val''],
     Inline ''NewBooleanArray'' jbooleanArray [(jsize, ''len'')]
        ''NewBooleanArray'' [''this'', ''len''],
     Inline ''NewByteArray'' jbyteArray [(jsize, ''len'')]
        ''NewByteArray'' [''this'', ''len''],
     Inline ''NewCharArray'' jcharArray [(jsize, ''len'')]
        ''NewCharArray'' [''this'', ''len''],
     Inline ''NewShortArray'' jshortArray [(jsize, ''len'')]
        ''NewShortArray'' [''this'', ''len''],
     Inline ''NewIntArray'' jintArray [(jsize, ''len'')]
        ''NewIntArray'' [''this'', ''len''],
     Inline ''NewLongArray'' jlongArray [(jsize, ''len'')]
        ''NewLongArray'' [''this'', ''len''],
     Inline ''NewFloatArray'' jfloatArray [(jsize, ''len'')]
        ''NewFloatArray'' [''this'', ''len''],
     Inline ''NewDoubleArray'' jdoubleArray [(jsize, ''len'')]
        ''NewDoubleArray'' [''this'', ''len''],
     Inline ''GetBooleanArrayElements'' (Ptr jboolean) [(jbooleanArray, ''array''), (Ptr jboolean, ''isCopy'')]
        ''GetBooleanArrayElements'' [''this'', ''array'', ''isCopy''],
     Inline ''GetByteArrayElements'' (Ptr jbyte) [(jbyteArray, ''array''), (Ptr jboolean, ''isCopy'')]
        ''GetByteArrayElements'' [''this'', ''array'', ''isCopy''],
     Inline ''GetCharArrayElements'' (Ptr jchar) [(jcharArray, ''array''), (Ptr jboolean, ''isCopy'')]
        ''GetCharArrayElements'' [''this'', ''array'', ''isCopy''],
     Inline ''GetShortArrayElements'' (Ptr jshort) [(jshortArray, ''array''), (Ptr jboolean, ''isCopy'')]
        ''GetShortArrayElements'' [''this'', ''array'', ''isCopy''],
     Inline ''GetIntArrayElements'' (Ptr jint) [(jintArray, ''array''), (Ptr jboolean, ''isCopy'')]
        ''GetIntArrayElements'' [''this'', ''array'', ''isCopy''],
     Inline ''GetLongArrayElements'' (Ptr jlong) [(jlongArray, ''array''), (Ptr jboolean, ''isCopy'')]
        ''GetLongArrayElements'' [''this'', ''array'', ''isCopy'']]"

definition inline_strings_arrays_2 :: "wrapper list" where
  "inline_strings_arrays_2 =
    [Inline ''GetFloatArrayElements'' (Ptr jfloat) [(jfloatArray, ''array''), (Ptr jboolean, ''isCopy'')]
        ''GetFloatArrayElements'' [''this'', ''array'', ''isCopy''],
     Inline ''GetDoubleArrayElements'' (Ptr jdouble) [(jdoubleArray, ''array''), (Ptr jboolean, ''isCopy'')]
        ''GetDoubleArrayElements'' [''this'', ''array'', ''isCopy''],
     Inline ''ReleaseBooleanArrayElements'' C_void_t [(jbooleanArray, ''array''), (Ptr jboolean, ''elems''), (jint, ''mode'')]
        ''ReleaseBooleanArrayElements'' [''this'', ''array'', ''elems'', ''mode''],
     Inline ''ReleaseByteArrayElements'' C_void_t [(jbyteArray, ''array''), (Ptr jbyte, ''elems''), (jint, ''mode'')]
        ''ReleaseByteArrayElements'' [''this'', ''array'', ''elems'', ''mode''],
     Inline ''ReleaseCharArrayElements'' C_void_t [(jcharArray, ''array''), (Ptr jchar, ''elems''), (jint, ''mode'')]
        ''ReleaseCharArrayElements'' [''this'', ''array'', ''elems'', ''mode''],
     Inline ''ReleaseShortArrayElements'' C_void_t [(jshortArray, ''array''), (Ptr jshort, ''elems''), (jint, ''mode'')]
        ''ReleaseShortArrayElements'' [''this'', ''array'', ''elems'', ''mode''],
     Inline ''ReleaseIntArrayElements'' C_void_t [(jintArray, ''array''), (Ptr jint, ''elems''), (jint, ''mode'')]
        ''ReleaseIntArrayElements'' [''this'', ''array'', ''elems'', ''mode''],
     Inline ''ReleaseLongArrayElements'' C_void_t [(jlongArray, ''array''), (Ptr jlong, ''elems''), (jint, ''mode'')]
        ''ReleaseLongArrayElements'' [''this'', ''array'', ''elems'', ''mode''],
     Inline ''ReleaseFloatArrayElements'' C_void_t [(jfloatArray, ''array''), (Ptr jfloat, ''elems''), (jint, ''mode'')]
        ''ReleaseFloatArrayElements'' [''this'', ''array'', ''elems'', ''mode''],
     Inline ''ReleaseDoubleArrayElements'' C_void_t [(jdoubleArray, ''array''), (Ptr jdouble, ''elems''), (jint, ''mode'')]
        ''ReleaseDoubleArrayElements'' [''this'', ''array'', ''elems'', ''mode''],
     Inline ''GetBooleanArrayRegion'' C_void_t [(jbooleanArray, ''array''), (jsize, ''start''), (jsize, ''len''), (Ptr jboolean, ''buf'')]
        ''GetBooleanArrayRegion'' [''this'', ''array'', ''start'', ''len'', ''buf''],
     Inline ''GetByteArrayRegion'' C_void_t [(jbyteArray, ''array''), (jsize, ''start''), (jsize, ''len''), (Ptr jbyte, ''buf'')]
        ''GetByteArrayRegion'' [''this'', ''array'', ''start'', ''len'', ''buf''],
     Inline ''GetCharArrayRegion'' C_void_t [(jcharArray, ''array''), (jsize, ''start''), (jsize, ''len''), (Ptr jchar, ''buf'')]
        ''GetCharArrayRegion'' [''this'', ''array'', ''start'', ''len'', ''buf''],
     Inline ''GetShortArrayRegion'' C_void_t [(jshortArray, ''array''), (jsize, ''start''), (jsize, ''len''), (Ptr jshort, ''buf'')]
        ''GetShortArrayRegion'' [''this'', ''array'', ''start'', ''len'', ''buf''],
     Inline ''GetIntArrayRegion'' C_void_t [(jintArray, ''array''), (jsize, ''start''), (jsize, ''len''), (Ptr jint, ''buf'')]
        ''GetIntArrayRegion'' [''this'', ''array'', ''start'', ''len'', ''buf''],
     Inline ''GetLongArrayRegion'' C_void_t [(jlongArray, ''array''), (jsize, ''start''), (jsize, ''len''), (Ptr jlong, ''buf'')]
        ''GetLongArrayRegion'' [''this'', ''array'', ''start'', ''len'', ''buf''],
     Inline ''GetFloatArrayRegion'' C_void_t [(jfloatArray, ''array''), (jsize, ''start''), (jsize, ''len''), (Ptr jfloat, ''buf'')]
        ''GetFloatArrayRegion'' [''this'', ''array'', ''start'', ''len'', ''buf''],
     Inline ''GetDoubleArrayRegion'' C_void_t [(jdoubleArray, ''array''), (jsize, ''start''), (jsize, ''len''), (Ptr jdouble, ''buf'')]
        ''GetDoubleArrayRegion'' [''this'', ''array'', ''start'', ''len'', ''buf''],
     Inline ''SetBooleanArrayRegion'' C_void_t [(jbooleanArray, ''array''), (jsize, ''start''), (jsize, ''len''), (ConstPtr jboolean, ''buf'')]
        ''SetBooleanArrayRegion'' [''this'', ''array'', ''start'', ''len'', ''buf''],
     Inline ''SetByteArrayRegion'' C_void_t [(jbyteArray, ''array''), (jsize, ''start''), (jsize, ''len''), (ConstPtr jbyte, ''buf'')]
        ''SetByteArrayRegion'' [''this'', ''array'', ''start'', ''len'', ''buf''],
     Inline ''SetCharArrayRegion'' C_void_t [(jcharArray, ''array''), (jsize, ''start''), (jsize, ''len''), (ConstPtr jchar, ''buf'')]
        ''SetCharArrayRegion'' [''this'', ''array'', ''start'', ''len'', ''buf''],
     Inline ''SetShortArrayRegion'' C_void_t [(jshortArray, ''array''), (jsize, ''start''), (jsize, ''len''), (ConstPtr jshort, ''buf'')]
        ''SetShortArrayRegion'' [''this'', ''array'', ''start'', ''len'', ''buf''],
     Inline ''SetIntArrayRegion'' C_void_t [(jintArray, ''array''), (jsize, ''start''), (jsize, ''len''), (ConstPtr jint, ''buf'')]
        ''SetIntArrayRegion'' [''this'', ''array'', ''start'', ''len'', ''buf''],
     Inline ''SetLongArrayRegion'' C_void_t [(jlongArray, ''array''), (jsize, ''start''), (jsize, ''len''), (ConstPtr jlong, ''buf'')]
        ''SetLongArrayRegion'' [''this'', ''array'', ''start'', ''len'', ''buf''],
     Inline ''SetFloatArrayRegion'' C_void_t [(jfloatArray, ''array''), (jsize, ''start''), (jsize, ''len''), (ConstPtr jfloat, ''buf'')]
        ''SetFloatArrayRegion'' [''this'', ''array'', ''start'', ''len'', ''buf''],
     Inline ''SetDoubleArrayRegion'' C_void_t [(jdoubleArray, ''array''), (jsize, ''start''), (jsize, ''len''), (ConstPtr jdouble, ''buf'')]
        ''SetDoubleArrayRegion'' [''this'', ''array'', ''start'', ''len'', ''buf'']]"

definition inline_natives :: "wrapper list" where
  "inline_natives =
    [Inline ''RegisterNatives'' jint [(jclass, ''clazz''), (ConstPtr JNINativeMethod, ''methods''), (jint, ''nMethods'')]
        ''RegisterNatives'' [''this'', ''clazz'', ''methods'', ''nMethods''],
     Inline ''UnregisterNatives'' jint [(jclass, ''clazz'')]
        ''UnregisterNatives'' [''this'', ''clazz''],
     Inline ''MonitorEnter'' jint [(jobject, ''obj'')]
        ''MonitorEnter'' [''this'', ''obj''],
     Inline ''MonitorExit'' jint [(jobject, ''obj'')]
        ''MonitorExit'' [''this'', ''obj''],
     Inline ''GetJavaVM'' jint [(Ptr (Ptr JavaVM), ''vm'')]
        ''GetJavaVM'' [''this'', ''vm''],
     Inline ''GetStringRegion'' C_void_t [(jstring, ''str''), (jsize, ''start''), (jsize, ''len''), (Ptr jchar, ''buf'')]
        ''GetStringRegion'' [''this'', ''str'', ''start'', ''len'', ''buf''],
     Inline ''GetStringUTFRegion'' C_void_t [(jstring, ''str''), (jsize, ''start''), (jsize, ''len''), (Ptr C_char_t, ''buf'')]
        ''GetStringUTFRegion'' [''this'', ''str'', ''start'', ''len'', ''buf''],
     Inline ''GetPrimitiveArrayCritical'' (Ptr C_void_t) [(jarray, ''array''), (Ptr jboolean, ''isCopy'')]
        ''GetPrimitiveArrayCritical'' [''this'', ''array'', ''isCopy''],
     Inline ''ReleasePrimitiveArrayCritical'' C_void_t [(jarray, ''array''), (Ptr C_void_t, ''carray''), (jint, ''mode'')]
        ''ReleasePrimitiveArrayCritical'' [''this'', ''array'', ''carray'', ''mode''],
     Inline ''GetStringCritical'' (ConstPtr jchar) [(jstring, ''string''), (Ptr jboolean, ''isCopy'')]
        ''GetStringCritical'' [''this'', ''string'', ''isCopy''],
     Inline ''ReleaseStringCritical'' C_void_t [(jstring, ''string''), (ConstPtr jchar, ''cstring'')]
        ''ReleaseStringCritical'' [''this'', ''string'', ''cstring''],
     Inline ''NewWeakGlobalRef'' jweak [(jobject, ''obj'')]
        ''NewWeakGlobalRef'' [''this'', ''obj''],
     Inline ''DeleteWeakGlobalRef'' C_void_t [(jweak, ''ref'')]
        ''DeleteWeakGlobalRef'' [''this'', ''ref''],
     Inline ''ExceptionCheck'' jboolean []
        ''ExceptionCheck'' [''this''],
     Inline ''NewDirectByteBuffer'' jobject [(Ptr C_void_t, ''address''), (jlong, ''capacity'')]
        ''NewDirectByteBuffer'' [''this'', ''address'', ''capacity''],
     Inline ''GetDirectBufferAddress'' (Ptr C_void_t) [(jobject, ''buf'')]
        ''GetDirectBufferAddress'' [''this'', ''buf''],
     Inline ''GetDirectBufferCapacity'' jlong [(jobject, ''buf'')]
        ''GetDirectBufferCapacity'' [''this'', ''buf'']]"

definition JNIEnv_inline :: "wrapper list" where
  "JNIEnv_inline = inline_basic @ inline_virtual_1 @ inline_virtual_2 @ inline_nonvirtual_1 @ inline_nonvirtual_2 @
      inline_fields @ inline_static_methods_1 @ inline_static_methods_2 @ inline_static_fields @ inline_strings_arrays_1 @
      inline_strings_arrays_2 @ inline_natives"

section \<open>What a call does\<close>

text \<open>
  A call with the object \<open>this\<close>, the arguments \<open>vs\<close> for the named parameters and \<open>rest\<close> for the ellipsis.
  \<open>functions\<close> is the table, \<open>mk_va\<close> builds a \<open>va_list\<close>. \<open>va_start\<close> is undefined unless it names the last parameter
  before the ellipsis, and so is a body that names no parameter: both are \<open>None\<close>.
\<close>

definition bind_args :: "'v \<Rightarrow> (jni_type \<times> string) list \<Rightarrow> 'v list \<Rightarrow> (string \<times> 'v) list" where
  "bind_args this ps vs = (''this'', this) # zip (map snd ps) vs"

fun wrapper_call ::
  "(string \<Rightarrow> 'v list \<Rightarrow> 'r) \<Rightarrow> ('v list \<Rightarrow> 'v) \<Rightarrow> wrapper \<Rightarrow> 'v \<Rightarrow> 'v list \<Rightarrow> 'v list \<Rightarrow> 'r option" where
  "wrapper_call functions mk_va (Inline n r ps t as) this vs rest =
     map_option (functions t) (those (map (map_of (bind_args this ps vs)) as))"
| "wrapper_call functions mk_va (Variadic n r ps l t as) this vs rest =
     (if ps \<noteq> [] \<and> l = snd (last ps)
      then map_option (functions t) (those (map (map_of ((''args'', mk_va rest) # bind_args this ps vs)) as))
      else None)"

fun w_name :: "wrapper \<Rightarrow> string" where
  "w_name (Inline n r ps t as) = n"
| "w_name (Variadic n r ps l t as) = n"

fun w_params :: "wrapper \<Rightarrow> (jni_type \<times> string) list" where
  "w_params (Inline n r ps t as) = ps"
| "w_params (Variadic n r ps l t as) = ps"

fun variadic :: "wrapper \<Rightarrow> bool" where
  "variadic (Inline n r ps t as) = False"
| "variadic (Variadic n r ps l t as) = True"

text \<open>The slot a wrapper stands for, and the one its body has to call.\<close>

fun w_prototype :: "wrapper \<Rightarrow> string \<times> jni_type \<times> jni_type list" where
  "w_prototype (Inline n r ps t as) = (n, r, Ptr JNIEnv # map fst ps)"
| "w_prototype (Variadic n r ps l t as) = (n, r, Ptr JNIEnv # map fst ps @ [Varargs])"

fun w_callee :: "wrapper \<Rightarrow> string \<times> jni_type \<times> jni_type list" where
  "w_callee (Inline n r ps t as) = (n, r, Ptr JNIEnv # map fst ps)"
| "w_callee (Variadic n r ps l t as) = (n @ ''V'', r, Ptr JNIEnv # map fst ps @ [va_list])"

text \<open>A check of the body, parameter by parameter, and its meaning.\<close>

fun forwards :: "wrapper \<Rightarrow> bool" where
  "forwards (Inline n r ps t as) \<longleftrightarrow> t = n \<and> as = ''this'' # map snd ps \<and> distinct as"
| "forwards (Variadic n r ps l t as) \<longleftrightarrow>
     t = n @ ''V'' \<and> as = ''this'' # map snd ps @ [''args''] \<and> distinct as \<and> ps \<noteq> [] \<and> l = snd (last ps)"

lemma those_Some [simp]: "those (map Some xs) = Some xs"
  by (induction xs) simp_all

lemma map_of_zip_names:
  assumes "distinct ns" and "length vs = length ns"
  shows "map (map_of (zip ns vs)) ns = map Some vs"
  using assms by (intro nth_equalityI) (simp_all add: map_of_zip_nth)

lemma wrapper_call_forwards:
  assumes "forwards w" and "length vs = length (w_params w)"
  shows "wrapper_call functions mk_va w this vs rest =
    Some (functions (fst (w_callee w)) (this # vs @ (if variadic w then [mk_va rest] else [])))"
proof (cases w)
  case (Inline n r ps t as)
  with assms(1) have "distinct (''this'' # map snd ps)" by (metis forwards.simps(1))
  then have d: "''this'' \<notin> set (map snd ps)" "distinct (map snd ps)" "length vs = length (map snd ps)"
    using assms(2) Inline by simp_all
  have "map (map_of (bind_args this ps vs)) (map snd ps) = map (map_of (zip (map snd ps) vs)) (map snd ps)"
    by (rule map_cong) (use d(1) in \<open>force simp: bind_args_def\<close>)+
  from trans [OF this map_of_zip_names [OF d(2,3)]]
  have "map (map_of (bind_args this ps vs)) (map snd ps) = map Some vs" .
  moreover have "map_of (bind_args this ps vs) ''this'' = Some this" by (simp add: bind_args_def)
  ultimately have "map (map_of (bind_args this ps vs)) as = map Some (this # vs)"
    using assms(1) Inline by simp
  with assms(1) Inline show ?thesis by (simp del: list.map)
next
  case (Variadic n r ps l t as)
  let ?b = "(''args'', mk_va rest) # bind_args this ps vs"
  from Variadic assms(1) have "distinct (''this'' # map snd ps @ [''args''])" by (metis forwards.simps(2))
  then have d: "''this'' \<notin> set (map snd ps)" "''args'' \<notin> set (map snd ps)" "distinct (map snd ps)"
    "length vs = length (map snd ps)"
    using assms(2) Variadic by simp_all
  have "map (map_of ?b) (map snd ps) = map (map_of (zip (map snd ps) vs)) (map snd ps)"
    by (rule map_cong) (use d(1,2) in \<open>force simp: bind_args_def\<close>)+
  from trans [OF this map_of_zip_names [OF d(3,4)]] have "map (map_of ?b) (map snd ps) = map Some vs" .
  moreover have "map_of ?b ''this'' = Some this" "map_of ?b ''args'' = Some (mk_va rest)"
    by (simp_all add: bind_args_def)
  ultimately have "map (map_of ?b) as = map Some (this # vs @ [mk_va rest])"
    using assms(1) Variadic by simp
  with assms(1) Variadic show ?thesis by (simp del: list.map map_of.simps)
qed

lemma inline_forwards: "list_all forwards JNIEnv_inline"
  by code_simp

lemma inline_prototypes: "map w_prototype JNIEnv_inline = slot_functions JNINativeInterface"
  by code_simp

text \<open>The \<open>V\<close> variant is the function after the one with the ellipsis.\<close>

fun next_is_callee :: "wrapper list \<Rightarrow> bool" where
  "next_is_callee [] \<longleftrightarrow> True"
| "next_is_callee [w] \<longleftrightarrow> \<not> variadic w"
| "next_is_callee (w # v # ws) \<longleftrightarrow> (variadic w \<longrightarrow> w_callee w = w_prototype v) \<and> next_is_callee (v # ws)"

lemma variadic_before_V: "next_is_callee JNIEnv_inline"
  by code_simp

lemma w_callee_inline: "\<not> variadic w \<Longrightarrow> w_callee w = w_prototype w"
  by (cases w) simp_all

lemma callees_in_table: "next_is_callee ws \<Longrightarrow> set (map w_callee ws) \<subseteq> set (map w_prototype ws)"
proof (induction ws rule: next_is_callee.induct)
  case (3 w v ws)
  then show ?case using w_callee_inline [of w] by (cases "variadic w") auto
qed (simp_all add: w_callee_inline)

section \<open>Properties\<close>

text \<open>
  Every inline function of \<open>JNIEnv_\<close> calls the slot of its own name, or the \<open>V\<close> variant of it when it takes an
  ellipsis, with the environment, all its arguments in their order and the remaining ones as one list.
\<close>

theorem inline_functions_forward:
  assumes "w \<in> set JNIEnv_inline" and "length vs = length (w_params w)"
  shows "wrapper_call functions mk_va w this vs rest =
    Some (functions (w_name w @ (if variadic w then ''V'' else [])) (this # vs @ (if variadic w then [mk_va rest] else [])))"
proof -
  have "forwards w" using inline_forwards assms(1) by (simp add: list_all_iff)
  moreover have "fst (w_callee w) = w_name w @ (if variadic w then ''V'' else [])" by (cases w) simp_all
  ultimately show ?thesis using wrapper_call_forwards [OF _ assms(2)] by metis
qed

lemma inline_functions_forward_witness:
  "let w = Variadic ''NewObject'' jobject [(jclass, ''clazz''), (jmethodID, ''methodID'')] ''methodID'' ''NewObjectV''
        [''this'', ''clazz'', ''methodID'', ''args''] in
   wrapper_call Pair concat w [0 :: nat] [[1], [2]] [[3], [4]] =
     Some (w_name w @ (if variadic w then ''V'' else []), [0] # [[1], [2]] @ (if variadic w then [concat [[3], [4]]] else []))"
  unfolding Let_def
  by (rule inline_functions_forward) (simp_all add: JNIEnv_inline_def inline_basic_def)

text \<open>
  The inline functions are the functions of the table, one for each slot and in its order, with the
  same result and parameters; and the slot that each of them calls is in the table with the
  parameters that the call passes.
\<close>

theorem inline_functions_match_table:
  "map w_prototype JNIEnv_inline = slot_functions JNINativeInterface \<and>
   set (map w_callee JNIEnv_inline) \<subseteq> set (slot_functions JNINativeInterface)"
  using callees_in_table [OF variadic_before_V] inline_prototypes by simp

end
