(* ===== verification/Jni_Calls.thy ===== *)
theory Jni_Calls
  imports Jni_Interface "HOL-Library.Sublist"
begin

text \<open>
  The calls of the native code against the function table of \<open>jni.h\<close>: the macros of \<open>Jpcap_sub.h\<close>, the
  slots they expand to, and the slots through which the Java methods are called.
\<close>

section \<open>The macros\<close>

text \<open>
  What each macro expands to: the slot it calls and its arguments behind the environment. An argument is a
  macro parameter with the type it has where the macro is used, a literal, or a nested call.
\<close>

datatype macro_arg = Param string jni_type | Literal string jni_type | Nested string "macro_arg list"

definition jni_macros :: "(string \<times> string \<times> macro_arg list) list" where
  "jni_macros =
    [(''AllocObject'', ''AllocObject'', [Param ''cls'' jclass]),
     (''FindClass'', ''FindClass'', [Param ''cls'' (ConstPtr C_char_t)]),
     (''DeleteLocalRef'', ''DeleteLocalRef'', [Param ''ref'' jobject]),
     (''GlobalClassRef'', ''NewGlobalRef'', [Param ''cls'' jclass]),
     (''NewString'', ''NewStringUTF'', [Param ''str'' (ConstPtr C_char_t)]),
     (''GetStringChars'', ''GetStringUTFChars'', [Param ''str'' jstring, Literal ''0'' (Ptr jboolean)]),
     (''ReleaseStringChars'', ''ReleaseStringUTFChars'', [Param ''str'' jstring, Param ''ary'' (ConstPtr C_char_t)]),
     (''IsInstanceOf'', ''IsInstanceOf'', [Param ''obj'' jobject, Param ''cls'' jclass]),
     (''Throw'', ''ThrowNew'', [Param ''cls'' jclass, Param ''msg'' (ConstPtr C_char_t)]),
     (''GetIntField'', ''GetIntField'', [Param ''obj'' jobject, Nested ''GetFieldID'' [Param ''cls'' jclass,
        Param ''name'' (ConstPtr C_char_t), Literal ''I'' (ConstPtr C_char_t)]]),
     (''GetByteField'', ''GetByteField'', [Param ''obj'' jobject, Nested ''GetFieldID'' [Param ''cls'' jclass,
        Param ''name'' (ConstPtr C_char_t), Literal ''B'' (ConstPtr C_char_t)]]),
     (''GetShortField'', ''GetShortField'', [Param ''obj'' jobject, Nested ''GetFieldID'' [Param ''cls'' jclass,
        Param ''name'' (ConstPtr C_char_t), Literal ''S'' (ConstPtr C_char_t)]]),
     (''GetLongField'', ''GetLongField'', [Param ''obj'' jobject, Nested ''GetFieldID'' [Param ''cls'' jclass,
        Param ''name'' (ConstPtr C_char_t), Literal ''J'' (ConstPtr C_char_t)]]),
     (''GetBooleanField'', ''GetBooleanField'', [Param ''obj'' jobject, Nested ''GetFieldID'' [Param ''cls'' jclass,
        Param ''name'' (ConstPtr C_char_t), Literal ''Z'' (ConstPtr C_char_t)]]),
     (''GetObjectField'', ''GetObjectField'', [Param ''obj'' jobject, Nested ''GetFieldID'' [Param ''cls'' jclass,
        Param ''name'' (ConstPtr C_char_t), Param ''type'' (ConstPtr C_char_t)]]),
     (''GetStaticObjectField'', ''GetStaticObjectField'', [Param ''cls'' jclass, Nested ''GetStaticFieldID''
        [Param ''cls'' jclass, Param ''name'' (ConstPtr C_char_t), Param ''type'' (ConstPtr C_char_t)]]),
     (''YIELD'', ''CallStaticVoidMethod'', [Param ''Thread'' jclass, Nested ''GetStaticMethodID''
        [Param ''Thread'' jclass, Literal ''yield'' (ConstPtr C_char_t), Literal ''()V'' (ConstPtr C_char_t)]])]"

text \<open>
  The typing of an expansion against a table of functions: the slot is there and takes the arguments,
  and a nested call has the type the outer one wants. An argument of a derived class fits a parameter of
  its base class; an ellipsis takes any further arguments.
\<close>

type_synonym prototypes = "(string \<times> jni_type \<times> jni_type list) list"

fun derives :: "nat \<Rightarrow> jni_type \<Rightarrow> jni_type \<Rightarrow> bool" where
  "derives 0 a b \<longleftrightarrow> a = b"
| "derives (Suc k) a b \<longleftrightarrow> a = b \<or> (case base_class a of None \<Rightarrow> False | Some c \<Rightarrow> derives k c b)"

fun arg_fits :: "prototypes \<Rightarrow> macro_arg \<Rightarrow> jni_type \<Rightarrow> bool"
  and args_fit :: "prototypes \<Rightarrow> macro_arg list \<Rightarrow> jni_type list \<Rightarrow> bool" where
  "arg_fits tab (Param x t) p \<longleftrightarrow> derives 2 t p"
| "arg_fits tab (Literal x t) p \<longleftrightarrow> derives 2 t p"
| "arg_fits tab (Nested s as) p \<longleftrightarrow>
     list_ex (\<lambda>(n, r, ps). n = s \<and> derives 2 r p \<and> ps \<noteq> [] \<and> hd ps = Ptr JNIEnv \<and> args_fit tab as (tl ps)) tab"
| "args_fit tab [] ps \<longleftrightarrow> ps = [] \<or> ps = [Varargs]"
| "args_fit tab (a # as) ps \<longleftrightarrow>
     ps = [Varargs] \<or> ps \<noteq> [] \<and> arg_fits tab a (hd ps) \<and> args_fit tab as (tl ps)"

definition call_fits :: "prototypes \<Rightarrow> string \<Rightarrow> macro_arg list \<Rightarrow> bool" where
  "call_fits tab s as \<longleftrightarrow>
     list_ex (\<lambda>(n, r, ps). n = s \<and> ps \<noteq> [] \<and> hd ps = Ptr JNIEnv \<and> args_fit tab as (tl ps)) tab"

lemma list_ex_mono_set:
  assumes "list_ex P xs" and "set xs \<subseteq> set ys" and "\<And>x. x \<in> set xs \<Longrightarrow> P x \<Longrightarrow> Q x"
  shows "list_ex Q ys"
  using assms by (auto simp: list_ex_iff)

lemma fits_mono:
  assumes sub: "set tab \<subseteq> set tab'"
  shows "arg_fits tab a p \<Longrightarrow> arg_fits tab' a p" and "args_fit tab as ps \<Longrightarrow> args_fit tab' as ps"
  using sub
proof (induction tab a p and tab as ps rule: arg_fits_args_fit.induct)
  case (3 tab s as p)
  from 3(2) have "list_ex (\<lambda>(n, r, ps). n = s \<and> derives 2 r p \<and> ps \<noteq> [] \<and> hd ps = Ptr JNIEnv \<and> args_fit tab as (tl ps)) tab"
    by (simp only: arg_fits.simps)
  then show ?case unfolding arg_fits.simps
    by (rule list_ex_mono_set [OF _ 3(3)]) (use 3(1,3) in fastforce)
next
  case (5 tab a as ps)
  then show ?case by (simp only: args_fit.simps) blast
qed simp_all

lemma call_fits_mono:
  assumes "call_fits tab s as" and "set tab \<subseteq> set tab'"
  shows "call_fits tab' s as"
  using list_ex_mono_set [OF assms(1) [unfolded call_fits_def] assms(2)] fits_mono(2) [OF assms(2)]
  unfolding call_fits_def by (simp split: prod.splits)

text \<open>The descriptor of a result type, and the one a macro looks its field up with.\<close>

fun jni_descriptor :: "jni_type \<Rightarrow> string option" where
  "jni_descriptor jboolean = Some ''Z''"
| "jni_descriptor jbyte = Some ''B''"
| "jni_descriptor jchar = Some ''C''"
| "jni_descriptor jshort = Some ''S''"
| "jni_descriptor jint = Some ''I''"
| "jni_descriptor jlong = Some ''J''"
| "jni_descriptor jfloat = Some ''F''"
| "jni_descriptor jdouble = Some ''D''"
| "jni_descriptor t = None"

fun field_descriptor :: "macro_arg list \<Rightarrow> string option" where
  "field_descriptor [obj, Nested s [cls, name, Literal d t]] = (if s = ''GetFieldID'' then Some d else None)"
| "field_descriptor as = None"

section \<open>Calls of Java methods\<close>

text \<open>The slot through which the native code calls the method of each variable, for each codec, for the rest of
  a packet, and for the filter.\<close>

definition call_slots_tcp :: "(string \<times> string) list" where
  "call_slots_tcp =
    [(''setTCPValueMID'', ''CallVoidMethod''), (''setTCPOptionMID'', ''CallVoidMethod'')]"

definition call_slots_udp :: "(string \<times> string) list" where
  "call_slots_udp =
    [(''setUDPValueMID'', ''CallVoidMethod'')]"

definition call_slots_ip :: "(string \<times> string) list" where
  "call_slots_ip =
    [(''setIPValueMID'', ''CallVoidMethod''), (''setIPv4OptionMID'', ''CallVoidMethod''),
     (''getSourceAddressMID'', ''CallObjectMethod''), (''getDestinationAddressMID'', ''CallObjectMethod'')]"

definition call_slots_ipv6 :: "(string \<times> string) list" where
  "call_slots_ipv6 =
    [(''setIPv6ValueMID'', ''CallVoidMethod''), (''setV6OptValueMID'', ''CallVoidMethod''),
     (''setV6OptOptionMID'', ''CallVoidMethod''), (''setV6OptRoutingMID'', ''CallVoidMethod''),
     (''setV6OptFragmentMID'', ''CallVoidMethod''), (''setV6OptAHMID'', ''CallVoidMethod''),
     (''addIPv6OptHdrMID'', ''CallVoidMethod'')]"

definition call_slots_icmp :: "(string \<times> string) list" where
  "call_slots_icmp =
    [(''setICMPValueMID'', ''CallVoidMethod''), (''setICMPIDMID'', ''CallVoidMethod''),
     (''setICMPRedirectIPMID'', ''CallVoidMethod''), (''setICMPTimestampMID'', ''CallVoidMethod''),
     (''getICMPRedirectIPMID'', ''CallObjectMethod'')]"

definition call_slots_datalink :: "(string \<times> string) list" where
  "call_slots_datalink =
    [(''setEthernetValueMID'', ''CallVoidMethod''), (''setPPPOEValueMID'', ''CallVoidMethod'')]"

definition call_slots_arp :: "(string \<times> string) list" where
  "call_slots_arp =
    [(''setARPValueMID'', ''CallVoidMethod'')]"

definition call_slots_packet :: "(string \<times> string) list" where
  "call_slots_packet =
    [(''handleMID'', ''CallVoidMethod''), (''setPacketValueMID'', ''CallVoidMethod''),
     (''setDatalinkPacketMID'', ''CallVoidMethod''), (''setPacketHeaderMID'', ''CallVoidMethod''),
     (''setPacketDataMID'', ''CallVoidMethod'')]"

definition call_slots_filter :: "(string \<times> string) list" where
  "call_slots_filter =
    [(''getJpcapFilterMID'', ''CallObjectMethod''), (''getHostsMID'', ''CallObjectMethod''),
     (''getSrcHostsMID'', ''CallObjectMethod''), (''getDestHostsMID'', ''CallObjectMethod''),
     (''getPortsMID'', ''CallObjectMethod''), (''getSrcPortsMID'', ''CallObjectMethod''),
     (''getDestPortsMID'', ''CallObjectMethod''), (''compareAddressMID'', ''CallIntMethod''),
     (''comparePortMID'', ''CallIntMethod''), (''compareProtocolMID'', ''CallIntMethod''),
     (''isListEmptyMID'', ''CallIntMethod'')]"

definition call_slots :: "(string \<times> string) list" where
  "call_slots = call_slots_tcp @ call_slots_udp @ call_slots_ip @ call_slots_ipv6 @ call_slots_icmp @ call_slots_datalink @
     call_slots_arp @ call_slots_packet @ call_slots_filter"

text \<open>The C type of a Java result.\<close>

fun jni_of :: "jty \<Rightarrow> jni_type" where
  "jni_of Boolean = jboolean"
| "jni_of Byte = jbyte"
| "jni_of Char = jchar"
| "jni_of Short = jshort"
| "jni_of Integer = jint"
| "jni_of Long = jlong"
| "jni_of Void = C_void_t"
| "jni_of (Ref c) = jobject"
| "jni_of (Arr t) = jobject"

section \<open>The slots in use\<close>

text \<open>
  The functions that the macros and the calls need, in the order of the table; the checks below only look
  at these.
\<close>

definition used_slots :: prototypes where
  "used_slots =
    [(''FindClass'', jclass, [Ptr JNIEnv, ConstPtr C_char_t]),
     (''ThrowNew'', jint, [Ptr JNIEnv, jclass, ConstPtr C_char_t]),
     (''NewGlobalRef'', jobject, [Ptr JNIEnv, jobject]),
     (''DeleteLocalRef'', C_void_t, [Ptr JNIEnv, jobject]),
     (''AllocObject'', jobject, [Ptr JNIEnv, jclass]),
     (''IsInstanceOf'', jboolean, [Ptr JNIEnv, jobject, jclass]),
     (''CallObjectMethod'', jobject, [Ptr JNIEnv, jobject, jmethodID, Varargs]),
     (''CallIntMethod'', jint, [Ptr JNIEnv, jobject, jmethodID, Varargs]),
     (''CallVoidMethod'', C_void_t, [Ptr JNIEnv, jobject, jmethodID, Varargs]),
     (''GetFieldID'', jfieldID, [Ptr JNIEnv, jclass, ConstPtr C_char_t, ConstPtr C_char_t]),
     (''GetObjectField'', jobject, [Ptr JNIEnv, jobject, jfieldID]),
     (''GetBooleanField'', jboolean, [Ptr JNIEnv, jobject, jfieldID]),
     (''GetByteField'', jbyte, [Ptr JNIEnv, jobject, jfieldID]),
     (''GetShortField'', jshort, [Ptr JNIEnv, jobject, jfieldID]),
     (''GetIntField'', jint, [Ptr JNIEnv, jobject, jfieldID]),
     (''GetLongField'', jlong, [Ptr JNIEnv, jobject, jfieldID]),
     (''GetStaticMethodID'', jmethodID, [Ptr JNIEnv, jclass, ConstPtr C_char_t, ConstPtr C_char_t]),
     (''CallStaticVoidMethod'', C_void_t, [Ptr JNIEnv, jclass, jmethodID, Varargs]),
     (''GetStaticFieldID'', jfieldID, [Ptr JNIEnv, jclass, ConstPtr C_char_t, ConstPtr C_char_t]),
     (''GetStaticObjectField'', jobject, [Ptr JNIEnv, jclass, jfieldID]),
     (''NewStringUTF'', jstring, [Ptr JNIEnv, ConstPtr C_char_t]),
     (''GetStringUTFChars'', ConstPtr C_char_t, [Ptr JNIEnv, jstring, Ptr jboolean]),
     (''ReleaseStringUTFChars'', C_void_t, [Ptr JNIEnv, jstring, ConstPtr C_char_t])]"

lemma used_slots_in_table: "set used_slots \<subseteq> set (slot_functions JNINativeInterface)"
proof -
  have "subseq used_slots (slot_functions JNINativeInterface)"
    by code_simp
  then show ?thesis by (auto elim: list_emb_set)
qed

text \<open>The check of one call by way of the tables.\<close>

definition result_ok :: "string \<Rightarrow> bool" where
  "result_ok v =
     (case (method_of v, map_of call_slots v) of
        (Some mid, Some s) \<Rightarrow> (s, jni_of (mid_ret mid), [Ptr JNIEnv, jobject, jmethodID, Varargs]) \<in> set used_slots
      | _ \<Rightarrow> False)"

lemma results_ok: "list_all (\<lambda>(f, v, args). result_ok v) native_calls"
  by code_simp

section \<open>Properties\<close>

text \<open>
  Every Java method is called through the slot for its result: the function of the \<open>Call\<close> family that the
  native code uses has as its result the C type of the result that the method, found by \<open>set_Java_env\<close>, has
  in Java. The virtual machine does not check this.
\<close>

theorem native_call_results:
  assumes "(f, v, args) \<in> set native_calls"
  shows "\<exists>mid slot. method_ids (set_Java_env jpcap_program no_globals) v = Some mid \<and> map_of call_slots v = Some slot \<and>
    (slot, jni_of (mid_ret mid), [Ptr JNIEnv, jobject, jmethodID, Varargs]) \<in> set (slot_functions JNINativeInterface)"
proof -
  have "result_ok v" using results_ok assms by (auto simp: list_all_iff)
  then show ?thesis
    using method_of_resolved [OF assms] used_slots_in_table by (auto simp: result_ok_def split: option.splits)
qed

lemma native_call_results_witness:
  "\<exists>mid slot. method_ids (set_Java_env jpcap_program no_globals) ''comparePortMID'' = Some mid \<and>
    map_of call_slots ''comparePortMID'' = Some slot \<and>
    (slot, jni_of (mid_ret mid), [Ptr JNIEnv, jobject, jmethodID, Varargs]) \<in> set (slot_functions JNINativeInterface)"
  by (rule native_call_results [where f = "''jpcap_port_filter''" and args = "[JList, Short]"])
    (simp add: native_calls_def calls_captor_def)

lemma macros_checked:
  "list_all (\<lambda>(m, s, as). call_fits used_slots s as) jni_macros"
  "list_all (\<lambda>(m, s, as). case field_descriptor as of None \<Rightarrow> True
     | Some d \<Rightarrow> list_ex (\<lambda>(n, r, ps). n = s \<and> jni_descriptor r = Some d) used_slots) jni_macros"
  by code_simp+

text \<open>
  Every macro of \<open>Jpcap_sub.h\<close> expands to well-typed calls of the function table, the outer call and the
  nested lookup of a field or method; and every macro that reads a field of a primitive type looks the
  field up with the descriptor of the type it reads.
\<close>

theorem jni_macros_typed:
  assumes "(m, s, as) \<in> set jni_macros"
  shows "call_fits (slot_functions JNINativeInterface) s as \<and>
    (\<forall>d. field_descriptor as = Some d \<longrightarrow>
      (\<exists>r ps. (s, r, ps) \<in> set (slot_functions JNINativeInterface) \<and> jni_descriptor r = Some d))"
proof (intro conjI allI impI)
  have "call_fits used_slots s as" using macros_checked(1) assms by (auto simp: list_all_iff)
  then show "call_fits (slot_functions JNINativeInterface) s as"
    using used_slots_in_table by (rule call_fits_mono)
next
  fix d
  assume "field_descriptor as = Some d"
  then show "\<exists>r ps. (s, r, ps) \<in> set (slot_functions JNINativeInterface) \<and> jni_descriptor r = Some d"
    using macros_checked(2) assms used_slots_in_table by (force simp: list_all_iff list_ex_iff split: option.splits)
qed

lemma jni_macros_typed_witness:
  "let as = [Param ''obj'' jobject, Nested ''GetFieldID'' [Param ''cls'' jclass,
        Param ''name'' (ConstPtr C_char_t), Literal ''S'' (ConstPtr C_char_t)]] in
   call_fits (slot_functions JNINativeInterface) ''GetShortField'' as \<and>
    (\<forall>d. field_descriptor as = Some d \<longrightarrow>
      (\<exists>r ps. (''GetShortField'', r, ps) \<in> set (slot_functions JNINativeInterface) \<and> jni_descriptor r = Some d))"
  unfolding Let_def by (rule jni_macros_typed [where m = "''GetShortField''"]) (simp add: jni_macros_def)

end
