(* ===== verification/Jpcap_Layout.thy ===== *)
theory Jpcap_Layout
  imports Jpcap_Headers
begin

text \<open>
  The structures of the bundled \<open>include/net\<close> and \<open>include/netinet\<close> headers and of \<open>Jpcap_ether.h\<close>,
  written as C declares them, and the layout a compiler gives them: natural alignment, padding, unions
  and bit fields, with the size of a pointer and the byte order as parameters. The codecs read and write
  packets by casting pointers to these structures; the theorems at the end show that every
  offset, size and bit position of \<open>Jpcap_Headers\<close> is the one of the declared structure, on 32-bit
  and 64-bit machines, and that the structures on the wire have no padding.
\<close>

section \<open>C structure types\<close>

datatype ctype =
    Scalar nat
  | Pointer
  | Bits nat "(string \<times> nat) list"
  | Array nat ctype
  | Struct "(string \<times> ctype) list"
  | Union "(string \<times> ctype) list"

type_synonym members = "(string \<times> ctype) list"

definition align_up :: "nat \<Rightarrow> nat \<Rightarrow> nat" where
  "align_up n a = (n + a - 1) div a * a"

text \<open>Alignment and size for a pointer of \<open>w\<close> bytes; \<open>struct_end\<close> is the end of the last member.\<close>

fun alignof :: "nat \<Rightarrow> ctype \<Rightarrow> nat" and max_align :: "nat \<Rightarrow> members \<Rightarrow> nat" where
  "alignof w (Scalar n) = n"
| "alignof w Pointer = w"
| "alignof w (Bits n bs) = n"
| "alignof w (Array k t) = alignof w t"
| "alignof w (Struct ms) = max_align w ms"
| "alignof w (Union ms) = max_align w ms"
| "max_align w [] = 1"
| "max_align w ((f, t) # ms) = max (alignof w t) (max_align w ms)"

fun sizeof :: "nat \<Rightarrow> ctype \<Rightarrow> nat" and struct_end :: "nat \<Rightarrow> nat \<Rightarrow> members \<Rightarrow> nat"
  and union_end :: "nat \<Rightarrow> members \<Rightarrow> nat" where
  "sizeof w (Scalar n) = n"
| "sizeof w Pointer = w"
| "sizeof w (Bits n bs) = n"
| "sizeof w (Array k t) = k * sizeof w t"
| "sizeof w (Struct ms) = align_up (struct_end w 0 ms) (max_align w ms)"
| "sizeof w (Union ms) = align_up (union_end w ms) (max_align w ms)"
| "struct_end w n [] = n"
| "struct_end w n ((f, t) # ms) = struct_end w (align_up n (alignof w t) + sizeof w t) ms"
| "union_end w [] = 0"
| "union_end w ((f, t) # ms) = max (sizeof w t) (union_end w ms)"

text \<open>
  The offset and the type of a member, and of a path of members such as \<open>icmp_hun.ih_idseq.icd_id\<close>.
  An array designates its first element.
\<close>

fun struct_member :: "nat \<Rightarrow> nat \<Rightarrow> members \<Rightarrow> string \<Rightarrow> (nat \<times> ctype) option" where
  "struct_member w n [] f = None"
| "struct_member w n ((g, t) # ms) f =
     (let off = align_up n (alignof w t)
      in if f = g then Some (off, t) else struct_member w (off + sizeof w t) ms f)"

fun member :: "nat \<Rightarrow> ctype \<Rightarrow> string \<Rightarrow> (nat \<times> ctype) option" where
  "member w (Struct ms) f = struct_member w 0 ms f"
| "member w (Union ms) f = map_option (\<lambda>t. (0, t)) (map_of ms f)"
| "member w (Array k t) f = (if k = 0 then None else member w t f)"
| "member w t f = None"

fun member_at :: "nat \<Rightarrow> ctype \<Rightarrow> string list \<Rightarrow> (nat \<times> ctype) option" where
  "member_at w t [] = Some (0, t)"
| "member_at w t (f # p) =
     do { (n, u) \<leftarrow> member w t f; (k, v) \<leftarrow> member_at w u p; Some (n + k, v) }"

definition offsetof :: "nat \<Rightarrow> ctype \<Rightarrow> string list \<Rightarrow> nat option" where
  "offsetof w t p = map_option fst (member_at w t p)"

text \<open>
  Bit fields are allocated from the low end of their unit on a little-endian machine and from the high
  end on a big-endian one. \<open>bit_field\<close> is the position of the lowest bit and the width.
\<close>

datatype byte_order = LITTLE_ENDIAN | BIG_ENDIAN

fun bit_pos :: "nat \<Rightarrow> (string \<times> nat) list \<Rightarrow> string \<Rightarrow> (nat \<times> nat) option" where
  "bit_pos n [] f = None"
| "bit_pos n ((g, k) # bs) f = (if f = g then Some (n, k) else bit_pos (n + k) bs f)"

fun bit_field :: "byte_order \<Rightarrow> ctype \<Rightarrow> string \<Rightarrow> (nat \<times> nat) option" where
  "bit_field LITTLE_ENDIAN (Bits n bs) f = bit_pos 0 bs f"
| "bit_field BIG_ENDIAN (Bits n bs) f = map_option (\<lambda>(i, k). (8 * n - i - k, k)) (bit_pos 0 bs f)"
| "bit_field bo t f = None"

section \<open>General facts about layouts\<close>

text \<open>The types a compiler can lay out: sizes of scalars and of pointers are 1, 2, 4 or 8.\<close>

definition natural :: "nat \<Rightarrow> bool" where
  "natural n \<longleftrightarrow> n \<in> {1, 2, 4, 8}"

fun layout_wf :: "ctype \<Rightarrow> bool" and members_wf :: "members \<Rightarrow> bool" where
  "layout_wf (Scalar n) = natural n"
| "layout_wf Pointer = True"
| "layout_wf (Bits n bs) = (natural n \<and> sum_list (map snd bs) \<le> 8 * n)"
| "layout_wf (Array k t) = layout_wf t"
| "layout_wf (Struct ms) = (members_wf ms \<and> distinct (map fst ms))"
| "layout_wf (Union ms) = (members_wf ms \<and> distinct (map fst ms))"
| "members_wf [] = True"
| "members_wf ((f, t) # ms) = (layout_wf t \<and> members_wf ms)"

lemma natural_max: "natural a \<Longrightarrow> natural b \<Longrightarrow> natural (max a b)"
  by (simp add: max_def)

lemma natural_dvd: "natural a \<Longrightarrow> natural b \<Longrightarrow> a \<le> b \<Longrightarrow> a dvd b"
  by (auto simp: natural_def)

lemma natural_pos: "natural a \<Longrightarrow> 0 < a"
  by (auto simp: natural_def)

lemma align_up_dvd [simp]: "a dvd align_up n a"
  by (simp add: align_up_def)

lemma align_up_ge: "0 < a \<Longrightarrow> n \<le> align_up n a"
proof -
  assume a: "0 < a"
  have "n + a - 1 < (n + a - 1) div a * a + a"
    using a div_mult_mod_eq [of "n + a - 1" a] mod_less_divisor [OF a, of "n + a - 1"] by linarith
  then show "n \<le> align_up n a" using a unfolding align_up_def by linarith
qed

lemma align_up_le: "0 < a \<Longrightarrow> align_up n a < n + a"
proof -
  assume a: "0 < a"
  have "(n + a - 1) div a * a \<le> n + a - 1" by simp
  then show "align_up n a < n + a" using a unfolding align_up_def by linarith
qed

lemma align_up_id: "0 < a \<Longrightarrow> a dvd n \<Longrightarrow> align_up n a = n"
proof -
  assume a: "0 < a" and "a dvd n"
  then obtain k where n: "n = k * a" by (metis dvd_def mult.commute)
  obtain b where b: "a = Suc b" using a by (cases a) auto
  have "(b + k * a) div a = k + b div a" using a by (intro div_mult_self1) simp
  then have "(b + k * a) div a = k" using b by simp
  moreover have "n + a - 1 = b + k * a" using n b by simp
  ultimately show "align_up n a = n" by (simp only: align_up_def n)
qed

lemma alignof_natural:
  assumes "natural w"
  shows "layout_wf t \<Longrightarrow> natural (alignof w t)" and "members_wf ms \<Longrightarrow> natural (max_align w ms)"
  using assms by (induction w t and w ms rule: alignof_max_align.induct) (auto simp: natural_max natural_def)

lemma alignof_dvd_sizeof: "layout_wf t \<Longrightarrow> alignof w t dvd sizeof w t"
  by (induction t) auto

lemma struct_end_ge: "natural w \<Longrightarrow> members_wf ms \<Longrightarrow> n \<le> struct_end w n ms"
proof (induction ms arbitrary: n)
  case (Cons m ms)
  obtain f t where m: "m = (f, t)" by force
  have "n \<le> align_up n (alignof w t)"
    using Cons.prems m by (intro align_up_ge natural_pos alignof_natural) simp_all
  also have "\<dots> \<le> struct_end w (align_up n (alignof w t) + sizeof w t) ms"
    using Cons.IH [of "align_up n (alignof w t) + sizeof w t"] Cons.prems m by simp
  finally show ?case by (simp add: m)
qed simp

lemma struct_member_bounds:
  assumes "natural w"
  shows "members_wf ms \<Longrightarrow> struct_member w n ms f = Some (off, t) \<Longrightarrow>
    n \<le> off \<and> off + sizeof w t \<le> struct_end w n ms \<and> alignof w t dvd off \<and> layout_wf t \<and>
    alignof w t \<le> max_align w ms"
proof (induction ms arbitrary: n)
  case (Cons m ms)
  obtain g u where m: "m = (g, u)" by force
  let ?k = "align_up n (alignof w u)"
  have le: "n \<le> ?k" using Cons.prems m assms by (intro align_up_ge natural_pos alignof_natural) simp_all
  show ?case
  proof (cases "f = g")
    case True
    then show ?thesis
      using Cons.prems m le struct_end_ge [OF assms, of ms "?k + sizeof w u"] by (auto simp: Let_def)
  next
    case False
    then have "struct_member w (?k + sizeof w u) ms f = Some (off, t)" using Cons.prems m by (simp add: Let_def)
    from Cons.IH [OF _ this] show ?thesis using Cons.prems(1) m le by auto
  qed
qed simp

lemma union_member_bounds:
  "members_wf ms \<Longrightarrow> map_of ms f = Some t \<Longrightarrow>
    sizeof w t \<le> union_end w ms \<and> layout_wf t \<and> alignof w t \<le> max_align w ms"
  by (induction ms) (auto simp: le_max_iff_disj split: if_splits)

lemma sizeof_ge_end:
  assumes "natural w" and "members_wf ms"
  shows "struct_end w 0 ms \<le> sizeof w (Struct ms)" and "union_end w ms \<le> sizeof w (Union ms)"
  using assms by (simp_all add: align_up_ge natural_pos alignof_natural)

lemma member_bounds:
  "natural w \<Longrightarrow> layout_wf t \<Longrightarrow> member w t f = Some (k, u) \<Longrightarrow>
    k + sizeof w u \<le> sizeof w t \<and> alignof w u dvd k \<and> layout_wf u \<and> alignof w u \<le> alignof w t"
proof (induction w t f rule: member.induct)
  case (1 w ms f)
  then show ?case
    using struct_member_bounds [of w ms 0 f k u] sizeof_ge_end(1) [of w ms] by auto
next
  case (2 w ms f)
  then show ?case using union_member_bounds [of ms f u w] sizeof_ge_end(2) [of w ms] by auto
next
  case (3 w n t f)
  then show ?case by (cases n) (auto split: if_splits)
qed auto

text \<open>
  A member of a structure, at any depth, lies inside it and is aligned when the structure is: what a
  pointer cast needs.
\<close>

lemma member_at_bounds:
  "natural w \<Longrightarrow> layout_wf t \<Longrightarrow> member_at w t p = Some (k, u) \<Longrightarrow>
    k + sizeof w u \<le> sizeof w t \<and> alignof w u dvd k \<and> layout_wf u \<and> alignof w u dvd alignof w t"
proof (induction p arbitrary: t k)
  case (Cons f p)
  obtain a t' b where m: "member w t f = Some (a, t')" "member_at w t' p = Some (b, u)" "k = a + b"
    using Cons.prems(3) by (auto simp: bind_eq_Some_conv)
  note bs = member_bounds [OF Cons.prems(1,2) m(1)]
  have dvd: "alignof w t' dvd alignof w t"
    using bs Cons.prems by (intro natural_dvd alignof_natural) auto
  note IH = Cons.IH [OF Cons.prems(1) _ m(2)]
  have "alignof w u dvd a" using bs IH dvd_trans by blast
  then show ?case using bs IH dvd m(3) dvd_trans by auto
qed simp

text \<open>Two different members of a structure do not overlap.\<close>

lemma struct_members_disjoint:
  assumes "natural w" and "f \<noteq> g"
  shows "members_wf ms \<Longrightarrow> struct_member w n ms f = Some (i, t) \<Longrightarrow> struct_member w n ms g = Some (j, u) \<Longrightarrow>
    i + sizeof w t \<le> j \<or> j + sizeof w u \<le> i"
proof (induction ms arbitrary: n)
  case (Cons m ms)
  obtain h v where m: "m = (h, v)" by force
  let ?k = "align_up n (alignof w v) + sizeof w v"
  note le = struct_member_bounds [OF assms(1), of ms ?k]
  consider "f = h" | "g = h" | "f \<noteq> h" "g \<noteq> h" by blast
  then show ?case
  proof cases
    case 1
    then show ?thesis using Cons.prems assms(2) m le [of g j u] by (auto simp: Let_def)
  next
    case 2
    then show ?thesis using Cons.prems assms(2) m le [of f i t] by (auto simp: Let_def)
  next
    case 3
    then show ?thesis using Cons.prems m Cons.IH [of ?k] by (simp add: Let_def)
  qed
qed simp

section \<open>Types of the system headers\<close>

text \<open>
  The integer types, the typedefs of \<open>IN_SYSTM.H\<close>, \<open>TCP.H\<close> and \<open>packet_ipv6.c\<close>, and the two
  address structures of the sockets interface.
\<close>

definition u_char :: ctype where [simp]: "u_char = Scalar 1"
definition u_short :: ctype where [simp]: "u_short = Scalar 2"
definition u_int :: ctype where [simp]: "u_int = Scalar 4"
definition c_char :: ctype where [simp]: "c_char = Scalar 1"
definition c_short :: ctype where [simp]: "c_short = Scalar 2"
definition c_int :: ctype where [simp]: "c_int = Scalar 4"
definition c_jbyte :: ctype where [simp]: "c_jbyte = Scalar 1"
definition c_jchar :: ctype where [simp]: "c_jchar = Scalar 2"
definition c_jshort :: ctype where [simp]: "c_jshort = Scalar 2"
definition caddr_t :: ctype where [simp]: "caddr_t = Pointer"

definition n_short :: ctype where [simp]: "n_short = u_short"
definition n_long :: ctype where [simp]: "n_long = u_int"
definition n_time :: ctype where [simp]: "n_time = u_int"
definition tcp_seq :: ctype where [simp]: "tcp_seq = u_int"
definition u_int8_t :: ctype where [simp]: "u_int8_t = Scalar 1"
definition u_int16_t :: ctype where [simp]: "u_int16_t = Scalar 2"
definition u_int32_t :: ctype where [simp]: "u_int32_t = Scalar 4"

definition in_addr :: ctype where [simp]: "in_addr = Struct [(''s_addr'', u_int)]"
definition in6_addr :: ctype where [simp]:
  "in6_addr = Struct [(''u'', Union [(''Byte'', Array 16 u_char), (''Word'', Array 8 u_short)])]"

section \<open>Structures on the wire\<close>

text \<open>\<open>Jpcap_ether.h\<close>, \<open>IF_ETHER.H\<close> and \<open>if_arp.h\<close>.\<close>

definition struct_ether_header :: ctype where
  "struct_ether_header = Struct
     [(''ether_dest'', Array 6 c_jbyte), (''ether_src'', Array 6 c_jbyte), (''ether_type'', c_jchar)]"

definition struct_pppoe_header :: ctype where
  "struct_pppoe_header = Struct
     [(''m_ether_header'', struct_ether_header),
      (''ver_type'', u_char),
      (''code'', c_jbyte),
      (''session_id'', Array 2 c_jbyte),
      (''pay_load_len'', c_jshort)]"

definition struct_ether_addr :: ctype where
  "struct_ether_addr = Struct [(''ether_addr_octet'', Array 6 u_char)]"

definition if_ether_header :: ctype where
  "if_ether_header = Struct
     [(''ether_dhost'', Array 6 u_char), (''ether_shost'', Array 6 u_char), (''ether_type'', u_short)]"

definition struct_arphdr :: ctype where
  "struct_arphdr = Struct
     [(''ar_hrd'', u_short), (''ar_pro'', u_short), (''ar_hln'', u_char), (''ar_pln'', u_char),
      (''ar_op'', u_short)]"

definition struct_ether_arp :: ctype where
  "struct_ether_arp = Struct
     [(''ea_hdr'', struct_arphdr),
      (''arp_sha'', Array 6 u_char),
      (''arp_spa'', Array 4 u_char),
      (''arp_tha'', Array 6 u_char),
      (''arp_tpa'', Array 4 u_char)]"

text \<open>\<open>IP.H\<close>: the members without a name hold the bit fields, whose order the header chooses by byte order.\<close>

definition struct_ip :: "byte_order \<Rightarrow> ctype" where
  "struct_ip bo = Struct
     [('''', Bits 1 (if bo = LITTLE_ENDIAN then [(''ip_hl'', 4), (''ip_v'', 4)]
                     else [(''ip_v'', 4), (''ip_hl'', 4)])),
      (''ip_tos'', u_char),
      (''ip_len'', c_short),
      (''ip_id'', u_short),
      (''ip_off'', c_short),
      (''ip_ttl'', u_char),
      (''ip_p'', u_char),
      (''ip_sum'', u_short),
      (''ip_src'', in_addr), (''ip_dst'', in_addr)]"

definition struct_ip_timestamp :: "byte_order \<Rightarrow> ctype" where
  "struct_ip_timestamp bo = Struct
     [(''ipt_code'', u_char),
      (''ipt_len'', u_char),
      (''ipt_ptr'', u_char),
      ('''', Bits 1 (if bo = LITTLE_ENDIAN then [(''ipt_flg'', 4), (''ipt_oflw'', 4)]
                     else [(''ipt_oflw'', 4), (''ipt_flg'', 4)])),
      (''ipt_timestamp'', Union
        [(''ipt_time'', Array 1 n_long),
         (''ipt_ta'', Array 1 (Struct [(''ipt_addr'', in_addr), (''ipt_time'', n_long)]))])]"

text \<open>\<open>TCP.H\<close> and \<open>UDP.H\<close>.\<close>

definition struct_tcphdr :: "byte_order \<Rightarrow> ctype" where
  "struct_tcphdr bo = Struct
     [(''th_sport'', u_short),
      (''th_dport'', u_short),
      (''th_seq'', tcp_seq),
      (''th_ack'', tcp_seq),
      ('''', Bits 1 (if bo = LITTLE_ENDIAN then [(''th_x2'', 4), (''th_off'', 4)]
                     else [(''th_off'', 4), (''th_x2'', 4)])),
      (''th_flags'', u_char),
      (''th_win'', u_short),
      (''th_sum'', u_short),
      (''th_urp'', u_short)]"

definition struct_udphdr :: ctype where
  "struct_udphdr = Struct
     [(''uh_sport'', u_short), (''uh_dport'', u_short), (''uh_ulen'', c_short), (''uh_sum'', u_short)]"

text \<open>\<open>IP_ICMP.H\<close>.\<close>

definition icmp_hun :: ctype where
  "icmp_hun = Union
     [(''ih_pptr'', u_char),
      (''ih_gwaddr'', in_addr),
      (''ih_idseq'', Struct [(''icd_id'', n_short), (''icd_seq'', n_short)]),
      (''ih_void'', c_int),
      (''ih_pmtu'', Struct [(''ipm_void'', n_short), (''ipm_nextmtu'', n_short)])]"

definition icmp_dun :: "byte_order \<Rightarrow> ctype" where
  "icmp_dun bo = Union
     [(''id_ts'', Struct [(''its_otime'', n_time), (''its_rtime'', n_time), (''its_ttime'', n_time)]),
      (''id_ip'', Struct [(''idi_ip'', struct_ip bo)]),
      (''id_mask'', u_int),
      (''id_data'', Array 1 c_char)]"

definition struct_icmp :: "byte_order \<Rightarrow> ctype" where
  "struct_icmp bo = Struct
     [(''icmp_type'', u_char),
      (''icmp_code'', u_char),
      (''icmp_cksum'', u_short),
      (''icmp_hun'', icmp_hun),
      (''icmp_dun'', icmp_dun bo)]"

text \<open>The member macros \<open>icmp_id\<close> and so on, as paths.\<close>

definition icmp_hun_macros :: "(string \<times> string list) list" where
  "icmp_hun_macros =
     [(''icmp_pptr'', [''icmp_hun'', ''ih_pptr'']),
      (''icmp_gwaddr'', [''icmp_hun'', ''ih_gwaddr'']),
      (''icmp_id'', [''icmp_hun'', ''ih_idseq'', ''icd_id'']),
      (''icmp_seq'', [''icmp_hun'', ''ih_idseq'', ''icd_seq'']),
      (''icmp_void'', [''icmp_hun'', ''ih_void'']),
      (''icmp_pmvoid'', [''icmp_hun'', ''ih_pmtu'', ''ipm_void'']),
      (''icmp_nextmtu'', [''icmp_hun'', ''ih_pmtu'', ''ipm_nextmtu''])]"

definition icmp_dun_macros :: "(string \<times> string list) list" where
  "icmp_dun_macros =
     [(''icmp_otime'', [''icmp_dun'', ''id_ts'', ''its_otime'']),
      (''icmp_rtime'', [''icmp_dun'', ''id_ts'', ''its_rtime'']),
      (''icmp_ttime'', [''icmp_dun'', ''id_ts'', ''its_ttime'']),
      (''icmp_ip'', [''icmp_dun'', ''id_ip'', ''idi_ip'']),
      (''icmp_mask'', [''icmp_dun'', ''id_mask'']),
      (''icmp_data'', [''icmp_dun'', ''id_data''])]"

text \<open>\<open>ip6.h\<close> and the authentication headers of \<open>packet_ipv6.c\<close>.\<close>

definition struct_ip6_hdr :: ctype where
  "struct_ip6_hdr = Struct
     [(''ip6_ctlun'', Union
        [(''ip6_un1'', Struct
           [(''ip6_un1_flow'', u_int32_t), (''ip6_un1_plen'', u_int16_t), (''ip6_un1_nxt'', u_int8_t),
            (''ip6_un1_hlim'', u_int8_t)]),
         (''ip6_un2_vfc'', u_int8_t)]),
      (''ip6_src'', in6_addr),
      (''ip6_dst'', in6_addr)]"

definition ip6_macros :: "(string \<times> string list) list" where
  "ip6_macros =
     [(''ip6_vfc'', [''ip6_ctlun'', ''ip6_un2_vfc'']),
      (''ip6_flow'', [''ip6_ctlun'', ''ip6_un1'', ''ip6_un1_flow'']),
      (''ip6_plen'', [''ip6_ctlun'', ''ip6_un1'', ''ip6_un1_plen'']),
      (''ip6_nxt'', [''ip6_ctlun'', ''ip6_un1'', ''ip6_un1_nxt'']),
      (''ip6_hlim'', [''ip6_ctlun'', ''ip6_un1'', ''ip6_un1_hlim'']),
      (''ip6_hops'', [''ip6_ctlun'', ''ip6_un1'', ''ip6_un1_hlim''])]"

definition struct_ip6_ext :: ctype where
  "struct_ip6_ext = Struct [(''ip6e_nxt'', u_char), (''ip6e_len'', u_char)]"

definition struct_ip6_hbh :: ctype where
  "struct_ip6_hbh = Struct [(''ip6h_nxt'', u_int8_t), (''ip6h_len'', u_int8_t)]"

definition struct_ip6_dest :: ctype where
  "struct_ip6_dest = Struct [(''ip6d_nxt'', u_int8_t), (''ip6d_len'', u_int8_t)]"

definition struct_ip6_rthdr :: ctype where
  "struct_ip6_rthdr = Struct
     [(''ip6r_nxt'', u_int8_t), (''ip6r_len'', u_int8_t), (''ip6r_type'', u_int8_t),
      (''ip6r_segleft'', u_int8_t)]"

definition struct_ip6_rthdr0 :: ctype where
  "struct_ip6_rthdr0 = Struct
     [(''ip6r0_nxt'', u_int8_t), (''ip6r0_len'', u_int8_t), (''ip6r0_type'', u_int8_t),
      (''ip6r0_segleft'', u_int8_t), (''ip6r0_reserved'', u_int8_t), (''ip6r0_slmap'', Array 3 u_int8_t),
      (''ip6r0_addr'', Array 1 in6_addr)]"

definition struct_ip6_frag :: ctype where
  "struct_ip6_frag = Struct
     [(''ip6f_nxt'', u_int8_t), (''ip6f_reserved'', u_int8_t), (''ip6f_offlg'', u_int16_t),
      (''ip6f_ident'', u_int32_t)]"

definition struct_ah :: ctype where
  "struct_ah = Struct
     [(''ah_nxt'', u_int8_t), (''ah_len'', u_int8_t), (''ah_reserve'', u_int16_t), (''ah_spi'', u_int32_t)]"

definition struct_newah :: ctype where
  "struct_newah = Struct
     [(''ah_nxt'', u_int8_t), (''ah_len'', u_int8_t), (''ah_reserve'', u_int16_t), (''ah_spi'', u_int32_t),
      (''ah_seq'', u_int32_t)]"

section \<open>The offsets the codecs use\<close>

definition macro_path :: "(string \<times> string list) list \<Rightarrow> string \<Rightarrow> string list" where
  "macro_path ms f = (case map_of ms f of Some p \<Rightarrow> p | None \<Rightarrow> [f])"

text \<open>What a codec calls a field, in which structure, and where \<open>Jpcap_Headers\<close> puts it.\<close>

definition link_members :: "(ctype \<times> string list \<times> nat) list" where
  "link_members =
     [(struct_ether_header, [''ether_dest''], ether_dest), (struct_ether_header, [''ether_src''], ether_src),
      (struct_ether_header, [''ether_type''], ether_type),
      (struct_pppoe_header, [''ver_type''], ver_type), (struct_pppoe_header, [''code''], pppoe_hdr_code),
      (struct_pppoe_header, [''session_id''], session_id),
      (struct_pppoe_header, [''pay_load_len''], pay_load_len),
      (struct_ether_arp, [''ea_hdr'', ''ar_hrd''], arp_hrd), (struct_ether_arp, [''ea_hdr'', ''ar_pro''], arp_pro),
      (struct_ether_arp, [''ea_hdr'', ''ar_hln''], arp_hln), (struct_ether_arp, [''ea_hdr'', ''ar_pln''], arp_pln),
      (struct_ether_arp, [''ea_hdr'', ''ar_op''], arp_op),
      (struct_ether_arp, [''arp_sha''], arp_sha), (struct_ether_arp, [''arp_spa''], arp_spa),
      (struct_ether_arp, [''arp_tha''], arp_tha), (struct_ether_arp, [''arp_tpa''], arp_tpa)]"

definition ip_members :: "byte_order \<Rightarrow> (ctype \<times> string list \<times> nat) list" where
  "ip_members bo = map (\<lambda>(f, n). (struct_ip bo, [f], n))
     [('''', 0), (''ip_tos'', ip_tos), (''ip_len'', ip_len), (''ip_id'', ip_id), (''ip_off'', ip_off), (''ip_ttl'', ip_ttl),
      (''ip_p'', ip_p), (''ip_sum'', ip_sum), (''ip_src'', ip_src), (''ip_dst'', ip_dst)]"

definition tcp_udp_members :: "byte_order \<Rightarrow> (ctype \<times> string list \<times> nat) list" where
  "tcp_udp_members bo = map (\<lambda>(f, n). (struct_tcphdr bo, [f], n))
     [(''th_sport'', th_sport), (''th_dport'', th_dport), (''th_seq'', th_seq), (''th_ack'', th_ack), ('''', th_off),
      (''th_flags'', th_flags), (''th_win'', th_win), (''th_sum'', th_sum), (''th_urp'', th_urp)] @
     map (\<lambda>(f, n). (struct_udphdr, [f], n))
     [(''uh_sport'', uh_sport), (''uh_dport'', uh_dport), (''uh_ulen'', uh_ulen), (''uh_sum'', uh_sum)]"

definition icmp_members :: "byte_order \<Rightarrow> (ctype \<times> string list \<times> nat) list" where
  "icmp_members bo = map (\<lambda>(f, n). (struct_icmp bo, macro_path (icmp_hun_macros @ icmp_dun_macros) f, n))
     [(''icmp_type'', icmp_type), (''icmp_code'', icmp_code), (''icmp_cksum'', icmp_cksum),
      (''icmp_gwaddr'', icmp_gwaddr), (''icmp_id'', icmp_id), (''icmp_seq'', icmp_seq),
      (''icmp_nextmtu'', icmp_nextmtu), (''icmp_otime'', icmp_otime), (''icmp_rtime'', icmp_rtime),
      (''icmp_ttime'', icmp_ttime), (''icmp_ip'', icmp_ip), (''icmp_mask'', icmp_mask), (''icmp_data'', icmp_data)]"

definition ip6_members :: "(ctype \<times> string list \<times> nat) list" where
  "ip6_members = map (\<lambda>(f, n). (struct_ip6_hdr, macro_path ip6_macros f, n))
     [(''ip6_flow'', ip6_flow), (''ip6_vfc'', ip6_vfc), (''ip6_plen'', ip6_plen), (''ip6_nxt'', ip6_nxt),
      (''ip6_hlim'', ip6_hlim), (''ip6_src'', ip6_src), (''ip6_dst'', ip6_dst)] @
     [(struct_ip6_ext, [''ip6e_nxt''], ip6e_nxt), (struct_ip6_ext, [''ip6e_len''], ip6e_len),
      (struct_ip6_rthdr, [''ip6r_len''], ip6r_len), (struct_ip6_rthdr, [''ip6r_type''], ip6r_type),
      (struct_ip6_rthdr, [''ip6r_segleft''], ip6r_segleft),
      (struct_ip6_frag, [''ip6f_offlg''], ip6f_offlg), (struct_ip6_frag, [''ip6f_ident''], ip6f_ident),
      (struct_newah, [''ah_nxt''], ah_nxt), (struct_newah, [''ah_len''], ah_len),
      (struct_newah, [''ah_spi''], ah_spi), (struct_newah, [''ah_seq''], ah_seq)]"

lemmas wire_structs = struct_ether_header_def struct_pppoe_header_def struct_arphdr_def struct_ether_arp_def
  struct_ip_def struct_tcphdr_def struct_udphdr_def struct_icmp_def icmp_hun_def icmp_dun_def struct_ip6_hdr_def
  struct_ip6_ext_def struct_ip6_hbh_def struct_ip6_dest_def struct_ip6_rthdr_def struct_ip6_rthdr0_def
  struct_ip6_frag_def struct_ah_def struct_newah_def struct_ip_timestamp_def struct_ether_addr_def
  if_ether_header_def

lemmas layout_eval = wire_structs align_up_def offsetof_def macro_path_def icmp_hun_macros_def
  icmp_dun_macros_def ip6_macros_def

abbreviation laid_out :: "nat \<Rightarrow> (ctype \<times> string list \<times> nat) list \<Rightarrow> bool" where
  "laid_out w \<equiv> list_all (\<lambda>(t, p, n). offsetof w t p = Some n)"

lemma link_members_laid_out: "laid_out w link_members"
  by (simp add: link_members_def layout_eval Let_def numeral_2_eq_2 [symmetric])

lemma ip_members_laid_out: "laid_out w (ip_members bo)"
  by (simp add: ip_members_def layout_eval Let_def numeral_2_eq_2 [symmetric])

lemma tcp_udp_members_laid_out: "laid_out w (tcp_udp_members bo)"
  by (simp add: tcp_udp_members_def layout_eval Let_def numeral_2_eq_2 [symmetric])

lemma icmp_members_laid_out: "laid_out w (icmp_members bo)"
  by (simp add: icmp_members_def layout_eval Let_def numeral_2_eq_2 [symmetric])

lemma ip6_members_laid_out: "laid_out w ip6_members"
  by (simp add: ip6_members_def layout_eval Let_def numeral_2_eq_2 [symmetric])


text \<open>No padding: a structure is as long as its members together, at every level.\<close>

fun no_padding :: "nat \<Rightarrow> ctype \<Rightarrow> bool" and members_unpadded :: "nat \<Rightarrow> members \<Rightarrow> bool" where
  "no_padding w (Struct ms) = (sizeof w (Struct ms) = sum_list (map (\<lambda>(f, t). sizeof w t) ms) \<and> members_unpadded w ms)"
| "no_padding w (Union ms) = (sizeof w (Union ms) = union_end w ms \<and> members_unpadded w ms)"
| "no_padding w (Array k t) = no_padding w t"
| "no_padding w t = True"
| "members_unpadded w [] = True"
| "members_unpadded w ((f, t) # ms) = (no_padding w t \<and> members_unpadded w ms)"

definition wire_sizes :: "byte_order \<Rightarrow> (ctype \<times> nat) list" where
  "wire_sizes bo =
     [(struct_ether_header, sizeof_ether_header), (if_ether_header, sizeof_ether_header),
      (struct_pppoe_header, sizeof_ether_header + 6), (struct_arphdr, sizeof_arphdr),
      (struct_ether_arp, sizeof_ether_arp), (struct_ip bo, IPv4HDRLEN), (struct_tcphdr bo, TCPHDRLEN),
      (struct_udphdr, UDPHDRLEN), (struct_icmp bo, ICMPHDRLEN + IPv4HDRLEN), (struct_ip6_hdr, 40),
      (struct_ip6_ext, sizeof_ip6_ext), (struct_ip6_hbh, sizeof_ip6_ext), (struct_ip6_dest, sizeof_ip6_ext),
      (struct_ip6_rthdr, 4), (struct_ip6_rthdr0, 24), (struct_ip6_frag, 8), (struct_ah, 8),
      (struct_newah, sizeof_newah), (struct_ip_timestamp bo, 12), (struct_ether_addr, 6)]"

text \<open>
  The structures the codecs cast packets to have the sizes the code adds and compares with (the
  \<open>...HDRLEN\<close> constants of \<open>Jpcap_sub.h\<close> and the \<open>sizeof\<close> expressions) and contain no padding, for every
  pointer size and in both byte orders: overlaying them on the bytes of a packet is faithful.
\<close>

theorem wire_structs_unpadded:
  "list_all (\<lambda>(t, n). sizeof w t = n \<and> no_padding w t) (wire_sizes bo)"
  by (simp add: wire_sizes_def layout_eval numeral_2_eq_2 [symmetric])

text \<open>Reading and writing a bit field of a byte at its position and width.\<close>

definition get_bits :: "nat \<times> nat \<Rightarrow> u8 \<Rightarrow> u8" where
  "get_bits ik b = take_bit (snd ik) (drop_bit (fst ik) b)"

definition set_bits :: "nat \<times> nat \<Rightarrow> u8 \<Rightarrow> u8 \<Rightarrow> u8" where
  "set_bits ik v b =
     (b AND NOT (push_bit (fst ik) (mask (snd ik)))) OR push_bit (fst ik) (take_bit (snd ik) v)"

definition ip_bits :: "byte_order \<Rightarrow> string \<Rightarrow> (nat \<times> nat) option" where
  "ip_bits bo f = do { (n, t) \<leftarrow> member 4 (struct_ip bo) ''''; bit_field bo t f }"

definition tcp_bits :: "byte_order \<Rightarrow> string \<Rightarrow> (nat \<times> nat) option" where
  "tcp_bits bo f = do { (n, t) \<leftarrow> member 4 (struct_tcphdr bo) ''''; bit_field bo t f }"

lemma get_set_bits: "get_bits ik (set_bits ik v b) = take_bit (snd ik) v" if "fst ik + snd ik \<le> 8"
  using that by (intro bit_word_eqI)
    (auto simp: get_bits_def set_bits_def bit_take_bit_iff bit_drop_bit_eq bit_or_iff bit_and_iff bit_not_iff
      bit_push_bit_iff bit_mask_iff)

text \<open>
  The header length and version of IPv4 and the data offset of TCP are bit fields whose declaration order
  depends on the byte order. In both orders they end up in the same nibbles, and the accessors of the model
  read and write exactly those bits: setting one field leaves the other alone.
\<close>

theorem nibble_accessors_are_bit_fields:
  "ip_bits bo ''ip_hl'' = Some (0, 4)" and "ip_bits bo ''ip_v'' = Some (4, 4)"
  and "tcp_bits bo ''th_x2'' = Some (0, 4)" and "tcp_bits bo ''th_off'' = Some (4, 4)"
  and "get_ip_hl m p = do { b \<leftarrow> rd8 m p; Some (get_bits (0, 4) b) }"
  and "set_ip_hl m p v = do { b \<leftarrow> rd8 m p; wr8 m p (set_bits (0, 4) v b) }"
  and "set_ip_v m p v = do { b \<leftarrow> rd8 m p; wr8 m p (set_bits (4, 4) v b) }"
  and "get_th_off m p = do { b \<leftarrow> rd8 m (p + th_off); Some (get_bits (4, 4) b) }"
  and "set_th_off m p v = do { b \<leftarrow> rd8 m (p + th_off); wr8 m (p + th_off) (set_bits (4, 4) v b) }"
proof -
  have m: "(0x0f :: u8) = mask 4" "(0xf0 :: u8) = NOT (mask 4)" "NOT (push_bit 4 (mask 4)) = (mask 4 :: u8)"
    by (simp_all add: mask_eq_exp_minus_1)
  have d: "take_bit 4 (drop_bit 4 b) = drop_bit 4 b" for b :: u8
    by (intro bit_word_eqI) (auto simp: bit_take_bit_iff bit_drop_bit_eq dest: bit_imp_le_length)
  show "ip_bits bo ''ip_hl'' = Some (0, 4)" "ip_bits bo ''ip_v'' = Some (4, 4)"
    "tcp_bits bo ''th_x2'' = Some (0, 4)" "tcp_bits bo ''th_off'' = Some (4, 4)"
    by (cases bo; simp add: ip_bits_def tcp_bits_def layout_eval Let_def)+
  show "get_ip_hl m p = do { b \<leftarrow> rd8 m p; Some (get_bits (0, 4) b) }"
    "set_ip_hl m p v = do { b \<leftarrow> rd8 m p; wr8 m p (set_bits (0, 4) v b) }"
    "set_ip_v m p v = do { b \<leftarrow> rd8 m p; wr8 m p (set_bits (4, 4) v b) }"
    "get_th_off m p = do { b \<leftarrow> rd8 m (p + th_off); Some (get_bits (4, 4) b) }"
    "set_th_off m p v = do { b \<leftarrow> rd8 m (p + th_off); wr8 m (p + th_off) (set_bits (4, 4) v b) }"
    unfolding get_ip_hl_def set_ip_hl_def set_ip_v_def get_th_off_def set_th_off_def get_bits_def set_bits_def
      fst_conv snd_conv m take_bit_eq_mask [symmetric] d by (simp_all add: m(3) take_bit_eq_mask)
qed

end
