(* ===== verification/Jpcap_Overlay.thy ===== *)
theory Jpcap_Overlay
  imports Jpcap_Layout
begin

text \<open>
  The structures of the bundled headers that the BSD kernel overlays on packets while it processes them
  (\<open>IP_VAR.H\<close>, \<open>TCPIP.H\<close>, \<open>UDP_VAR.H\<close>, \<open>TCP_VAR.H\<close>, the request of \<open>if_arp.h\<close>). They contain pointers,
  so their layout depends on the size of one. The theorems check what the headers say about them.
\<close>

section \<open>IP\_VAR.H\<close>

definition struct_ipovly :: ctype where
  "struct_ipovly = Struct
     [(''ih_next'', caddr_t), (''ih_prev'', caddr_t),
      (''ih_x1'', u_char),
      (''ih_pr'', u_char),
      (''ih_len'', c_short),
      (''ih_src'', in_addr),
      (''ih_dst'', in_addr)]"

definition struct_ipq :: ctype where
  "struct_ipq = Struct
     [(''next'', Pointer), (''prev'', Pointer),
      (''ipq_ttl'', u_char),
      (''ipq_p'', u_char),
      (''ipq_id'', u_short),
      (''ipq_next'', Pointer), (''ipq_prev'', Pointer),
      (''ipq_src'', in_addr), (''ipq_dst'', in_addr)]"

definition struct_ipasfrag :: "byte_order \<Rightarrow> ctype" where
  "struct_ipasfrag bo = Struct
     [('''', Bits 1 (if bo = LITTLE_ENDIAN then [(''ip_hl'', 4), (''ip_v'', 4)]
                     else [(''ip_v'', 4), (''ip_hl'', 4)])),
      (''ipf_mff'', u_char),
      (''ip_len'', c_short),
      (''ip_id'', u_short),
      (''ip_off'', c_short),
      (''ip_ttl'', u_char),
      (''ip_p'', u_char),
      (''ip_sum'', u_short),
      (''ipf_next'', Pointer),
      (''ipf_prev'', Pointer)]"

definition MAX_IPOPTLEN :: nat where [simp]: "MAX_IPOPTLEN = 40"

definition struct_ipoption :: ctype where
  "struct_ipoption = Struct [(''ipopt_dst'', in_addr), (''ipopt_list'', Array MAX_IPOPTLEN c_char)]"

definition counters :: "string list \<Rightarrow> ctype" where
  "counters fs = Struct (map (\<lambda>f. (f, n_long)) fs)"

definition struct_ipstat :: ctype where
  "struct_ipstat = counters
     [''ips_total'', ''ips_badsum'', ''ips_tooshort'', ''ips_toosmall'', ''ips_badhlen'',
      ''ips_badlen'', ''ips_fragments'', ''ips_fragdropped'', ''ips_fragtimeout'', ''ips_forward'',
      ''ips_cantforward'', ''ips_redirectsent'', ''ips_noproto'', ''ips_delivered'', ''ips_localout'',
      ''ips_odropped'', ''ips_reassembled'', ''ips_fragmented'', ''ips_ofragments'', ''ips_cantfrag'',
      ''ips_badoptions'', ''ips_noroute'', ''ips_badvers'', ''ips_rawout'']"

section \<open>TCPIP.H and UDP\_VAR.H\<close>

definition struct_tcpiphdr :: "byte_order \<Rightarrow> ctype" where
  "struct_tcpiphdr bo = Struct [(''ti_i'', struct_ipovly), (''ti_t'', struct_tcphdr bo)]"

definition ti_macros :: "(string \<times> string list) list" where
  "ti_macros =
     [(''ti_next'', [''ti_i'', ''ih_next'']), (''ti_prev'', [''ti_i'', ''ih_prev'']),
      (''ti_x1'', [''ti_i'', ''ih_x1'']), (''ti_pr'', [''ti_i'', ''ih_pr'']),
      (''ti_len'', [''ti_i'', ''ih_len'']), (''ti_src'', [''ti_i'', ''ih_src'']),
      (''ti_dst'', [''ti_i'', ''ih_dst'']), (''ti_sport'', [''ti_t'', ''th_sport'']),
      (''ti_dport'', [''ti_t'', ''th_dport'']), (''ti_seq'', [''ti_t'', ''th_seq'']),
      (''ti_ack'', [''ti_t'', ''th_ack'']), (''ti_x2'', [''ti_t'', '''']),
      (''ti_off'', [''ti_t'', '''']), (''ti_flags'', [''ti_t'', ''th_flags'']),
      (''ti_win'', [''ti_t'', ''th_win'']), (''ti_sum'', [''ti_t'', ''th_sum'']),
      (''ti_urp'', [''ti_t'', ''th_urp''])]"

definition struct_udpiphdr :: ctype where
  "struct_udpiphdr = Struct [(''ui_i'', struct_ipovly), (''ui_u'', struct_udphdr)]"

definition ui_macros :: "(string \<times> string list) list" where
  "ui_macros =
     [(''ui_next'', [''ui_i'', ''ih_next'']), (''ui_prev'', [''ui_i'', ''ih_prev'']),
      (''ui_x1'', [''ui_i'', ''ih_x1'']), (''ui_pr'', [''ui_i'', ''ih_pr'']),
      (''ui_len'', [''ui_i'', ''ih_len'']), (''ui_src'', [''ui_i'', ''ih_src'']),
      (''ui_dst'', [''ui_i'', ''ih_dst'']), (''ui_sport'', [''ui_u'', ''uh_sport'']),
      (''ui_dport'', [''ui_u'', ''uh_dport'']), (''ui_ulen'', [''ui_u'', ''uh_ulen'']),
      (''ui_sum'', [''ui_u'', ''uh_sum''])]"

definition struct_udpstat :: ctype where
  "struct_udpstat = counters
     [''udps_ipackets'', ''udps_hdrops'', ''udps_badsum'', ''udps_badlen'', ''udps_noport'',
      ''udps_noportbcast'', ''udps_fullsock'', ''udpps_pcbcachemiss'', ''udps_opackets'']"

section \<open>TCP\_VAR.H\<close>

text \<open>The number of timers comes from a header that is not bundled.\<close>

definition struct_tcpcb :: "nat \<Rightarrow> ctype" where
  "struct_tcpcb TCPT_NTIMERS = Struct
     [(''seg_next'', Pointer), (''seg_prev'', Pointer), (''t_state'', c_short),
      (''t_timer'', Array TCPT_NTIMERS c_short), (''t_rxtshift'', c_short), (''t_rxtcur'', c_short),
      (''t_dupacks'', c_short), (''t_maxseg'', u_short), (''t_force'', c_char), (''t_flags'', u_short),
      (''t_template'', Pointer), (''t_inpcb'', Pointer),
      (''snd_una'', tcp_seq), (''snd_nxt'', tcp_seq), (''snd_up'', tcp_seq), (''snd_wl1'', tcp_seq),
      (''snd_wl2'', tcp_seq), (''iss'', tcp_seq), (''snd_wnd'', n_long),
      (''rcv_wnd'', n_long), (''rcv_nxt'', tcp_seq), (''rcv_up'', tcp_seq), (''irs'', tcp_seq),
      (''rcv_adv'', tcp_seq), (''snd_max'', tcp_seq), (''snd_cwnd'', n_long), (''snd_ssthresh'', n_long),
      (''t_idle'', u_short), (''t_rtt'', c_short), (''t_rtseq'', tcp_seq), (''t_srtt'', c_short),
      (''t_rttvar'', c_short), (''t_rttmin'', u_short), (''max_sndwnd'', n_long),
      (''t_oobflags'', c_char), (''t_iobc'', c_char), (''t_softerror'', c_short),
      (''snd_scale'', u_char), (''rcv_scale'', u_char), (''request_r_scale'', u_char),
      (''requested_s_scale'', u_char), (''ts_recent'', n_long), (''ts_recent_age'', n_long),
      (''last_ack_sent'', tcp_seq), (''t_tuba_pcb'', caddr_t)]"

definition TCP_RTT_SCALE :: int where [simp]: "TCP_RTT_SCALE = 8"
definition TCP_RTT_SHIFT :: nat where [simp]: "TCP_RTT_SHIFT = 3"
definition TCP_RTTVAR_SCALE :: int where [simp]: "TCP_RTTVAR_SCALE = 4"
definition TCP_RTTVAR_SHIFT :: nat where [simp]: "TCP_RTTVAR_SHIFT = 2"

text \<open>The operands are promoted to \<open>int\<close>; the right shift of a negative one is arithmetic.\<close>

definition TCP_REXMTVAL :: "16 word \<Rightarrow> 16 word \<Rightarrow> int" where
  "TCP_REXMTVAL t_srtt t_rttvar = drop_bit TCP_RTT_SHIFT (sint t_srtt) + sint t_rttvar"

definition struct_tcpstat :: ctype where
  "struct_tcpstat = counters
     [''tcps_connattempt'', ''tcps_accepts'', ''tcps_connects'', ''tcps_drops'', ''tcps_conndrops'',
      ''tcps_closed'', ''tcps_segstimed'', ''tcps_rttupdated'', ''tcps_delack'', ''tcps_timeoutdrop'',
      ''tcps_rexmttimeo'', ''tcps_persisttimeo'', ''tcps_keeptimeo'', ''tcps_keepprobe'',
      ''tcps_keepdrops'', ''tcps_sndtotal'', ''tcps_sndpack'', ''tcps_sndbyte'', ''tcps_sndrexmitpack'',
      ''tcps_sndrexmitbyte'', ''tcps_sndacks'', ''tcps_sndprobe'', ''tcps_sndurg'', ''tcps_sndwinup'',
      ''tcps_sndctrl'', ''tcps_rcvtotal'', ''tcps_rcvpack'', ''tcps_rcvbyte'', ''tcps_rcvbadsum'',
      ''tcps_rcvbadoff'', ''tcps_rcvshort'', ''tcps_rcvduppack'', ''tcps_rcvdupbyte'',
      ''tcps_rcvpartduppack'', ''tcps_rcvpartdupbyte'', ''tcps_rcvoopack'', ''tcps_rcvoobyte'',
      ''tcps_rcvpackafterwin'', ''tcps_rcvbyteafterwin'', ''tcps_rcvafterclose'', ''tcps_rcvwinprobe'',
      ''tcps_rcvdupack'', ''tcps_rcvacktoomuch'', ''tcps_rcvackpack'', ''tcps_rcvackbyte'',
      ''tcps_rcvwinupd'', ''tcps_pawsdrop'', ''tcps_predack'', ''tcps_preddat'', ''tcps_pcbcachemiss'',
      ''tcps_persistdrop'', ''tcps_badsyn'']"

text \<open>\<open>if_arp.h\<close>: the socket address of the request is a type of the system.\<close>

definition struct_arpreq :: "ctype \<Rightarrow> ctype" where
  "struct_arpreq sockaddr = Struct [(''arp_pa'', sockaddr), (''arp_ha'', sockaddr), (''arp_flags'', c_int)]"

text \<open>\<open>REASS_MBUF\<close> overlays the transport header with a pointer: the bytes it covers.\<close>

definition REASS_MBUF :: "nat \<Rightarrow> byte_order \<Rightarrow> (nat \<times> nat) option" where
  "REASS_MBUF w bo = map_option (\<lambda>n. (n, w)) (offsetof w (struct_tcpiphdr bo) [''ti_t''])"

section \<open>Overlays\<close>

lemmas overlay_eval = layout_eval struct_ipovly_def struct_ipq_def struct_ipasfrag_def struct_tcpiphdr_def
  struct_udpiphdr_def ti_macros_def ui_macros_def numeral_2_eq_2 [symmetric] Let_def

text \<open>
  The overlay \<open>ipovly\<close> takes the place of an IPv4 header exactly when a pointer has four bytes: the protocol,
  the addresses and the transport header behind it are then where the packet has them.
\<close>

theorem ipovly_overlays_ip:
  "sizeof 4 struct_ipovly = sizeof 4 (struct_ip bo) \<and>
   offsetof 4 struct_ipovly [''ih_pr''] = offsetof 4 (struct_ip bo) [''ip_p''] \<and>
   offsetof 4 struct_ipovly [''ih_src''] = offsetof 4 (struct_ip bo) [''ip_src''] \<and>
   offsetof 4 struct_ipovly [''ih_dst''] = offsetof 4 (struct_ip bo) [''ip_dst''] \<and>
   sizeof 8 struct_ipovly \<noteq> sizeof 8 (struct_ip bo)"
  by (simp add: overlay_eval)

text \<open>
  The comment of \<open>IP_VAR.H\<close> asks that \<open>ipf_next\<close> is at the same offset as \<open>ipq_next\<close>, since the kernel
  treats the head of a reassembly queue as one of its fragments. This holds with pointers of four bytes
  and fails with pointers of eight.
\<close>

theorem ipf_next_offset:
  "offsetof 4 (struct_ipasfrag bo) [''ipf_next''] = offsetof 4 struct_ipq [''ipq_next''] \<and>
   offsetof 4 (struct_ipasfrag bo) [''ipf_prev''] = offsetof 4 struct_ipq [''ipq_prev''] \<and>
   offsetof 8 (struct_ipasfrag bo) [''ipf_next''] \<noteq> offsetof 8 struct_ipq [''ipq_next'']"
  by (simp add: overlay_eval)

text \<open>
  \<open>TCP.H\<close> says that \<open>TCP_MSS\<close> should be \<open>MIN(512, IP_MSS - sizeof (struct tcpiphdr))\<close>, which
  it is for both pointer sizes.
\<close>

theorem TCP_MSS_as_documented:
  "min 512 (576 - sizeof 4 (struct_tcpiphdr bo)) = (512 :: nat) \<and>
   min 512 (576 - sizeof 8 (struct_tcpiphdr bo)) = (512 :: nat)"
  by (simp add: overlay_eval)

text \<open>
  The comment on \<open>REASS_MBUF\<close> says that the pointer takes the place of the port numbers: so it does with
  four bytes; a pointer of eight also covers the sequence number.
\<close>

theorem REASS_MBUF_covers_ports:
  "\<exists>n k. REASS_MBUF 4 bo = Some (n, 4) \<and>
    offsetof 4 (struct_tcpiphdr bo) (macro_path ti_macros ''ti_sport'') = Some n \<and>
    offsetof 4 (struct_tcpiphdr bo) (macro_path ti_macros ''ti_seq'') = Some (n + 4) \<and>
    REASS_MBUF 8 bo = Some (k, 8) \<and>
    offsetof 8 (struct_tcpiphdr bo) (macro_path ti_macros ''ti_seq'') = Some (k + 4)"
  by (simp add: REASS_MBUF_def overlay_eval)

text \<open>
  The retransmission value of the macro is the smoothed round-trip time plus its variance, in the
  fixed point scale the comment gives: \<open>srtt\<close> has three fractional bits.
\<close>

theorem TCP_REXMTVAL_scaled:
  "TCP_REXMTVAL t_srtt t_rttvar = sint t_srtt div TCP_RTT_SCALE + sint t_rttvar \<and>
   2 ^ TCP_RTT_SHIFT = TCP_RTT_SCALE \<and> 2 ^ TCP_RTTVAR_SHIFT = TCP_RTTVAR_SCALE"
  by (simp add: TCP_REXMTVAL_def drop_bit_eq_div)

text \<open>The statistics structures are arrays of 32-bit counters without gaps.\<close>

lemma struct_end_counters:
  "struct_end w (4 * n) (map (\<lambda>f. (f, Scalar 4)) fs) = 4 * (n + length fs)"
proof (induction fs arbitrary: n)
  case (Cons f fs)
  have "align_up (4 * n) 4 + 4 = 4 * Suc n" by (simp add: align_up_id)
  then show ?case using Cons.IH [of "Suc n"] by (simp add: add.commute)
qed simp

lemma max_align_counters: "max_align w (map (\<lambda>f. (f, Scalar 4)) fs) = (if fs = [] then 1 else 4)"
  by (induction fs) auto

lemma sizeof_counters: "sizeof w (counters fs) = 4 * length fs"
  using struct_end_counters [of w 0 fs]
  by (cases fs) (simp_all add: counters_def max_align_counters align_up_id align_up_def)

theorem statistics_are_counters:
  "sizeof w struct_ipstat = 4 * 24 \<and> sizeof w struct_udpstat = 4 * 9 \<and> sizeof w struct_tcpstat = 4 * 52"
  by (simp add: struct_ipstat_def struct_udpstat_def struct_tcpstat_def sizeof_counters)

text \<open>
  The control block: sequence numbers sit on four-byte boundaries in one run, whatever the
  number of timers.
\<close>

theorem tcpcb_sequence_variables:
  "\<exists>n. 4 dvd n \<and> offsetof 4 (struct_tcpcb k) [''snd_una''] = Some n \<and>
     offsetof 4 (struct_tcpcb k) [''rcv_nxt''] = Some (n + 32) \<and> offsetof 4 (struct_tcpcb k) [''snd_max''] = Some (n + 48)"
  by (simp add: struct_tcpcb_def offsetof_def Let_def align_up_def)

end
