(* ===== verification/Jpcap_Protocols.thy ===== *)
theory Jpcap_Protocols
  imports Jpcap_Overlay Packet_Icmp Packet_Ipv6
begin

text \<open>
  The constants and macros of the protocol headers: type of service and options of IPv4 (\<open>IP.H\<close>), options of
  TCP (\<open>TCP.H\<close>), message types and lengths of ICMP (\<open>IP_ICMP.H\<close>), ARP codes (\<open>if_arp.h\<close>), Ethernet types
  (\<open>Jpcap_ether.h\<close>, \<open>IF_ETHER.H\<close>) and IPv6 options and masks (\<open>ip6.h\<close>, \<open>ip6_misc.h\<close>, \<open>packet_ipv6.c\<close>). A group of
  constants is a table from names to values. The theorems relate the macros to each other, to the RFC
  encodings they stand for, to the structures of \<open>Jpcap_Layout\<close> and to the decisions of the codecs.
\<close>

section \<open>IP.H\<close>

definition ip_tos_bits :: "(string \<times> u8) list" where
  "ip_tos_bits = [(''IPTOS_LOWDELAY'', 0x10), (''IPTOS_THROUGHPUT'', 0x08), (''IPTOS_RELIABILITY'', 0x04)]"

definition ip_tos_precedence :: "(string \<times> u8) list" where
  "ip_tos_precedence =
     [(''IPTOS_PREC_NETCONTROL'', 0xe0), (''IPTOS_PREC_INTERNETCONTROL'', 0xc0),
      (''IPTOS_PREC_CRITIC_ECP'', 0xa0), (''IPTOS_PREC_FLASHOVERRIDE'', 0x80), (''IPTOS_PREC_FLASH'', 0x60),
      (''IPTOS_PREC_IMMEDIATE'', 0x40), (''IPTOS_PREC_PRIORITY'', 0x20), (''IPTOS_PREC_ROUTINE'', 0x00)]"

definition IPOPT_COPIED :: "u8 \<Rightarrow> u8" where "IPOPT_COPIED opt = opt AND 0x80"
definition IPOPT_CLASS :: "u8 \<Rightarrow> u8" where "IPOPT_CLASS opt = opt AND 0x60"
definition IPOPT_NUMBER :: "u8 \<Rightarrow> u8" where "IPOPT_NUMBER opt = opt AND 0x1f"

definition ipopt_classes :: "(string \<times> u8) list" where
  "ipopt_classes =
     [(''IPOPT_CONTROL'', 0x00), (''IPOPT_RESERVED1'', 0x20), (''IPOPT_DEBMEAS'', 0x40), (''IPOPT_RESERVED2'', 0x60)]"

definition ipopt_types :: "(string \<times> u8) list" where
  "ipopt_types =
     [(''IPOPT_EOL'', 0), (''IPOPT_NOP'', 1), (''IPOPT_RR'', 7), (''IPOPT_TS'', 68), (''IPOPT_SECURITY'', 130),
      (''IPOPT_LSRR'', 131), (''IPOPT_SATID'', 136), (''IPOPT_SSRR'', 137)]"

definition IPOPT_OPTVAL :: nat where [simp]: "IPOPT_OPTVAL = 0"
definition IPOPT_OLEN :: nat where [simp]: "IPOPT_OLEN = 1"
definition IPOPT_OFFSET :: nat where [simp]: "IPOPT_OFFSET = 2"
definition IPOPT_MINOFF :: nat where [simp]: "IPOPT_MINOFF = 4"

definition ipt_flags :: "(string \<times> u8) list" where
  "ipt_flags = [(''IPOPT_TS_TSONLY'', 0), (''IPOPT_TS_TSANDADDR'', 1), (''IPOPT_TS_PRESPEC'', 3)]"

definition ipopt_security :: "(string \<times> u16) list" where
  "ipopt_security =
     [(''IPOPT_SECUR_UNCLASS'', 0x0000), (''IPOPT_SECUR_CONFID'', 0xf135), (''IPOPT_SECUR_EFTO'', 0x789a),
      (''IPOPT_SECUR_MMMM'', 0xbc4d), (''IPOPT_SECUR_RESTR'', 0xaf13), (''IPOPT_SECUR_SECRET'', 0xd788),
      (''IPOPT_SECUR_TOPSECRET'', 0x6bc5)]"

definition MAXTTL :: nat where [simp]: "MAXTTL = 255"
definition IPDEFTTL :: nat where [simp]: "IPDEFTTL = 64"
definition IPFRAGTTL :: nat where [simp]: "IPFRAGTTL = 60"
definition IPTTLDEC :: nat where [simp]: "IPTTLDEC = 1"
definition IP_MSS :: nat where [simp]: "IP_MSS = 576"
definition IP_MAXPACKET :: nat where [simp]: "IP_MAXPACKET = 65535"

section \<open>TCP.H\<close>

text \<open>The option kinds with the length the header gives them, where it gives one.\<close>

definition tcp_option_kinds :: "(string \<times> u8 \<times> u8 option) list" where
  "tcp_option_kinds =
     [(''TCPOPT_EOL'', 0, None), (''TCPOPT_NOP'', 1, None), (''TCPOPT_MAXSEG'', 2, Some 4),
      (''TCPOPT_WINDOW'', 3, Some 3), (''TCPOPT_SACK_PERMITTED'', 4, Some 2), (''TCPOPT_SACK'', 5, None),
      (''TCPOPT_TIMESTAMP'', 8, Some 10)]"

definition TCPOLEN_TIMESTAMP :: u32 where [simp]: "TCPOLEN_TIMESTAMP = 10"
definition TCPOLEN_TSTAMP_APPA :: u32 where [simp]: "TCPOLEN_TSTAMP_APPA = TCPOLEN_TIMESTAMP + 2"
definition TCPOPT_NOP :: u32 where [simp]: "TCPOPT_NOP = 1"
definition TCPOPT_TIMESTAMP :: u32 where [simp]: "TCPOPT_TIMESTAMP = 8"

definition TCPOPT_TSTAMP_HDR :: u32 where
  "TCPOPT_TSTAMP_HDR =
     push_bit 24 TCPOPT_NOP OR push_bit 16 TCPOPT_NOP OR push_bit 8 TCPOPT_TIMESTAMP OR TCPOLEN_TIMESTAMP"

definition TCP_MSS :: nat where [simp]: "TCP_MSS = 512"
definition TCP_MAXWIN :: nat where [simp]: "TCP_MAXWIN = 65535"
definition TCP_MAX_WINSHIFT :: nat where [simp]: "TCP_MAX_WINSHIFT = 14"

section \<open>IP\_ICMP.H\<close>

definition ICMP_MINLEN :: nat where [simp]: "ICMP_MINLEN = 8"
definition ICMP_TSLEN :: nat where "ICMP_TSLEN = 8 + 3 * sizeof 4 n_time"
definition ICMP_MASKLEN :: nat where [simp]: "ICMP_MASKLEN = 12"
definition ICMP_ADVLENMIN :: nat where "ICMP_ADVLENMIN = 8 + sizeof 4 (struct_ip LITTLE_ENDIAN) + 8"

text \<open>\<open>ICMP_ADVLEN(p)\<close> reads the header length of the returned IP header.\<close>

definition ICMP_ADVLEN :: "mem \<Rightarrow> nat \<Rightarrow> nat option" where
  "ICMP_ADVLEN m p = do { hl \<leftarrow> get_ip_hl m (p + icmp_ip); Some (8 + push_bit 2 (unat hl) + 8) }"

definition icmp_unreach_codes :: "(string \<times> u8) list" where
  "icmp_unreach_codes =
     [(''ICMP_UNREACH_NET'', 0), (''ICMP_UNREACH_HOST'', 1), (''ICMP_UNREACH_PROTOCOL'', 2),
      (''ICMP_UNREACH_PORT'', 3), (''ICMP_UNREACH_NEEDFRAG'', 4), (''ICMP_UNREACH_SRCFAIL'', 5),
      (''ICMP_UNREACH_NET_UNKNOWN'', 6), (''ICMP_UNREACH_HOST_UNKNOWN'', 7), (''ICMP_UNREACH_ISOLATED'', 8),
      (''ICMP_UNREACH_NET_PROHIB'', 9), (''ICMP_UNREACH_HOST_PROHIB'', 10), (''ICMP_UNREACH_TOSNET'', 11),
      (''ICMP_UNREACH_TOSHOST'', 12)]"

definition icmp_redirect_codes :: "(string \<times> u8) list" where
  "icmp_redirect_codes =
     [(''ICMP_REDIRECT_NET'', 0), (''ICMP_REDIRECT_HOST'', 1), (''ICMP_REDIRECT_TOSNET'', 2),
      (''ICMP_REDIRECT_TOSHOST'', 3)]"

definition icmp_types :: "(string \<times> u8) list" where
  "icmp_types =
     [(''ICMP_ECHOREPLY'', 0), (''ICMP_UNREACH'', 3), (''ICMP_SOURCEQUENCH'', 4), (''ICMP_REDIRECT'', 5),
      (''ICMP_ECHO'', 8), (''ICMP_ROUTERADVERT'', 9), (''ICMP_ROUTERSOLICIT'', 10), (''ICMP_TIMXCEED'', 11),
      (''ICMP_PARAMPROB'', 12), (''ICMP_TSTAMP'', 13), (''ICMP_TSTAMPREPLY'', 14), (''ICMP_IREQ'', 15),
      (''ICMP_IREQREPLY'', 16), (''ICMP_MASKREQ'', 17), (''ICMP_MASKREPLY'', 18)]"

definition icmp_timxceed_codes :: "(string \<times> u8) list" where
  "icmp_timxceed_codes = [(''ICMP_TIMXCEED_INTRANS'', 0), (''ICMP_TIMXCEED_REASS'', 1)]"

definition icmp_paramprob_codes :: "(string \<times> u8) list" where
  "icmp_paramprob_codes = [(''ICMP_PARAMPROB_OPTABSENT'', 1)]"

definition ICMP_MAXTYPE :: u8 where [simp]: "ICMP_MAXTYPE = 18"

definition ICMP_ROUTERADVERT :: u8 where [simp]: "ICMP_ROUTERADVERT = 9"
definition ICMP_ROUTERSOLICIT :: u8 where [simp]: "ICMP_ROUTERSOLICIT = 10"
definition ICMP_IREQ :: u8 where [simp]: "ICMP_IREQ = 15"
definition ICMP_IREQREPLY :: u8 where [simp]: "ICMP_IREQREPLY = 16"

definition ICMP_INFOTYPE :: "u8 \<Rightarrow> bool" where
  "ICMP_INFOTYPE ty \<longleftrightarrow>
     ty = ICMP_ECHOREPLY \<or> ty = ICMP_ECHO \<or>
     ty = ICMP_ROUTERADVERT \<or> ty = ICMP_ROUTERSOLICIT \<or>
     ty = ICMP_TSTAMP \<or> ty = ICMP_TSTAMPREPLY \<or>
     ty = ICMP_IREQ \<or> ty = ICMP_IREQREPLY \<or>
     ty = ICMP_MASKREQ \<or> ty = ICMP_MASKREPLY"

section \<open>Ethernet and ARP\<close>

definition ethertypes :: "(string \<times> u16) list" where
  "ethertypes =
     [(''ETHERTYPE_PUP'', 0x0200), (''ETHERTYPE_IP'', 0x0800), (''ETHERTYPE_IP_PACKET'', 0x0021),
      (''ETHERTYPE_PPPOE'', 0x8864), (''ETHERTYPE_ARP'', 0x0806), (''ETHERTYPE_REVARP'', 0x8035),
      (''ETHERTYPE_VLAN'', 0x8100), (''ETHERTYPE_IPV6'', 0x86dd), (''ETHERTYPE_LOOPBACK'', 0x9000)]"

definition if_ethertypes :: "(string \<times> u16) list" where
  "if_ethertypes =
     [(''ETHERTYPE_PUP'', 0x0200), (''ETHERTYPE_IP'', 0x0800), (''ETHERTYPE_ARP'', 0x0806),
      (''ETHERTYPE_REVARP'', 0x8035)]"

definition ETHERTYPE_TRAIL :: nat where [simp]: "ETHERTYPE_TRAIL = 0x1000"
definition ETHERTYPE_NTRAILER :: nat where [simp]: "ETHERTYPE_NTRAILER = 16"
definition ETHERMTU :: nat where [simp]: "ETHERMTU = 1500"
definition ETHERMIN :: nat where [simp]: "ETHERMIN = 60 - 14"

definition arp_hardware :: "(string \<times> u16) list" where
  "arp_hardware = [(''ARPHRD_ETHER'', 1), (''ARPHRD_IEEE802'', 6), (''ARPHRD_FRELAY'', 15)]"

definition arp_operations :: "(string \<times> u16) list" where
  "arp_operations =
     [(''ARPOP_REQUEST'', 1), (''ARPOP_REPLY'', 2), (''ARPOP_REVREQUEST'', 3), (''ARPOP_REVREPLY'', 4),
      (''ARPOP_INVREQUEST'', 8), (''ARPOP_INVREPLY'', 9)]"

definition arp_flags :: "(string \<times> u8) list" where
  "arp_flags =
     [(''ATF_INUSE'', 0x01), (''ATF_COM'', 0x02), (''ATF_PERM'', 0x04), (''ATF_PUBL'', 0x08),
      (''ATF_USETRAILERS'', 0x10)]"

section \<open>ip6.h\<close>

definition IPV6_VERSION :: u8 where [simp]: "IPV6_VERSION = 0x60"
definition IPV6_VERSION_MASK :: u8 where [simp]: "IPV6_VERSION_MASK = 0xf0"
definition IPV6_FLOWINFO_MASK :: u32 where "IPV6_FLOWINFO_MASK = htonl 0x0fffffff"
definition IPV6_FLOWLABEL_MASK :: u32 where "IPV6_FLOWLABEL_MASK = htonl 0x000fffff"

definition ip6_option_types :: "(string \<times> u8) list" where
  "ip6_option_types =
     [(''IP6OPT_PAD1'', 0x00), (''IP6OPT_PADN'', 0x01), (''IP6OPT_JUMBO'', 0xC2), (''IP6OPT_ROUTER_ALERT'', 0x05),
      (''IP6OPT_BINDING_UPDATE'', 0xc6), (''IP6OPT_BINDING_ACK'', 0x07), (''IP6OPT_BINDING_REQ'', 0x08),
      (''IP6OPT_HOME_ADDRESS'', 0xc9), (''IP6OPT_EID'', 0x8a)]"

definition ip6_option_lengths :: "(string \<times> u8) list" where
  "ip6_option_lengths =
     [(''IP6OPT_JUMBO_LEN'', 6), (''IP6OPT_RTALERT_LEN'', 4), (''IP6OPT_MINLEN'', 2)]"

definition ip6_rtalert_values :: "(string \<times> u8) list" where
  "ip6_rtalert_values =
     [(''IP6OPT_RTALERT_MLD'', 0), (''IP6OPT_RTALERT_RSVP'', 1), (''IP6OPT_RTALERT_ACTNET'', 2)]"

definition IP6OPT_TYPE :: "u8 \<Rightarrow> u8" where "IP6OPT_TYPE opt = opt AND 0xC0"

definition ip6_option_actions :: "(string \<times> u8) list" where
  "ip6_option_actions =
     [(''IP6OPT_TYPE_SKIP'', 0x00), (''IP6OPT_TYPE_DISCARD'', 0x40), (''IP6OPT_TYPE_FORCEICMP'', 0x80),
      (''IP6OPT_TYPE_ICMP'', 0xC0)]"

definition IP6OPT_MUTABLE :: u8 where [simp]: "IP6OPT_MUTABLE = 0x20"

definition IP6F_RESERVED_MASK :: u16 where "IP6F_RESERVED_MASK = htons 0x0006"

text \<open>The protocol numbers of \<open>packet_ipv6.c\<close> on Windows, and those of \<open>ip6_misc.h\<close>.\<close>

definition ipproto_packet_ipv6 :: "(string \<times> u16) list" where
  "ipproto_packet_ipv6 =
     [(''IPPROTO_HOPOPTS'', 0), (''IPPROTO_IPV6'', 41), (''IPPROTO_ROUTING'', 43), (''IPPROTO_FRAGMENT'', 44),
      (''IPPROTO_ESP'', 50), (''IPPROTO_AH'', 51), (''IPPROTO_ICMPV6'', 58), (''IPPROTO_NONE'', 59),
      (''IPPROTO_DSTOPTS'', 60)]"

definition ipproto_ip6_misc :: "(string \<times> u16) list" where
  "ipproto_ip6_misc =
     [(''IPPROTO_HOPOPTS'', 0), (''IPPROTO_IPV6'', 41), (''IPPROTO_ROUTING'', 43), (''IPPROTO_FRAGMENT'', 44),
      (''IPPROTO_ESP'', 50), (''IPPROTO_AH'', 51), (''IPPROTO_ICMPV6'', 58), (''IPPROTO_NONE'', 59),
      (''IPPROTO_DSTOPTS'', 60), (''IPPROTO_PIM'', 103)]"

definition ip6_misc_option_types :: "(string \<times> u8) list" where
  "ip6_misc_option_types =
     [(''IP6OPT_PAD1'', 0x00), (''IP6OPT_PADN'', 0x01), (''IP6OPT_JUMBO'', 0xC2), (''IP6OPT_ROUTER_ALERT'', 0x05),
      (''IP6OPT_BINDING_UPDATE'', 0xc6), (''IP6OPT_BINDING_ACK'', 0x07), (''IP6OPT_BINDING_REQ'', 0x08),
      (''IP6OPT_HOME_ADDRESS'', 0xc9), (''IP6OPT_EID'', 0x8a)]"

section \<open>Facts about the constants\<close>

lemma less_8: "(n :: nat) < 8 \<longleftrightarrow> n = 0 \<or> n = 1 \<or> n = 2 \<or> n = 3 \<or> n = 4 \<or> n = 5 \<or> n = 6 \<or> n = 7"
  by presburger

lemma and_255: "(b :: u8) AND 255 = b"
proof -
  have "(255 :: u8) = -1" by simp
  then show ?thesis by (simp only: and.right_neutral)
qed

lemma and_0x60: "(b :: u8) AND 0x60 = (if bit b 5 then 0x20 else 0) OR (if bit b 6 then 0x40 else 0)"
  by (intro bit_word_eqI) (auto simp: bit_and_iff bit_or_iff less_8)

lemma and_0xC0: "(b :: u8) AND 0xC0 = (if bit b 6 then 0x40 else 0) OR (if bit b 7 then 0x80 else 0)"
  by (intro bit_word_eqI) (auto simp: bit_and_iff bit_or_iff less_8)

text \<open>
  The three parts of an IPv4 option type are disjoint and make it up, and the class is one of the four of
  the header.
\<close>

theorem ipopt_parts:
  "IPOPT_COPIED opt OR IPOPT_CLASS opt OR IPOPT_NUMBER opt = opt \<and>
   IPOPT_COPIED opt AND IPOPT_CLASS opt = 0 \<and> IPOPT_CLASS opt AND IPOPT_NUMBER opt = 0 \<and>
   IPOPT_COPIED opt AND IPOPT_NUMBER opt = 0 \<and> IPOPT_CLASS opt \<in> set (map snd ipopt_classes)"
proof (intro conjI)
  show "IPOPT_COPIED opt OR IPOPT_CLASS opt OR IPOPT_NUMBER opt = opt"
    by (simp add: IPOPT_COPIED_def IPOPT_CLASS_def IPOPT_NUMBER_def and_255 flip: bit.conj_disj_distrib)
  show "IPOPT_COPIED opt AND IPOPT_CLASS opt = 0" "IPOPT_CLASS opt AND IPOPT_NUMBER opt = 0"
    "IPOPT_COPIED opt AND IPOPT_NUMBER opt = 0"
    by (simp_all add: IPOPT_COPIED_def IPOPT_CLASS_def IPOPT_NUMBER_def and.assoc and.left_commute)
  show "IPOPT_CLASS opt \<in> set (map snd ipopt_classes)"
    by (simp add: IPOPT_CLASS_def and_0x60 ipopt_classes_def)
qed

text \<open>The two high bits of an IPv6 option type are one of the four actions; the comments give the bits of each type.\<close>

theorem ip6_option_type_actions:
  "IP6OPT_TYPE opt \<in> set (map snd ip6_option_actions) \<and>
   map (\<lambda>(n, b). (drop_bit 6 b, drop_bit 5 b AND 1, b AND 0x1f)) ip6_option_types =
     [(0, 0, 0), (0, 0, 1), (3, 0, 2), (0, 0, 5), (3, 0, 6), (0, 0, 7), (0, 0, 8), (3, 0, 9), (2, 0, 10)]"
  by (simp add: IP6OPT_TYPE_def and_0xC0 ip6_option_actions_def ip6_option_types_def)

text \<open>The header of an aligned TCP timestamp option is two no-operations, the kind and the length, in network order.\<close>

theorem TCPOPT_TSTAMP_HDR_bytes:
  "map (\<lambda>i. byte32 i TCPOPT_TSTAMP_HDR) [3, 2, 1, 0] = [1, 1, 8, 10] \<and>
   map_of tcp_option_kinds ''TCPOPT_TIMESTAMP'' = Some (8, Some 10) \<and> TCPOLEN_TSTAMP_APPA = 12"
  by (simp add: TCPOPT_TSTAMP_HDR_def byte32_def tcp_option_kinds_def)

text \<open>The length bounds of \<open>IP_ICMP.H\<close> are the ends of the parts of \<open>struct icmp\<close> they are meant for.\<close>

theorem icmp_length_bounds:
  "ICMP_MINLEN = ICMPHDRLEN \<and> ICMP_TSLEN = icmp_ttime + sizeof w n_time \<and>
   ICMP_MASKLEN = icmp_mask + sizeof w u_int \<and> ICMP_ADVLENMIN = icmp_ip + sizeof w (struct_ip bo) + 8"
  by (simp add: ICMP_TSLEN_def ICMP_ADVLENMIN_def layout_eval numeral_2_eq_2 [symmetric])

lemma push_bit_2_nat: "push_bit 2 (n :: nat) = 4 * n"
  by (simp add: push_bit_eq_mult)

text \<open>An advice message is as long as its returned header says, within the bounds of that header.\<close>

lemma ICMP_ADVLEN_bounds:
  assumes "ICMP_ADVLEN m p = Some n" and "get_ip_hl m (p + icmp_ip) = Some hl" and "5 \<le> hl"
  shows "ICMP_ADVLENMIN \<le> n \<and> n \<le> ICMP_ADVLENMIN + MAX_IPOPTLEN"
proof -
  obtain b where "hl = b AND 0x0f" using assms(2) by (auto simp: get_ip_hl_def bind_eq_Some_conv)
  then have "hl \<le> 0x0f" by (simp add: word_and_le1)
  then have "unat hl \<le> 15" by (simp add: word_le_nat_alt)
  moreover have "5 \<le> unat hl" using assms(3) by (simp add: word_le_nat_alt)
  moreover have "ICMP_ADVLENMIN = 36"
    by (simp add: ICMP_ADVLENMIN_def layout_eval numeral_2_eq_2 [symmetric])
  ultimately show ?thesis using assms(1,2) by (simp add: ICMP_ADVLEN_def push_bit_2_nat)
qed

text \<open>
  Message types. Every type of the header is either informational or one of the five errors, and these are
  the types for which \<open>analyze_icmp\<close> looks for a returned IP header, provided the data reaches the minimal
  length of an advice message.
\<close>

definition icmp_error_types :: "u8 list" where
  "icmp_error_types = [ICMP_UNREACH, ICMP_SOURCEQUENCH, ICMP_REDIRECT, ICMP_TIMXCEED, ICMP_PARAMPROB]"

lemma icmp_types_partition:
  "list_all (\<lambda>(n, ty). (ICMP_INFOTYPE ty \<longleftrightarrow> ty \<notin> set icmp_error_types) \<and> ty \<le> ICMP_MAXTYPE) icmp_types"
  by (simp add: icmp_types_def ICMP_INFOTYPE_def icmp_error_types_def)

lemma icmp_case_error_needs_ADVLENMIN:
  "unat clen < ICMP_ADVLENMIN \<Longrightarrow> icmp_case_error packet m p clen = Some packet"
  by (simp add: icmp_case_error_def ICMP_ADVLENMIN_def layout_eval numeral_2_eq_2 [symmetric])

lemma analyze_icmp_switch_infotype:
  "ICMP_INFOTYPE ty \<Longrightarrow> analyze_icmp_switch packet m p clen ty = Some q \<Longrightarrow>
    ippacket (icmp q) = ippacket (icmp packet)"
  by (auto simp: ICMP_INFOTYPE_def analyze_icmp_switch_def bind_eq_Some_conv CallVoidMethod_def
      ICMPPacket_setTimestampValue_def split: if_splits)

text \<open>The three fields of the fragment word are disjoint and fill it.\<close>

theorem ip6_fragment_masks:
  "IP6F_OFF_MASK OR IP6F_RESERVED_MASK OR IP6F_MORE_FRAG = 0xffff \<and> IP6F_OFF_MASK AND IP6F_RESERVED_MASK = 0 \<and>
   IP6F_OFF_MASK AND IP6F_MORE_FRAG = 0 \<and> IP6F_RESERVED_MASK AND IP6F_MORE_FRAG = 0"
  by (simp add: IP6F_OFF_MASK_def IP6F_RESERVED_MASK_def IP6F_MORE_FRAG_def ntohs_def le16_def hi16_def lo16_def)

text \<open>
  The flow label mask of \<open>ip6.h\<close> is in network order: applied to the word of the header it leaves the twenty
  bits of the label. \<open>analyze_ipv6\<close> masks with the constant in host order and keeps other bits.
\<close>

lemma ntohl_and: "ntohl (a AND b) = ntohl a AND ntohl b"
  by (intro bit_word_eqI) (auto simp: ntohl_def le32_def byte32_def bit_simps)

theorem ip6_flow_label_mask:
  "ntohl (flow AND IPV6_FLOWLABEL_MASK) = ntohl flow AND 0x000fffff \<and>
   ntohl (flow AND IPV6_FLOWINFO_MASK) = ntohl flow AND 0x0fffffff \<and>
   ipv6_flow_label flow = ntohl flow AND 0xffff0f00"
  by (simp add: IPV6_FLOWLABEL_MASK_def IPV6_FLOWINFO_MASK_def ipv6_flow_label_def ntohl_and)
     (simp add: ntohl_def le32_def byte32_def)

text \<open>The headers agree where they define the same names.\<close>

theorem headers_agree:
  "list_all (\<lambda>(n, v). map_of ethertypes n = Some v) if_ethertypes \<and>
   list_all (\<lambda>(n, v). map_of ipproto_ip6_misc n = Some v) ipproto_packet_ipv6 \<and>
   ip6_misc_option_types = ip6_option_types \<and>
   map_of ethertypes ''ETHERTYPE_IP'' = Some ETHERTYPE_IP \<and>
   map_of ethertypes ''ETHERTYPE_IPV6'' = Some ETHERTYPE_IPV6 \<and>
   map_of ethertypes ''ETHERTYPE_ARP'' = Some ETHERTYPE_ARP \<and>
   map_of ipproto_packet_ipv6 ''IPPROTO_FRAGMENT'' = Some IPPROTO_FRAGMENT \<and>
   map_of ipproto_packet_ipv6 ''IPPROTO_AH'' = Some IPPROTO_AH"
  by (simp add: ethertypes_def if_ethertypes_def ipproto_ip6_misc_def ipproto_packet_ipv6_def
      ip6_misc_option_types_def ip6_option_types_def)

end
