(* ===== verification/Winpcap_Time.thy ===== *)
theory Winpcap_Time
  imports Main "HOL-Library.Word" "HOL-Library.Signed_Division"
begin

text \<open>
  The time stamps of the bundled WinPcap driver (\<open>win32/WpdPack/Include/time_calls.h\<close>): synchronisation of the
  performance counter and of the time stamp counter with the system time, and the conversion of a counter
  reading to seconds and microseconds. The readings of the kernel (\<open>KeQueryPerformanceCounter\<close>,
  \<open>KeQuerySystemTime\<close>, \<open>rdtsc\<close>, the processor number, the registry) are arguments. Integers carry the
  conversions of C: \<open>LONG\<close>, \<open>ULONG\<close>, \<open>LONGLONG\<close> and \<open>ULONGLONG\<close> reduce a value to their range. \<open>None\<close> is a
  division by zero or an index outside the array of 32 starting times.
\<close>

section \<open>Types and constants\<close>

definition LONG :: "int \<Rightarrow> int" where "LONG x = signed_take_bit 31 x"
definition ULONG :: "int \<Rightarrow> int" where "ULONG x = take_bit 32 x"
definition LONGLONG :: "int \<Rightarrow> int" where "LONGLONG x = signed_take_bit 63 x"
definition ULONGLONG :: "int \<Rightarrow> int" where "ULONGLONG x = take_bit 64 x"

definition DEFAULT_TIMESTAMPMODE :: int where [simp]: "DEFAULT_TIMESTAMPMODE = 0"
definition TIMESTAMPMODE_SINGLE_SYNCHRONIZATION :: int where [simp]: "TIMESTAMPMODE_SINGLE_SYNCHRONIZATION = 0"
definition TIMESTAMPMODE_SYNCHRONIZATION_ON_CPU_WITH_FIXUP :: int where [simp]:
  "TIMESTAMPMODE_SYNCHRONIZATION_ON_CPU_WITH_FIXUP = 1"
definition TIMESTAMPMODE_QUERYSYSTEMTIME :: int where [simp]: "TIMESTAMPMODE_QUERYSYSTEMTIME = 2"
definition TIMESTAMPMODE_RDTSC :: int where [simp]: "TIMESTAMPMODE_RDTSC = 3"
definition TIMESTAMPMODE_SYNCHRONIZATION_ON_CPU_NO_FIXUP :: int where [simp]:
  "TIMESTAMPMODE_SYNCHRONIZATION_ON_CPU_NO_FIXUP = 99"

record win_timeval =
  sec :: int
  usec :: int

record time_conv =
  reference :: int
  start :: "win_timeval list"

text \<open>A reading of the performance counter: the counter and its frequency.\<close>

type_synonym kqpc = "int \<times> int"

section \<open>Synchronisation\<close>

definition TIME_DESYNCHRONIZE :: "time_conv \<Rightarrow> time_conv" where
  "TIME_DESYNCHRONIZE data = data\<lparr>reference := 0\<rparr>"

text \<open>
  \<open>alloc\<close>: whether the pool has memory for the path; \<open>query\<close>: the value the registry query leaves in
  \<open>TimestampMode\<close>, when it succeeds. The second result is what is written back to the registry.
\<close>

definition ReadTimeStampModeFromRegistry :: "bool \<Rightarrow> int option \<Rightarrow> int \<times> int option" where
  "ReadTimeStampModeFromRegistry alloc query =
     (if alloc
      then let TimestampMode = (case query of Some v \<Rightarrow> v | None \<Rightarrow> DEFAULT_TIMESTAMPMODE)
           in (TimestampMode, Some TimestampMode)
      else (DEFAULT_TIMESTAMPMODE, None))"

definition carry_down :: "win_timeval \<Rightarrow> win_timeval" where
  "carry_down t = (if usec t < 0 then \<lparr>sec = LONG (sec t - 1), usec = LONG (usec t + 1000000)\<rparr> else t)"

definition carry_up :: "win_timeval \<Rightarrow> win_timeval" where
  "carry_up t = (if 1000000 \<le> usec t then \<lparr>sec = LONG (sec t + 1), usec = LONG (usec t - 1000000)\<rparr> else t)"

definition SynchronizeOnCpu :: "kqpc \<Rightarrow> int \<Rightarrow> win_timeval option" where
  "SynchronizeOnCpu kq SystemTime =
     (let (PTime, TimeFreq) = kq in
      if TimeFreq = 0 then None
      else
        let s = LONG (LONGLONG (SystemTime sdiv 10000000 - 11644473600));
            u = LONG ((SystemTime smod 10000000) sdiv 10);
            s = LONG (s - ULONG (PTime sdiv TimeFreq));
            u = LONG (u - LONG (LONGLONG ((PTime smod TimeFreq) * 1000000) sdiv TimeFreq))
        in Some (carry_down \<lparr>sec = s, usec = u\<rparr>))"

text \<open>
  Two readings of the time stamp counter 350 ms apart, each with the performance counter, give the frequency
  of the processor, rounded to a multiple of 1000; the early return is a synchronisation that was done.
\<close>

definition rdtsc_frequency :: "kqpc \<Rightarrow> int \<Rightarrow> kqpc \<Rightarrow> int \<Rightarrow> int option" where
  "rdtsc_frequency start_kq start_ticks stop_kq stop_ticks =
     (let delta = ULONGLONG (stop_ticks - start_ticks);
          delta2 = ULONGLONG (LONGLONG (fst stop_kq - fst start_kq));
          (delta, delta2) = (if 10000000000 < delta then (delta div 16, delta2 div 16) else (delta, delta2))
      in if delta2 = 0 then None
         else
           let ref = ULONGLONG (delta * snd start_kq) div delta2;
               r = ref div 1000;
               r = (if 500 < ref mod 1000 then ULONGLONG (r + 1) else r)
           in Some (ULONGLONG (r * 1000)))"

definition rdtsc_start :: "int \<Rightarrow> int \<Rightarrow> int \<Rightarrow> win_timeval option" where
  "rdtsc_start ref system_time curr_ticks =
     (if ref = 0 then None
      else
        let s = LONG (- LONG (curr_ticks div ref));
            u = LONG (- LONG (ULONGLONG ((curr_ticks mod ref) * 1000000) div ref));
            system_time = LONGLONG (system_time - 116444736000000000);
            s = LONG (s + LONG (system_time sdiv 10000000));
            u = LONG (u + LONG ((system_time smod 10000000) sdiv 10))
        in Some (carry_down \<lparr>sec = s, usec = u\<rparr>))"

definition TimeSynchronizeRDTSC ::
    "kqpc \<Rightarrow> int \<Rightarrow> kqpc \<Rightarrow> int \<Rightarrow> int \<Rightarrow> int \<Rightarrow> time_conv \<Rightarrow> time_conv option" where
  "TimeSynchronizeRDTSC start_kq start_ticks stop_kq stop_ticks system_time curr_ticks data =
     (if reference data \<noteq> 0 then Some data
      else
        case rdtsc_frequency start_kq start_ticks stop_kq stop_ticks of
          None \<Rightarrow> None
        | Some ref \<Rightarrow>
            (case rdtsc_start ref system_time curr_ticks of
               None \<Rightarrow> None
             | Some tmp \<Rightarrow> Some (data\<lparr>reference := ref, start := (start data)[0 := tmp]\<rparr>)))"

text \<open>The starting times of the processors in turn: \<open>kq i\<close> and \<open>sys i\<close> are the readings on processor \<open>i\<close>.\<close>

fun synchronize_cpus ::
    "(nat \<Rightarrow> kqpc) \<Rightarrow> (nat \<Rightarrow> int) \<Rightarrow> nat \<Rightarrow> nat \<Rightarrow> win_timeval list \<Rightarrow> win_timeval list option" where
  "synchronize_cpus kq sys 0 i st = Some st"
| "synchronize_cpus kq sys (Suc n) i st =
     (if i < length st
      then case SynchronizeOnCpu (kq i) (sys i) of
             None \<Rightarrow> None
           | Some t \<Rightarrow> synchronize_cpus kq sys n (Suc i) (st[i := t])
      else None)"

definition on_cpu :: "int \<Rightarrow> bool" where
  "on_cpu TimestampMode \<longleftrightarrow>
     TimestampMode = TIMESTAMPMODE_SYNCHRONIZATION_ON_CPU_WITH_FIXUP \<or>
     TimestampMode = TIMESTAMPMODE_SYNCHRONIZATION_ON_CPU_NO_FIXUP"

text \<open>
  \<open>TIME_SYNCHRONIZE\<close>; \<open>x86\<close> is the build for which the mode with the time stamp counter exists, and \<open>rdtsc\<close>
  the call of \<open>TimeSynchronizeRDTSC\<close> with its readings.
\<close>

definition TIME_SYNCHRONIZE ::
    "bool \<Rightarrow> int \<Rightarrow> nat \<Rightarrow> (nat \<Rightarrow> kqpc) \<Rightarrow> (nat \<Rightarrow> int) \<Rightarrow> (time_conv \<Rightarrow> time_conv option) \<Rightarrow>
     time_conv \<Rightarrow> time_conv option" where
  "TIME_SYNCHRONIZE x86 TimestampMode NumberOfCpus kq sys rdtsc data =
     (if reference data \<noteq> 0 then Some data
      else if on_cpu TimestampMode
      then case synchronize_cpus kq sys NumberOfCpus 0 (start data) of
             None \<Rightarrow> None
           | Some st \<Rightarrow> Some (data\<lparr>start := st, reference := 1\<rparr>)
      else if TimestampMode = TIMESTAMPMODE_QUERYSYSTEMTIME then Some (data\<lparr>reference := 1\<rparr>)
      else if x86 \<and> TimestampMode = TIMESTAMPMODE_RDTSC then rdtsc data
      else case SynchronizeOnCpu (kq 0) (sys 0) of
             None \<Rightarrow> None
           | Some t \<Rightarrow> Some (data\<lparr>start := (start data)[0 := t], reference := 1\<rparr>))"

section \<open>Reading the time\<close>

definition kqpc_time :: "win_timeval \<Rightarrow> kqpc \<Rightarrow> win_timeval" where
  "kqpc_time st kq =
     (let (PTime, TimeFreq) = kq in
      carry_up
        \<lparr>sec = LONG (sec st + LONG (PTime sdiv TimeFreq)),
         usec = LONG (usec st + LONG (LONGLONG ((PTime smod TimeFreq) * 1000000) sdiv TimeFreq))\<rparr>)"

definition later :: "win_timeval \<Rightarrow> win_timeval \<Rightarrow> bool" where
  "later a b \<longleftrightarrow> sec b < sec a \<or> (sec a = sec b \<and> usec b < usec a)"

text \<open>
  \<open>GetTimeKQPC\<close>, with the static \<open>old_ts\<close> as state: the new time and the new \<open>old_ts\<close>. With the fix-up a time
  earlier than the last one is replaced by it.
\<close>

definition GetTimeKQPC :: "int \<Rightarrow> kqpc \<Rightarrow> nat \<Rightarrow> time_conv \<Rightarrow> win_timeval \<Rightarrow> (win_timeval \<times> win_timeval) option" where
  "GetTimeKQPC TimestampMode kq CurrentCpu data old_ts =
     (if snd kq = 0 then None
      else if on_cpu TimestampMode
      then if CurrentCpu < length (start data)
           then let dst = kqpc_time (start data ! CurrentCpu) kq
                in if TimestampMode = TIMESTAMPMODE_SYNCHRONIZATION_ON_CPU_WITH_FIXUP
                   then Some (if later old_ts dst then (old_ts, old_ts) else (dst, dst))
                   else Some (dst, old_ts)
           else None
      else if start data = [] then None
      else Some (kqpc_time (start data ! 0) kq, old_ts))"

definition GetTimeRDTSC :: "int \<Rightarrow> time_conv \<Rightarrow> win_timeval \<Rightarrow> win_timeval option" where
  "GetTimeRDTSC ticks data dst =
     (if reference data = 0 then Some dst
      else if start data = [] then None
      else
        let s = LONG (ticks div reference data);
            u = LONG (ULONGLONG (ULONGLONG (ticks - ULONGLONG (s * reference data)) * 1000000) div reference data);
            s = LONG (s + sec (start data ! 0));
            u = LONG (u + usec (start data ! 0))
        in Some (carry_up \<lparr>sec = s, usec = u\<rparr>))"

definition GetTimeQST :: "int \<Rightarrow> win_timeval" where
  "GetTimeQST SystemTime =
     \<lparr>sec = LONG (LONGLONG (SystemTime sdiv 10000000 - 11644473600)),
      usec = LONG ((SystemTime smod 10000000) sdiv 10)\<rparr>"

text \<open>\<open>GET_TIME\<close> of the driver, with the reading of every clock at hand.\<close>

definition GET_TIME ::
    "bool \<Rightarrow> int \<Rightarrow> kqpc \<Rightarrow> int \<Rightarrow> int \<Rightarrow> nat \<Rightarrow> time_conv \<Rightarrow> win_timeval \<Rightarrow> win_timeval \<Rightarrow>
     (win_timeval \<times> win_timeval) option" where
  "GET_TIME x86 TimestampMode kq ticks SystemTime CurrentCpu data dst old_ts =
     (if x86 \<and> TimestampMode = TIMESTAMPMODE_RDTSC
      then map_option (\<lambda>t. (t, old_ts)) (GetTimeRDTSC ticks data dst)
      else if TimestampMode = TIMESTAMPMODE_QUERYSYSTEMTIME then Some (GetTimeQST SystemTime, old_ts)
      else GetTimeKQPC TimestampMode kq CurrentCpu data old_ts)"

text \<open>Outside the driver the first starting time is simply set and read.\<close>

definition FORCE_TIME :: "win_timeval \<Rightarrow> time_conv \<Rightarrow> time_conv" where
  "FORCE_TIME src dest = dest\<lparr>start := (start dest)[0 := src]\<rparr>"

definition GET_TIME_user :: "time_conv \<Rightarrow> win_timeval option" where
  "GET_TIME_user data = (if start data = [] then None else Some (start data ! 0))"

section \<open>Correctness\<close>

lemma LONG_id: "- 2147483648 \<le> x \<Longrightarrow> x < 2147483648 \<Longrightarrow> LONG x = x"
  by (simp add: LONG_def signed_take_bit_int_eq_self)

lemma ULONG_id: "0 \<le> x \<Longrightarrow> x < 4294967296 \<Longrightarrow> ULONG x = x"
  by (simp add: ULONG_def take_bit_int_eq_self)

lemma LONGLONG_id: "- 9223372036854775808 \<le> x \<Longrightarrow> x < 9223372036854775808 \<Longrightarrow> LONGLONG x = x"
  by (simp add: LONGLONG_def signed_take_bit_int_eq_self)

lemma ULONGLONG_id: "0 \<le> x \<Longrightarrow> x < 18446744073709551616 \<Longrightarrow> ULONGLONG x = x"
  by (simp add: ULONGLONG_def take_bit_int_eq_self)

lemmas c_id = LONG_id ULONG_id LONGLONG_id ULONGLONG_id

lemma sdiv_nonneg: "0 \<le> (a :: int) \<Longrightarrow> 0 < b \<Longrightarrow> a sdiv b = a div b"
  by (cases "a = 0") (simp_all add: signed_divide_int_def)

lemma smod_nonneg: "0 \<le> (a :: int) \<Longrightarrow> 0 < b \<Longrightarrow> a smod b = a mod b"
  by (cases "a = 0") (simp_all add: signed_modulo_int_def)

text \<open>Microseconds of a counter reading, of a system time since 1970, and of a time stamp.\<close>

definition micros :: "kqpc \<Rightarrow> int" where
  "micros kq = fst kq * 1000000 div snd kq"

definition unix_micros :: "int \<Rightarrow> int" where
  "unix_micros SystemTime = SystemTime div 10 - 11644473600 * 1000000"

definition total :: "win_timeval \<Rightarrow> int" where
  "total t = sec t * 1000000 + usec t"

definition normal :: "win_timeval \<Rightarrow> bool" where
  "normal t \<longleftrightarrow> 0 \<le> usec t \<and> usec t < 1000000"

lemma micros_split:
  assumes "0 < f"
  shows "micros (p, f) = p div f * 1000000 + (p mod f) * 1000000 div f"
proof -
  have "p * 1000000 = (p mod f) * 1000000 + p div f * 1000000 * f"
    by (subst (1) div_mult_mod_eq [of p f, symmetric]) (simp only: algebra_simps)
  then have "p * 1000000 div f = ((p mod f) * 1000000 + p div f * 1000000 * f) div f" by simp
  also have "\<dots> = p div f * 1000000 + (p mod f) * 1000000 div f" using assms by (simp only: div_mult_self1)
  finally show ?thesis by (simp add: micros_def)
qed

lemma micros_fraction:
  assumes "0 < (f :: int)"
  shows "0 \<le> (p mod f) * 1000000 div f" and "(p mod f) * 1000000 div f < 1000000"
proof -
  have r: "0 \<le> p mod f" "p mod f < f" using assms by simp_all
  then show "0 \<le> (p mod f) * 1000000 div f" using assms by (intro div_int_pos_iff [THEN iffD2]) simp
  have "(p mod f) * 1000000 < 1000000 * f" using r by simp
  moreover have "(p mod f) * 1000000 div f * f \<le> (p mod f) * 1000000" 
    using assms div_mult_mod_eq [of "(p mod f) * 1000000" f] pos_mod_sign [of f "(p mod f) * 1000000"] by linarith
  ultimately have "(p mod f) * 1000000 div f * f < 1000000 * f" by linarith
  then show "(p mod f) * 1000000 div f < 1000000" using assms by simp
qed

lemma unix_micros_split:
  "unix_micros s = (s div 10000000 - 11644473600) * 1000000 + (s mod 10000000) div 10"
proof -
  have "s div 10 = (s div 10000000 * 10000000 + s mod 10000000) div 10" by simp
  also have "\<dots> = (s mod 10000000 + (s div 10000000 * 1000000) * 10) div 10" by (simp add: algebra_simps)
  also have "\<dots> = s div 10000000 * 1000000 + s mod 10000000 div 10" by (rule div_mult_self1) simp
  finally show ?thesis by (simp add: unix_micros_def algebra_simps)
qed

lemma carry_down_total:
  assumes "- 1000000 < usec t" "usec t < 1000000" "- 2147483648 < sec t" "sec t < 2147483648"
  shows "total (carry_down t) = total t" and "normal (carry_down t)"
  using assms by (simp_all add: carry_down_def total_def normal_def c_id)

lemma carry_up_total:
  assumes "0 \<le> usec t" "usec t < 2000000" "- 2147483648 \<le> sec t" "sec t < 2147483647"
  shows "total (carry_up t) = total t" and "normal (carry_up t)"
  using assms by (simp_all add: carry_up_def total_def normal_def c_id)

text \<open>
  The readings for which the computation stays in range: a frequency below 9.2 THz, less than 68 years
  of uptime, and a system time between 1970 and 2038.
\<close>

definition counter_ok :: "kqpc \<Rightarrow> bool" where
  "counter_ok kq \<longleftrightarrow> 0 \<le> fst kq \<and> 0 < snd kq \<and> snd kq < 9223372036854 \<and> fst kq div snd kq < 2147483647"

definition system_time_ok :: "int \<Rightarrow> bool" where
  "system_time_ok s \<longleftrightarrow> 116444736000000000 \<le> s \<and> s div 10000000 - 11644473600 < 2147483648"

lemma counter_product:
  assumes "counter_ok (p, f)"
  shows "LONGLONG ((p mod f) * 1000000) = (p mod f) * 1000000"
proof -
  have f: "0 < f" "f < 9223372036854" using assms by (simp_all add: counter_ok_def)
  have r: "0 \<le> p mod f" "p mod f < f" using f(1) by simp_all
  then have "(p mod f) * 1000000 < 9223372036854000000" using f(2) by linarith
  then show ?thesis using r by (intro LONGLONG_id) linarith+
qed

lemma counter_terms:
  assumes "counter_ok (p, f)"
  shows "p sdiv f = p div f" and "LONGLONG ((p smod f) * 1000000) sdiv f = (p mod f) * 1000000 div f"
proof -
  have c: "0 \<le> p" "0 < f" using assms by (simp_all add: counter_ok_def)
  then show "p sdiv f = p div f" by (rule sdiv_nonneg)
  have "0 \<le> p mod f * 1000000" using c by simp
  then show "LONGLONG ((p smod f) * 1000000) sdiv f = (p mod f) * 1000000 div f"
    using c(2) by (simp only: smod_nonneg [OF c] counter_product [OF assms] sdiv_nonneg)
qed

lemma synchronize_ranges:
  assumes "0 \<le> a" "a < 2147483648" "0 \<le> u" "u < 1000000" "0 \<le> q" "q < 2147483647" "0 \<le> v" "v < 1000000"
  shows "LONG (LONGLONG a) = a" "LONG u = u" "ULONG q = q" "LONG v = v" "LONG (u - v) = u - v" "LONG (a - q) = a - q"
  using assms by (simp_all add: c_id)

text \<open>\<open>SynchronizeOnCpu\<close> computes the time at which the counter was zero, to the microsecond.\<close>

theorem SynchronizeOnCpu_total:
  assumes "counter_ok kq" and "system_time_ok s"
  shows "\<exists>t. SynchronizeOnCpu kq s = Some t \<and> normal t \<and> total t = unix_micros s - micros kq \<and>
    sec t \<le> s div 10000000 - 11644473600 - fst kq div snd kq \<and>
    s div 10000000 - 11644473600 - fst kq div snd kq - 1 \<le> sec t"
proof -
  obtain p f where kq: "kq = (p, f)" by force
  have c: "0 \<le> p" "0 < f" "p div f < 2147483647" "0 \<le> p div f"
    using assms(1) by (simp_all add: counter_ok_def kq pos_imp_zdiv_nonneg_iff)
  have s: "0 \<le> s" "0 \<le> s div 10000000 - 11644473600" "s div 10000000 - 11644473600 < 2147483648"
    using assms(2) by (simp_all add: system_time_ok_def) linarith
  let ?u = "(s mod 10000000) div 10" and ?v = "(p mod f) * 1000000 div f"
  have u: "0 \<le> ?u" "?u < 1000000" by simp_all
  have v: "0 \<le> ?v" "?v < 1000000" using micros_fraction [OF c(2)] by auto
  have r: "0 \<le> p mod f" using c by simp
  let ?t = "\<lparr>sec = s div 10000000 - 11644473600 - p div f, usec = ?u - ?v\<rparr>"
  have b: "- 1000000 < ?u - ?v" "?u - ?v < 1000000" "- 2147483648 < s div 10000000 - 11644473600 - p div f"
    "s div 10000000 - 11644473600 - p div f < 2147483648"
    using c(3,4) s(2,3) u v by linarith+
  have "SynchronizeOnCpu kq s = Some (carry_down ?t)"
  proof -
    have q: "s sdiv 10000000 = s div 10000000" "(s smod 10000000) sdiv 10 = ?u"
      using sdiv_nonneg [OF s(1), of 10000000] smod_nonneg [OF s(1), of 10000000]
        sdiv_nonneg [of "s mod 10000000" 10] by simp_all
    note q = q counter_terms [OF assms(1) [unfolded kq]]
    note e = synchronize_ranges [OF s(2,3) u c(4,3) v]
    show ?thesis unfolding SynchronizeOnCpu_def kq Let_def prod.case q e using c(2) by simp
  qed
  moreover have "total (carry_down ?t) = total ?t" "normal (carry_down ?t)"
    using b by (simp_all only: carry_down_total win_timeval.simps)
  moreover have "total ?t = unix_micros s - micros (p, f)"
    by (simp add: total_def unix_micros_split micros_split [OF c(2)] algebra_simps)
  moreover have "sec (carry_down ?t) \<in> {sec ?t, sec ?t - 1}"
    using b by (simp only: carry_down_def win_timeval.simps) (simp add: LONG_id)
  ultimately show ?thesis by (auto simp: kq)
qed

text \<open>A reading of the counter is added to the starting time exactly, and the result is normal.\<close>

lemma kqpc_time_total:
  assumes "counter_ok kq" and "normal st"
    and "- 2147483648 \<le> sec st" and "sec st + fst kq div snd kq < 2147483647"
  shows "total (kqpc_time st kq) = total st + micros kq" and "normal (kqpc_time st kq)"
proof -
  obtain p f where kq: "kq = (p, f)" by force
  have c: "0 \<le> p" "0 < f" "p div f < 2147483647" "0 \<le> p div f"
    using assms(1) by (simp_all add: counter_ok_def kq pos_imp_zdiv_nonneg_iff)
  let ?v = "(p mod f) * 1000000 div f"
  have v: "0 \<le> ?v" "?v < 1000000" using micros_fraction [OF c(2)] by auto
  have r: "0 \<le> p mod f" using c by simp
  let ?t = "\<lparr>sec = sec st + p div f, usec = usec st + ?v\<rparr>"
  have "LONG (p div f) = p div f" "LONG ?v = ?v" "LONG (sec st + p div f) = sec st + p div f"
    "LONG (usec st + ?v) = usec st + ?v"
    using c(3,4) v assms(2-4) unfolding kq fst_conv snd_conv normal_def by (intro LONG_id; linarith)+
  then have k: "kqpc_time st kq = carry_up ?t"
    by (simp only: kqpc_time_def kq prod.case Let_def counter_terms [OF assms(1) [unfolded kq]])
  have "total (carry_up ?t) = total ?t" "normal (carry_up ?t)"
    using c v assms(2-4) kq by (intro carry_up_total; simp add: normal_def)+
  then show "total (kqpc_time st kq) = total st + micros kq" "normal (kqpc_time st kq)"
    unfolding k by (simp_all add: kq total_def micros_split [OF c(2)] algebra_simps)
qed

text \<open>
  C30: The time stamp of a packet is right to the microsecond. After \<open>TIME_SYNCHRONIZE\<close> in the default mode, at
  counter \<open>k0\<close> and system time \<open>s\<close>, a later \<open>GET_TIME\<close> at counter \<open>k\<close> of the same frequency gives the system
  time at synchronisation plus the microseconds the counter has advanced, as normal seconds and
  microseconds, for readings in range: no overflow of the 32-bit fields or the 64-bit product.
\<close>

theorem GET_TIME_after_TIME_SYNCHRONIZE:
  assumes "counter_ok k0" and "counter_ok k" and "snd k = snd k0" and "system_time_ok s"
    and "s div 10000000 - 11644473600 + fst k div snd k < 2147483647" and "start data \<noteq> []" and "reference data = 0"
  shows "\<exists>data' dst. TIME_SYNCHRONIZE x86 TIMESTAMPMODE_SINGLE_SYNCHRONIZATION n (\<lambda>i. k0) (\<lambda>i. s) rdtsc data = Some data' \<and>
    reference data' = 1 \<and>
    GET_TIME x86 TIMESTAMPMODE_SINGLE_SYNCHRONIZATION k ticks sys cpu data' d old_ts = Some (dst, old_ts) \<and>
    normal dst \<and> total dst = unix_micros s + (micros k - micros k0)"
proof -
  obtain t where t: "SynchronizeOnCpu k0 s = Some t" "normal t" "total t = unix_micros s - micros k0"
    "sec t \<le> s div 10000000 - 11644473600 - fst k0 div snd k0" "s div 10000000 - 11644473600 - fst k0 div snd k0 - 1 \<le> sec t"
    using SynchronizeOnCpu_total [OF assms(1,4)] by blast
  let ?data = "data\<lparr>start := (start data)[0 := t], reference := 1\<rparr>"
  have q: "0 \<le> fst k0 div snd k0" "fst k0 div snd k0 < 2147483647"
    using assms(1) by (simp_all add: counter_ok_def pos_imp_zdiv_nonneg_iff)
  have a: "0 \<le> s div 10000000 - 11644473600" using assms(4) by (simp add: system_time_ok_def) linarith
  have r: "- 2147483648 \<le> sec t" "sec t + fst k div snd k < 2147483647" using q a t(4,5) assms(5) by linarith+
  have "TIME_SYNCHRONIZE x86 TIMESTAMPMODE_SINGLE_SYNCHRONIZATION n (\<lambda>i. k0) (\<lambda>i. s) rdtsc data = Some ?data"
    using assms(7) t(1) by (simp add: TIME_SYNCHRONIZE_def on_cpu_def)
  moreover have "GET_TIME x86 TIMESTAMPMODE_SINGLE_SYNCHRONIZATION k ticks sys cpu ?data d old_ts =
      Some (kqpc_time t k, old_ts)"
    using assms(2,6) by (auto simp: GET_TIME_def GetTimeKQPC_def on_cpu_def counter_ok_def neq_Nil_conv)
  moreover note kqpc_time_total [OF assms(2) t(2) r]
  ultimately show ?thesis using t(3) by auto
qed

theorem GET_TIME_after_TIME_SYNCHRONIZE_witness:
  "\<exists>data' dst. TIME_SYNCHRONIZE True TIMESTAMPMODE_SINGLE_SYNCHRONIZATION 1 (\<lambda>i. (7159090, 3579545))
      (\<lambda>i. 128000000000000005) (\<lambda>d. None) \<lparr>reference = 0, start = replicate 32 \<lparr>sec = 0, usec = 0\<rparr>\<rparr> = Some data' \<and>
    reference data' = 1 \<and>
    GET_TIME True TIMESTAMPMODE_SINGLE_SYNCHRONIZATION (10738636, 3579545) 0 0 0 data' \<lparr>sec = 0, usec = 0\<rparr>
      \<lparr>sec = 0, usec = 0\<rparr> = Some (dst, \<lparr>sec = 0, usec = 0\<rparr>) \<and>
    normal dst \<and> total dst = 1155526400000000 + (3000000 - 2000000)"
  using GET_TIME_after_TIME_SYNCHRONIZE [of "(7159090, 3579545)" "(10738636, 3579545)" 128000000000000005
      "\<lparr>reference = 0, start = replicate 32 \<lparr>sec = 0, usec = 0\<rparr>\<rparr>" True 1 "\<lambda>d. None" 0 0 0
      "\<lparr>sec = 0, usec = 0\<rparr>" "\<lparr>sec = 0, usec = 0\<rparr>"]
  by (simp add: counter_ok_def system_time_ok_def micros_def unix_micros_def)

text \<open>
  The time stamps of a run of packets: \<open>read_time\<close> turns a reading and the last time handed out into a time and
  the new last time. A source whose last time is the one it returns, never before the previous one, gives
  times in order.
\<close>

fun stamp_run :: "('r \<Rightarrow> 't \<Rightarrow> ('t \<times> 't) option) \<Rightarrow> 'r list \<Rightarrow> 't \<Rightarrow> 't list option" where
  "stamp_run read_time [] prev = Some []"
| "stamp_run read_time (r # rs) prev =
     (case read_time r prev of
        None \<Rightarrow> None
      | Some (t, prev') \<Rightarrow> map_option ((#) t) (stamp_run read_time rs prev'))"

locale time_source =
  fixes read_time :: "'r \<Rightarrow> 't \<Rightarrow> ('t \<times> 't) option" and after :: "'t \<Rightarrow> 't \<Rightarrow> bool"
  assumes not_after_trans: "\<not> after a b \<Longrightarrow> \<not> after b c \<Longrightarrow> \<not> after a c"
    and read_time_step: "read_time r prev = Some (t, prev') \<Longrightarrow> prev' = t \<and> \<not> after prev t"
begin

lemma run_in_order: "stamp_run read_time rs prev = Some ts \<Longrightarrow> sorted_wrt (\<lambda>a b. \<not> after a b) (prev # ts)"
proof (induction rs arbitrary: prev ts)
  case (Cons r rs)
  obtain t prev' ts' where g: "read_time r prev = Some (t, prev')" "stamp_run read_time rs prev' = Some ts'" "ts = t # ts'"
    using Cons.prems by (auto split: option.splits)
  have f: "prev' = t" "\<not> after prev t" using read_time_step [OF g(1)] by auto
  have "sorted_wrt (\<lambda>a b. \<not> after a b) (t # ts')" using Cons.IH [OF g(2)] f(1) by simp
  then show ?case using f(2) g(3) not_after_trans [OF f(2)] by auto
qed simp

end

lemma later_trans: "\<not> later a b \<Longrightarrow> \<not> later b c \<Longrightarrow> \<not> later a c"
  by (auto simp: later_def)

lemma GetTimeKQPC_fixup:
  "GetTimeKQPC TIMESTAMPMODE_SYNCHRONIZATION_ON_CPU_WITH_FIXUP kq cpu data old_ts = Some (dst, old_ts') \<Longrightarrow>
    old_ts' = dst \<and> \<not> later old_ts dst"
  by (auto simp: GetTimeKQPC_def on_cpu_def Let_def later_def split: if_splits)

interpretation fixup: time_source
  "\<lambda>(kq, cpu). GetTimeKQPC TIMESTAMPMODE_SYNCHRONIZATION_ON_CPU_WITH_FIXUP kq cpu data" later for data
  by unfold_locales (auto simp: later_trans dest: GetTimeKQPC_fixup [simplified])

definition kqpc_run :: "int \<Rightarrow> (kqpc \<times> nat) list \<Rightarrow> time_conv \<Rightarrow> win_timeval \<Rightarrow> win_timeval list option" where
  "kqpc_run mode rs data old_ts = stamp_run (\<lambda>(kq, cpu). GetTimeKQPC mode kq cpu data) rs old_ts"

text \<open>
  C31: With the fix-up of mode 1, time never runs backwards: whatever the counters of the processors
  show, the time stamps of successive packets are in order, and none is before the last one handed out
  earlier.
\<close>

theorem fixup_time_stamps_monotone:
  "kqpc_run TIMESTAMPMODE_SYNCHRONIZATION_ON_CPU_WITH_FIXUP rs data old_ts = Some ts \<Longrightarrow>
    sorted_wrt (\<lambda>a b. \<not> later a b) (old_ts # ts)"
  unfolding kqpc_run_def by (rule fixup.run_in_order)

theorem fixup_time_stamps_monotone_witness:
  "kqpc_run TIMESTAMPMODE_SYNCHRONIZATION_ON_CPU_WITH_FIXUP [((20, 10), 0), ((10, 10), 1)]
     \<lparr>reference = 1, start = [\<lparr>sec = 5, usec = 0\<rparr>, \<lparr>sec = 5, usec = 0\<rparr>]\<rparr> \<lparr>sec = 0, usec = 0\<rparr> =
     Some [\<lparr>sec = 7, usec = 0\<rparr>, \<lparr>sec = 7, usec = 0\<rparr>] \<and>
   sorted_wrt (\<lambda>a b. \<not> later a b) [\<lparr>sec = 0, usec = 0\<rparr>, \<lparr>sec = 7, usec = 0\<rparr>, \<lparr>sec = 7, usec = 0\<rparr>]"
  (is "?run \<and> _")
proof -
  have run: ?run by code_simp
  show ?thesis using run fixup_time_stamps_monotone [OF run] by simp
qed

text \<open>Without the fix-up the same readings give times that run backwards.\<close>

lemma no_fixup_runs_backwards:
  "\<exists>a b. kqpc_run TIMESTAMPMODE_SYNCHRONIZATION_ON_CPU_NO_FIXUP [((20, 10), 0), ((10, 10), 1)]
     \<lparr>reference = 1, start = [\<lparr>sec = 5, usec = 0\<rparr>, \<lparr>sec = 5, usec = 0\<rparr>]\<rparr> \<lparr>sec = 0, usec = 0\<rparr> = Some [a, b] \<and> later a b"
proof -
  have "kqpc_run TIMESTAMPMODE_SYNCHRONIZATION_ON_CPU_NO_FIXUP [((20, 10), 0), ((10, 10), 1)]
     \<lparr>reference = 1, start = [\<lparr>sec = 5, usec = 0\<rparr>, \<lparr>sec = 5, usec = 0\<rparr>]\<rparr> \<lparr>sec = 0, usec = 0\<rparr> =
     Some [\<lparr>sec = 7, usec = 0\<rparr>, \<lparr>sec = 6, usec = 0\<rparr>]" by code_simp
  then show ?thesis by (simp add: later_def)
qed

text \<open>A synchronisation that was done is kept until \<open>TIME_DESYNCHRONIZE\<close>.\<close>

lemma TIME_SYNCHRONIZE_once:
  "reference data \<noteq> 0 \<Longrightarrow> TIME_SYNCHRONIZE x86 mode n kq sys rdtsc data = Some data"
  by (simp add: TIME_SYNCHRONIZE_def)

text \<open>
  One starting time per processor: on a machine with more processors than the array has entries (32), the
  per-processor modes write past its end. With at most 32 they succeed and fill exactly the first entries.
\<close>

lemma synchronize_cpus_overrun:
  "length st < i + n \<Longrightarrow> i \<le> length st \<Longrightarrow> synchronize_cpus kq sys n i st = None"
  by (induction n arbitrary: i st) (auto split: option.splits)

lemma synchronize_cpus_entries:
  assumes "\<And>j. counter_ok (kq j) \<and> system_time_ok (sys j)"
  shows "i + n \<le> length st \<Longrightarrow> \<exists>st'. synchronize_cpus kq sys n i st = Some st' \<and> length st' = length st \<and>
    (\<forall>j < length st. if i \<le> j \<and> j < i + n then SynchronizeOnCpu (kq j) (sys j) = Some (st' ! j) else st' ! j = st ! j)"
proof (induction n arbitrary: i st)
  case (Suc n)
  obtain t where t: "SynchronizeOnCpu (kq i) (sys i) = Some t" using SynchronizeOnCpu_total assms by blast
  from Suc.IH [of "Suc i" "st[i := t]"] Suc.prems obtain st' where st':
    "synchronize_cpus kq sys n (Suc i) (st[i := t]) = Some st'" "length st' = length st"
    "\<forall>j < length st. if Suc i \<le> j \<and> j < Suc i + n then SynchronizeOnCpu (kq j) (sys j) = Some (st' ! j)
       else st' ! j = st[i := t] ! j" by auto
  have "if i \<le> j \<and> j < i + Suc n then SynchronizeOnCpu (kq j) (sys j) = Some (st' ! j) else st' ! j = st ! j"
    if "j < length st" for j
    using st'(3) [rule_format, OF that] t that by (cases "j = i") auto
  then show ?case using Suc.prems st' t by auto
qed auto

lemma TIME_SYNCHRONIZE_many_cpus:
  "reference data = 0 \<Longrightarrow> on_cpu mode \<Longrightarrow> length (start data) < n \<Longrightarrow>
    TIME_SYNCHRONIZE x86 mode n kq sys rdtsc data = None"
  by (simp add: TIME_SYNCHRONIZE_def synchronize_cpus_overrun)

text \<open>The measured frequency is rounded to the nearest multiple of 1000.\<close>

lemma round_1000:
  fixes q :: int
  defines "r \<equiv> (if 500 < q mod 1000 then (q div 1000 + 1) * 1000 else q div 1000 * 1000)"
  shows "1000 dvd r \<and> \<bar>r - q\<bar> \<le> 500"
  unfolding r_def by presburger

lemma rdtsc_frequency_rounded:
  assumes "rdtsc_frequency (c0, f) t0 (c1, f1) t1 = Some r" and "0 \<le> f" and "f < 1000000000"
    and "0 \<le> t1 - t0" and "t1 - t0 \<le> 10000000000" and "0 < c1 - c0" and "c1 - c0 < 9223372036854775808"
  shows "1000 dvd r \<and> \<bar>r - (t1 - t0) * f div (c1 - c0)\<bar> \<le> 500"
proof -
  let ?d = "t1 - t0" and ?e = "c1 - c0" and ?q = "(t1 - t0) * f div (c1 - c0)"
  have p: "0 \<le> ?d * f" "?d * f < 10000000001 * 1000000000"
    using assms(2-5) mult_strict_mono' [of ?d 10000000001 f 1000000000] by simp_all
  have q: "0 \<le> ?q" using p(1) assms(6) by (simp add: pos_imp_zdiv_nonneg_iff)
  have "?q \<le> ?d * f div 1" using p(1) assms(6) by (intro zdiv_mono2) simp_all
  then have q': "?q \<le> ?d * f" by simp
  have k: "0 \<le> ?q div 1000" "?q div 1000 * 1000 \<le> ?q" using q by simp_all
  have u: "ULONGLONG ?d = ?d" "LONGLONG ?e = ?e" "ULONGLONG ?e = ?e" "ULONGLONG (?d * f) = ?d * f"
    using assms(4-7) p by (simp_all add: ULONGLONG_id LONGLONG_id)
  have "ULONGLONG (?q div 1000 + 1) = ?q div 1000 + 1" "ULONGLONG (?q div 1000 * 1000) = ?q div 1000 * 1000"
    "ULONGLONG (?q div 1000 * 1000 + 1000) = ?q div 1000 * 1000 + 1000"
    using k q q' p by (intro ULONGLONG_id; linarith)+
  then have w: "ULONGLONG (?q div 1000 + 1) = ?q div 1000 + 1" "ULONGLONG (?q div 1000 * 1000) = ?q div 1000 * 1000"
    "ULONGLONG ((?q div 1000 + 1) * 1000) = (?q div 1000 + 1) * 1000"
    by (simp_all only: distrib_right mult_1)
  have "\<not> 10000000000 < ?d" "?e \<noteq> 0" using assms(5,6) by simp_all
  then have "r = (if 500 < ?q mod 1000 then (?q div 1000 + 1) * 1000 else ?q div 1000 * 1000)"
    using assms(1) unfolding rdtsc_frequency_def fst_conv snd_conv u Let_def
    by (simp only: if_False prod.case u w if_distrib [of ULONGLONG] if_distrib [of "\<lambda>x. x * 1000"]) (auto split: if_splits simp: w)
  then show ?thesis using round_1000 by simp
qed

text \<open>
  Outside the driver, reading returns the time that was set. In the driver the mode in use is the one written
  back to the registry, if any, and every failure leaves the default mode.
\<close>

lemma FORCE_TIME_GET_TIME: "start dest \<noteq> [] \<Longrightarrow> GET_TIME_user (FORCE_TIME src dest) = Some src"
  by (cases "start dest") (simp_all add: FORCE_TIME_def GET_TIME_user_def)

lemma ReadTimeStampModeFromRegistry_consistent:
  "ReadTimeStampModeFromRegistry alloc query = (mode, back) \<Longrightarrow>
    (back = None \<or> back = Some mode) \<and> (back = None \<or> query = None \<longrightarrow> mode = DEFAULT_TIMESTAMPMODE)"
  by (auto simp: ReadTimeStampModeFromRegistry_def Let_def split: if_splits option.splits)

end
