(* ===== verification/Winpcap_Tme.thy ===== *)
theory Winpcap_Tme
  imports Jpcap_Layout Winpcap_Time
begin

text \<open>
  Further bundled WinPcap headers with code of their own: memory access in network order (\<open>memory_t.h\<close>), the
  data registers of the table management engine (\<open>tme.h\<close>) with the decision when an entry may be deleted,
  the blocks of its \<open>tcp_session.h\<close> and \<open>count_packets.h\<close>, the structures of \<open>pcap.h\<close>, the instruction encoding
  of \<open>pcap-bpf.h\<close> and the IPv6 address tests of \<open>ip6_misc.h\<close>.
\<close>

section \<open>memory\_t.h\<close>

definition LONG_AT :: "mem \<Rightarrow> nat \<Rightarrow> nat \<Rightarrow> u32 option" where "LONG_AT m base offset = rd32 m (base + offset)"
definition ULONG_AT :: "mem \<Rightarrow> nat \<Rightarrow> nat \<Rightarrow> u32 option" where "ULONG_AT m base offset = rd32 m (base + offset)"
definition SHORT_AT :: "mem \<Rightarrow> nat \<Rightarrow> nat \<Rightarrow> u16 option" where "SHORT_AT m base offset = rd16 m (base + offset)"
definition USHORT_AT :: "mem \<Rightarrow> nat \<Rightarrow> nat \<Rightarrow> u16 option" where "USHORT_AT m base offset = rd16 m (base + offset)"

text \<open>\<open>SW_LONG_AT\<close> and \<open>SW_ULONG_AT\<close> differ in the signedness of the operands only: the result has the same bits.\<close>

definition SW_LONG_AT :: "mem \<Rightarrow> nat \<Rightarrow> nat \<Rightarrow> u32 option" where
  "SW_LONG_AT m b c = do {
     b0 \<leftarrow> rd8 m (b + c);
     b1 \<leftarrow> rd8 m (b + c + 1);
     b2 \<leftarrow> rd8 m (b + c + 2);
     b3 \<leftarrow> rd8 m (b + c + 3);
     Some (push_bit 24 (ucast b0) OR push_bit 16 (ucast b1) OR push_bit 8 (ucast b2) OR push_bit 0 (ucast b3))
   }"

definition SW_ULONG_AT :: "mem \<Rightarrow> nat \<Rightarrow> nat \<Rightarrow> u32 option" where
  "SW_ULONG_AT m b c = do {
     b0 \<leftarrow> rd8 m (b + c);
     b1 \<leftarrow> rd8 m (b + c + 1);
     b2 \<leftarrow> rd8 m (b + c + 2);
     b3 \<leftarrow> rd8 m (b + c + 3);
     Some (push_bit 24 (ucast b0) OR push_bit 16 (ucast b1) OR push_bit 8 (ucast b2) OR push_bit 0 (ucast b3))
   }"

definition SW_SHORT_AT :: "mem \<Rightarrow> nat \<Rightarrow> nat \<Rightarrow> u16 option" where
  "SW_SHORT_AT m b os = do {
     b0 \<leftarrow> rd8 m (b + os + 0);
     b1 \<leftarrow> rd8 m (b + os + 1);
     Some (push_bit 8 (ucast b0) OR push_bit 0 (ucast b1))
   }"

definition SW_USHORT_AT :: "mem \<Rightarrow> nat \<Rightarrow> nat \<Rightarrow> u16 option" where
  "SW_USHORT_AT m b os = do {
     b0 \<leftarrow> rd8 m (b + os + 0);
     b1 \<leftarrow> rd8 m (b + os + 1);
     Some (push_bit 8 (ucast b0) OR push_bit 0 (ucast b1))
   }"

definition SW_ULONG_ASSIGN :: "mem \<Rightarrow> nat \<Rightarrow> u32 \<Rightarrow> mem option" where
  "SW_ULONG_ASSIGN m dst src = do {
     m \<leftarrow> wr8 m (dst + 0) (byte32 3 src);
     m \<leftarrow> wr8 m (dst + 1) (byte32 2 src);
     m \<leftarrow> wr8 m (dst + 2) (byte32 1 src);
     wr8 m (dst + 3) (byte32 0 src)
   }"

text \<open>Reading byte by byte from the high end is reading a word and swapping it.\<close>

lemma be32: "push_bit 24 (ucast a) OR push_bit 16 (ucast b) OR push_bit 8 (ucast c) OR push_bit 0 (ucast d) = le32 d c b a"
  by (simp add: le32_def ac_simps)

lemma be16: "push_bit 8 (ucast a) OR push_bit 0 (ucast b) = le16 b a"
  by (simp add: le16_def ac_simps)

lemma SW_ULONG_AT_ntohl: "SW_ULONG_AT m b c = map_option ntohl (ULONG_AT m b c)"
  unfolding SW_ULONG_AT_def be32 by (simp add: ULONG_AT_def field_defs add.assoc)

lemma SW_USHORT_AT_ntohs: "SW_USHORT_AT m b c = map_option ntohs (USHORT_AT m b c)"
  unfolding SW_USHORT_AT_def be16 by (simp add: USHORT_AT_def field_defs)

lemma SW_SHORT_AT_ntohs: "SW_SHORT_AT m b c = map_option ntohs (SHORT_AT m b c)"
  unfolding SW_SHORT_AT_def be16 by (simp add: SHORT_AT_def field_defs)

text \<open>
  Storing a word in network order and reading it back. \<open>SW_ULONG_ASSIGN\<close> is defined exactly when the four
  bytes are inside the buffer; \<open>SW_ULONG_AT\<close> then returns the word, and a plain read returns it swapped.
\<close>

theorem SW_ULONG_roundtrip:
  "(case SW_ULONG_ASSIGN m p v of
      None \<Rightarrow> length m < p + 4
    | Some m' \<Rightarrow> p + 4 \<le> length m \<and> length m' = length m \<and> SW_ULONG_AT m' p 0 = Some v \<and>
        SW_LONG_AT m' p 0 = Some v \<and> ULONG_AT m' p 0 = Some (htonl v))"
proof -
  have l: "le32 (byte32 3 v) (byte32 2 v) (byte32 1 v) (byte32 0 v) = ntohl v" by (simp add: ntohl_def)
  have "SW_LONG_AT = SW_ULONG_AT" by (intro ext) (simp add: SW_LONG_AT_def SW_ULONG_AT_def)
  then show ?thesis
    using l by (auto simp: SW_ULONG_ASSIGN_def SW_ULONG_AT_ntohl ULONG_AT_def field_defs bind_eq_Some_conv
        bind_eq_None_conv split: option.splits if_splits)
qed

section \<open>tme.h\<close>

definition TME_ERROR :: u32 where [simp]: "TME_ERROR = 0"
definition TME_SUCCESS :: u32 where [simp]: "TME_SUCCESS = 1"
definition TME_TRUE :: u32 where [simp]: "TME_TRUE = 2"
definition TME_FALSE :: u32 where [simp]: "TME_FALSE = 3"
definition DEFAULT_MEM_EX_SIZE :: nat where [simp]: "DEFAULT_MEM_EX_SIZE = 65536"
definition MAX_TME_DATA_BLOCKS :: nat where [simp]: "MAX_TME_DATA_BLOCKS = 4"
definition TME_NONE_ACTIVE :: u32 where [simp]: "TME_NONE_ACTIVE = 0xffffffff"
definition DELTA_READ :: int where [simp]: "DELTA_READ = 2"

definition tme_registers :: "(string \<times> u32) list" where
  "tme_registers =
     [(''TME_LUT_ENTRIES'', 0x0), (''TME_MAX_FILL_STATE'', 0x1), (''TME_REHASHING_VALUE'', 0x2),
      (''TME_KEY_LEN'', 0x3), (''TME_SHARED_MEMORY_BLOCKS'', 0x4), (''TME_FILLED_ENTRIES'', 0x5),
      (''TME_BLOCK_SIZE'', 0x6), (''TME_EXTRA_SEGMENT_SIZE'', 0x7), (''TME_LOOKUP_CODE'', 0x8),
      (''TME_OUT_LUT_EXEC'', 0x9), (''TME_FILLED_BLOCKS'', 0xa), (''TME_DEFAULT_EXEC'', 0xb),
      (''TME_LUT_BASE_ADDRESS'', 0xc), (''TME_SHARED_MEMORY_BASE_ADDRESS'', 0xd),
      (''TME_EXTRA_SEGMENT_BASE_ADDRESS'', 0xe), (''TME_LAST_FOUND'', 0xf), (''TME_LAST_FOUND_BLOCK'', 0x10)]"

definition tme_defaults :: "(string \<times> nat) list" where
  "tme_defaults =
     [(''TME_LUT_ENTRIES_DEFAULT'', 32007), (''TME_REHASHING_VALUE_DEFAULT'', 1),
      (''TME_SHARED_MEMORY_BLOCKS_DEFAULT'', 16000), (''TME_BLOCK_SIZE_DEFAULT'', 64),
      (''TME_EXTRA_SEGMENT_SIZE_DEFAULT'', 0), (''TME_LOOKUP_CODE_DEFAULT'', 0), (''TME_OUT_LUT_EXEC_DEFAULT'', 0),
      (''TME_DEFAULT_EXEC_DEFAULT'', 0), (''TME_MAX_FILL_STATE_DEFAULT'', 15000)]"

definition IS_VALIDATED :: "u32 \<Rightarrow> nat \<Rightarrow> bool" where
  "IS_VALIDATED src index \<longleftrightarrow> src AND push_bit index 1 \<noteq> 0"

definition VALIDATE :: "u32 \<Rightarrow> nat \<Rightarrow> u32" where
  "VALIDATE src index = src OR push_bit index 1"

definition FORCE_NO_DELETION :: "win_timeval \<Rightarrow> win_timeval" where
  "FORCE_NO_DELETION ts = ts\<lparr>sec := 0x7fffffff\<rparr>"

record TME_DATA =
  lut_entries :: u32
  max_fill_state :: u32
  rehashing_value :: u32
  key_len :: u32
  shared_memory_blocks :: u32
  filled_entries :: u32
  block_size :: u32
  extra_segment_size :: u32
  filled_blocks :: u32
  lookup_code :: nat
  default_exec :: u32
  out_lut_exec :: u32
  lut_base_address :: nat
  shared_memory_base_address :: nat
  extra_segment_base_address :: nat
  last_read :: win_timeval
  enable_deletion :: u32
  last_found :: nat

definition IS_DELETABLE :: "win_timeval \<Rightarrow> TME_DATA \<Rightarrow> bool" where
  "IS_DELETABLE ts data =
     (if enable_deletion data = 0 then False
      else if filled_entries data < max_fill_state data then False
      else if LONG (sec ts + DELTA_READ) < sec (last_read data) then True
      else False)"

definition struct_timeval :: ctype where
  "struct_timeval = Struct [(''tv_sec'', Scalar 4), (''tv_usec'', Scalar 4)]"

definition struct_RECORD :: ctype where
  "struct_RECORD = Struct [(''block'', Scalar 4), (''exec_fcn'', Scalar 4)]"

definition struct_TME_DATA :: ctype where
  "struct_TME_DATA = Struct
     [(''lut_entries'', Scalar 4), (''max_fill_state'', Scalar 4), (''rehashing_value'', Scalar 4),
      (''key_len'', Scalar 4), (''shared_memory_blocks'', Scalar 4), (''filled_entries'', Scalar 4),
      (''block_size'', Scalar 4), (''extra_segment_size'', Scalar 4), (''filled_blocks'', Scalar 4),
      (''lookup_code'', Pointer), (''default_exec'', Scalar 4), (''out_lut_exec'', Scalar 4),
      (''lut_base_address'', Pointer), (''shared_memory_base_address'', Pointer),
      (''extra_segment_base_address'', Pointer), (''last_read'', struct_timeval), (''enable_deletion'', Scalar 4),
      (''last_found'', Pointer)]"

definition struct_TME_CORE :: ctype where
  "struct_TME_CORE = Struct
     [(''working'', Scalar 4), (''active'', Scalar 4), (''validated_blocks'', Scalar 4),
      (''block_data'', Array MAX_TME_DATA_BLOCKS struct_TME_DATA), (''active_read'', Scalar 4)]"

section \<open>tcp\_session.h and count\_packets.h\<close>

datatype tcp_status =
  UNKNOWN | SYN_RCV | SYN_ACK_RCV | ESTABLISHED | CLOSED_RST | FIN_CLN_RCV | FIN_SRV_RCV | CLOSED_FIN | ERROR_TCP

definition tcp_status_code :: "tcp_status \<Rightarrow> u32" where
  "tcp_status_code s =
     (case s of UNKNOWN \<Rightarrow> 0 | SYN_RCV \<Rightarrow> 1 | SYN_ACK_RCV \<Rightarrow> 2 | ESTABLISHED \<Rightarrow> 3 | CLOSED_RST \<Rightarrow> 4
      | FIN_CLN_RCV \<Rightarrow> 5 | FIN_SRV_RCV \<Rightarrow> 6 | CLOSED_FIN \<Rightarrow> 7 | ERROR_TCP \<Rightarrow> 8)"

definition struct_tcp_data :: ctype where
  "struct_tcp_data = Struct
     [(''timestamp_block'', struct_timeval), (''syn_timestamp'', struct_timeval),
      (''last_timestamp'', struct_timeval), (''syn_ack_timestamp'', struct_timeval),
      (''direction'', Scalar 4), (''seq_n_0_srv'', Scalar 4), (''seq_n_0_cln'', Scalar 4),
      (''ack_srv'', Scalar 4), (''ack_cln'', Scalar 4), (''status'', Scalar 4), (''pkts_cln_to_srv'', Scalar 4),
      (''pkts_srv_to_cln'', Scalar 4), (''bytes_srv_to_cln'', Scalar 4), (''bytes_cln_to_srv'', Scalar 4),
      (''close_state'', Scalar 4)]"

definition session_flags :: "(string \<times> u8) list" where
  "session_flags = [(''FIN'', 1), (''SYN'', 2), (''RST'', 4), (''PSH'', 8), (''ACK'', 16), (''URG'', 32)]"

definition struct_c_p_data :: ctype where
  "struct_c_p_data = Struct [(''timestamp'', struct_timeval), (''packets'', Scalar 8), (''bytes'', Scalar 8)]"

section \<open>pcap.h\<close>

definition struct_pcap_file_header :: ctype where
  "struct_pcap_file_header = Struct
     [(''magic'', Scalar 4), (''version_major'', u_short), (''version_minor'', u_short), (''thiszone'', Scalar 4),
      (''sigfigs'', Scalar 4), (''snaplen'', Scalar 4), (''linktype'', Scalar 4)]"

definition struct_pcap_pkthdr :: ctype where
  "struct_pcap_pkthdr = Struct [(''ts'', struct_timeval), (''caplen'', Scalar 4), (''len'', Scalar 4)]"

definition struct_pcap_stat :: ctype where
  "struct_pcap_stat = Struct
     [(''ps_recv'', u_int), (''ps_drop'', u_int), (''ps_ifdrop'', u_int), (''ps_capt'', u_int), (''ps_sent'', u_int),
      (''ps_netdrop'', u_int)]"

definition struct_pcap_if :: ctype where
  "struct_pcap_if = Struct
     [(''next'', Pointer), (''name'', Pointer), (''description'', Pointer), (''addresses'', Pointer), (''flags'', Scalar 4)]"

definition struct_pcap_addr :: ctype where
  "struct_pcap_addr = Struct
     [(''next'', Pointer), (''addr'', Pointer), (''netmask'', Pointer), (''broadaddr'', Pointer), (''dstaddr'', Pointer)]"

section \<open>pcap-bpf.h\<close>

definition BPF_ALIGNMENT :: nat where [simp]: "BPF_ALIGNMENT = 4"
definition BPF_WORDALIGN :: "nat \<Rightarrow> nat" where
  "BPF_WORDALIGN x = unat ((word_of_nat (x + (BPF_ALIGNMENT - 1)) :: u32) AND NOT (word_of_nat (BPF_ALIGNMENT - 1)))"

definition struct_bpf_program :: ctype where
  "struct_bpf_program = Struct [(''bf_len'', u_int), (''bf_insns'', Pointer)]"

definition struct_bpf_version :: ctype where
  "struct_bpf_version = Struct [(''bv_major'', u_short), (''bv_minor'', u_short)]"

definition dlt_common :: "(string \<times> int) list" where
  "dlt_common =
     [(''DLT_NULL'', 0), (''DLT_EN10MB'', 1), (''DLT_EN3MB'', 2), (''DLT_AX25'', 3), (''DLT_PRONET'', 4),
      (''DLT_CHAOS'', 5), (''DLT_IEEE802'', 6), (''DLT_ARCNET'', 7), (''DLT_SLIP'', 8), (''DLT_PPP'', 9),
      (''DLT_FDDI'', 10)]"

definition dlt_raw :: "bool \<Rightarrow> int" where
  "dlt_raw openbsd = (if openbsd then 14 else 12)"

definition BPF_CLASS :: "u16 \<Rightarrow> u16" where "BPF_CLASS code = code AND 0x07"
definition BPF_SIZE :: "u16 \<Rightarrow> u16" where "BPF_SIZE code = code AND 0x18"
definition BPF_MODE :: "u16 \<Rightarrow> u16" where "BPF_MODE code = code AND 0xe0"
definition BPF_OP :: "u16 \<Rightarrow> u16" where "BPF_OP code = code AND 0xf0"
definition BPF_SRC :: "u16 \<Rightarrow> u16" where "BPF_SRC code = code AND 0x08"
definition BPF_RVAL :: "u16 \<Rightarrow> u16" where "BPF_RVAL code = code AND 0x18"
definition BPF_MISCOP :: "u16 \<Rightarrow> u16" where "BPF_MISCOP code = code AND 0xf8"

definition bpf_classes :: "(string \<times> u16) list" where
  "bpf_classes =
     [(''BPF_LD'', 0), (''BPF_LDX'', 1), (''BPF_ST'', 2), (''BPF_STX'', 3), (''BPF_ALU'', 4), (''BPF_JMP'', 5),
      (''BPF_RET'', 6), (''BPF_MISC'', 7)]"

definition bpf_sizes :: "(string \<times> u16) list" where
  "bpf_sizes = [(''BPF_W'', 0x00), (''BPF_H'', 0x08), (''BPF_B'', 0x10)]"

definition bpf_modes :: "(string \<times> u16) list" where
  "bpf_modes =
     [(''BPF_IMM'', 0x00), (''BPF_ABS'', 0x20), (''BPF_IND'', 0x40), (''BPF_MEM'', 0x60), (''BPF_LEN'', 0x80),
      (''BPF_MSH'', 0xa0)]"

definition bpf_alu_ops :: "(string \<times> u16) list" where
  "bpf_alu_ops =
     [(''BPF_ADD'', 0x00), (''BPF_SUB'', 0x10), (''BPF_MUL'', 0x20), (''BPF_DIV'', 0x30), (''BPF_OR'', 0x40),
      (''BPF_AND'', 0x50), (''BPF_LSH'', 0x60), (''BPF_RSH'', 0x70), (''BPF_NEG'', 0x80)]"

definition bpf_jmp_ops :: "(string \<times> u16) list" where
  "bpf_jmp_ops =
     [(''BPF_JA'', 0x00), (''BPF_JEQ'', 0x10), (''BPF_JGT'', 0x20), (''BPF_JGE'', 0x30), (''BPF_JSET'', 0x40)]"

definition bpf_srcs :: "(string \<times> u16) list" where
  "bpf_srcs = [(''BPF_K'', 0x00), (''BPF_X'', 0x08)]"

definition bpf_misc_ops :: "(string \<times> u16) list" where
  "bpf_misc_ops = [(''BPF_TAX'', 0x00), (''BPF_TXA'', 0x80)]"

record bpf_insn =
  bpf_code :: u16
  bpf_jt :: u8
  bpf_jf :: u8
  bpf_k :: "32 word"

definition struct_bpf_insn :: ctype where
  "struct_bpf_insn = Struct [(''code'', u_short), (''jt'', u_char), (''jf'', u_char), (''k'', Scalar 4)]"

definition BPF_STMT :: "u16 \<Rightarrow> 32 word \<Rightarrow> bpf_insn" where
  "BPF_STMT code k = \<lparr>bpf_code = code, bpf_jt = 0, bpf_jf = 0, bpf_k = k\<rparr>"

definition BPF_JUMP :: "u16 \<Rightarrow> 32 word \<Rightarrow> u8 \<Rightarrow> u8 \<Rightarrow> bpf_insn" where
  "BPF_JUMP code k jt jf = \<lparr>bpf_code = code, bpf_jt = jt, bpf_jf = jf, bpf_k = k\<rparr>"

section \<open>ip6\_misc.h\<close>

definition IN_EXPERIMENTAL :: "u32 \<Rightarrow> bool" where
  "IN_EXPERIMENTAL a \<longleftrightarrow> a AND 0xf0000000 = 0xf0000000"

definition IN_LOOPBACKNET :: u8 where [simp]: "IN_LOOPBACKNET = 127"

definition mingw_in6_addr :: ctype where
  "mingw_in6_addr = Struct
     [(''in6_u'', Union
        [(''u6_addr8'', Array 16 u_int8_t), (''u6_addr16'', Array 8 u_int16_t), (''u6_addr32'', Array 4 u_int32_t)])]"

definition IN6ADDR_ANY_INIT :: "u8 list" where
  "IN6ADDR_ANY_INIT = [0,0,0,0,0,0,0,0,0,0,0,0,0,0,0,0]"

definition IN6ADDR_LOOPBACK_INIT :: "u8 list" where
  "IN6ADDR_LOOPBACK_INIT = [0,0,0,0,0,0,0,0,0,0,0,0,0,0,0,1]"

definition struct_sockaddr_in6 :: ctype where
  "struct_sockaddr_in6 = Struct
     [(''sin6_family'', u_short), (''sin6_port'', u_int16_t), (''sin6_flowinfo'', u_int32_t),
      (''sin6_addr'', mingw_in6_addr)]"

text \<open>The address tests read the words of the address, in the order of the bytes on the wire.\<close>

definition IN6_IS_ADDR_V4MAPPED :: "mem \<Rightarrow> nat \<Rightarrow> bool option" where
  "IN6_IS_ADDR_V4MAPPED m a = do {
     w0 \<leftarrow> rd32 m a; w1 \<leftarrow> rd32 m (a + 4); w2 \<leftarrow> rd32 m (a + 8);
     Some (w0 = 0 \<and> w1 = 0 \<and> w2 = htonl 0xffff)
   }"

definition IN6_IS_ADDR_MULTICAST :: "mem \<Rightarrow> nat \<Rightarrow> bool option" where
  "IN6_IS_ADDR_MULTICAST m a = do { b \<leftarrow> rd8 m a; Some (b = 0xff) }"

definition IN6_IS_ADDR_LINKLOCAL :: "mem \<Rightarrow> nat \<Rightarrow> bool option" where
  "IN6_IS_ADDR_LINKLOCAL m a = do { w0 \<leftarrow> rd32 m a; Some (w0 AND htonl 0xffc00000 = htonl 0xfe800000) }"

definition IN6_IS_ADDR_LOOPBACK :: "mem \<Rightarrow> nat \<Rightarrow> bool option" where
  "IN6_IS_ADDR_LOOPBACK m a = do {
     w0 \<leftarrow> rd32 m a; w1 \<leftarrow> rd32 m (a + 4); w2 \<leftarrow> rd32 m (a + 8); w3 \<leftarrow> rd32 m (a + 12);
     Some (w0 = 0 \<and> w1 = 0 \<and> w2 = 0 \<and> w3 = htonl 1)
   }"

section \<open>What the headers say\<close>

lemmas tme_structs = struct_timeval_def struct_RECORD_def struct_TME_DATA_def struct_TME_CORE_def struct_tcp_data_def
  struct_c_p_data_def struct_pcap_file_header_def struct_pcap_pkthdr_def struct_bpf_insn_def struct_pcap_stat_def
  struct_sockaddr_in6_def mingw_in6_addr_def

text \<open>
  The comments ``DO NOT MOVE THIS VALUE'' and ``DO NOT MODIFY'': the time stamp by which a block is aged stands
  at its beginning, a record of the lookup table has eight bytes, and the file header has no padding, so that
  dump files can be exchanged between machines.
\<close>

theorem tme_layouts:
  "offsetof w struct_tcp_data [''timestamp_block''] = Some 0 \<and> offsetof w struct_c_p_data [''timestamp''] = Some 0 \<and>
   sizeof w struct_RECORD = 8 \<and> no_padding w struct_pcap_file_header \<and> sizeof w struct_pcap_file_header = 24 \<and>
   no_padding w struct_bpf_insn \<and> sizeof w struct_bpf_insn = 8 \<and> sizeof w struct_pcap_pkthdr = 16 \<and>
   sizeof w struct_tcp_data \<le> 76 \<and> sizeof w struct_sockaddr_in6 = 24"
  by (simp add: tme_structs layout_eval Let_def numeral_2_eq_2 [symmetric])

text \<open>Marking a block as validated sets its bit and no other.\<close>

lemma VALIDATE_IS_VALIDATED:
  "i < 32 \<Longrightarrow> j < 32 \<Longrightarrow> IS_VALIDATED (VALIDATE src i) j \<longleftrightarrow> j = i \<or> IS_VALIDATED src j"
proof -
  have b: "IS_VALIDATED v k \<longleftrightarrow> bit v k" if "k < 32" for v k
    using that by (simp add: IS_VALIDATED_def bit_iff_and_push_bit_not_eq_0)
  assume "i < 32" "j < 32"
  then show ?thesis by (auto simp: b VALIDATE_def bit_simps)
qed

text \<open>
  When an entry of the lookup table may be deleted: only with automatic deletion, a table that has reached
  its fill limit, and an entry not used within the last two seconds before the last read, for time stamps
  below the largest ones.
\<close>

theorem IS_DELETABLE_iff:
  assumes "- 2147483648 \<le> sec ts" and "sec ts < 2147483646"
  shows "IS_DELETABLE ts data \<longleftrightarrow>
    enable_deletion data \<noteq> 0 \<and> max_fill_state data \<le> filled_entries data \<and> sec ts + 2 < sec (last_read data)"
  using assms by (auto simp: IS_DELETABLE_def LONG_id not_less)

text \<open>
  The time stamp that \<open>FORCE_NO_DELETION\<close> sets is the largest one, so that adding \<open>DELTA_READ\<close> overflows:
  where it wraps around, the entry counts as very old and can be deleted, the opposite of what is meant.
\<close>

theorem FORCE_NO_DELETION_deletable:
  assumes "enable_deletion data \<noteq> 0" and "max_fill_state data \<le> filled_entries data" and "0 \<le> sec (last_read data)"
  shows "IS_DELETABLE (FORCE_NO_DELETION ts) data"
proof -
  have "LONG (0x7fffffff + 2) = - 2147483647" by (simp add: LONG_def signed_take_bit_eq_take_bit_minus)
  then show ?thesis using assms by (simp add: IS_DELETABLE_def FORCE_NO_DELETION_def not_less)
qed

text \<open>
  Rounding up with the mask is rounding up to the next multiple of four, below the top of the range.
\<close>

lemma and_not_3: "(v :: u32) AND NOT 3 = push_bit 2 (drop_bit 2 v)"
proof -
  have "(3 :: u32) = mask 2" by (simp add: mask_eq_exp_minus_1)
  then have "v AND NOT 3 = v AND NOT (mask 2)" by (simp only:)
  also have "\<dots> = push_bit 2 (drop_bit 2 v)"
    by (rule bit_word_eqI) (auto simp: bit_and_iff bit_not_iff bit_mask_iff bit_push_bit_iff bit_drop_bit_eq not_less le_iff_add)
  finally show ?thesis .
qed

theorem BPF_WORDALIGN_align_up:
  assumes "x + 3 < 4294967296"
  shows "BPF_WORDALIGN x = align_up x BPF_ALIGNMENT"
proof -
  have "BPF_WORDALIGN x = unat (push_bit 2 (drop_bit 2 (word_of_nat (x + 3) :: u32)))"
    unfolding BPF_WORDALIGN_def BPF_ALIGNMENT_def by (simp flip: and_not_3)
  also have "\<dots> = (x + 3) div 4 * 4"
  proof -
    have "unat (push_bit 2 (drop_bit 2 (word_of_nat y :: u32))) =
        take_bit 32 (push_bit 2 (drop_bit 2 (take_bit 32 y)))" for y
      by (simp add: unsigned_push_bit_eq unsigned_drop_bit_eq unsigned_of_nat)
    then have "unat (push_bit 2 (drop_bit 2 (word_of_nat (x + 3) :: u32))) =
        take_bit 32 (push_bit 2 (drop_bit 2 (take_bit 32 (x + 3))))" by blast
    also have "take_bit 32 (x + 3) = x + 3" using assms by (simp add: take_bit_nat_eq_self)
    also have "push_bit 2 (drop_bit 2 (x + 3)) = (x + 3) div 4 * 4" by (simp add: push_bit_eq_mult drop_bit_eq_div)
    also have "take_bit 32 ((x + 3) div 4 * 4) = (x + 3) div 4 * 4"
      using assms by (intro take_bit_nat_eq_self) (auto intro: le_less_trans [OF div_times_less_eq_dividend])
    finally show ?thesis .
  qed
  finally show ?thesis by (simp add: align_up_def)
qed

text \<open>An opcode of eight bits is its class with either the load fields or the operation and source, without overlap.\<close>

theorem bpf_opcode_parts:
  assumes "code AND 0xff00 = 0"
  shows "BPF_CLASS code OR BPF_SIZE code OR BPF_MODE code = code \<and>
    BPF_CLASS code OR BPF_SRC code OR BPF_OP code = code \<and> BPF_CLASS code OR BPF_MISCOP code = code"
proof -
  have "code = code AND 0xffff" by (rule bit_word_eqI) (auto simp: bit_and_iff bit_imp_le_length less_Suc_eq numeral_eq_Suc)
  then have "code = code AND (0xff00 OR 0xff)" by simp
  then have c: "code = code AND 0xff" using assms by (simp only: bit.conj_disj_distrib) simp
  show ?thesis
    unfolding BPF_CLASS_def BPF_SIZE_def BPF_MODE_def BPF_SRC_def BPF_OP_def BPF_MISCOP_def
    using c by (simp flip: bit.conj_disj_distrib)
qed

text \<open>The loopback and the unspecified address are told apart by the tests, and are not multicast or link-local.\<close>

theorem ip6_constant_addresses:
  "IN6_IS_ADDR_LOOPBACK IN6ADDR_LOOPBACK_INIT 0 = Some True \<and> IN6_IS_ADDR_LOOPBACK IN6ADDR_ANY_INIT 0 = Some False \<and>
   IN6_IS_ADDR_MULTICAST IN6ADDR_LOOPBACK_INIT 0 = Some False \<and> IN6_IS_ADDR_LINKLOCAL IN6ADDR_ANY_INIT 0 = Some False"
  by code_simp

text \<open>The masks in network order test the leading bits of the address: \<open>fe80::/10\<close>.\<close>

lemma byte32_and: "byte32 i (x AND y) = byte32 i x AND byte32 i y"
  by (rule bit_word_eqI) (auto simp: byte32_def bit_simps)

theorem IN6_IS_ADDR_LINKLOCAL_prefix:
  assumes "a + 4 \<le> length m"
  shows "IN6_IS_ADDR_LINKLOCAL m a = Some (m ! a = 0xfe \<and> m ! (a + 1) AND 0xc0 = 0x80)"
proof -
  let ?w = "le32 (m ! a) (m ! (a + 1)) (m ! (a + 2)) (m ! (a + 3))"
  have k: "ntohl 0xffc00000 = le32 0xff 0xc0 0 0" "ntohl 0xfe800000 = le32 0xfe 0x80 0 0"
    by (simp_all add: ntohl_def byte32_def le32_def)
  have d: "le32 b0 b1 b2 b3 AND le32 c0 c1 c2 c3 = le32 (b0 AND c0) (b1 AND c1) (b2 AND c2) (b3 AND c3)"
    for b0 b1 b2 b3 c0 c1 c2 c3
    using le32_byte32 [of "le32 b0 b1 b2 b3 AND le32 c0 c1 c2 c3"] by (simp add: byte32_and)
  have i: "le32 b0 b1 b2 b3 = le32 c0 c1 c2 c3 \<longleftrightarrow> b0 = c0 \<and> b1 = c1 \<and> b2 = c2 \<and> b3 = c3"
    for b0 b1 b2 b3 c0 c1 c2 c3
  proof
    assume e: "le32 b0 b1 b2 b3 = le32 c0 c1 c2 c3"
    show "b0 = c0 \<and> b1 = c1 \<and> b2 = c2 \<and> b3 = c3"
      using arg_cong [OF e, of "byte32 0"] arg_cong [OF e, of "byte32 (Suc 0)"] arg_cong [OF e, of "byte32 2"]
        arg_cong [OF e, of "byte32 3"] by simp
  qed simp
  have f: "b AND 0xff = b" for b :: u8
    by (rule bit_word_eqI) (auto simp: bit_and_iff bit_imp_le_length less_Suc_eq numeral_eq_Suc)
  show ?thesis using assms by (simp add: IN6_IS_ADDR_LINKLOCAL_def field_defs k d i f)
qed

text \<open>The addresses of class E are those whose upper four bits are set; a statement is a jump without targets.\<close>

lemma IN_EXPERIMENTAL_prefix: "IN_EXPERIMENTAL a \<longleftrightarrow> drop_bit 28 a = 15"
proof -
  have h: "a AND 0xf0000000 = push_bit 28 (drop_bit 28 a)"
  proof -
    have "(0xf0000000 :: u32) = NOT (mask 28)" by (simp add: mask_eq_exp_minus_1)
    then have "a AND 0xf0000000 = a AND NOT (mask 28)" by (simp only:)
    also have "\<dots> = push_bit 28 (drop_bit 28 a)"
      by (rule bit_word_eqI) (auto simp: bit_and_iff bit_not_iff bit_mask_iff bit_push_bit_iff bit_drop_bit_eq not_less le_iff_add)
    finally show ?thesis .
  qed
  have "drop_bit 28 (push_bit 28 (drop_bit 28 a)) = drop_bit 28 a"
    by (rule bit_word_eqI) (auto simp: bit_drop_bit_eq bit_push_bit_iff dest: bit_imp_le_length)
  moreover have "drop_bit 28 (0xf0000000 :: u32) = 15" "push_bit 28 (15 :: u32) = 0xf0000000" by simp_all
  ultimately show ?thesis unfolding IN_EXPERIMENTAL_def h by metis
qed

lemma BPF_STMT_JUMP: "BPF_STMT code k = BPF_JUMP code k 0 0"
  by (simp add: BPF_STMT_def BPF_JUMP_def)

lemma IN6_IS_ADDR_V4MAPPED_prefix:
  assumes "a + 16 \<le> length m" and "\<And>i. i < 10 \<Longrightarrow> m ! (a + i) = 0" and "m ! (a + 10) = 0xff" and "m ! (a + 11) = 0xff"
  shows "IN6_IS_ADDR_V4MAPPED m a = Some True"
proof -
  have z: "m ! a = 0" "m ! (a + 1) = 0" "m ! (a + 2) = 0" "m ! (a + 3) = 0" "m ! (a + 4) = 0" "m ! (a + 4 + 1) = 0"
    "m ! (a + 4 + 2) = 0" "m ! (a + 4 + 3) = 0" "m ! (a + 8) = 0" "m ! (a + 8 + 1) = 0" "m ! (a + 8 + 2) = 0xff"
    "m ! (a + 8 + 3) = 0xff"
    using assms(2) [of 0] assms(2) [of 1] assms(2) [of 2] assms(2) [of 3] assms(2) [of 4] assms(2) [of 5]
      assms(2) [of 6] assms(2) [of 7] assms(2) [of 8] assms(2) [of 9] assms(3,4) by (simp_all add: add.commute)
  have "le32 0 0 0xff 0xff = htonl 0xffff" by (simp add: ntohl_def byte32_def le32_def)
  moreover have "le32 0 0 0 0 = 0" by (simp add: le32_def)
  ultimately have "rd32 m a = Some 0" "rd32 m (a + 4) = Some 0" "rd32 m (a + 8) = Some (htonl 0xffff)"
    unfolding rd32_def z using assms(1) by simp_all
  then show ?thesis by (simp add: IN6_IS_ADDR_V4MAPPED_def)
qed

end
