(* ===== verification/Jpcap_Consistency.thy ===== *)
theory Jpcap_Consistency
  imports Jpcap_Protocols Winpcap_Tme Jpcap_Captor Jpcap_Sender
begin

text \<open>
  The headers against each other and against the code: tables of codes are unambiguous, flag words consist
  of separate bits, the same names have the same values everywhere, the field offsets given as constants are
  those of the structures, the link types of \<open>pcap-bpf.h\<close> are covered by the tables of \<open>JpcapCaptor.c\<close>, and
  the sizes the sender uses agree with \<open>IF_ETHER.H\<close>.
\<close>

section \<open>Tables\<close>

definition unambiguous :: "(string \<times> 'a) list \<Rightarrow> bool" where
  "unambiguous t \<longleftrightarrow> distinct (map fst t) \<and> distinct (map snd t)"

text \<open>An unambiguous table can be read in both directions.\<close>

lemma unambiguous_name:
  assumes "unambiguous t" and "(n, v) \<in> set t"
  shows "map_of t n = Some v" and "map_of (map prod.swap t) v = Some n"
proof -
  show "map_of t n = Some v" using assms by (simp add: unambiguous_def)
  have "distinct (map fst (map prod.swap t))" using assms by (simp add: unambiguous_def comp_def)
  moreover have "(v, n) \<in> set (map prod.swap t)" using assms(2) by force
  ultimately show "map_of (map prod.swap t) v = Some n" by (rule map_of_is_SomeI)
qed

text \<open>
  Every table of message types, codes and operations is unambiguous: no two names of a group share a value.
\<close>

theorem code_tables_unambiguous:
  "unambiguous icmp_types \<and> unambiguous icmp_unreach_codes \<and> unambiguous icmp_redirect_codes \<and>
   unambiguous icmp_timxceed_codes \<and> unambiguous icmp_paramprob_codes \<and> unambiguous ethertypes \<and>
   unambiguous arp_hardware \<and> unambiguous arp_operations \<and> unambiguous ipopt_types \<and> unambiguous ipopt_classes \<and>
   unambiguous ipt_flags \<and> unambiguous ipopt_security \<and> unambiguous ip6_option_types \<and>
   unambiguous ip6_option_actions \<and> unambiguous ip6_rtalert_values \<and> unambiguous ip6_option_lengths \<and>
   unambiguous ipproto_ip6_misc \<and> unambiguous dlt_common \<and> unambiguous tme_registers \<and> unambiguous bpf_classes \<and>
   unambiguous bpf_sizes \<and> unambiguous bpf_modes \<and> unambiguous bpf_alu_ops \<and> unambiguous bpf_jmp_ops \<and>
   unambiguous bpf_srcs \<and> unambiguous bpf_misc_ops"
  by (intro conjI; code_simp)

text \<open>Flags are single bits, so that each can be tested and set on its own.\<close>

definition single_bits :: "(string \<times> u8) list \<Rightarrow> bool" where
  "single_bits t \<longleftrightarrow> distinct (map snd t) \<and> list_all (\<lambda>(n, v). v \<in> {1, 2, 4, 8, 16, 32, 64, 128}) t"

theorem flag_tables_single_bits:
  "single_bits session_flags \<and> single_bits arp_flags \<and> single_bits ip_tos_bits"
  by (simp add: single_bits_def session_flags_def arp_flags_def ip_tos_bits_def)

lemma tcp_status_code_inject: "tcp_status_code a = tcp_status_code b \<longleftrightarrow> a = b"
  by (cases a; cases b) (simp_all add: tcp_status_code_def)

text \<open>
  The flags of \<open>tcp_session.h\<close> are those of \<open>TCP.H\<close>; the precedence values are the upper three bits of the type of
  service, apart from the bits of \<open>analyze_ip\<close>; the version nibble of IPv6 is the one \<open>set_ipv6\<close> writes.
\<close>

theorem flags_agree:
  "map snd session_flags = [TH_FIN, TH_SYN, TH_RST, TH_PUSH, TH_ACK, TH_URG] \<and>
   map snd ip_tos_bits = [IPTOS_LOWDELAY, IPTOS_THROUGHPUT, IPTOS_RELIABILITY] \<and>
   map snd ip_tos_precedence = map (push_bit 5) [7, 6, 5, 4, 3, 2, 1, 0] \<and>
   list_all (\<lambda>(n, v). list_all (\<lambda>(k, b). v AND b = 0) ip_tos_bits) ip_tos_precedence \<and>
   IPV6_VERSION AND IPV6_VERSION_MASK = push_bit 4 6"
  by (simp add: session_flags_def ip_tos_bits_def ip_tos_precedence_def)

section \<open>Structures\<close>

text \<open>The offsets of \<open>IP.H\<close> into an option are the members of the time stamp option.\<close>

theorem ip_option_offsets:
  "offsetof w (struct_ip_timestamp bo) [''ipt_code''] = Some IPOPT_OPTVAL \<and>
   offsetof w (struct_ip_timestamp bo) [''ipt_len''] = Some IPOPT_OLEN \<and>
   offsetof w (struct_ip_timestamp bo) [''ipt_ptr''] = Some IPOPT_OFFSET \<and>
   offsetof w (struct_ip_timestamp bo) [''ipt_timestamp'', ''ipt_ta'', ''ipt_addr''] = Some IPOPT_MINOFF \<and>
   IPv4HDRLEN + MAX_IPOPTLEN = 4 * 15 \<and> sizeof w struct_ipoption = sizeof w in_addr + MAX_IPOPTLEN"
  by (simp add: layout_eval struct_ipoption_def Let_def numeral_2_eq_2 [symmetric])

text \<open>
  Sizes of the structures shared with libpcap, which contain pointers: on a 64-bit machine the lists of devices
  and addresses double in size, and the program structure is padded.
\<close>

theorem pcap_structure_sizes:
  "sizeof 4 struct_pcap_if = 20 \<and> sizeof 8 struct_pcap_if = 40 \<and> sizeof 4 struct_pcap_addr = 20 \<and>
   sizeof 8 struct_pcap_addr = 40 \<and> no_padding 4 struct_bpf_program \<and> \<not> no_padding 8 struct_bpf_program \<and>
   sizeof w struct_bpf_version = 4 \<and> sizeof w struct_pcap_stat = 24"
  by (simp add: struct_pcap_if_def struct_pcap_addr_def struct_bpf_program_def struct_bpf_version_def
      struct_pcap_stat_def align_up_def numeral_2_eq_2 [symmetric])

section \<open>Instruction codes\<close>

text \<open>
  Class, operation and operand of every arithmetic and jump instruction, and class, size and mode of every load, are
  recovered from the code that combines them.
\<close>

theorem bpf_codes_decode:
  "list_all (\<lambda>(n, op). list_all (\<lambda>(k, src). BPF_CLASS (4 OR op OR src) = 4 \<and> BPF_OP (4 OR op OR src) = op \<and>
     BPF_SRC (4 OR op OR src) = src) bpf_srcs) bpf_alu_ops \<and>
   list_all (\<lambda>(n, op). list_all (\<lambda>(k, src). BPF_CLASS (5 OR op OR src) = 5 \<and> BPF_OP (5 OR op OR src) = op \<and>
     BPF_SRC (5 OR op OR src) = src) bpf_srcs) bpf_jmp_ops \<and>
   list_all (\<lambda>(n, sz). list_all (\<lambda>(k, md). BPF_CLASS (0 OR sz OR md) = 0 \<and> BPF_SIZE (0 OR sz OR md) = sz \<and>
     BPF_MODE (0 OR sz OR md) = md) bpf_modes) bpf_sizes \<and>
   list_all (\<lambda>(n, op). BPF_MISCOP (7 OR op) = op) bpf_misc_ops"
  by (simp add: bpf_srcs_def bpf_alu_ops_def bpf_jmp_ops_def bpf_sizes_def bpf_modes_def bpf_misc_ops_def
      BPF_CLASS_def BPF_OP_def BPF_SRC_def BPF_SIZE_def BPF_MODE_def BPF_MISCOP_def)

section \<open>The code against the headers\<close>

text \<open>
  Every link type the common part of \<open>pcap-bpf.h\<close> names, and raw IP under both of its numbers, is an index of the
  two offset tables of \<open>JpcapCaptor.c\<close>: looking up the type or skipping the header is defined for them.
  For other link types (from 15 on) the tables are too short.
\<close>

theorem link_types_covered:
  "list_all (\<lambda>(n, lt). table offset_type lt \<noteq> None \<and> table offset_data lt \<noteq> None) dlt_common \<and>
   table offset_data (dlt_raw openbsd) \<noteq> None \<and> map_of dlt_common ''DLT_EN10MB'' = Some DLT_EN10MB \<and>
   map_of dlt_common ''DLT_IEEE802'' = Some DLT_IEEE802 \<and> dlt_raw False = DLT_RAW \<and> table offset_data 15 = None"
  by (cases openbsd) (simp_all add: dlt_common_def dlt_raw_def table_def offset_type_def offset_data_def)

text \<open>
  The smallest frame the sender produces is the Ethernet minimum, and a frame of the largest size an Ethernet
  carries fits the send buffer.
\<close>

theorem frame_sizes:
  "pad_frame m len = Some (m', n) \<Longrightarrow> int (ETHERMIN + sizeof_ether_header) \<le> n"
  "ETHERMTU + sizeof_ether_header \<le> MAX_PACKET_SIZE"
  by (auto simp: pad_frame_def bind_eq_Some_conv split: if_splits)

text \<open>A window is scaled by at most fourteen bits: the largest one stays below 2 to the 30.\<close>

theorem scaled_window: "TCP_MAXWIN * 2 ^ TCP_MAX_WINSHIFT < 2 ^ 30 \<and> IP_MAXPACKET < 2 ^ 16 \<and> IPDEFTTL \<le> MAXTTL"
  by simp

end
