(* ===== verification/Winpcap_Driver.thy ===== *)
theory Winpcap_Driver
  imports Winpcap_Tme
begin

text \<open>
  The interface of the packet driver in the bundled \<open>Devioctl.h\<close>, \<open>Ntddpack.h\<close> and \<open>Packet32.h\<close>: the encoding of
  control codes, the codes themselves, the alignment macro and the structures that are shared with libpcap.
\<close>

section \<open>Devioctl.h\<close>

definition METHOD_BUFFERED :: u32 where [simp]: "METHOD_BUFFERED = 0"
definition METHOD_IN_DIRECT :: u32 where [simp]: "METHOD_IN_DIRECT = 1"
definition METHOD_OUT_DIRECT :: u32 where [simp]: "METHOD_OUT_DIRECT = 2"
definition METHOD_NEITHER :: u32 where [simp]: "METHOD_NEITHER = 3"

definition FILE_ANY_ACCESS :: u32 where [simp]: "FILE_ANY_ACCESS = 0"
definition FILE_READ_ACCESS :: u32 where [simp]: "FILE_READ_ACCESS = 1"
definition FILE_WRITE_ACCESS :: u32 where [simp]: "FILE_WRITE_ACCESS = 2"

definition CTL_CODE :: "u32 \<Rightarrow> u32 \<Rightarrow> u32 \<Rightarrow> u32 \<Rightarrow> u32" where
  "CTL_CODE DeviceType Function Method Access =
     push_bit 16 DeviceType OR push_bit 14 Access OR push_bit 2 Function OR Method"

text \<open>The device types, numbered from one in this order.\<close>

definition device_types :: "string list" where
  "device_types =
    [''BEEP'', ''CD_ROM'', ''CD_ROM_FILE_SYSTEM'', ''CONTROLLER'', ''DATALINK'', ''DFS'', ''DISK'', ''DISK_FILE_SYSTEM'',
     ''FILE_SYSTEM'', ''INPORT_PORT'', ''KEYBOARD'', ''MAILSLOT'', ''MIDI_IN'', ''MIDI_OUT'', ''MOUSE'',
     ''MULTI_UNC_PROVIDER'', ''NAMED_PIPE'', ''NETWORK'', ''NETWORK_BROWSER'', ''NETWORK_FILE_SYSTEM'', ''NULL'',
     ''PARALLEL_PORT'', ''PHYSICAL_NETCARD'', ''PRINTER'', ''SCANNER'', ''SERIAL_MOUSE_PORT'', ''SERIAL_PORT'',
     ''SCREEN'', ''SOUND'', ''STREAMS'', ''TAPE'', ''TAPE_FILE_SYSTEM'', ''TRANSPORT'', ''UNKNOWN'', ''VIDEO'',
     ''VIRTUAL_DISK'', ''WAVE_IN'', ''WAVE_OUT'', ''8042_PORT'', ''NETWORK_REDIRECTOR'', ''BATTERY'', ''BUS_EXTENDER'',
     ''MODEM'', ''VDM'', ''MASS_STORAGE'']"

definition FILE_DEVICE :: "string \<Rightarrow> u32 option" where
  "FILE_DEVICE n = map_of (zip device_types (map word_of_nat [1..<Suc (length device_types)])) n"

section \<open>Ntddpack.h\<close>

definition struct_PACKET_OID_DATA :: ctype where
  "struct_PACKET_OID_DATA = Struct [(''Oid'', Scalar 4), (''Length'', Scalar 4), (''Data'', Array 1 u_char)]"

definition FILE_DEVICE_PROTOCOL :: u32 where [simp]: "FILE_DEVICE_PROTOCOL = 0x8000"

definition ntddpack_ioctls :: "(string \<times> u32) list" where
  "ntddpack_ioctls =
    [(''IOCTL_PROTOCOL_QUERY_OID'', CTL_CODE FILE_DEVICE_PROTOCOL 0 METHOD_BUFFERED FILE_ANY_ACCESS),
     (''IOCTL_PROTOCOL_SET_OID'', CTL_CODE FILE_DEVICE_PROTOCOL 1 METHOD_BUFFERED FILE_ANY_ACCESS),
     (''IOCTL_PROTOCOL_STATISTICS'', CTL_CODE FILE_DEVICE_PROTOCOL 2 METHOD_BUFFERED FILE_ANY_ACCESS),
     (''IOCTL_PROTOCOL_RESET'', CTL_CODE FILE_DEVICE_PROTOCOL 3 METHOD_BUFFERED FILE_ANY_ACCESS),
     (''IOCTL_PROTOCOL_READ'', CTL_CODE FILE_DEVICE_PROTOCOL 4 METHOD_BUFFERED FILE_ANY_ACCESS),
     (''IOCTL_PROTOCOL_WRITE'', CTL_CODE FILE_DEVICE_PROTOCOL 5 METHOD_BUFFERED FILE_ANY_ACCESS),
     (''IOCTL_PROTOCOL_MACNAME'', CTL_CODE FILE_DEVICE_PROTOCOL 6 METHOD_BUFFERED FILE_ANY_ACCESS),
     (''IOCTL_OPEN'', CTL_CODE FILE_DEVICE_PROTOCOL 7 METHOD_BUFFERED FILE_ANY_ACCESS),
     (''IOCTL_CLOSE'', CTL_CODE FILE_DEVICE_PROTOCOL 8 METHOD_BUFFERED FILE_ANY_ACCESS)]"

section \<open>Packet32.h\<close>

definition packet_modes :: "(string \<times> u32) list" where
  "packet_modes = [(''CAPT'', 0), (''STAT'', 1), (''MON'', 2), (''DUMP'', 0x10)]"

definition packet32_ioctls :: "(string \<times> u32) list" where
  "packet32_ioctls =
    [(''IOCTL_PROTOCOL_STATISTICS'', CTL_CODE FILE_DEVICE_PROTOCOL 2 METHOD_BUFFERED FILE_ANY_ACCESS),
     (''IOCTL_PROTOCOL_RESET'', CTL_CODE FILE_DEVICE_PROTOCOL 3 METHOD_BUFFERED FILE_ANY_ACCESS),
     (''IOCTL_PROTOCOL_READ'', CTL_CODE FILE_DEVICE_PROTOCOL 4 METHOD_BUFFERED FILE_ANY_ACCESS),
     (''IOCTL_PROTOCOL_WRITE'', CTL_CODE FILE_DEVICE_PROTOCOL 5 METHOD_BUFFERED FILE_ANY_ACCESS),
     (''IOCTL_PROTOCOL_MACNAME'', CTL_CODE FILE_DEVICE_PROTOCOL 6 METHOD_BUFFERED FILE_ANY_ACCESS),
     (''IOCTL_OPEN'', CTL_CODE FILE_DEVICE_PROTOCOL 7 METHOD_BUFFERED FILE_ANY_ACCESS),
     (''IOCTL_CLOSE'', CTL_CODE FILE_DEVICE_PROTOCOL 8 METHOD_BUFFERED FILE_ANY_ACCESS)]"

definition packet32_codes :: "(string \<times> u32) list" where
  "packet32_codes =
    [(''pBIOCSETBUFFERSIZE'', 9592), (''pBIOCSETF'', 9030), (''pBIOCGSTATS'', 9031), (''pBIOCSRTIMEOUT'', 7416),
     (''pBIOCSMODE'', 7412), (''pBIOCSWRITEREP'', 7413), (''pBIOCSMINTOCOPY'', 7414), (''pBIOCSETOID'', 2147483648),
     (''pBIOCQUERYOID'', 2147483652), (''pATTACHPROCESS'', 7117), (''pDETACHPROCESS'', 7118),
     (''pBIOCSETDUMPFILENAME'', 9029), (''pBIOCEVNAME'', 7415), (''pBIOCSENDPACKETSNOSYNC'', 9032),
     (''pBIOCSENDPACKETSSYNC'', 9033), (''pBIOCSETDUMPLIMITS'', 9034), (''pBIOCISDUMPENDED'', 7411),
     (''pBIOCISETLOBBEH'', 7410), (''pBIOCSETEVENTHANDLE'', 7920), (''pBIOCSTIMEZONE'', 7471)]"

text \<open>\<open>sizeof(int)\<close> has the type \<open>size_t\<close>, of 32 bits on the platform of the header.\<close>

definition Packet_ALIGNMENT :: nat where [simp]: "Packet_ALIGNMENT = sizeof 4 (Scalar 4)"

definition Packet_WORDALIGN :: "nat \<Rightarrow> nat" where
  "Packet_WORDALIGN x =
     unat ((word_of_nat (x + (Packet_ALIGNMENT - 1)) :: u32) AND NOT (word_of_nat (Packet_ALIGNMENT - 1)))"

definition ndis_media :: "(string \<times> int) list" where
  "ndis_media = [(''Null'', -1), (''CHDLC'', -2), (''PPPSerial'', -3), (''Bare80211'', -4), (''Radio80211'', -5)]"

definition struct_NetType :: ctype where
  "struct_NetType = Struct [(''LinkType'', Scalar 4), (''LinkSpeed'', Scalar 8)]"

definition packet32_bpf_program :: ctype where
  "packet32_bpf_program = Struct [(''bf_len'', Scalar 4), (''bf_insns'', Pointer)]"

definition packet32_bpf_insn :: ctype where
  "packet32_bpf_insn = Struct [(''code'', Scalar 2), (''jt'', Scalar 1), (''jf'', Scalar 1), (''k'', Scalar 4)]"

definition struct_bpf_stat :: ctype where
  "struct_bpf_stat = Struct
     [(''bs_recv'', Scalar 4), (''bs_drop'', Scalar 4), (''ps_ifdrop'', Scalar 4), (''bs_capt'', Scalar 4)]"

definition struct_bpf_hdr :: ctype where
  "struct_bpf_hdr = Struct
     [(''bh_tstamp'', struct_timeval), (''bh_caplen'', Scalar 4), (''bh_datalen'', Scalar 4), (''bh_hdrlen'', Scalar 2)]"

definition struct_dump_bpf_hdr :: ctype where
  "struct_dump_bpf_hdr = Struct [(''ts'', struct_timeval), (''caplen'', Scalar 4), (''len'', Scalar 4)]"

definition ADAPTER_NAME_LENGTH :: nat where [simp]: "ADAPTER_NAME_LENGTH = 256 + 12"
definition ADAPTER_DESC_LENGTH :: nat where [simp]: "ADAPTER_DESC_LENGTH = 128"
definition MAX_MAC_ADDR_LENGTH :: nat where [simp]: "MAX_MAC_ADDR_LENGTH = 8"

definition info_flags :: "(string \<times> u32) list" where
  "info_flags =
    [(''NDIS_ADAPTER'', 0), (''NDISWAN_ADAPTER'', 1), (''DAG_CARD'', 2), (''DAG_FILE'', 6), (''DONT_EXPORT'', 8),
     (''AIRPCAP_CARD'', 16), (''NPFIM_DEVICE'', 32)]"

definition struct_ADAPTER_INFO :: ctype where
  "struct_ADAPTER_INFO = Struct
     [(''Next'', Pointer), (''Name'', Array (ADAPTER_NAME_LENGTH + 1) (Scalar 1)),
      (''Description'', Array (ADAPTER_DESC_LENGTH + 1) (Scalar 1)), (''MacAddressLen'', Scalar 4),
      (''MacAddress'', Array MAX_MAC_ADDR_LENGTH u_char), (''LinkLayer'', struct_NetType),
      (''NNetworkAddresses'', Scalar 4), (''NetworkAddresses'', Pointer), (''Flags'', Scalar 4)]"

definition packet32_PACKET_OID_DATA :: ctype where
  "packet32_PACKET_OID_DATA = Struct [(''Oid'', Scalar 4), (''Length'', Scalar 4), (''Data'', Array 1 (Scalar 1))]"

section \<open>Control codes\<close>

text \<open>The fields of a control code.\<close>

definition ctl_device :: "u32 \<Rightarrow> u32" where "ctl_device c = drop_bit 16 c"
definition ctl_access :: "u32 \<Rightarrow> u32" where "ctl_access c = take_bit 2 (drop_bit 14 c)"
definition ctl_function :: "u32 \<Rightarrow> u32" where "ctl_function c = take_bit 12 (drop_bit 2 c)"
definition ctl_method :: "u32 \<Rightarrow> u32" where "ctl_method c = take_bit 2 c"

lemma high_bits_clear: "take_bit k x = x \<Longrightarrow> k \<le> n \<Longrightarrow> \<not> bit (x :: u32) n"
  by (metis bit_take_bit_iff leD)

text \<open>
  A control code carries its four parts without overlap: when they fit their fields, each of them is
  read back from the code.
\<close>

theorem CTL_CODE_fields:
  assumes "take_bit 16 d = d" and "take_bit 12 f = f" and "take_bit 2 m = m" and "take_bit 2 a = a"
  shows "ctl_device (CTL_CODE d f m a) = d \<and> ctl_function (CTL_CODE d f m a) = f \<and>
    ctl_method (CTL_CODE d f m a) = m \<and> ctl_access (CTL_CODE d f m a) = a"
proof (intro conjI; rule bit_word_eqI)
  note z = high_bits_clear [OF assms(1)] high_bits_clear [OF assms(2)] high_bits_clear [OF assms(3)]
    high_bits_clear [OF assms(4)]
  fix n :: nat assume "n < LENGTH(32)"
  then show "bit (ctl_device (CTL_CODE d f m a)) n = bit d n"
    using z by (cases "n < 16") (auto simp: ctl_device_def CTL_CODE_def bit_simps)
  show "bit (ctl_function (CTL_CODE d f m a)) n = bit f n"
    using z by (cases "n < 12") (auto simp: ctl_function_def CTL_CODE_def bit_simps)
  show "bit (ctl_method (CTL_CODE d f m a)) n = bit m n"
    using z by (cases "n < 2") (auto simp: ctl_method_def CTL_CODE_def bit_simps)
  show "bit (ctl_access (CTL_CODE d f m a)) n = bit a n"
    using z by (cases "n < 2") (auto simp: ctl_access_def CTL_CODE_def bit_simps)
qed

lemma CTL_CODE_fields_witness:
  "ctl_device (CTL_CODE 0x8000 7 METHOD_NEITHER FILE_WRITE_ACCESS) = 0x8000 \<and>
   ctl_function (CTL_CODE 0x8000 7 METHOD_NEITHER FILE_WRITE_ACCESS) = 7 \<and>
   ctl_method (CTL_CODE 0x8000 7 METHOD_NEITHER FILE_WRITE_ACCESS) = METHOD_NEITHER \<and>
   ctl_access (CTL_CODE 0x8000 7 METHOD_NEITHER FILE_WRITE_ACCESS) = FILE_WRITE_ACCESS"
  by (rule CTL_CODE_fields) (simp_all add: take_bit_eq_mod)

text \<open>
  \<open>Packet32.h\<close> repeats the codes of \<open>Ntddpack.h\<close> with the same values, and no two codes of a header are
  equal; but the two codes for object identifiers that it gives as numbers are the ones of \<open>Ntddpack.h\<close> with setting
  and querying exchanged.
\<close>

theorem ioctl_codes:
  "list_all (\<lambda>(n, c). map_of ntddpack_ioctls n = Some c) packet32_ioctls \<and>
   distinct (map snd ntddpack_ioctls) \<and> distinct (map snd packet32_codes) \<and>
   map_of packet32_codes ''pBIOCSETOID'' = map_of ntddpack_ioctls ''IOCTL_PROTOCOL_QUERY_OID'' \<and>
   map_of packet32_codes ''pBIOCQUERYOID'' = map_of ntddpack_ioctls ''IOCTL_PROTOCOL_SET_OID''"
  by code_simp

section \<open>Agreement with libpcap\<close>

text \<open>
  The structures that \<open>Packet32.h\<close> takes from libpcap have the layout libpcap gives them, and both macros
  round up to the same multiple; the header of a packet in a buffer is that of a dump file and two more bytes.
\<close>

theorem packet32_matches_pcap:
  "sizeof w packet32_bpf_insn = sizeof w struct_bpf_insn \<and> sizeof w struct_dump_bpf_hdr = sizeof w struct_pcap_pkthdr \<and>
   map (\<lambda>f. offsetof w packet32_bpf_insn [f]) [''code'', ''jt'', ''jf'', ''k''] =
     map (\<lambda>f. offsetof w struct_bpf_insn [f]) [''code'', ''jt'', ''jf'', ''k''] \<and>
   map (\<lambda>f. offsetof w struct_dump_bpf_hdr [f]) [''ts'', ''caplen'', ''len''] =
     map (\<lambda>f. offsetof w struct_pcap_pkthdr [f]) [''ts'', ''caplen'', ''len''] \<and>
   map (\<lambda>f. offsetof w struct_bpf_hdr [f]) [''bh_tstamp'', ''bh_caplen'', ''bh_datalen'', ''bh_hdrlen''] =
     map (\<lambda>f. offsetof w struct_pcap_pkthdr [f]) [''ts'', ''caplen'', ''len''] @ [Some (sizeof w struct_pcap_pkthdr)] \<and>
   Packet_WORDALIGN x = BPF_WORDALIGN x"
  by (simp add: packet32_bpf_insn_def struct_bpf_insn_def struct_dump_bpf_hdr_def struct_pcap_pkthdr_def
      struct_bpf_hdr_def struct_timeval_def offsetof_def Packet_WORDALIGN_def BPF_WORDALIGN_def align_up_def)

end
