(* ===== verification/Sniffer_Stream.thy ===== *)
theory Sniffer_Stream
  imports Jpcap_Prelude
begin

text \<open>
  \<open>DynamicByteArrayInputStream\<close> of the TCP connection sniffer: the data of one direction of a connection, as a
  queue of byte streams. \<open>append\<close> adds data to the last stream, \<open>finish\<close> marks its end, and a reader gets the
  streams one after the other, each followed by an end of stream. Positions are Java integers; dates are integers.
\<close>

section \<open>The class\<close>

record stream_mark =
  mark_start :: int
  mark_end :: int
  endPos :: int

record stream =
  s_buf :: "u8 list"
  s_pos :: int
  s_count :: int
  s_size :: int
  s_finished :: bool
  s_blocking :: bool
  currentStreamStartTime :: int
  newInputStreamMarks :: "stream_mark list"
  s_readLimit :: int
  s_markedPos :: int

definition MAX_BUFFER_SIZE :: int where "MAX_BUFFER_SIZE = 2000 * 1024"

text \<open>A new object; \<open>now\<close> is the value of \<open>new Date()\<close>. A null buffer is the empty list.\<close>

definition new_stream :: "int \<Rightarrow> stream" where
  "new_stream now =
     \<lparr>s_buf = [], s_pos = 0, s_count = 0, s_size = 0, s_finished = False, s_blocking = True,
      currentStreamStartTime = now, newInputStreamMarks = [], s_readLimit = -1, s_markedPos = -1\<rparr>"

datatype stream_exn = AlreadyFinishedStream | BufferFull | StreamIndexOutOfBounds

definition addMarkPos :: "int \<Rightarrow> stream \<Rightarrow> stream \<times> bool" where
  "addMarkPos endTime s =
     (if 0 < s_size s
      then (if newInputStreamMarks s \<noteq> [] \<and> s_size s = endPos (last (newInputStreamMarks s)) then (s, False)
            else (s\<lparr>newInputStreamMarks := newInputStreamMarks s @
                    [\<lparr>mark_start = currentStreamStartTime s, mark_end = endTime, endPos = s_size s\<rparr>]\<rparr>, True))
      else (s, False))"

definition finish_stream :: "bool \<Rightarrow> int \<Rightarrow> stream \<Rightarrow> stream \<times> bool" where
  "finish_stream markFinish endTime s =
     (case addMarkPos endTime s of
        (s, success) \<Rightarrow> (if \<not> markFinish then s\<lparr>s_finished := True\<rparr> else s, success))"

definition moveForwardMarks :: "int \<Rightarrow> stream \<Rightarrow> stream \<times> stream_exn option" where
  "moveForwardMarks p s =
     (let s = s\<lparr>newInputStreamMarks := map (\<lambda>m. m\<lparr>endPos := endPos m - p\<rparr>) (newInputStreamMarks s)\<rparr>
      in (s, if newInputStreamMarks s \<noteq> [] \<and> endPos (last (newInputStreamMarks s)) > s_size s
             then Some StreamIndexOutOfBounds else None))"

text \<open>An exception ends the call; what was assigned before it stays.\<close>

definition appendOnly :: "u8 list \<Rightarrow> stream \<Rightarrow> stream \<times> stream_exn option" where
  "appendOnly newBytes s =
     (let newSize = s_size s + int (length newBytes) in
      if MAX_BUFFER_SIZE < newSize then (s, Some BufferFull)
      else (let b = take (nat (s_size s)) (s_buf s) @ newBytes;
                s = s\<lparr>s_buf := b, s_size := newSize\<rparr>
            in (if s_count s = 0 \<or> newInputStreamMarks s = [] then s\<lparr>s_count := s_size s\<rparr> else s, None)))"

definition appendAndShrink :: "u8 list \<Rightarrow> stream \<Rightarrow> stream \<times> stream_exn option" where
  "appendAndShrink newBytes s =
     (let available = s_size s - s_pos s; newSize = available + int (length newBytes) in
      if MAX_BUFFER_SIZE < newSize then (s, Some BufferFull)
      else (case moveForwardMarks (s_pos s) (s\<lparr>s_count := s_count s - s_pos s\<rparr>) of
              (s, Some e) \<Rightarrow> (s, Some e)
            | (s, None) \<Rightarrow>
                (let b = (if 0 < available then take (nat available) (drop (nat (s_pos s)) (s_buf s)) @ newBytes else newBytes);
                     s = s\<lparr>s_buf := b, s_pos := 0, s_size := int (length b)\<rparr>
                 in (if s_count s = 0 \<or> newInputStreamMarks s = [] then s\<lparr>s_count := s_size s\<rparr> else s, None))))"

definition append_stream :: "u8 list \<Rightarrow> stream \<Rightarrow> stream \<times> stream_exn option" where
  "append_stream newBytes s =
     (if s_finished s then (s, Some AlreadyFinishedStream)
      else if 0 \<le> s_markedPos s \<and> s_pos s - s_markedPos s \<le> s_readLimit s then appendOnly newBytes s
      else appendAndShrink newBytes s)"

definition shrinkToNextInputStream :: "stream \<Rightarrow> stream \<times> stream_exn option" where
  "shrinkToNextInputStream s =
     (if newInputStreamMarks s = [] then (s, None)
      else (let newSize = s_size s - s_pos s;
                s = s\<lparr>s_buf := take (nat newSize) (drop (nat (s_pos s)) (s_buf s)), s_size := newSize,
                      newInputStreamMarks := tl (newInputStreamMarks s)\<rparr>
            in case moveForwardMarks (s_pos s) s of
                 (s, Some e) \<Rightarrow> (s, Some e)
               | (s, None) \<Rightarrow>
                   (s\<lparr>s_count := (case newInputStreamMarks s of [] \<Rightarrow> s_size s | m # ms \<Rightarrow> endPos m), s_pos := 0,
                      s_markedPos := -1\<rparr>, None)))"

definition isCurrentStreamFinished :: "stream \<Rightarrow> (stream \<times> stream_exn option) \<times> bool" where
  "isCurrentStreamFinished s =
     (if newInputStreamMarks s \<noteq> [] \<and> endPos (hd (newInputStreamMarks s)) \<le> s_pos s
      then (shrinkToNextInputStream s, True)
      else if newInputStreamMarks s = [] \<and> s_finished s then ((s, None), True)
      else ((s, None), False))"

text \<open>
  The results of a read: bytes, the end of a stream (\<open>-1\<close>), or waiting for data, after which the read is tried
  again. \<open>len\<close> is at most the room in the array of the caller.
\<close>

datatype read_result = Bytes "u8 list" | EndOfStream | Waits | ReadFails stream_exn

definition read_stream :: "int \<Rightarrow> stream \<Rightarrow> stream \<times> read_result" where
  "read_stream len s =
     (if s_count s \<le> s_pos s
      then (case isCurrentStreamFinished s of
              ((s, Some e), fin) \<Rightarrow> (s, ReadFails e)
            | ((s, None), fin) \<Rightarrow> (s, if \<not> fin \<and> s_blocking s then Waits else EndOfStream))
      else (let len = (if s_count s < s_pos s + len then s_count s - s_pos s else len) in
            if len \<le> 0 then (s, Bytes [])
            else (s\<lparr>s_pos := s_pos s + len\<rparr>, Bytes (take (nat len) (drop (nat (s_pos s)) (s_buf s))))))"

text \<open>\<open>read()\<close> of one byte.\<close>

definition read_byte :: "stream \<Rightarrow> stream \<times> read_result" where
  "read_byte s =
     (if s_pos s < s_count s then (s\<lparr>s_pos := s_pos s + 1\<rparr>, Bytes [s_buf s ! nat (s_pos s)])
      else (case isCurrentStreamFinished s of
              ((s, Some e), fin) \<Rightarrow> (s, ReadFails e)
            | ((s, None), fin) \<Rightarrow> (s, if \<not> fin \<and> s_blocking s then Waits else EndOfStream)))"

definition hasMoreInputStream :: "stream \<Rightarrow> bool" where
  "hasMoreInputStream s \<longleftrightarrow> newInputStreamMarks s \<noteq> [] \<or> s_pos s < s_size s"

definition finishCurrentInputStream :: "stream \<Rightarrow> stream \<times> stream_exn option" where
  "finishCurrentInputStream s = shrinkToNextInputStream (s\<lparr>s_pos := s_count s\<rparr>)"

definition skip_stream :: "int \<Rightarrow> stream \<Rightarrow> stream \<times> int" where
  "skip_stream n s =
     (let n = (if s_count s < s_pos s + n then s_count s - s_pos s else n) in
      if n < 0 then (s, 0) else (s\<lparr>s_pos := s_pos s + n\<rparr>, n))"

definition mark_stream :: "int \<Rightarrow> stream \<Rightarrow> stream" where
  "mark_stream limit s = (if 0 < limit then s\<lparr>s_readLimit := limit, s_markedPos := s_pos s\<rparr> else s)"

definition reset_stream :: "stream \<Rightarrow> stream option" where
  "reset_stream s = (if s_markedPos s = -1 then None else Some (s\<lparr>s_pos := s_markedPos s, s_markedPos := -1\<rparr>))"

definition closeWholeStream :: "stream \<Rightarrow> stream" where
  "closeWholeStream s =
     s\<lparr>s_buf := [], s_pos := 0, s_count := 0, s_finished := False, newInputStreamMarks := [], s_size := 0\<rparr>"

definition markStreamStartTime :: "int \<Rightarrow> stream \<Rightarrow> stream" where
  "markStreamStartTime t s = s\<lparr>currentStreamStartTime := t\<rparr>"

definition configureBlocking :: "bool \<Rightarrow> stream \<Rightarrow> stream" where
  "configureBlocking b s = s\<lparr>s_blocking := b\<rparr>"

section \<open>What a reader is promised\<close>

text \<open>
  The abstract value: the streams whose end is marked, and the one that is still written. Both are what is not
  read yet. \<open>cut_at\<close> divides the unread bytes at the marks, which are relative to the read position.
\<close>

fun cut_at :: "nat list \<Rightarrow> nat \<Rightarrow> u8 list \<Rightarrow> u8 list list \<times> u8 list" where
  "cut_at [] p u = ([], drop p u)"
| "cut_at (e # es) p u = (case cut_at es e u of (cs, t) \<Rightarrow> (take (e - p) (drop p u) # cs, t))"

definition unread :: "stream \<Rightarrow> u8 list" where
  "unread s = drop (nat (s_pos s)) (s_buf s)"

definition mark_offsets :: "stream \<Rightarrow> nat list" where
  "mark_offsets s = map (\<lambda>m. nat (endPos m - s_pos s)) (newInputStreamMarks s)"

definition streams :: "stream \<Rightarrow> u8 list list \<times> u8 list" where
  "streams s = cut_at (mark_offsets s) 0 (unread s)"

text \<open>The invariant: the marks ascend, and the reader stops at the first of them.\<close>

definition stream_inv :: "stream \<Rightarrow> bool" where
  "stream_inv s \<longleftrightarrow>
     0 \<le> s_pos s \<and> s_pos s \<le> s_count s \<and> s_count s \<le> s_size s \<and> s_size s = int (length (s_buf s)) \<and>
     sorted_wrt (<) (map endPos (newInputStreamMarks s)) \<and>
     (\<forall>m \<in> set (newInputStreamMarks s). s_pos s \<le> endPos m \<and> endPos m \<le> s_size s) \<and>
     s_count s = (case newInputStreamMarks s of [] \<Rightarrow> s_size s | m # ms \<Rightarrow> endPos m)"

lemma new_stream_inv: "stream_inv (new_stream now)" "streams (new_stream now) = ([], [])"
  by (simp_all add: stream_inv_def new_stream_def streams_def mark_offsets_def unread_def)

lemma cut_append:
  assumes "\<forall>e \<in> set es. e \<le> length u" and "p \<le> length u"
  shows "cut_at es p (u @ d) = (fst (cut_at es p u), snd (cut_at es p u) @ d)"
  using assms by (induction es arbitrary: p) (auto split: prod.splits)

lemma cut_snoc:
  assumes "\<forall>e \<in> set es. e \<le> length u" and "p \<le> length u"
  shows "cut_at (es @ [length u]) p u = (fst (cut_at es p u) @ [snd (cut_at es p u)], [])"
  using assms by (induction es arbitrary: p) (auto split: prod.splits)

lemma cut_shift:
  assumes "\<forall>e \<in> set es. k \<le> e"
  shows "cut_at (map (\<lambda>e. e - k) es) p (drop k u) = cut_at es (p + k) u"
  using assms by (induction es arbitrary: p) (auto split: prod.splits simp: add.commute)

section \<open>The operations implement it\<close>

lemma mark_offsets_bounds:
  assumes "stream_inv s"
  shows "\<forall>e \<in> set (mark_offsets s). e \<le> length (unread s)"
  using assms by (auto simp: stream_inv_def mark_offsets_def unread_def)

lemma append_stream_refines:
  assumes inv: "stream_inv s" and open_: "\<not> s_finished s"
    and ahead: "newInputStreamMarks s \<noteq> [] \<Longrightarrow> s_pos s < endPos (hd (newInputStreamMarks s))"
    and room: "s_size s + int (length d) \<le> MAX_BUFFER_SIZE"
  obtains s' where "append_stream d s = (s', None)" and "stream_inv s'" and "unread s' = unread s @ d"
    and "mark_offsets s' = mark_offsets s" and "s_finished s' = s_finished s" and "s_blocking s' = s_blocking s"
    and "s_size s' \<le> s_size s + int (length d)" and "newInputStreamMarks s' = [] \<longleftrightarrow> newInputStreamMarks s = []"
proof (cases "0 \<le> s_markedPos s \<and> s_pos s - s_markedPos s \<le> s_readLimit s")
  case True
  define c where "c = (if newInputStreamMarks s = [] then s_size s + int (length d) else s_count s)"
  define s' where "s' = s\<lparr>s_buf := s_buf s @ d, s_size := s_size s + int (length d), s_count := c\<rparr>"
  have "append_stream d s = (s', None)"
    using True open_ room inv ahead
    by (auto simp: append_stream_def appendOnly_def Let_def stream_inv_def s'_def c_def split: list.splits)
  moreover have "stream_inv s'"
    using inv by (auto simp: stream_inv_def s'_def c_def split: list.splits)
  moreover have "unread s' = unread s @ d" "mark_offsets s' = mark_offsets s"
    using inv by (auto simp: unread_def mark_offsets_def s'_def stream_inv_def)
  ultimately show ?thesis using that [of s'] by (simp add: s'_def)
next
  case False
  define ms where "ms = map (\<lambda>m. m\<lparr>endPos := endPos m - s_pos s\<rparr>) (newInputStreamMarks s)"
  define b where "b = unread s @ d"
  define c where "c = (if ms = [] then int (length b) else s_count s - s_pos s)"
  define s' where "s' = s\<lparr>s_buf := b, s_pos := 0, s_size := int (length b), s_count := c, newInputStreamMarks := ms\<rparr>"
  have len: "int (length (unread s)) = s_size s - s_pos s"
    using inv by (auto simp: unread_def stream_inv_def)
  have b: "(if s_pos s < s_size s then take (nat (s_size s - s_pos s)) (drop (nat (s_pos s)) (s_buf s)) @ d else d) = b"
    using len inv by (auto simp: b_def unread_def stream_inv_def)
  have last: "ms \<noteq> [] \<Longrightarrow> endPos (last ms) \<le> s_size s"
    using inv by (auto simp: ms_def last_map stream_inv_def dest!: last_in_set)
  have mv: "moveForwardMarks (s_pos s) (s\<lparr>s_count := s_count s - s_pos s\<rparr>) =
      (s\<lparr>s_count := s_count s - s_pos s, newInputStreamMarks := ms\<rparr>, None)"
    using last by (auto simp: moveForwardMarks_def Let_def not_less simp flip: ms_def)
  have sz: "\<not> MAX_BUFFER_SIZE < s_size s - s_pos s + int (length d)"
    using room inv by (simp add: stream_inv_def)
  have cnt: "s_count s = s_pos s \<or> ms = [] \<longleftrightarrow> ms = []"
    using inv ahead by (auto simp: stream_inv_def ms_def split: list.splits)
  have "appendAndShrink d s = (s', None)"
    unfolding appendAndShrink_def Let_def mv prod.case option.case if_not_P [OF sz]
    by (simp add: b cnt s'_def c_def del: if_split cong: if_cong)
  then have "append_stream d s = (s', None)"
    using False open_ by (simp only: append_stream_def if_False if_not_P)
  moreover have "sorted_wrt (<) (map endPos ms)"
    using inv by (auto simp: ms_def stream_inv_def sorted_wrt_map comp_def)
  then have "stream_inv s'"
    using inv len by (auto simp: stream_inv_def s'_def c_def ms_def b_def split: list.splits)
  moreover have "unread s' = unread s @ d" "mark_offsets s' = mark_offsets s"
    by (simp_all add: unread_def mark_offsets_def s'_def b_def ms_def comp_def)
  ultimately show ?thesis using that [of s'] len inv by (simp add: s'_def b_def ms_def stream_inv_def)
qed

text \<open>
  Appended data goes to the end of the stream that is still written, when the reader is not at a mark.
\<close>

theorem append_stream_adds:
  assumes "stream_inv s" and "\<not> s_finished s"
    and "newInputStreamMarks s \<noteq> [] \<Longrightarrow> s_pos s < endPos (hd (newInputStreamMarks s))"
    and "s_size s + int (length d) \<le> MAX_BUFFER_SIZE"
  shows "\<exists>s'. append_stream d s = (s', None) \<and> stream_inv s' \<and>
    streams s' = (fst (streams s), snd (streams s) @ d)"
proof -
  obtain s' where s': "append_stream d s = (s', None)" "stream_inv s'" "unread s' = unread s @ d"
    "mark_offsets s' = mark_offsets s"
    using append_stream_refines [OF assms] by metis
  then have "streams s' = (fst (streams s), snd (streams s) @ d)"
    using cut_append [OF mark_offsets_bounds [OF assms(1)]] by (simp add: streams_def)
  with s' show ?thesis by blast
qed

text \<open>Marking the end closes the last stream, unless it is empty because it was just opened.\<close>

lemma finish_stream_inv:
  assumes inv: "stream_inv s"
  shows "stream_inv (fst (finish_stream markFinish t s))"
    and "s_finished (fst (finish_stream markFinish t s)) \<longleftrightarrow> s_finished s \<or> \<not> markFinish"
    and "unread (fst (finish_stream markFinish t s)) = unread s"
proof -
  show "s_finished (fst (finish_stream markFinish t s)) \<longleftrightarrow> s_finished s \<or> \<not> markFinish"
    "unread (fst (finish_stream markFinish t s)) = unread s"
    by (auto simp: finish_stream_def addMarkPos_def unread_def)
  let ?ms = "newInputStreamMarks s"
  have "endPos m < s_size s" if "m \<in> set ?ms" "?ms \<noteq> []" "s_size s \<noteq> endPos (last ?ms)" for m
  proof -
    have "endPos (last ?ms) < s_size s" 
      using inv that(3) last_in_set [OF that(2)] by (auto simp: stream_inv_def less_le)
    moreover have "endPos m \<le> endPos (last ?ms)"
    proof -
      have "sorted_wrt (\<lambda>x y. endPos x < endPos y) (butlast ?ms @ [last ?ms])"
        using inv that(2) by (simp add: stream_inv_def sorted_wrt_map)
      moreover have "m \<in> set (butlast ?ms) \<or> m = last ?ms"
        using that(1,2) by (metis append_butlast_last_id in_set_butlastD rotate1.simps(2) set_ConsD set_rotate1)
      ultimately show ?thesis by (auto simp: sorted_wrt_append)
    qed
    ultimately show ?thesis by simp
  qed
  then show "stream_inv (fst (finish_stream markFinish t s))"
    using inv by (auto simp: stream_inv_def finish_stream_def addMarkPos_def sorted_wrt_append split: list.splits if_splits)
qed

theorem finish_stream_closes:
  assumes "stream_inv s"
  shows "streams (fst (finish_stream markFinish t s)) =
    (if snd (finish_stream markFinish t s) then (fst (streams s) @ [snd (streams s)], []) else streams s)"
proof (cases "snd (finish_stream markFinish t s)")
  case True
  let ?s = "fst (finish_stream markFinish t s)"
  have "mark_offsets ?s = mark_offsets s @ [length (unread s)]" "unread ?s = unread s"
    using True assms by (auto simp: finish_stream_def addMarkPos_def mark_offsets_def unread_def stream_inv_def split: if_splits)
  then show ?thesis
    using True cut_snoc [OF mark_offsets_bounds [OF assms]] by (simp add: streams_def)
next
  case False
  then show ?thesis
    by (auto simp: finish_stream_def addMarkPos_def streams_def mark_offsets_def unread_def split: if_splits)
qed

text \<open>What reading promises: the next bytes, or the end of the first stream, which is then left.\<close>

fun spec_read :: "nat \<Rightarrow> bool \<Rightarrow> u8 list list \<times> u8 list \<Rightarrow> (u8 list list \<times> u8 list) \<times> read_result" where
  "spec_read k over ([] # cs, t) = ((cs, t), EndOfStream)"
| "spec_read k over (c # cs, t) = ((drop k c # cs, t), Bytes (take k c))"
| "spec_read k over ([], t) =
     (if t = [] then (([], []), if over then EndOfStream else Waits) else (([], drop k t), Bytes (take k t)))"

lemma spec_read_Cons: "c \<noteq> [] \<Longrightarrow> spec_read k over (c # cs, t) = ((drop k c # cs, t), Bytes (take k c))"
  by (cases c) simp_all

lemma nat_minus_plus: "0 \<le> k \<Longrightarrow> nat (a - (p + k)) = nat (a - p) - nat k"
  by arith

lemma take_drop_part:
  "take (min n e) u = take n (take e u)" "take (e - min n e) (drop (min n e) u) = drop n (take e u)"
  by (auto simp: min_def drop_take)

text \<open>Moving the read position by \<open>k\<close> bytes inside the current stream.\<close>

lemma advance:
  assumes inv: "stream_inv s" and k: "0 \<le> k" "s_pos s + k \<le> s_count s"
  shows "stream_inv (s\<lparr>s_pos := s_pos s + k\<rparr>)"
    and "streams (s\<lparr>s_pos := s_pos s + k\<rparr>) = cut_at (mark_offsets s) (nat k) (unread s)"
proof -
  have first: "s_pos s + k \<le> endPos m" if "m \<in> set (newInputStreamMarks s)" for m
  proof -
    from that have "newInputStreamMarks s \<noteq> []" by auto
    then obtain a ms where ms: "newInputStreamMarks s = a # ms" by (meson neq_Nil_conv)
    then have "endPos a \<le> endPos m" using inv that by (force simp: stream_inv_def)
    then show ?thesis using ms k inv by (simp add: stream_inv_def)
  qed
  then show "stream_inv (s\<lparr>s_pos := s_pos s + k\<rparr>)"
    using inv k by (auto simp: stream_inv_def split: list.split)
  have "mark_offsets (s\<lparr>s_pos := s_pos s + k\<rparr>) = map (\<lambda>e. e - nat k) (mark_offsets s)"
    using nat_minus_plus k by (simp add: mark_offsets_def)
  moreover have "unread (s\<lparr>s_pos := s_pos s + k\<rparr>) = drop (nat k) (unread s)"
    using inv k by (simp add: unread_def stream_inv_def nat_add_distrib add.commute)
  moreover have "\<forall>e \<in> set (mark_offsets s). nat k \<le> e"
    using first k by (force simp: mark_offsets_def intro!: nat_mono)
  ultimately show "streams (s\<lparr>s_pos := s_pos s + k\<rparr>) = cut_at (mark_offsets s) (nat k) (unread s)"
    using cut_shift [of "mark_offsets s" "nat k" 0 "unread s"] by (simp add: streams_def)
qed

text \<open>Leaving a stream that is read to its end.\<close>

lemma shrink_at_mark:
  assumes inv: "stream_inv s" and ms: "newInputStreamMarks s = m # ms" and at: "endPos m = s_pos s"
  obtains s' where "shrinkToNextInputStream s = (s', None)" and "stream_inv s'" and "unread s' = unread s"
    and "mark_offsets s' = tl (mark_offsets s)" and "s_finished s' = s_finished s" and "s_blocking s' = s_blocking s"
proof -
  define ns where "ns = map (\<lambda>m. m\<lparr>endPos := endPos m - s_pos s\<rparr>) ms"
  define c where "c = (case ns of [] \<Rightarrow> s_size s - s_pos s | m # ms \<Rightarrow> endPos m)"
  define s' where "s' = s\<lparr>s_buf := unread s, s_size := s_size s - s_pos s, newInputStreamMarks := ns, s_count := c,
      s_pos := 0, s_markedPos := -1\<rparr>"
  have le: "endPos n - s_pos s \<le> s_size s - s_pos s" if "n \<in> set ms" for n
    using inv ms that by (auto simp: stream_inv_def)
  have last: "ns \<noteq> [] \<Longrightarrow> endPos (last ns) \<le> s_size s - s_pos s"
    using le by (auto simp: ns_def last_map dest!: last_in_set)
  have u: "take (nat (s_size s - s_pos s)) (drop (nat (s_pos s)) (s_buf s)) = unread s"
    using inv by (auto simp: unread_def stream_inv_def)
  have "shrinkToNextInputStream s = (s', None)"
    using last ms unfolding shrinkToNextInputStream_def moveForwardMarks_def Let_def u
    by (auto simp: s'_def c_def simp flip: ns_def split: list.split)
  moreover have "int (length (unread s)) = s_size s - s_pos s"
    using inv by (auto simp: unread_def stream_inv_def)
  moreover have "sorted_wrt (<) (map endPos ns)" "\<forall>n \<in> set ns. 0 \<le> endPos n \<and> endPos n \<le> s_size s - s_pos s"
    using inv ms by (auto simp: ns_def stream_inv_def sorted_wrt_map comp_def)
  ultimately show ?thesis
    using that [of s'] inv ms
    by (auto simp: s'_def c_def stream_inv_def unread_def mark_offsets_def ns_def comp_def split: list.splits)
qed

text \<open>
  C0: Reading gives the bytes of the oldest stream in their order, then its end, then those of the next one; a reader
  only waits when nothing is left and the connection direction is open.
\<close>

theorem read_stream_refines:
  assumes inv: "stream_inv s" and len: "0 < len"
  shows "\<exists>s' r. read_stream len s = (s', r) \<and> stream_inv s' \<and>
    (streams s', r) = spec_read (nat len) (s_finished s \<or> \<not> s_blocking s) (streams s)"
proof (cases "s_count s \<le> s_pos s")
  case False
  define k where "k = (if s_count s < s_pos s + len then s_count s - s_pos s else len)"
  have k: "0 < k" "s_pos s + k \<le> s_count s" using False len by (auto simp: k_def)
  have r: "read_stream len s = (s\<lparr>s_pos := s_pos s + k\<rparr>, Bytes (take (nat k) (unread s)))"
    using False k by (simp add: read_stream_def Let_def unread_def flip: k_def)
  have adv: "stream_inv (s\<lparr>s_pos := s_pos s + k\<rparr>)"
    "streams (s\<lparr>s_pos := s_pos s + k\<rparr>) = cut_at (mark_offsets s) (nat k) (unread s)"
    using advance [OF inv, of k] k by simp_all
  have lu: "int (length (unread s)) = s_size s - s_pos s" using inv by (auto simp: unread_def stream_inv_def)
  show ?thesis
  proof (cases "newInputStreamMarks s")
    case Nil
    then have c: "s_count s = s_size s" using inv by (simp add: stream_inv_def)
    have "take (nat k) (unread s) = take (nat len) (unread s)" "drop (nat k) (unread s) = drop (nat len) (unread s)"
      using lu c by (auto simp: k_def)
    moreover have "unread s \<noteq> []" using lu c False by auto
    ultimately show ?thesis using r adv Nil by (simp add: streams_def mark_offsets_def)
  next
    case (Cons m ms)
    define e where "e = nat (endPos m - s_pos s)"
    have c: "s_count s = endPos m" using inv Cons by (simp add: stream_inv_def)
    then have e: "int e = s_count s - s_pos s" "0 < e" "e \<le> length (unread s)"
      using False lu inv by (auto simp: e_def stream_inv_def)
    have nk: "nat k = min (nat len) e" using e k len unfolding k_def by (split if_split) linarith
    have mo: "mark_offsets s = e # map (\<lambda>m. nat (endPos m - s_pos s)) ms"
      using Cons by (simp add: mark_offsets_def e_def)
    have "take (nat k) (unread s) = take (nat len) (take e (unread s))"
      "take (e - nat k) (drop (nat k) (unread s)) = drop (nat len) (take e (unread s))"
      unfolding nk take_drop_part by (rule refl)+
    moreover have "take e (unread s) \<noteq> []" using e by auto
    ultimately show ?thesis
      using r adv by (simp add: streams_def mo spec_read_Cons split: prod.splits)
  qed
next
  case True
  show ?thesis
  proof (cases "newInputStreamMarks s")
    case Nil
    then have "s_pos s = s_size s" using inv True by (simp add: stream_inv_def)
    then have "unread s = []" using inv by (simp add: unread_def stream_inv_def)
    then show ?thesis
      using True Nil inv by (simp add: read_stream_def isCurrentStreamFinished_def streams_def mark_offsets_def)
  next
    case (Cons m ms)
    then have at: "endPos m = s_pos s" using inv True by (simp add: stream_inv_def)
    obtain s' where s': "shrinkToNextInputStream s = (s', None)" "stream_inv s'" "unread s' = unread s"
      "mark_offsets s' = tl (mark_offsets s)" "s_finished s' = s_finished s" "s_blocking s' = s_blocking s"
      using shrink_at_mark [OF inv Cons at] by blast
    have "mark_offsets s = 0 # mark_offsets s'" using s'(4) Cons at by (simp add: mark_offsets_def)
    then have "streams s = ([] # fst (streams s'), snd (streams s'))"
      using s'(3) by (simp only: streams_def cut_at.simps) (simp split: prod.split)
    moreover have "read_stream len s = (s', EndOfStream)"
      using True Cons at s'(1) by (simp add: read_stream_def isCurrentStreamFinished_def)
    ultimately show ?thesis using s'(2) by simp
  qed
qed

text \<open>
  The end of a stream is lost when data arrives while the reader stands at it. A reader that has read all of a
  closed stream, but has not yet been told so, gets the appended data of the next stream as if it
  belonged to the same one.
\<close>

theorem append_stream_merges:
  assumes inv: "stream_inv s" and ms: "newInputStreamMarks s = [m]" and at: "endPos m = s_pos s"
    and opn: "\<not> s_finished s" and nomark: "s_markedPos s = -1" and d: "d \<noteq> []" and len: "0 < len"
    and room: "s_size s + int (length d) \<le> MAX_BUFFER_SIZE"
  shows "snd (spec_read (nat len) False (streams s)) = EndOfStream \<and>
    (\<exists>s'. append_stream d s = (s', None) \<and>
      snd (read_stream len s') = Bytes (take (nat len) (snd (streams s) @ d)))"
proof
  have lu: "int (length (unread s)) = s_size s - s_pos s" using inv by (auto simp: unread_def stream_inv_def)
  have st: "streams s = ([[]], unread s)" using ms at by (simp add: streams_def mark_offsets_def)
  then show "snd (spec_read (nat len) False (streams s)) = EndOfStream" by simp
  define b where "b = unread s @ d"
  define s' where "s' = s\<lparr>s_buf := b, s_pos := 0, s_size := int (length b), s_count := int (length b),
      newInputStreamMarks := [m\<lparr>endPos := 0\<rparr>]\<rparr>"
  have mv: "moveForwardMarks (s_pos s) (s\<lparr>s_count := s_count s - s_pos s\<rparr>) =
      (s\<lparr>s_count := 0, newInputStreamMarks := [m\<lparr>endPos := 0\<rparr>]\<rparr>, None)"
    using ms at inv by (simp add: moveForwardMarks_def Let_def stream_inv_def)
  have sz: "\<not> MAX_BUFFER_SIZE < s_size s - s_pos s + int (length d)"
    using room inv by (simp add: stream_inv_def)
  have b: "(if s_pos s < s_size s then take (nat (s_size s - s_pos s)) (drop (nat (s_pos s)) (s_buf s)) @ d else d) = b"
    using lu inv by (auto simp: b_def unread_def stream_inv_def)
  have "appendAndShrink d s = (s', None)"
    unfolding appendAndShrink_def Let_def mv prod.case option.case if_not_P [OF sz]
    by (simp add: b s'_def del: if_split cong: if_cong)
  then have "append_stream d s = (s', None)" using opn nomark by (simp add: append_stream_def)
  moreover have "0 < int (length b)" using d by (cases d) (simp_all add: b_def)
  then have "snd (read_stream len s') = Bytes (take (nat len) b)"
    using len by (auto simp: read_stream_def s'_def Let_def)
  ultimately show "\<exists>s'. append_stream d s = (s', None) \<and>
      snd (read_stream len s') = Bytes (take (nat len) (snd (streams s) @ d))"
    by (simp add: st b_def)
qed

text \<open>A stream for the witnesses: three bytes that are read and marked as a stream of their own.\<close>

definition sample_stream :: stream where
  "sample_stream =
     \<lparr>s_buf = [1, 2, 3], s_pos = 3, s_count = 3, s_size = 3, s_finished = False, s_blocking = True,
      currentStreamStartTime = 0, newInputStreamMarks = [\<lparr>mark_start = 0, mark_end = 5, endPos = 3\<rparr>],
      s_readLimit = -1, s_markedPos = -1\<rparr>"

lemma sample_stream_inv: "stream_inv sample_stream"
  by (simp add: stream_inv_def sample_stream_def)

theorem read_stream_refines_witness:
  "\<exists>s' r. read_stream 2 sample_stream = (s', r) \<and> stream_inv s' \<and>
    (streams s', r) = spec_read (nat 2) (s_finished sample_stream \<or> \<not> s_blocking sample_stream) (streams sample_stream)"
  by (rule read_stream_refines [OF sample_stream_inv]) simp

theorem append_stream_merges_witness:
  "snd (spec_read (nat 2) False (streams sample_stream)) = EndOfStream \<and>
    (\<exists>s'. append_stream [4, 5, 6] sample_stream = (s', None) \<and>
      snd (read_stream 2 s') = Bytes (take (nat 2) (snd (streams sample_stream) @ [4, 5, 6])))"
  by (rule append_stream_merges [OF sample_stream_inv, where m = "\<lparr>mark_start = 0, mark_end = 5, endPos = 3\<rparr>"])
    (simp_all add: sample_stream_def MAX_BUFFER_SIZE_def)

end
