(* ===== verification/Sniffer_Connection.thy ===== *)
theory Sniffer_Connection
  imports Sniffer_Stream
begin

text \<open>
  One TCP connection of the sniffer: \<open>TCPPacket\<close>, \<open>ConnectionDetail\<close>, \<open>SequenceCounter\<close>, \<open>PacketsBuffer\<close> and
  \<open>TCPConnectionImpl\<close>, with the part of \<open>PacketReceiverImpl\<close> that feeds packets to a connection. Sequence numbers
  are Java \<open>long\<close>s, far from overflow; an operation that may throw returns the state it leaves and the exception.
\<close>

section \<open>Packets\<close>

text \<open>An Internet address: its bytes, which \<open>equals\<close> compares, and the result of \<open>toString\<close>.\<close>

record inet =
  inet_bytes :: "u8 list"
  inet_text :: string

record conn_detail =
  clientAddress :: inet
  serverAddress :: inet
  clientPort :: int
  serverPort :: int

definition isTheSame :: "conn_detail \<Rightarrow> conn_detail \<Rightarrow> bool" where
  "isTheSame a b \<longleftrightarrow>
     inet_bytes (clientAddress a) = inet_bytes (clientAddress b) \<and> clientPort a = clientPort b \<and>
     inet_bytes (serverAddress a) = inet_bytes (serverAddress b) \<and> serverPort a = serverPort b"

text \<open>
  A captured packet. \<open>tp_by_client\<close> is the direction, which \<open>detectPacketFlowDirection\<close> sets before it is
  first read; \<open>tp_consumed\<close> is set when the packet has been counted.
\<close>

record tpacket =
  tp_seq :: int
  tp_ack :: int
  tp_is_ack :: bool
  tp_syn :: bool
  tp_rst :: bool
  tp_fin :: bool
  tp_data :: "u8 list option"
  tp_time :: int
  tp_detail :: conn_detail
  tp_consumed :: bool
  tp_by_client :: bool

definition isHandsShake1Packet :: "tpacket \<Rightarrow> bool" where
  "isHandsShake1Packet p \<longleftrightarrow> tp_syn p \<and> \<not> tp_is_ack p"

definition isHandsShake2Packet :: "tpacket \<Rightarrow> bool" where
  "isHandsShake2Packet p \<longleftrightarrow> tp_syn p \<and> tp_is_ack p"

definition data_of :: "tpacket \<Rightarrow> u8 list" where
  "data_of p = (case tp_data p of None \<Rightarrow> [] | Some d \<Rightarrow> d)"

definition isContainsData :: "tpacket \<Rightarrow> bool" where
  "isContainsData p \<longleftrightarrow> tp_data p \<noteq> None \<and> 0 < length (data_of p)"

definition detectPacketFlowDirection :: "conn_detail \<Rightarrow> tpacket \<Rightarrow> tpacket" where
  "detectPacketFlowDirection d p = p\<lparr>tp_by_client := isTheSame (tp_detail p) d\<rparr>"

text \<open>The difference of two \<open>long\<close>s, cast to an \<open>int\<close>.\<close>

definition compareTo :: "tpacket \<Rightarrow> tpacket \<Rightarrow> int" where
  "compareTo p q = signed_take_bit 31 (tp_seq p - tp_seq q)"

section \<open>Counters\<close>

record counter =
  c_seq :: int
  c_ack :: int
  latestPacketUpdateTime :: int

definition new_counter :: counter where
  "new_counter = \<lparr>c_seq = 0, c_ack = 0, latestPacketUpdateTime = 0\<rparr>"

definition updateCounter :: "counter \<Rightarrow> tpacket \<Rightarrow> counter \<times> tpacket" where
  "updateCounter c p =
     (let c = c\<lparr>c_seq := tp_seq p, c_ack := tp_ack p, latestPacketUpdateTime := tp_time p\<rparr>;
          c = (if isContainsData p then c\<lparr>c_seq := c_seq c + int (length (data_of p))\<rparr> else c)
      in (c, p\<lparr>tp_consumed := True\<rparr>))"

definition add_one :: "counter \<Rightarrow> counter" where
  "add_one c = c\<lparr>c_seq := c_seq c + 1\<rparr>"

section \<open>The connection\<close>

datatype tcp_state =
  SynSent | SynReceived | Established | FinishWait1 | CloseWait | FinishWait2 | LastAck | Closing | TimeWait | Closed

text \<open>The position of a state, in tenths.\<close>

fun state_seq :: "tcp_state \<Rightarrow> int" where
  "state_seq SynSent = 10"
| "state_seq SynReceived = 20"
| "state_seq Established = 30"
| "state_seq FinishWait1 = 40"
| "state_seq CloseWait = 50"
| "state_seq FinishWait2 = 55"
| "state_seq LastAck = 60"
| "state_seq Closing = 45"
| "state_seq TimeWait = 57"
| "state_seq Closed = 70"

text \<open>
  \<open>conn_state\<close> is null until the first packet is processed. The two buffers are the sorted sets of packets that wait
  for their turn, client to server and server to client. \<open>announced\<close> counts the calls of
  \<open>establishedNewConnection\<close>, which \<open>pick\<close> turns into entries of the queue of new connections.
\<close>

record connection =
  connectionDetail :: conn_detail
  clientCounter :: counter
  serverCounter :: counter
  conn_state :: "tcp_state option"
  serverInputStream :: stream
  clientInputStream :: stream
  lastUpdated :: int
  maybeBroken :: bool
  csTemporaryStoredPackets :: "tpacket list"
  scTemporaryStoredPackets :: "tpacket list"
  announced :: nat

definition new_connection :: "int \<Rightarrow> conn_detail \<Rightarrow> connection" where
  "new_connection now d =
     \<lparr>connectionDetail = d, clientCounter = new_counter, serverCounter = new_counter, conn_state = None,
      serverInputStream = new_stream now, clientInputStream = new_stream now, lastUpdated = now,
      maybeBroken = False, csTemporaryStoredPackets = [], scTemporaryStoredPackets = [], announced = 0\<rparr>"

datatype sniff_exn =
  PacketConsumed | BadSynAck | BadHandshakeAck | NullPointer | StreamExn stream_exn | PacketsBufferFull | OutOfFuel

type_synonym step = "connection \<Rightarrow> connection \<times> sniff_exn option"

definition done_with :: "connection \<Rightarrow> connection \<times> sniff_exn option" where
  "done_with c = (c, None)"

definition and_then :: "step \<Rightarrow> step \<Rightarrow> step" where
  "and_then f g c = (case f c of (c, None) \<Rightarrow> g c | (c, Some e) \<Rightarrow> (c, Some e))"

definition when_do :: "bool \<Rightarrow> step \<Rightarrow> step" where
  "when_do b f = (if b then f else done_with)"

definition both_finished :: "connection \<Rightarrow> bool" where
  "both_finished c \<longleftrightarrow> s_finished (clientInputStream c) \<and> s_finished (serverInputStream c)"

definition updateClientCounter :: "tpacket \<Rightarrow> connection \<Rightarrow> connection" where
  "updateClientCounter p c = c\<lparr>clientCounter := fst (updateCounter (clientCounter c) p)\<rparr>"

definition updateServerCounter :: "tpacket \<Rightarrow> connection \<Rightarrow> connection" where
  "updateServerCounter p c = c\<lparr>serverCounter := fst (updateCounter (serverCounter c) p)\<rparr>"

definition clientSequenceAddOne :: "connection \<Rightarrow> connection" where
  "clientSequenceAddOne c = c\<lparr>clientCounter := add_one (clientCounter c)\<rparr>"

definition serverSequenceAddOne :: "connection \<Rightarrow> connection" where
  "serverSequenceAddOne c = c\<lparr>serverCounter := add_one (serverCounter c)\<rparr>"

definition processSyncPacket :: "tpacket \<Rightarrow> connection \<Rightarrow> connection" where
  "processSyncPacket p c = (updateClientCounter p c)\<lparr>conn_state := Some SynSent\<rparr>"

definition processSyncAckPacket :: "tpacket \<Rightarrow> step" where
  "processSyncAckPacket p c =
     (if tp_ack p \<noteq> c_seq (clientCounter c) + 1 then (c, Some BadSynAck)
      else done_with ((clientSequenceAddOne (updateServerCounter p c))\<lparr>conn_state := Some SynReceived\<rparr>))"

definition processFinishWait1AckPacket :: "tpacket \<Rightarrow> connection \<Rightarrow> connection" where
  "processFinishWait1AckPacket p c =
     (if tp_by_client p then updateClientCounter p c else updateServerCounter p c)\<lparr>conn_state := Some CloseWait\<rparr>"

definition processLastAckPacket :: "tpacket \<Rightarrow> connection \<Rightarrow> connection" where
  "processLastAckPacket p c =
     (let c = (if tp_by_client p
               then updateClientCounter p
                 (if tp_ack p = c_seq (serverCounter c) + 1 then c\<lparr>maybeBroken := True\<rparr> else c)
               else updateServerCounter p
                 (if tp_ack p = c_seq (clientCounter c) + 1 then c\<lparr>maybeBroken := True\<rparr> else c))
      in c\<lparr>conn_state := Some Closed\<rparr>)"

definition processHandshake3AckPacket :: "tpacket \<Rightarrow> step" where
  "processHandshake3AckPacket p c =
     (if tp_ack p \<noteq> c_seq (serverCounter c) + 1 then (c, Some BadHandshakeAck)
      else done_with ((serverSequenceAddOne (updateClientCounter p c))\<lparr>conn_state := Some Established\<rparr>))"

definition processAckPacket :: "tpacket \<Rightarrow> step" where
  "processAckPacket p c =
     (case conn_state c of
        None \<Rightarrow> (c, Some NullPointer)
      | Some Established \<Rightarrow> done_with c
      | Some SynReceived \<Rightarrow> processHandshake3AckPacket p c
      | Some FinishWait1 \<Rightarrow> done_with (processFinishWait1AckPacket p c)
      | Some LastAck \<Rightarrow> done_with (processLastAckPacket p c)
      | Some _ \<Rightarrow> done_with c)"

definition isMatchSequence :: "tpacket \<Rightarrow> connection \<Rightarrow> sniff_exn + bool" where
  "isMatchSequence p c =
     (if tp_consumed p then Inl PacketConsumed
      else if isTheSame (connectionDetail c) (tp_detail p) then Inr (c_seq (clientCounter c) = tp_seq p)
      else Inr (c_seq (serverCounter c) = tp_seq p))"

definition isCanProcessPacket :: "tpacket \<Rightarrow> connection \<Rightarrow> sniff_exn + bool" where
  "isCanProcessPacket p c =
     (case isMatchSequence p c of
        Inl e \<Rightarrow> Inl e
      | Inr canProcess \<Rightarrow> Inr
          (if canProcess \<and> (isContainsData p \<or> tp_rst p \<or> tp_fin p)
           then (if tp_by_client p
                 then tp_ack p = c_ack (clientCounter c) \<or> tp_ack p = c_seq (serverCounter c)
                 else tp_ack p = c_ack (serverCounter c) \<or> tp_ack p = c_seq (clientCounter c))
           else canProcess))"

definition isOldPacket :: "tpacket \<Rightarrow> connection \<Rightarrow> bool" where
  "isOldPacket p c =
     (if tp_by_client p then tp_seq p < c_seq (clientCounter c) else tp_seq p < c_seq (serverCounter c))"

text \<open>The end of the stream of the other direction, when the direction of the data has changed.\<close>

definition end_turn :: "int \<Rightarrow> counter \<Rightarrow> tpacket \<Rightarrow> stream \<Rightarrow> stream" where
  "end_turn now other p s =
     (if c_ack other = tp_seq p
      then (case finish_stream True now s of
              (s, success) \<Rightarrow> if success then markStreamStartTime (latestPacketUpdateTime other) s else s)
      else s)"

definition processSCDataPacket :: "int \<Rightarrow> tpacket \<Rightarrow> step" where
  "processSCDataPacket now p c =
     (let c = c\<lparr>clientInputStream := end_turn now (clientCounter c) p (clientInputStream c)\<rparr>;
          c = (if c_seq (serverCounter c) = 0
               then c\<lparr>serverInputStream := markStreamStartTime (tp_time p) (serverInputStream c)\<rparr> else c)
      in case append_stream (data_of p) (serverInputStream c) of
           (s, Some e) \<Rightarrow> (c\<lparr>serverInputStream := s\<rparr>, Some (StreamExn e))
         | (s, None) \<Rightarrow> done_with (updateServerCounter p (c\<lparr>serverInputStream := s\<rparr>)))"

definition processCSDataPacket :: "int \<Rightarrow> tpacket \<Rightarrow> step" where
  "processCSDataPacket now p c =
     (let c = c\<lparr>serverInputStream := end_turn now (serverCounter c) p (serverInputStream c)\<rparr>;
          c = (if c_seq (clientCounter c) = 0
               then c\<lparr>clientInputStream := markStreamStartTime (tp_time p) (clientInputStream c)\<rparr> else c)
      in case append_stream (data_of p) (clientInputStream c) of
           (s, Some e) \<Rightarrow> (c\<lparr>clientInputStream := s\<rparr>, Some (StreamExn e))
         | (s, None) \<Rightarrow> done_with (updateClientCounter p (c\<lparr>clientInputStream := s\<rparr>)))"

definition processDataPacket :: "int \<Rightarrow> tpacket \<Rightarrow> step" where
  "processDataPacket now p = (if tp_by_client p then processCSDataPacket now p else processSCDataPacket now p)"

definition hasDataPackets :: "tpacket list \<Rightarrow> bool" where
  "hasDataPackets buffer = list_ex isContainsData buffer"

definition validateDataPacketsInBuffer :: "connection \<Rightarrow> connection" where
  "validateDataPacketsInBuffer c =
     (let c = (if s_finished (clientInputStream c) \<and> hasDataPackets (csTemporaryStoredPackets c)
               then c\<lparr>maybeBroken := True\<rparr> else c)
      in if s_finished (serverInputStream c) \<and> hasDataPackets (scTemporaryStoredPackets c)
         then c\<lparr>maybeBroken := True\<rparr> else c)"

definition updateConnectionStateAfterReceivedFinishPacket :: "connection \<Rightarrow> connection" where
  "updateConnectionStateAfterReceivedFinishPacket c =
     (if conn_state c = Some Established then c\<lparr>conn_state := Some FinishWait1\<rparr>
      else if conn_state c = Some CloseWait then c\<lparr>conn_state := Some LastAck\<rparr>
      else if conn_state c = Some FinishWait1 then c\<lparr>conn_state := Some Closing\<rparr>
      else c)"

definition processFinishPacket :: "int \<Rightarrow> tpacket \<Rightarrow> connection \<Rightarrow> connection" where
  "processFinishPacket now p c =
     validateDataPacketsInBuffer
       (if tp_by_client p
        then clientSequenceAddOne (updateClientCounter p (updateConnectionStateAfterReceivedFinishPacket
               (c\<lparr>clientInputStream := fst (finish_stream False now (clientInputStream c))\<rparr>)))
        else serverSequenceAddOne (updateServerCounter p (updateConnectionStateAfterReceivedFinishPacket
               (c\<lparr>serverInputStream := fst (finish_stream False now (serverInputStream c))\<rparr>))))"

definition processRstPacket :: "int \<Rightarrow> tpacket \<Rightarrow> connection \<Rightarrow> connection" where
  "processRstPacket now p c =
     (let c = (if tp_by_client p then updateClientCounter p c else updateServerCounter p c);
          c = (if \<not> s_finished (clientInputStream c)
               then c\<lparr>clientInputStream := fst (finish_stream False now (clientInputStream c))\<rparr> else c);
          c = (if \<not> s_finished (serverInputStream c)
               then c\<lparr>serverInputStream := fst (finish_stream False now (serverInputStream c))\<rparr> else c)
      in validateDataPacketsInBuffer c)"

definition close_connection :: "connection \<Rightarrow> connection" where
  "close_connection c = c\<lparr>conn_state := Some Closed\<rparr>"

text \<open>A connection between two hosts, for the witnesses.\<close>

definition sample_detail :: conn_detail where
  "sample_detail =
     \<lparr>clientAddress = \<lparr>inet_bytes = [10, 0, 0, 1], inet_text = ''/10.0.0.1''\<rparr>,
      serverAddress = \<lparr>inet_bytes = [10, 0, 0, 2], inet_text = ''/10.0.0.2''\<rparr>, clientPort = 1327, serverPort = 80\<rparr>"

end
