(* ===== verification/Sniffer_Receiver.thy ===== *)
theory Sniffer_Receiver
  imports Sniffer_Connection
begin

text \<open>
  \<open>PacketsBuffer\<close> and \<open>PacketReceiverImpl\<close> of the sniffer: packets that arrive out of order wait in the buffers of
  their connection; \<open>pick\<close> finds the connection of a packet and feeds it. Connections are objects in a heap,
  because the map of active connections, the one of half-way connections and the queue of new ones share them.
\<close>

section \<open>The buffers\<close>

definition MAX_PACKETS_IN_BUFFER :: nat where "MAX_PACKETS_IN_BUFFER = 200"

text \<open>
  A \<open>TreeSet\<close> is the list of its elements in the order of \<open>compareTo\<close>; an element that compares equal to one
  of them is not added.
\<close>

fun treeset_add :: "tpacket \<Rightarrow> tpacket list \<Rightarrow> tpacket list" where
  "treeset_add p [] = [p]"
| "treeset_add p (q # qs) =
     (if compareTo p q = 0 then q # qs else if compareTo p q < 0 then p # q # qs else q # treeset_add p qs)"

definition addToCSTemporaryStoredDataPackets :: "tpacket \<Rightarrow> step" where
  "addToCSTemporaryStoredDataPackets p c =
     (if MAX_PACKETS_IN_BUFFER \<le> length (csTemporaryStoredPackets c) then (c, Some PacketsBufferFull)
      else done_with (c\<lparr>csTemporaryStoredPackets := treeset_add p (csTemporaryStoredPackets c)\<rparr>))"

definition addToSCTemporaryStoredDataPackets :: "tpacket \<Rightarrow> step" where
  "addToSCTemporaryStoredDataPackets p c =
     (if MAX_PACKETS_IN_BUFFER \<le> length (scTemporaryStoredPackets c) then (c, Some PacketsBufferFull)
      else done_with (c\<lparr>scTemporaryStoredPackets := treeset_add p (scTemporaryStoredPackets c)\<rparr>))"

text \<open>
  The first packet that can be processed now; old ones in front of it are dropped. The result is what is left of the
  buffer, and the packet or null.
\<close>

fun pickup_buffer :: "connection \<Rightarrow> tpacket list \<Rightarrow> tpacket list \<times> (sniff_exn + tpacket option)" where
  "pickup_buffer c [] = ([], Inr None)"
| "pickup_buffer c (p # ps) =
     (case isCanProcessPacket p c of
        Inl e \<Rightarrow> (p # ps, Inl e)
      | Inr True \<Rightarrow> (ps, Inr (Some p))
      | Inr False \<Rightarrow> if isOldPacket p c then pickup_buffer c ps else (p # ps, Inr None))"

definition pickupCSBuffer :: "connection \<Rightarrow> connection \<times> (sniff_exn + tpacket option)" where
  "pickupCSBuffer c =
     (case pickup_buffer c (csTemporaryStoredPackets c) of (ps, r) \<Rightarrow> (c\<lparr>csTemporaryStoredPackets := ps\<rparr>, r))"

definition pickupSCBuffer :: "connection \<Rightarrow> connection \<times> (sniff_exn + tpacket option)" where
  "pickupSCBuffer c =
     (case pickup_buffer c (scTemporaryStoredPackets c) of (ps, r) \<Rightarrow> (c\<lparr>scTemporaryStoredPackets := ps\<rparr>, r))"

definition pickupPacket :: "connection \<Rightarrow> connection \<times> (sniff_exn + tpacket option)" where
  "pickupPacket c =
     (case pickupCSBuffer c of
        (c, Inr None) \<Rightarrow> pickupSCBuffer c
      | r \<Rightarrow> r)"

definition getPacketsCountInBuffer :: "connection \<Rightarrow> nat" where
  "getPacketsCountInBuffer c = length (csTemporaryStoredPackets c) + length (scTemporaryStoredPackets c)"

section \<open>Handling a packet\<close>

text \<open>
  The acknowledgment, which may establish the connection. \<open>handlePacket\<close> and \<open>tryToProcessPacketsInBuffer\<close> call each
  other: \<open>rest\<close> is the latter, which has fuel.
\<close>

definition handle_ack :: "tpacket \<Rightarrow> step" where
  "handle_ack p c =
     and_then (processAckPacket p)
       (\<lambda>c'. done_with (if conn_state c = Some SynReceived \<and> conn_state c' = Some Established
                then c'\<lparr>announced := Suc (announced c')\<rparr> else c')) c"

definition handlePacket :: "int \<Rightarrow> step \<Rightarrow> tpacket \<Rightarrow> step" where
  "handlePacket now rest p c =
     and_then (when_do (tp_rst p) (\<lambda>c. done_with (processRstPacket now p c)))
    (and_then (when_do (tp_is_ack p) (handle_ack p))
    (and_then (when_do (isContainsData p) (processDataPacket now p))
    (and_then (when_do (tp_fin p) (and_then (\<lambda>c. done_with (processFinishPacket now p c)) rest))
      (\<lambda>c. done_with (c\<lparr>lastUpdated := now\<rparr>))))) c"

primrec tryToProcessPacketsInBuffer :: "int \<Rightarrow> nat \<Rightarrow> step" where
  "tryToProcessPacketsInBuffer now 0 = (\<lambda>c. (c, Some OutOfFuel))"
| "tryToProcessPacketsInBuffer now (Suc n) =
     (\<lambda>c. case pickupPacket c of
            (c, Inl e) \<Rightarrow> (c, Some e)
          | (c, Inr None) \<Rightarrow> (c, None)
          | (c, Inr (Some p)) \<Rightarrow>
              and_then (handlePacket now (tryToProcessPacketsInBuffer now n) p) (tryToProcessPacketsInBuffer now n) c)"

text \<open>With one unit of fuel for each packet that waits and one for the last look.\<close>

definition process_buffer :: "int \<Rightarrow> step" where
  "process_buffer now c = tryToProcessPacketsInBuffer now (Suc (getPacketsCountInBuffer c)) c"

definition handle_packet :: "int \<Rightarrow> tpacket \<Rightarrow> step" where
  "handle_packet now p = handlePacket now (process_buffer now) p"

text \<open>\<open>pick\<close> for a packet of an active connection, up to the removal of a finished one.\<close>

definition pick_active :: "int \<Rightarrow> tpacket \<Rightarrow> step" where
  "pick_active now p c =
     (let p = detectPacketFlowDirection (connectionDetail c) p in
      if isOldPacket p c then done_with c
      else if both_finished c \<and> conn_state c \<noteq> Some LastAck then done_with c
      else if isHandsShake2Packet p
      then (if conn_state c = Some SynSent then processSyncAckPacket p c else done_with c)
      else (case isCanProcessPacket p c of
              Inl e \<Rightarrow> (c, Some e)
            | Inr True \<Rightarrow> handle_packet now p c
            | Inr False \<Rightarrow>
                and_then (if tp_by_client p then addToCSTemporaryStoredDataPackets p else addToSCTemporaryStoredDataPackets p)
                  (process_buffer now) c))"

section \<open>Enough fuel\<close>

lemma and_then_SomeD:
  assumes "snd (and_then f g c) = Some e"
  shows "snd (f c) = Some e \<or> snd (f c) = None \<and> snd (g (fst (f c))) = Some e"
  using assms by (auto simp: and_then_def split: prod.splits option.splits)

text \<open>What a packet does to its connection leaves the buffers alone.\<close>

definition same_buffers :: "connection \<Rightarrow> connection \<Rightarrow> bool" where
  "same_buffers c c' \<longleftrightarrow> csTemporaryStoredPackets c' = csTemporaryStoredPackets c \<and>
     scTemporaryStoredPackets c' = scTemporaryStoredPackets c"

lemma same_buffers_refl [simp]: "same_buffers c c"
  by (simp add: same_buffers_def)

lemma same_buffers_lastUpdated [simp]: "same_buffers c (c\<lparr>lastUpdated := t\<rparr>)"
  by (simp add: same_buffers_def)

named_theorems conn_defs \<open>definitions of the operations on a connection\<close>

lemmas conn_updates [conn_defs] =
  done_with_def updateClientCounter_def updateServerCounter_def clientSequenceAddOne_def serverSequenceAddOne_def
  processFinishWait1AckPacket_def processLastAckPacket_def processHandshake3AckPacket_def processAckPacket_def
  processSCDataPacket_def processCSDataPacket_def processDataPacket_def validateDataPacketsInBuffer_def
  updateConnectionStateAfterReceivedFinishPacket_def processFinishPacket_def processRstPacket_def

lemma ack_same_buffers: "same_buffers c (fst (processAckPacket p c))"
  by (auto simp: same_buffers_def conn_defs Let_def split: option.splits tcp_state.splits)

lemma handle_ack_same_buffers: "same_buffers c (fst (handle_ack p c))"
  using ack_same_buffers [of c p]
  by (auto simp: handle_ack_def and_then_def done_with_def same_buffers_def split: prod.splits option.splits)

lemma data_same_buffers: "same_buffers c (fst (processDataPacket now p c))"
  by (auto simp: same_buffers_def conn_defs Let_def split: option.splits prod.splits)

lemma finish_same_buffers: "same_buffers c (processFinishPacket now p c)"
  by (auto simp: same_buffers_def conn_defs Let_def)

lemma rst_same_buffers: "same_buffers c (processRstPacket now p c)"
  by (auto simp: same_buffers_def conn_defs Let_def)

definition waiting_le :: "connection \<Rightarrow> connection \<Rightarrow> bool" where
  "waiting_le c' c \<longleftrightarrow> getPacketsCountInBuffer c' \<le> getPacketsCountInBuffer c"

definition ends_within :: "nat \<Rightarrow> step \<Rightarrow> bool" where
  "ends_within n f \<longleftrightarrow>
     (\<forall>c. getPacketsCountInBuffer c \<le> n \<longrightarrow> snd (f c) \<noteq> Some OutOfFuel \<and>
        getPacketsCountInBuffer (fst (f c)) \<le> getPacketsCountInBuffer c)"

lemma ends_within_and_then:
  assumes "ends_within n f" and "ends_within n g"
  shows "ends_within n (and_then f g)"
  unfolding ends_within_def
proof (intro allI impI)
  fix c assume c: "getPacketsCountInBuffer c \<le> n"
  obtain c1 e where f: "f c = (c1, e)" by fastforce
  with assms(1) c have "e \<noteq> Some OutOfFuel" "getPacketsCountInBuffer c1 \<le> getPacketsCountInBuffer c"
    by (auto simp: ends_within_def dest!: spec [of _ c])
  moreover from this c assms(2) have "snd (g c1) \<noteq> Some OutOfFuel"
    "getPacketsCountInBuffer (fst (g c1)) \<le> getPacketsCountInBuffer c1"
    by (auto simp: ends_within_def dest!: spec [of _ c1])
  ultimately show "snd (and_then f g c) \<noteq> Some OutOfFuel \<and>
      getPacketsCountInBuffer (fst (and_then f g c)) \<le> getPacketsCountInBuffer c"
    using f by (auto simp: and_then_def split: option.splits)
qed

lemma ends_within_when: "ends_within n f \<Longrightarrow> ends_within n (when_do b f)"
  by (simp add: ends_within_def when_do_def done_with_def)

lemma ends_within_same:
  "(\<And>c. same_buffers c (fst (f c))) \<Longrightarrow> (\<And>c. snd (f c) \<noteq> Some OutOfFuel) \<Longrightarrow> ends_within n f"
  by (simp add: ends_within_def same_buffers_def getPacketsCountInBuffer_def)

lemma ack_not_fuel: "snd (processAckPacket p c) \<noteq> Some OutOfFuel"
  by (auto simp: conn_defs Let_def split: option.splits tcp_state.splits)

lemma handle_ack_not_fuel: "snd (handle_ack p c) \<noteq> Some OutOfFuel"
  using ack_not_fuel [of p c] by (auto simp: handle_ack_def and_then_def done_with_def split: prod.splits option.splits)

lemma data_not_fuel: "snd (processDataPacket now p c) \<noteq> Some OutOfFuel"
  by (auto simp: conn_defs Let_def split: option.splits prod.splits)

lemma handlePacket_ends:
  assumes "ends_within n rest"
  shows "ends_within n (handlePacket now rest p)"
proof -
  have "handlePacket now rest p =
     and_then (when_do (tp_rst p) (\<lambda>c. done_with (processRstPacket now p c)))
    (and_then (when_do (tp_is_ack p) (handle_ack p))
    (and_then (when_do (isContainsData p) (processDataPacket now p))
    (and_then (when_do (tp_fin p) (and_then (\<lambda>c. done_with (processFinishPacket now p c)) rest))
      (\<lambda>c. done_with (c\<lparr>lastUpdated := now\<rparr>)))))"
    by (simp add: fun_eq_iff handlePacket_def)
  moreover have "ends_within n (\<lambda>c. done_with (processRstPacket now p c))"
    "ends_within n (handle_ack p)" "ends_within n (processDataPacket now p)"
    "ends_within n (\<lambda>c. done_with (processFinishPacket now p c))"
    "ends_within n (\<lambda>c. done_with (c\<lparr>lastUpdated := now\<rparr>))"
    by - (rule ends_within_same; simp add: done_with_def rst_same_buffers handle_ack_same_buffers handle_ack_not_fuel data_same_buffers data_not_fuel
        finish_same_buffers same_buffers_lastUpdated)+
  ultimately show ?thesis
    using assms by (simp only:) (intro ends_within_and_then ends_within_when)
qed

lemma pickup_buffer_length:
  "length (fst (pickup_buffer c ps)) \<le> length ps"
  "snd (pickup_buffer c ps) = Inr (Some p) \<Longrightarrow> length (fst (pickup_buffer c ps)) < length ps"
  by (induction ps) (auto split: sum.splits bool.splits if_splits simp: le_SucI less_SucI)

lemma isCanProcessPacket_not_fuel: "isCanProcessPacket p c \<noteq> Inl OutOfFuel"
  by (auto simp: isCanProcessPacket_def isMatchSequence_def split: sum.splits)

lemma pickup_buffer_not_fuel: "snd (pickup_buffer c ps) \<noteq> Inl OutOfFuel"
  by (induction ps) (auto split: sum.splits bool.splits simp: isCanProcessPacket_not_fuel)

lemma pickupPacket_count:
  assumes "pickupPacket c = (c', r)"
  shows "getPacketsCountInBuffer c' \<le> getPacketsCountInBuffer c"
    and "r = Inr (Some p) \<Longrightarrow> getPacketsCountInBuffer c' < getPacketsCountInBuffer c"
    and "r \<noteq> Inl OutOfFuel"
proof -
  obtain cs r1 where cs: "pickup_buffer c (csTemporaryStoredPackets c) = (cs, r1)" by fastforce
  let ?c = "c\<lparr>csTemporaryStoredPackets := cs\<rparr>"
  obtain sc r2 where sc: "pickup_buffer ?c (scTemporaryStoredPackets c) = (sc, r2)" by fastforce
  note l = pickup_buffer_length(1) [of c "csTemporaryStoredPackets c", unfolded cs]
    pickup_buffer_length(1) [of ?c "scTemporaryStoredPackets c", unfolded sc]
    pickup_buffer_length(2) [of c "csTemporaryStoredPackets c", unfolded cs]
    pickup_buffer_length(2) [of ?c "scTemporaryStoredPackets c", unfolded sc]
    pickup_buffer_not_fuel [of c "csTemporaryStoredPackets c", unfolded cs]
    pickup_buffer_not_fuel [of ?c "scTemporaryStoredPackets c", unfolded sc]
  have e: "(c', r) = (if r1 = Inr None then (?c\<lparr>scTemporaryStoredPackets := sc\<rparr>, r2) else (?c, r1))"
    using assms cs sc by (auto simp: pickupPacket_def pickupCSBuffer_def pickupSCBuffer_def split: sum.splits option.splits)
  show "getPacketsCountInBuffer c' \<le> getPacketsCountInBuffer c"
    "r = Inr (Some p) \<Longrightarrow> getPacketsCountInBuffer c' < getPacketsCountInBuffer c" "r \<noteq> Inl OutOfFuel"
    using e l by (auto simp: getPacketsCountInBuffer_def split: if_splits)
qed

lemma tryToProcess_ends: "ends_within n (tryToProcessPacketsInBuffer now (Suc n))"
proof (induction n)
  case 0
  show ?case unfolding ends_within_def
  proof (intro allI impI)
    fix c assume "getPacketsCountInBuffer c \<le> 0"
    then have "csTemporaryStoredPackets c = []" "scTemporaryStoredPackets c = []"
      by (simp_all add: getPacketsCountInBuffer_def)
    then show "snd (tryToProcessPacketsInBuffer now (Suc 0) c) \<noteq> Some OutOfFuel \<and>
        getPacketsCountInBuffer (fst (tryToProcessPacketsInBuffer now (Suc 0) c)) \<le> getPacketsCountInBuffer c"
      by (simp add: pickupPacket_def pickupCSBuffer_def pickupSCBuffer_def getPacketsCountInBuffer_def)
  qed
next
  case (Suc n)
  let ?t = "tryToProcessPacketsInBuffer now (Suc n)"
  show ?case unfolding ends_within_def
  proof (intro allI impI)
    fix c assume c: "getPacketsCountInBuffer c \<le> Suc n"
    obtain c1 r where p: "pickupPacket c = (c1, r)" by fastforce
    note cnt = pickupPacket_count [OF p]
    show "snd (tryToProcessPacketsInBuffer now (Suc (Suc n)) c) \<noteq> Some OutOfFuel \<and>
        getPacketsCountInBuffer (fst (tryToProcessPacketsInBuffer now (Suc (Suc n)) c)) \<le> getPacketsCountInBuffer c"
    proof (cases "\<exists>q. r = Inr (Some q)")
      case True
      then obtain q where q: "r = Inr (Some q)" by blast
      then have "getPacketsCountInBuffer c1 \<le> n" "getPacketsCountInBuffer c1 \<le> getPacketsCountInBuffer c"
        using cnt(1,2) c by force+
      moreover have "ends_within n (and_then (handlePacket now ?t q) ?t)"
        using handlePacket_ends [OF Suc.IH] Suc.IH by (rule ends_within_and_then)
      ultimately show ?thesis
        using p q unfolding ends_within_def tryToProcessPacketsInBuffer.simps(2) [of now "Suc n"]
        by (simp del: tryToProcessPacketsInBuffer.simps) (meson le_trans)
    next
      case False
      then show ?thesis
        using p cnt(1,3) by (cases r) (auto simp del: tryToProcessPacketsInBuffer.simps
            simp: tryToProcessPacketsInBuffer.simps(2) [of now "Suc n"] split: option.splits)
    qed
  qed
qed

text \<open>
  C0: Handling a packet ends: the loop over the buffers and \<open>handlePacket\<close>, which call each other, return with one
  unit of fuel more than there are packets waiting, because every round takes a packet out of a buffer and
  none is put in.
\<close>

theorem pick_active_terminates: "snd (pick_active now p c) \<noteq> Some OutOfFuel"
proof -
  have b: "ends_within n (process_buffer now)" for n
    using tryToProcess_ends unfolding ends_within_def process_buffer_def by blast
  have "snd (handle_packet now q c) \<noteq> Some OutOfFuel" for q c
    using handlePacket_ends [OF b] unfolding handle_packet_def ends_within_def by blast
  moreover have "snd (and_then f (process_buffer now) c) \<noteq> Some OutOfFuel" if "snd (f c) \<noteq> Some OutOfFuel" for f c
    using that b unfolding ends_within_def and_then_def by (auto split: prod.splits option.splits)
  ultimately show ?thesis
    using isCanProcessPacket_not_fuel
    by (auto simp: pick_active_def Let_def done_with_def processSyncAckPacket_def addToCSTemporaryStoredDataPackets_def
        addToSCTemporaryStoredDataPackets_def split: sum.splits bool.splits)
qed

end
