(* ===== verification/Sniffer_Reader.thy ===== *)
theory Sniffer_Reader
  imports Sniffer_Stream
begin

text \<open>
  What a reader relies on: the contract of \<open>read\<close> as a locale, the loop that reads a stream to its end, and the
  two methods of \<open>DynamicByteArrayInputStream\<close> that fulfil the contract.
\<close>

section \<open>The contract\<close>

locale stream_reader =
  fixes rd :: "'s \<Rightarrow> 's \<times> read_result"
    and inv :: "'s \<Rightarrow> bool"
    and value_of :: "'s \<Rightarrow> u8 list list \<times> u8 list"
    and over :: "'s \<Rightarrow> bool"
    and k :: nat
  assumes k_pos: "0 < k"
    and rd_spec: "inv s \<Longrightarrow> \<exists>s' r. rd s = (s', r) \<and> inv s' \<and> (value_of s', r) = spec_read k (over s) (value_of s)"

text \<open>The loop of a reader, with a bound on the number of calls; no result when it would wait, or fails.\<close>

fun read_to_end :: "('s \<Rightarrow> 's \<times> read_result) \<Rightarrow> nat \<Rightarrow> 's \<Rightarrow> (u8 list \<times> 's) option" where
  "read_to_end rd 0 s = None"
| "read_to_end rd (Suc n) s =
     (case rd s of
        (s, EndOfStream) \<Rightarrow> Some ([], s)
      | (s, Bytes bs) \<Rightarrow> map_option (\<lambda>(cs, s). (bs @ cs, s)) (read_to_end rd n s)
      | _ \<Rightarrow> None)"

context stream_reader
begin

text \<open>A stream whose end is marked is read to its end with at most one call for every byte and one for the end.\<close>

lemma reads_first:
  "inv s \<Longrightarrow> value_of s = (c # cs, t) \<Longrightarrow> length c < n \<Longrightarrow>
     \<exists>s'. read_to_end rd n s = Some (c, s') \<and> inv s' \<and> value_of s' = (cs, t)"
proof (induction n arbitrary: s c)
  case (Suc n s c)
  obtain s1 r where s1: "rd s = (s1, r)" "inv s1" "(value_of s1, r) = spec_read k (over s) (c # cs, t)"
    using rd_spec [OF Suc.prems(1)] Suc.prems(2) by metis
  show ?case
  proof (cases "c = []")
    case True
    then show ?thesis using s1 by simp
  next
    case False
    then have v: "value_of s1 = (drop k c # cs, t)" "r = Bytes (take k c)" using s1(3) by (simp_all add: spec_read_Cons)
    have "length (drop k c) < n" using Suc.prems(3) k_pos False by (cases c) auto
    from Suc.IH [OF s1(2) v(1) this] show ?thesis using s1(1) v(2) by auto
  qed
qed simp

end

section \<open>The two reads\<close>

text \<open>Reading one byte is reading a block of one.\<close>

lemma read_byte_block:
  assumes "stream_inv s"
  shows "read_byte s = read_stream 1 s"
proof (cases "s_pos s < s_count s")
  case True
  have "nat (s_pos s) < length (s_buf s)" using assms True by (auto simp: stream_inv_def)
  then have "take 1 (drop (nat (s_pos s)) (s_buf s)) = [s_buf s ! nat (s_pos s)]"
    by (simp add: Cons_nth_drop_Suc [symmetric])
  then show ?thesis using True by (simp add: read_byte_def read_stream_def Let_def)
next
  case False
  then show ?thesis by (simp add: read_byte_def read_stream_def)
qed

interpretation block: stream_reader "read_stream (1 + int n)" stream_inv streams "\<lambda>s. s_finished s \<or> \<not> s_blocking s" "Suc n" for n
proof
  show "\<exists>s' r. read_stream (1 + int n) s = (s', r) \<and> stream_inv s' \<and>
      (streams s', r) = spec_read (Suc n) (s_finished s \<or> \<not> s_blocking s) (streams s)" if "stream_inv s" for s
    using read_stream_refines [OF that, of "1 + int n"] by (simp add: nat_add_distrib)
qed simp

interpretation byte: stream_reader read_byte stream_inv streams "\<lambda>s. s_finished s \<or> \<not> s_blocking s" 1
  by unfold_locales (simp_all add: read_byte_block read_stream_refines [where len = 1, simplified])

lemma block_reads:
  assumes "stream_inv s" and "streams s = (c # cs, t)" and "length c < n" and "0 < len"
  shows "\<exists>s'. read_to_end (read_stream len) n s = Some (c, s') \<and> stream_inv s' \<and> streams s' = (cs, t)"
proof -
  have "1 + int (nat (len - 1)) = len" using assms(4) by simp
  then show ?thesis using block.reads_first [OF assms(1-3), of "nat (len - 1)"] by simp
qed

text \<open>
  C0: A reader that calls \<open>read\<close> until the end, with an array of any size, gets exactly the bytes of the oldest stream, in
  their order, and then stands at the beginning of the next one; so does one that reads byte by byte. One call for each byte
  and one for the end are enough.
\<close>

theorem reader_gets_stream:
  assumes "stream_inv s" and "streams s = (c # cs, t)" and "length c < n" and "0 < len"
  shows "(\<exists>s'. read_to_end (read_stream len) n s = Some (c, s') \<and> stream_inv s' \<and> streams s' = (cs, t)) \<and>
    (\<exists>s'. read_to_end read_byte n s = Some (c, s') \<and> stream_inv s' \<and> streams s' = (cs, t))"
  using block_reads [OF assms] byte.reads_first [OF assms(1-3)] by blast

text \<open>A stream of three bytes whose end is marked, and one byte of the next.\<close>

definition sample_unread :: stream where
  "sample_unread = sample_stream\<lparr>s_buf := [1, 2, 3, 4], s_pos := 0, s_size := 4\<rparr>"

lemma sample_unread: "stream_inv sample_unread" "streams sample_unread = ([[1, 2, 3]], [4])"
  by (simp_all add: sample_unread_def sample_stream_def stream_inv_def streams_def mark_offsets_def unread_def)

theorem reader_gets_stream_witness:
  "(\<exists>s'. read_to_end (read_stream 2) 4 sample_unread = Some ([1, 2, 3], s') \<and> stream_inv s' \<and> streams s' = ([], [4])) \<and>
   (\<exists>s'. read_to_end read_byte 4 sample_unread = Some ([1, 2, 3], s') \<and> stream_inv s' \<and> streams s' = ([], [4]))"
  by (rule reader_gets_stream [OF sample_unread]) simp_all

end
