(* ===== verification/Sniffer_Reassembly.thy ===== *)
theory Sniffer_Reassembly
  imports Sniffer_Receiver Sniffer_Reader
begin

text \<open>
  What the sniffer makes of the data of one direction: the packets of a client that sends \<open>ds\<close> and then closes,
  delivered in any order and any number of times to an established connection.
\<close>

section \<open>The packets of the client\<close>

text \<open>
  The template \<open>t\<close> holds what the packets share, and the first sequence number. Packet \<open>i\<close> carries the chunk \<open>i\<close>; after
  the last chunk comes the packet that closes the direction.
\<close>

definition chunk_offset :: "u8 list list \<Rightarrow> nat \<Rightarrow> nat" where
  "chunk_offset ds i = length (concat (take i ds))"

definition client_packet :: "tpacket \<Rightarrow> u8 list list \<Rightarrow> nat \<Rightarrow> tpacket" where
  "client_packet t ds i =
     (if i < length ds
      then t\<lparr>tp_seq := tp_seq t + int (chunk_offset ds i), tp_data := Some (ds ! i)\<rparr>
      else t\<lparr>tp_seq := tp_seq t + int (chunk_offset ds i), tp_data := None, tp_fin := True\<rparr>)"

definition proper_template :: "tpacket \<Rightarrow> bool" where
  "proper_template t \<longleftrightarrow>
     \<not> tp_syn t \<and> \<not> tp_rst t \<and> \<not> tp_fin t \<and> \<not> tp_consumed t \<and> tp_by_client t"

definition proper_data :: "u8 list list \<Rightarrow> bool" where
  "proper_data ds \<longleftrightarrow> [] \<notin> set ds \<and> length ds < MAX_PACKETS_IN_BUFFER \<and> int (length (concat ds)) \<le> MAX_BUFFER_SIZE"

text \<open>Feeding packets, each at its time.\<close>

fun deliver :: "(int \<times> tpacket) list \<Rightarrow> step" where
  "deliver [] = done_with"
| "deliver ((now, p) # ps) = and_then (pick_active now p) (deliver ps)"

section \<open>Sequence numbers\<close>

lemma chunk_offset_0 [simp]: "chunk_offset ds 0 = 0"
  by (simp add: chunk_offset_def)

lemma chunk_offset_Suc: "i < length ds \<Longrightarrow> chunk_offset ds (Suc i) = chunk_offset ds i + length (ds ! i)"
  by (simp add: chunk_offset_def take_Suc_conv_app_nth)

lemma chunk_offset_mono: "i \<le> j \<Longrightarrow> chunk_offset ds i \<le> chunk_offset ds j"
  by (metis add.commute length_append le_add1 chunk_offset_def concat_append le_add_diff_inverse take_add)

lemma chunk_offset_strict:
  assumes "[] \<notin> set ds" and "i < j" and "i < length ds"
  shows "chunk_offset ds i < chunk_offset ds j"
proof -
  have "0 < length (ds ! i)" using assms(1,3) nth_mem by fastforce
  then have "chunk_offset ds i < chunk_offset ds (Suc i)" using chunk_offset_Suc [OF assms(3)] by simp
  also have "\<dots> \<le> chunk_offset ds j" using assms(2) by (intro chunk_offset_mono) simp
  finally show ?thesis .
qed

lemma chunk_offset_le: "chunk_offset ds i \<le> length (concat ds)"
  using chunk_offset_mono [of i "max i (length ds)" ds] by (simp add: chunk_offset_def)

lemma chunk_offset_less_iff:
  assumes "[] \<notin> set ds" and "i \<le> length ds" and "j \<le> length ds"
  shows "chunk_offset ds i < chunk_offset ds j \<longleftrightarrow> i < j"
  using assms chunk_offset_strict [of ds i j] chunk_offset_mono [of j i ds] by (cases "i < j") (auto simp: not_less)

lemma chunk_offset_eq_iff:
  assumes "[] \<notin> set ds" and "i \<le> length ds" and "j \<le> length ds"
  shows "chunk_offset ds i = chunk_offset ds j \<longleftrightarrow> i = j"
  using assms chunk_offset_less_iff [OF assms] chunk_offset_less_iff [OF assms(1,3,2)] by (metis less_irrefl linorder_neqE_nat)

text \<open>The order of the packets in a sorted set is that of their numbers, because their distance is far below the width of
  an integer.\<close>

lemma compare_packets:
  assumes "proper_data ds" and "i \<le> length ds" and "j \<le> length ds"
  shows "compareTo (client_packet t ds i) (client_packet t ds j) = int (chunk_offset ds i) - int (chunk_offset ds j)"
proof -
  have "int (chunk_offset ds i) \<le> MAX_BUFFER_SIZE" "int (chunk_offset ds j) \<le> MAX_BUFFER_SIZE"
    using assms(1) chunk_offset_le [of ds i] chunk_offset_le [of ds j] by (auto simp: proper_data_def)
  then have "signed_take_bit 31 (int (chunk_offset ds i) - int (chunk_offset ds j)) = int (chunk_offset ds i) - int (chunk_offset ds j)"
    by (intro signed_take_bit_int_eq_self) (auto simp: MAX_BUFFER_SIZE_def)
  then show ?thesis by (simp add: compareTo_def client_packet_def)
qed

fun insert_index :: "nat \<Rightarrow> nat list \<Rightarrow> nat list" where
  "insert_index i [] = [i]"
| "insert_index i (j # js) = (if i = j then j # js else if i < j then i # j # js else j # insert_index i js)"

lemma set_insert_index: "set (insert_index i js) = insert i (set js)"
  by (induction js) auto

lemma sorted_insert_index: "sorted_wrt (<) js \<Longrightarrow> sorted_wrt (<) (insert_index i js)"
  by (induction js) (auto simp: set_insert_index)

lemma treeset_add_packets:
  assumes "proper_data ds" and "i \<le> length ds" and "\<forall>j \<in> set js. j \<le> length ds"
  shows "treeset_add (client_packet t ds i) (map (client_packet t ds) js) = map (client_packet t ds) (insert_index i js)"
  using assms(3)
proof (induction js)
  case (Cons j js)
  have "compareTo (client_packet t ds i) (client_packet t ds j) = 0 \<longleftrightarrow> i = j"
    "compareTo (client_packet t ds i) (client_packet t ds j) < 0 \<longleftrightarrow> i < j"
    using compare_packets [OF assms(1,2), of j t] Cons.prems assms(1,2) chunk_offset_eq_iff [of ds i j] chunk_offset_less_iff [of ds i j]
    by (auto simp: proper_data_def)
  then show ?case using Cons by simp
qed simp

section \<open>The state while data is received\<close>

text \<open>
  \<open>k\<close> chunks have been counted and are in the stream of the client, whose value was \<open>st\<close> before the first of them;
  the packets \<open>js\<close> wait. Nothing is known of the stream of the server.
\<close>

definition receiving ::
  "tpacket \<Rightarrow> u8 list list \<Rightarrow> u8 list list \<times> u8 list \<Rightarrow> nat \<Rightarrow> nat list \<Rightarrow> connection \<Rightarrow> bool" where
  "receiving t ds st k js c \<longleftrightarrow>
     isTheSame (tp_detail t) (connectionDetail c) \<and> conn_state c = Some Established \<and> k \<le> length ds \<and>
     c_seq (clientCounter c) = tp_seq t + int (chunk_offset ds k) \<and> c_seq (serverCounter c) = tp_ack t \<and>
     csTemporaryStoredPackets c = map (client_packet t ds) js \<and> sorted_wrt (<) js \<and> set js \<subseteq> {..length ds} \<and>
     scTemporaryStoredPackets c = [] \<and>
     stream_inv (clientInputStream c) \<and> \<not> s_finished (clientInputStream c) \<and>
     (newInputStreamMarks (clientInputStream c) \<noteq> [] \<longrightarrow>
        s_pos (clientInputStream c) < endPos (hd (newInputStreamMarks (clientInputStream c)))) \<and>
     s_size (clientInputStream c) + int (length (concat (drop k ds))) \<le> MAX_BUFFER_SIZE \<and>
     streams (clientInputStream c) = (fst st, snd st @ concat (take k ds))"

lemma receiving_lastUpdated [simp]: "receiving t ds st k js (c\<lparr>lastUpdated := n\<rparr>) = receiving t ds st k js c"
  by (simp add: receiving_def)

lemma isTheSame_sym: "isTheSame a b \<longleftrightarrow> isTheSame b a"
  by (auto simp: isTheSame_def)

lemma client_packet_simps [simp]:
  "tp_seq (client_packet t ds i) = tp_seq t + int (chunk_offset ds i)"
  "tp_ack (client_packet t ds i) = tp_ack t" "tp_detail (client_packet t ds i) = tp_detail t"
  "tp_by_client (client_packet t ds i) = tp_by_client t" "tp_is_ack (client_packet t ds i) = tp_is_ack t"
  "tp_syn (client_packet t ds i) = tp_syn t" "tp_rst (client_packet t ds i) = tp_rst t"
  "tp_consumed (client_packet t ds i) = tp_consumed t"
  by (simp_all add: client_packet_def)

lemma client_packet_data:
  "i < length ds \<Longrightarrow> data_of (client_packet t ds i) = ds ! i"
  "i < length ds \<Longrightarrow> [] \<notin> set ds \<Longrightarrow> isContainsData (client_packet t ds i)"
  "i < length ds \<Longrightarrow> tp_fin (client_packet t ds i) = tp_fin t"
  "\<not> i < length ds \<Longrightarrow> \<not> isContainsData (client_packet t ds i)"
  "\<not> i < length ds \<Longrightarrow> tp_fin (client_packet t ds i)"
  by (auto simp: client_packet_def data_of_def isContainsData_def in_set_conv_nth)

lemma packet_turn:
  assumes "proper_data ds" and "proper_template t" and "receiving t ds st k js c" and "i \<le> length ds"
  shows "isCanProcessPacket (client_packet t ds i) c = Inr (i = k)"
    and "isOldPacket (client_packet t ds i) c \<longleftrightarrow> i < k"
proof -
  have k: "k \<le> length ds" "c_seq (clientCounter c) = tp_seq t + int (chunk_offset ds k)"
    "isTheSame (connectionDetail c) (tp_detail t)" "c_seq (serverCounter c) = tp_ack t"
    using assms(3) by (auto simp: receiving_def isTheSame_sym)
  have ne: "[] \<notin> set ds" using assms(1) by (simp add: proper_data_def)
  show "isCanProcessPacket (client_packet t ds i) c = Inr (i = k)"
    using k assms(2) chunk_offset_eq_iff [OF ne assms(4) k(1)]
    by (auto simp: isCanProcessPacket_def isMatchSequence_def proper_template_def)
  show "isOldPacket (client_packet t ds i) c \<longleftrightarrow> i < k"
    using k assms(2) chunk_offset_less_iff [OF ne assms(4) k(1)] by (simp add: isOldPacket_def proper_template_def)
qed

text \<open>The direction of a packet is that of the template.\<close>

lemma detect_client_packet:
  assumes "proper_template t" and "receiving t ds st k js c"
  shows "detectPacketFlowDirection (connectionDetail c) (client_packet t ds i) = client_packet t ds i"
proof -
  have "t\<lparr>tp_by_client := True\<rparr> = t" using assms(1) by (simp add: proper_template_def)
  then show ?thesis
    using assms(2) by (cases t) (auto simp: detectPacketFlowDirection_def receiving_def client_packet_def)
qed

section \<open>One packet in its turn\<close>

lemma stream_markStart [simp]:
  "stream_inv (markStreamStartTime n s) = stream_inv s" "streams (markStreamStartTime n s) = streams s"
  "s_finished (markStreamStartTime n s) = s_finished s" "s_pos (markStreamStartTime n s) = s_pos s"
  "newInputStreamMarks (markStreamStartTime n s) = newInputStreamMarks s" "s_size (markStreamStartTime n s) = s_size s"
  by (simp_all add: markStreamStartTime_def stream_inv_def streams_def mark_offsets_def unread_def split: list.split)

lemma streams_appended:
  assumes "stream_inv s" and "unread s' = unread s @ d" and "mark_offsets s' = mark_offsets s"
  shows "streams s' = (fst (streams s), snd (streams s) @ d)"
  using cut_append [OF mark_offsets_bounds [OF assms(1)]] assms(2,3) by (simp add: streams_def)

lemma marks_ahead:
  assumes "mark_offsets s' = mark_offsets s" and "newInputStreamMarks s \<noteq> [] \<longrightarrow> s_pos s < endPos (hd (newInputStreamMarks s))"
    and "newInputStreamMarks s' \<noteq> []"
  shows "s_pos s' < endPos (hd (newInputStreamMarks s'))"
  using assms by (cases "newInputStreamMarks s'"; cases "newInputStreamMarks s") (auto simp: mark_offsets_def)

lemma data_step:
  assumes pd: "proper_data ds" and pt: "proper_template t" and r: "receiving t ds st k js c" and k: "k < length ds"
  obtains c' where "processDataPacket now (client_packet t ds k) c = (c', None)" and "receiving t ds st (Suc k) js c'"
proof -
  let ?p = "client_packet t ds k" and ?d = "ds ! k"
  let ?server = "end_turn now (serverCounter c) ?p (serverInputStream c)"
  let ?s = "if c_seq (clientCounter c) = 0 then markStreamStartTime (tp_time ?p) (clientInputStream c) else clientInputStream c"
  have s: "stream_inv ?s" "\<not> s_finished ?s" "streams ?s = (fst st, snd st @ concat (take k ds))"
    "newInputStreamMarks ?s \<noteq> [] \<longrightarrow> s_pos ?s < endPos (hd (newInputStreamMarks ?s))"
    "s_size ?s + int (length (concat (drop k ds))) \<le> MAX_BUFFER_SIZE"
    using r by (auto simp: receiving_def)
  have drop: "concat (drop k ds) = ?d @ concat (drop (Suc k) ds)" "concat (take (Suc k) ds) = concat (take k ds) @ ?d"
    using k by (simp_all add: Cons_nth_drop_Suc [symmetric] take_Suc_conv_app_nth)
  then have "s_size ?s + int (length ?d) \<le> MAX_BUFFER_SIZE" using s(5) by simp
  then obtain s' where s': "append_stream ?d ?s = (s', None)" "stream_inv s'" "unread s' = unread ?s @ ?d"
    "mark_offsets s' = mark_offsets ?s" "s_finished s' = s_finished ?s" "s_size s' \<le> s_size ?s + int (length ?d)"
    using append_stream_refines [OF s(1,2)] s(4) by metis
  define c' where "c' = updateClientCounter ?p (c\<lparr>serverInputStream := ?server, clientInputStream := s'\<rparr>)"
  have bc: "tp_by_client ?p" using pt by (simp add: proper_template_def)
  have d: "data_of ?p = ?d" "isContainsData ?p" using client_packet_data k pd by (simp_all add: proper_data_def)
  have "processDataPacket now ?p c = (c', None)"
    using s'(1) bc d(1)
    by (simp add: processDataPacket_def processCSDataPacket_def Let_def done_with_def c'_def split: if_splits)
  moreover have "receiving t ds st (Suc k) js c'"
  proof -
    have "streams s' = (fst st, snd st @ concat (take (Suc k) ds))"
      using streams_appended [OF s(1) s'(3,4)] s(3) drop(2) by simp
    moreover have "newInputStreamMarks s' \<noteq> [] \<longrightarrow> s_pos s' < endPos (hd (newInputStreamMarks s'))"
      using marks_ahead [OF s'(4) s(4)] by blast
    moreover have "s_size s' + int (length (concat (drop (Suc k) ds))) \<le> MAX_BUFFER_SIZE"
      using s(5) s'(6) drop(1) by simp
    moreover have "c_seq (clientCounter c') = tp_seq t + int (chunk_offset ds (Suc k))"
      using d k by (simp add: c'_def updateClientCounter_def updateCounter_def Let_def chunk_offset_Suc)
    ultimately show ?thesis
      using r k s'(2,5) s(2) by (simp add: receiving_def c'_def updateClientCounter_def)
  qed
  ultimately show ?thesis by (rule that)
qed

text \<open>A chunk in its turn is handled without a look at the packets that wait.\<close>

lemma established_ack: "conn_state c = Some Established \<Longrightarrow> handle_ack p c = (c, None)"
  by (simp add: handle_ack_def and_then_def processAckPacket_def done_with_def)

lemma data_packet_step:
  assumes pd: "proper_data ds" and pt: "proper_template t" and r: "receiving t ds st k js c" and k: "k < length ds"
  obtains c' where "handlePacket now rest (client_packet t ds k) c = (c', None)" and "receiving t ds st (Suc k) js c'"
proof -
  obtain c' where c': "processDataPacket now (client_packet t ds k) c = (c', None)" "receiving t ds st (Suc k) js c'"
    using data_step [OF assms] by blast
  have "handlePacket now rest (client_packet t ds k) c = (c'\<lparr>lastUpdated := now\<rparr>, None)"
    using c' k r pd pt client_packet_data(1-3) [OF k] established_ack [of c]
    by (simp add: handlePacket_def and_then_def when_do_def done_with_def proper_template_def proper_data_def receiving_def)
  then show ?thesis using that c'(2) by simp
qed

section \<open>The packets that wait\<close>

lemma pickup_packets:
  assumes "proper_data ds" and "proper_template t" and "receiving t ds st k js c" and "set is \<subseteq> {..length ds}"
  shows "pickup_buffer c (map (client_packet t ds) is) =
    (case dropWhile (\<lambda>i. i < k) is of
       [] \<Rightarrow> ([], Inr None)
     | i # ns \<Rightarrow> if i = k then (map (client_packet t ds) ns, Inr (Some (client_packet t ds k)))
                else (map (client_packet t ds) (i # ns), Inr None))"
  using assms(4)
proof (induction "is")
  case (Cons i "is")
  have "isCanProcessPacket (client_packet t ds i) c = Inr (i = k)" "isOldPacket (client_packet t ds i) c \<longleftrightarrow> i < k"
    using packet_turn [OF assms(1-3)] Cons.prems by simp_all
  then show ?case using Cons by simp
qed simp

lemma dropWhile_sorted:
  "sorted_wrt (<) js \<Longrightarrow> dropWhile (\<lambda>i. i < k) js = (if k \<in> set js then [k] else []) @ filter (\<lambda>i. k < i) js" for k :: nat
proof (induction js)
  case (Cons j js)
  then show ?case by (cases j k rule: linorder_cases) (force intro: filter_True [symmetric])+
qed simp

text \<open>After a look at the buffer only those packets wait that are ahead.\<close>

lemma pickup_receiving:
  assumes pd: "proper_data ds" and pt: "proper_template t" and r: "receiving t ds st k js c"
  obtains c' where "receiving t ds st k (filter (\<lambda>i. k < i) js) c'"
    and "pickupPacket c = (c', Inr (if k \<in> set js then Some (client_packet t ds k) else None))"
proof -
  let ?js = "filter (\<lambda>i. k < i) js"
  define c' where "c' = c\<lparr>csTemporaryStoredPackets := map (client_packet t ds) ?js\<rparr>"
  have sub: "set js \<subseteq> {..length ds}" and so: "sorted_wrt (<) js" and cs: "csTemporaryStoredPackets c = map (client_packet t ds) js"
    "scTemporaryStoredPackets c = []" using r by (auto simp: receiving_def)
  have "pickup_buffer c (map (client_packet t ds) js) =
      (map (client_packet t ds) ?js, Inr (if k \<in> set js then Some (client_packet t ds k) else None))"
    using pickup_packets [OF pd pt r sub] unfolding dropWhile_sorted [OF so]
    by (cases ?js) (auto dest: filter_eq_ConsD)
  then have "pickupPacket c = (c', Inr (if k \<in> set js then Some (client_packet t ds k) else None))"
    using cs by (simp add: pickupPacket_def pickupCSBuffer_def pickupSCBuffer_def c'_def)
  moreover have "receiving t ds st k ?js c'"
    using r by (auto simp: receiving_def c'_def sorted_wrt_filter)
  ultimately show ?thesis using that by blast
qed

lemma tryToProcess_Suc:
  "tryToProcessPacketsInBuffer now (Suc m) c =
     (case pickupPacket c of
        (c, Inl e) \<Rightarrow> (c, Some e)
      | (c, Inr None) \<Rightarrow> (c, None)
      | (c, Inr (Some p)) \<Rightarrow>
          and_then (handlePacket now (tryToProcessPacketsInBuffer now m) p) (tryToProcessPacketsInBuffer now m) c)"
  by simp

text \<open>The loop over the buffer counts the chunks that follow without a gap, and stops at the first gap.\<close>

definition drains_to :: "tpacket \<Rightarrow> u8 list list \<Rightarrow> u8 list list \<times> u8 list \<Rightarrow> nat \<Rightarrow> nat list \<Rightarrow> connection \<Rightarrow> bool" where
  "drains_to t ds st k js c \<longleftrightarrow>
     (\<exists>k' \<ge> k. receiving t ds st k' (filter (\<lambda>i. k' < i) js) c \<and> {k..<k'} \<subseteq> set js \<and> k' \<notin> set js)"

lemma drain_packets:
  assumes pd: "proper_data ds" and pt: "proper_template t"
  shows "receiving t ds st k js c \<Longrightarrow> set js \<subseteq> {..<length ds} \<Longrightarrow> length js \<le> m \<Longrightarrow>
    \<exists>c'. tryToProcessPacketsInBuffer now (Suc m) c = (c', None) \<and> drains_to t ds st k js c'"
proof (induction m arbitrary: k js c)
  case (0 k js c)
  then have js: "js = []" by simp
  obtain c1 where c1: "receiving t ds st k [] c1" "pickupPacket c = (c1, Inr None)"
    using pickup_receiving [OF pd pt 0(1)] unfolding js by auto
  then have "drains_to t ds st k js c1" by (auto simp: drains_to_def js)
  with c1(2) show ?case by simp
next
  case (Suc m k js c)
  let ?js = "filter (\<lambda>i. k < i) js"
  obtain c1 where c1: "receiving t ds st k ?js c1"
    "pickupPacket c = (c1, Inr (if k \<in> set js then Some (client_packet t ds k) else None))"
    using pickup_receiving [OF pd pt Suc.prems(1)] by blast
  show ?case
  proof (cases "k \<in> set js")
    case False
    then show ?thesis using c1 unfolding tryToProcess_Suc [of now "Suc m"] by (auto simp: drains_to_def)
  next
    case True
    then have k: "k < length ds" using Suc.prems(2) by auto
    obtain c2 where c2: "handlePacket now (tryToProcessPacketsInBuffer now (Suc m)) (client_packet t ds k) c1 = (c2, None)"
      "receiving t ds st (Suc k) ?js c2"
      using data_packet_step [OF pd pt c1(1) k] by blast
    have "length ?js < length js" using True length_filter_less [of k js "\<lambda>i. k < i"] by simp
    then obtain c3 where c3: "tryToProcessPacketsInBuffer now (Suc m) c2 = (c3, None)" "drains_to t ds st (Suc k) ?js c3"
      using Suc.IH [OF c2(2)] Suc.prems(2,3) by fastforce
    obtain k' where k': "Suc k \<le> k'" "receiving t ds st k' (filter (\<lambda>i. k' < i) ?js) c3" "{Suc k..<k'} \<subseteq> set ?js" "k' \<notin> set ?js"
      using c3(2) by (auto simp: drains_to_def)
    have "filter (\<lambda>i. k' < i) ?js = filter (\<lambda>i. k' < i) js" using k'(1) by (auto intro: filter_cong)
    moreover have "{k..<k'} \<subseteq> set js"
    proof
      fix i assume "i \<in> {k..<k'}"
      then show "i \<in> set js" using True subsetD [OF k'(3), of i] by (cases "i = k") auto
    qed
    ultimately have "drains_to t ds st k js c3" using k' by (auto simp: drains_to_def intro!: exI [of _ k'])
    moreover have "tryToProcessPacketsInBuffer now (Suc (Suc m)) c = (c3, None)"
      unfolding tryToProcess_Suc [of now "Suc m"] using True c1(2) c2(1) c3(1)
      by (simp add: and_then_def del: tryToProcessPacketsInBuffer.simps)
    ultimately show ?thesis by blast
  qed
qed

section \<open>Any order, any number of times\<close>

text \<open>What holds after packets have been delivered: \<open>D\<close> are their numbers.\<close>

definition delivered :: "tpacket \<Rightarrow> u8 list list \<Rightarrow> u8 list list \<times> u8 list \<Rightarrow> nat set \<Rightarrow> connection \<Rightarrow> bool" where
  "delivered t ds st D c \<longleftrightarrow>
     (\<exists>k js. receiving t ds st k js c \<and> set js \<subseteq> {..<length ds} \<and> {..<k} \<subseteq> D \<and> D \<subseteq> {..<k} \<union> set js \<and> set js \<subseteq> D)"

lemma waiting_length: "sorted_wrt (<) js \<Longrightarrow> set js \<subseteq> {..<n} \<Longrightarrow> length js \<le> n" for n :: nat
  using card_mono [of "{..<n}" "set js"] by (simp add: distinct_card strict_sorted_iff)

lemma receiving_buffered:
  assumes "proper_data ds" and "receiving t ds st k js c" and "i \<le> length ds"
  shows "receiving t ds st k (insert_index i js) (c\<lparr>csTemporaryStoredPackets := treeset_add (client_packet t ds i) (csTemporaryStoredPackets c)\<rparr>)"
  using assms treeset_add_packets [OF assms(1,3), of js t] sorted_insert_index [of js i]
  by (auto simp: receiving_def set_insert_index)

lemma receiving_open:
  assumes "proper_template t" and "receiving t ds st k js c"
  shows "\<not> both_finished c" and "\<not> isHandsShake2Packet (client_packet t ds i)"
  using assms by (simp_all add: receiving_def both_finished_def isHandsShake2Packet_def proper_template_def)

lemma length_insert_index: "length (insert_index i js) \<le> Suc (length js)"
  by (induction js) auto

text \<open>A packet that is ahead waits, and the loop looks whether one of those that wait can be counted.\<close>

lemma pick_ahead:
  assumes pd: "proper_data ds" and pt: "proper_template t" and r: "receiving t ds st k js c" and i: "k < i" "i \<le> length ds"
    and js: "set js \<subseteq> {..<length ds}"
  obtains c1 where "receiving t ds st k (insert_index i js) c1"
    and "pick_active now (client_packet t ds i) c = process_buffer now c1"
    and "length (insert_index i js) = getPacketsCountInBuffer c1"
proof -
  let ?p = "client_packet t ds i"
  let ?c = "c\<lparr>csTemporaryStoredPackets := treeset_add ?p (csTemporaryStoredPackets c)\<rparr>"
  have cs: "csTemporaryStoredPackets c = map (client_packet t ds) js" and so: "sorted_wrt (<) js" using r by (auto simp: receiving_def)
  have room: "\<not> MAX_PACKETS_IN_BUFFER \<le> length (csTemporaryStoredPackets c)"
    using waiting_length [OF so js] pd cs by (simp add: proper_data_def)
  have r1: "receiving t ds st k (insert_index i js) ?c" by (rule receiving_buffered [OF pd r i(2)])
  have "pick_active now ?p c = process_buffer now ?c"
    using detect_client_packet [OF pt r] packet_turn [OF pd pt r i(2)] receiving_open [OF pt r] room pt i(1)
    by (simp add: pick_active_def Let_def and_then_def addToCSTemporaryStoredDataPackets_def done_with_def proper_template_def)
  moreover have "length (insert_index i js) = getPacketsCountInBuffer ?c"
    using r1 by (simp add: getPacketsCountInBuffer_def receiving_def)
  ultimately show ?thesis using that r1 by blast
qed

text \<open>One delivery keeps what holds of all of them.\<close>

lemma delivered_step:
  assumes pd: "proper_data ds" and pt: "proper_template t" and d: "delivered t ds st D c" and i: "i < length ds"
  obtains c' where "pick_active now (client_packet t ds i) c = (c', None)" and "delivered t ds st (insert i D) c'"
proof -
  obtain k js where r: "receiving t ds st k js c" and js: "set js \<subseteq> {..<length ds}"
    and D: "{..<k} \<subseteq> D" "D \<subseteq> {..<k} \<union> set js" "set js \<subseteq> D"
    using d by (auto simp: delivered_def)
  let ?p = "client_packet t ds i"
  note pick = pick_active_def Let_def detect_client_packet [OF pt r] packet_turn [OF pd pt r less_imp_le [OF i]]
  consider "i < k" | "i = k" | "k < i" by linarith
  then show ?thesis
  proof cases
    case 1
    then have "insert i D = D" "pick_active now ?p c = (c, None)"
      using D(1) by (auto simp: pick done_with_def)
    then show ?thesis using d that by metis
  next
    case 2
    then obtain c' where c': "handlePacket now (process_buffer now) ?p c = (c', None)" "receiving t ds st (Suc k) js c'"
      using data_packet_step [OF pd pt r, of now "process_buffer now"] i by blast
    have "pick_active now ?p c = (c', None)"
      using c'(1) 2 receiving_open [OF pt r] packet_turn [OF pd pt r less_imp_le [OF i]]
      by (simp add: pick handle_packet_def)
    moreover have "{..<Suc k} \<subseteq> insert i D" "insert i D \<subseteq> {..<Suc k} \<union> set js" "set js \<subseteq> insert i D"
      using D 2 by (auto simp: lessThan_Suc)
    then have "delivered t ds st (insert i D) c'" using c'(2) js unfolding delivered_def by blast
    ultimately show ?thesis by (rule that)
  next
    case 3
    let ?js = "insert_index i js"
    obtain c1 where c1: "receiving t ds st k ?js c1" "pick_active now ?p c = process_buffer now c1"
      "length ?js = getPacketsCountInBuffer c1"
      using pick_ahead [OF pd pt r 3 less_imp_le [OF i] js] by blast
    have js': "set ?js \<subseteq> {..<length ds}" using js i by (simp add: set_insert_index)
    obtain c2 where c2: "process_buffer now c1 = (c2, None)" "drains_to t ds st k ?js c2"
      using drain_packets [OF pd pt c1(1) js' order_refl, of now] c1(3) unfolding process_buffer_def by metis
    then obtain k' where k': "k \<le> k'" "receiving t ds st k' (filter (\<lambda>i. k' < i) ?js) c2" "{k..<k'} \<subseteq> set ?js" "k' \<notin> set ?js"
      by (auto simp: drains_to_def)
    have "{..<k'} \<subseteq> insert i D"
    proof
      fix x assume "x \<in> {..<k'}"
      then show "x \<in> insert i D"
        using D(1,3) subsetD [OF k'(3), of x] by (cases "x < k") (auto simp: set_insert_index)
    qed
    moreover have "insert i D \<subseteq> {..<k'} \<union> set (filter (\<lambda>i. k' < i) ?js)"
    proof
      fix x assume "x \<in> insert i D"
      then have "x < k \<or> x \<in> set ?js" using D(2) by (auto simp: set_insert_index)
      then show "x \<in> {..<k'} \<union> set (filter (\<lambda>i. k' < i) ?js)"
        using k'(1,4) by (cases x k' rule: linorder_cases) auto
    qed
    moreover have "set (filter (\<lambda>i. k' < i) ?js) \<subseteq> insert i D" using D(3) by (auto simp: set_insert_index)
    moreover have "set (filter (\<lambda>i. k' < i) ?js) \<subseteq> {..<length ds}" using js' by auto
    ultimately have "delivered t ds st (insert i D) c2"
      unfolding delivered_def using k'(2) by blast
    with c1(2) c2(1) show ?thesis using that by simp
  qed
qed

lemma deliver_keeps:
  assumes pd: "proper_data ds" and pt: "proper_template t"
  shows "delivered t ds st D c \<Longrightarrow> snd ` set xs \<subseteq> {..<length ds} \<Longrightarrow>
    \<exists>c'. deliver (map (\<lambda>(now, i). (now, client_packet t ds i)) xs) c = (c', None) \<and>
      delivered t ds st (D \<union> snd ` set xs) c'"
proof (induction xs arbitrary: D c)
  case Nil
  then show ?case by (simp add: done_with_def)
next
  case (Cons x xs)
  obtain now i where x: "x = (now, i)" by fastforce
  then obtain c1 where c1: "pick_active now (client_packet t ds i) c = (c1, None)" "delivered t ds st (insert i D) c1"
    using delivered_step [OF pd pt Cons.prems(1), of i now] Cons.prems(2) by auto
  with Cons.IH [OF c1(2)] Cons.prems(2) x show ?case by (simp add: and_then_def)
qed

text \<open>
  The connection before the first packet: established, with nothing that waits, a stream that is open and has room.
\<close>

definition ready :: "tpacket \<Rightarrow> u8 list list \<Rightarrow> connection \<Rightarrow> bool" where
  "ready t ds c \<longleftrightarrow> receiving t ds (streams (clientInputStream c)) 0 [] c"

lemma ready_delivered: "ready t ds c \<Longrightarrow> delivered t ds (streams (clientInputStream c)) {} c"
  unfolding delivered_def ready_def by (intro exI [of _ 0] exI [of _ "[]"]) simp

text \<open>
  C0: Whatever the order in which the packets of a client are captured, and however often, the stream gets the chunks in
  the order in which they were sent, each once and without a gap: after any deliveries it has grown by the first \<open>k\<close>
  chunks, all of which have been delivered, and no packet raised an exception.
\<close>

theorem reassembly_in_order:
  assumes "proper_data ds" and "proper_template t" and "ready t ds c" and "snd ` set xs \<subseteq> {..<length ds}"
  shows "\<exists>c' k. deliver (map (\<lambda>(now, i). (now, client_packet t ds i)) xs) c = (c', None) \<and>
    k \<le> length ds \<and> {..<k} \<subseteq> snd ` set xs \<and>
    streams (clientInputStream c') =
      (fst (streams (clientInputStream c)), snd (streams (clientInputStream c)) @ concat (take k ds))"
proof -
  obtain c' where c': "deliver (map (\<lambda>(now, i). (now, client_packet t ds i)) xs) c = (c', None)"
    "delivered t ds (streams (clientInputStream c)) ({} \<union> snd ` set xs) c'"
    using deliver_keeps [OF assms(1,2) ready_delivered [OF assms(3)] assms(4)] by blast
  then obtain k js where "receiving t ds (streams (clientInputStream c)) k js c'" "{..<k} \<subseteq> snd ` set xs"
    by (auto simp: delivered_def)
  with c'(1) show ?thesis by (intro exI [of _ c'] exI [of _ k]) (simp add: receiving_def)
qed

section \<open>The end of the direction\<close>

text \<open>All chunks are in a stream of their own that is closed, and nothing waits.\<close>

definition received_all :: "u8 list list \<Rightarrow> u8 list list \<times> u8 list \<Rightarrow> connection \<Rightarrow> bool" where
  "received_all ds st c \<longleftrightarrow>
     stream_inv (clientInputStream c) \<and> s_finished (clientInputStream c) \<and> conn_state c = Some FinishWait1 \<and>
     streams (clientInputStream c) = (fst st @ [snd st @ concat ds], []) \<and>
     csTemporaryStoredPackets c = [] \<and> scTemporaryStoredPackets c = []"

lemma snd_cut_at: "snd (cut_at es p u) = drop (last (p # es)) u"
proof (induction es arbitrary: p)
  case (Cons e es)
  have "snd (cut_at (e # es) p u) = snd (cut_at es e u)" by (simp split: prod.split)
  then show ?case using Cons by simp
qed simp

text \<open>Marking the end succeeds when the last stream has data.\<close>

lemma finish_stream_success:
  assumes inv: "stream_inv s" and ne: "snd (streams s) \<noteq> []"
  shows "snd (finish_stream b n s)"
proof -
  let ?ms = "newInputStreamMarks s"
  have tail: "snd (streams s) = drop (last (0 # mark_offsets s)) (unread s)" by (simp add: streams_def snd_cut_at)
  then have "unread s \<noteq> []" using ne by auto
  then have size: "0 < s_size s" using inv by (auto simp: unread_def stream_inv_def)
  have "s_size s \<noteq> endPos (last ?ms)" if "?ms \<noteq> []"
  proof
    assume e: "s_size s = endPos (last ?ms)"
    have "last (0 # mark_offsets s) = nat (endPos (last ?ms) - s_pos s)" using that by (simp add: mark_offsets_def last_map)
    also have "\<dots> = length (unread s)" using e inv by (auto simp: unread_def stream_inv_def)
    finally show False using tail ne by simp
  qed
  with size show ?thesis by (auto simp: finish_stream_def addMarkPos_def)
qed

text \<open>The state right after the closing packet, before the loop over the buffer.\<close>

lemma fin_state:
  assumes pd: "proper_data ds" and pt: "proper_template t" and r: "receiving t ds st (length ds) js c" and ds: "ds \<noteq> []"
    and js: "set js \<subseteq> {..<length ds}" and c1_def: "c1 = processFinishPacket now (client_packet t ds (length ds)) c"
  shows "received_all ds st (c1\<lparr>csTemporaryStoredPackets := []\<rparr>)"
    and "pickupPacket c1 = (c1\<lparr>csTemporaryStoredPackets := []\<rparr>, Inr None)"
proof -
  let ?p = "client_packet t ds (length ds)"
  let ?s = "clientInputStream c"
  have bc: "tp_by_client ?p" using pt by (simp add: proper_template_def)
  have s: "stream_inv ?s" "streams ?s = (fst st, snd st @ concat ds)" using r by (auto simp: receiving_def)
  have "concat ds \<noteq> []" using pd ds by (cases ds) (auto simp: proper_data_def)
  then have ok: "snd (finish_stream False now ?s)" using finish_stream_success [OF s(1)] s(2) by simp
  have fin: "stream_inv (fst (finish_stream False now ?s))" "s_finished (fst (finish_stream False now ?s))"
    "streams (fst (finish_stream False now ?s)) = (fst st @ [snd st @ concat ds], [])"
    using finish_stream_inv [OF s(1)] finish_stream_closes [OF s(1), of False now] ok s(2) by simp_all
  have c1: "clientInputStream c1 = fst (finish_stream False now ?s)" "conn_state c1 = Some FinishWait1"
    "csTemporaryStoredPackets c1 = map (client_packet t ds) js" "scTemporaryStoredPackets c1 = []"
    "connectionDetail c1 = connectionDetail c" "c_seq (clientCounter c1) = tp_seq t + int (chunk_offset ds (length ds)) + 1"
    using bc r client_packet_data(4) [of "length ds" ds t]
    by (auto simp: c1_def processFinishPacket_def validateDataPacketsInBuffer_def Let_def receiving_def add_one_def
        updateConnectionStateAfterReceivedFinishPacket_def updateClientCounter_def clientSequenceAddOne_def updateCounter_def)
  show "received_all ds st (c1\<lparr>csTemporaryStoredPackets := []\<rparr>)"
    using c1 fin by (simp add: received_all_def)
  have "pickup_buffer c1 (map (client_packet t ds) is) = ([], Inr None)" if "set is \<subseteq> {..<length ds}" for "is"
    using that
  proof (induction "is")
    case (Cons i "is")
    have le: "chunk_offset ds i \<le> chunk_offset ds (length ds)" using Cons.prems by (intro chunk_offset_mono) simp
    have same: "isTheSame (connectionDetail c1) (tp_detail t)" using r c1(5) by (simp add: receiving_def isTheSame_sym)
    have "isCanProcessPacket (client_packet t ds i) c1 = Inr False"
      using le same pt c1(6) by (simp add: isCanProcessPacket_def isMatchSequence_def proper_template_def)
    moreover have "isOldPacket (client_packet t ds i) c1"
      using le pt c1(6) by (simp add: isOldPacket_def proper_template_def)
    ultimately show ?case using Cons by simp
  qed simp
  then show "pickupPacket c1 = (c1\<lparr>csTemporaryStoredPackets := []\<rparr>, Inr None)"
    using js c1(3,4) by (simp add: pickupPacket_def pickupCSBuffer_def pickupSCBuffer_def)
qed

lemma received_all_lastUpdated [simp]: "received_all ds st (c\<lparr>lastUpdated := n\<rparr>) = received_all ds st c"
  by (simp add: received_all_def)

lemma fin_step:
  assumes pd: "proper_data ds" and pt: "proper_template t" and r: "receiving t ds st (length ds) js c" and ds: "ds \<noteq> []"
    and js: "set js \<subseteq> {..<length ds}" and rest: "\<And>c. rest c = tryToProcessPacketsInBuffer now (Suc (m c)) c"
  obtains c' where "handlePacket now rest (client_packet t ds (length ds)) c = (c', None)" and "received_all ds st c'"
proof -
  let ?p = "client_packet t ds (length ds)"
  define c1 where "c1 = processFinishPacket now ?p c"
  define c2 where "c2 = c1\<lparr>csTemporaryStoredPackets := []\<rparr>"
  have f: "received_all ds st c2" "pickupPacket c1 = (c2, Inr None)"
    unfolding c2_def by (rule fin_state [OF pd pt r ds js c1_def])+
  have "rest c1 = (c2, None)" unfolding rest tryToProcess_Suc f(2) by simp
  then have "handlePacket now rest ?p c = (c2\<lparr>lastUpdated := now\<rparr>, None)"
    using r pt established_ack [of c ?p] client_packet_data(4,5) [of "length ds" ds t]
    by (simp add: handlePacket_def and_then_def when_do_def done_with_def proper_template_def receiving_def flip: c1_def)
  then show ?thesis using that f(1) by simp
qed

text \<open>With every chunk that is missing and the closing packet in the buffer, the loop takes them all.\<close>

lemma drain_all:
  assumes pd: "proper_data ds" and pt: "proper_template t" and ds: "ds \<noteq> []"
  shows "receiving t ds st k js c \<Longrightarrow> {k..length ds} \<subseteq> set js \<Longrightarrow> length js \<le> m \<Longrightarrow>
    \<exists>c'. tryToProcessPacketsInBuffer now (Suc m) c = (c', None) \<and> received_all ds st c'"
proof (induction m arbitrary: k js c)
  case (0 k js c)
  then show ?case by (auto simp: receiving_def)
next
  case (Suc m k js c)
  let ?js = "filter (\<lambda>i. k < i) js"
  have le: "k \<le> length ds" and sub: "set js \<subseteq> {..length ds}" using Suc.prems(1) by (auto simp: receiving_def)
  then have k: "k \<in> set js" using Suc.prems(2) by auto
  obtain c1 where c1: "receiving t ds st k ?js c1" "pickupPacket c = (c1, Inr (Some (client_packet t ds k)))"
    using pickup_receiving [OF pd pt Suc.prems(1)] k by (metis (full_types))
  have shorter: "length ?js < length js" using k length_filter_less [of k js "\<lambda>i. k < i"] by simp
  have pick: "tryToProcessPacketsInBuffer now (Suc (Suc m)) c =
      and_then (handlePacket now (tryToProcessPacketsInBuffer now (Suc m)) (client_packet t ds k))
        (tryToProcessPacketsInBuffer now (Suc m)) c1"
    unfolding tryToProcess_Suc [of now "Suc m"] c1(2) by simp
  show ?case
  proof (cases "k < length ds")
    case True
    obtain c2 where c2: "handlePacket now (tryToProcessPacketsInBuffer now (Suc m)) (client_packet t ds k) c1 = (c2, None)"
      "receiving t ds st (Suc k) ?js c2"
      using data_packet_step [OF pd pt c1(1) True] by blast
    have "{Suc k..length ds} \<subseteq> set ?js"
    proof
      fix i assume "i \<in> {Suc k..length ds}"
      then show "i \<in> set ?js" using subsetD [OF Suc.prems(2), of i] by simp
    qed
    then obtain c3 where "tryToProcessPacketsInBuffer now (Suc m) c2 = (c3, None)" "received_all ds st c3"
      using Suc.IH [OF c2(2)] Suc.prems(3) shorter by fastforce
    then show ?thesis using pick c2(1) by (simp add: and_then_def del: tryToProcessPacketsInBuffer.simps)
  next
    case False
    then have keq: "k = length ds" and js: "?js = []" using le sub by (auto simp: filter_empty_conv)
    have r1: "receiving t ds st (length ds) [] c1" using c1(1) unfolding js unfolding keq .
    obtain c2 where c2: "handlePacket now (tryToProcessPacketsInBuffer now (Suc m)) (client_packet t ds k) c1 = (c2, None)"
      "received_all ds st c2"
      by (rule fin_step [OF pd pt r1 ds, of "tryToProcessPacketsInBuffer now (Suc m)" now "\<lambda>_. m"])
        (simp_all add: keq del: tryToProcessPacketsInBuffer.simps)
    have "tryToProcessPacketsInBuffer now (Suc m) c2 = (c2, None)"
      using c2(2) unfolding tryToProcess_Suc
      by (simp add: pickupPacket_def pickupCSBuffer_def pickupSCBuffer_def received_all_def)
    then show ?thesis using pick c2 by (simp add: and_then_def del: tryToProcessPacketsInBuffer.simps)
  qed
qed

lemma deliver_append: "deliver (xs @ ys) c = and_then (deliver xs) (deliver ys) c"
proof (induction xs arbitrary: c)
  case Nil
  then show ?case by (simp add: and_then_def done_with_def)
next
  case (Cons x xs)
  then show ?case by (cases x) (auto simp: and_then_def split: prod.split option.split)
qed

lemma pick_fin:
  assumes pd: "proper_data ds" and pt: "proper_template t" and ds: "ds \<noteq> []"
    and d: "delivered t ds st {..<length ds} c"
  shows "\<exists>c'. pick_active now (client_packet t ds (length ds)) c = (c', None) \<and> received_all ds st c'"
proof -
  let ?p = "client_packet t ds (length ds)"
  obtain k js where r: "receiving t ds st k js c" and js: "set js \<subseteq> {..<length ds}" and D: "{..<length ds} \<subseteq> {..<k} \<union> set js"
    using d by (auto simp: delivered_def)
  have "k \<le> length ds" using r by (simp add: receiving_def)
  then consider "k = length ds" | "k < length ds" by linarith
  then show ?thesis
  proof cases
    case 1
    obtain c' where "handlePacket now (process_buffer now) ?p c = (c', None)" "received_all ds st c'"
      by (rule fin_step [OF pd pt r [unfolded 1] ds js, of "process_buffer now" now getPacketsCountInBuffer])
        (simp_all only: process_buffer_def)
    then show ?thesis
      using packet_turn [OF pd pt r [unfolded 1] order_refl] receiving_open [OF pt r] 1
      by (simp add: pick_active_def Let_def detect_client_packet [OF pt r] handle_packet_def)
  next
    case 2
    obtain c1 where c1: "receiving t ds st k (insert_index (length ds) js) c1"
      "pick_active now ?p c = process_buffer now c1" "length (insert_index (length ds) js) = getPacketsCountInBuffer c1"
      using pick_ahead [OF pd pt r 2 order_refl js] by blast
    have "{k..length ds} \<subseteq> set (insert_index (length ds) js)"
    proof
      fix i assume "i \<in> {k..length ds}"
      then show "i \<in> set (insert_index (length ds) js)"
        using subsetD [OF D, of i] by (cases "i = length ds") (auto simp: set_insert_index)
    qed
    then show ?thesis
      using drain_all [OF pd pt ds c1(1) _ order_refl, of now] c1(2,3) unfolding process_buffer_def by metis
  qed
qed

text \<open>
  C0: When the packet that closes the direction comes after all the others, which may have come in any order and more than
  once, nothing is lost: the stream of the client holds all the chunks in their order and is closed, no packet waits,
  and a reader that calls \<open>read\<close> until the end gets exactly what the client sent.
\<close>

theorem reassembly_complete:
  assumes "proper_data ds" and "proper_template t" and "ready t ds c" and "ds \<noteq> []" and "snd ` set xs = {..<length ds}"
    and "streams (clientInputStream c) = ([], [])" and "0 < len"
  shows "\<exists>c' s'. deliver (map (\<lambda>(now, i). (now, client_packet t ds i)) (xs @ [(now, length ds)])) c = (c', None) \<and>
    received_all ds ([], []) c' \<and>
    read_to_end (read_stream len) (Suc (length (concat ds))) (clientInputStream c') = Some (concat ds, s')"
proof -
  obtain c1 where c1: "deliver (map (\<lambda>(now, i). (now, client_packet t ds i)) xs) c = (c1, None)"
    "delivered t ds ([], []) {..<length ds} c1"
    using deliver_keeps [OF assms(1,2) ready_delivered [OF assms(3)]] assms(5,6) by force
  obtain c2 where c2: "pick_active now (client_packet t ds (length ds)) c1 = (c2, None)" "received_all ds ([], []) c2"
    using pick_fin [OF assms(1,2,4) c1(2)] by blast
  then have "stream_inv (clientInputStream c2)" "streams (clientInputStream c2) = (concat ds # [], [])"
    by (simp_all add: received_all_def)
  from block_reads [OF this lessI assms(7)] c1(1) c2 show ?thesis
    by (auto simp: deliver_append and_then_def done_with_def)
qed

text \<open>
  C0: A packet that fills a gap is counted, and those behind it in the buffer are forgotten: \<open>pick\<close> looks at the buffer only
  when a packet cannot be handled in its turn, or closes a direction. With the second of two packets first, the
  stream has the first chunk alone, and the second waits although it could be read.
\<close>

theorem gap_filled_leaves_waiting:
  assumes pd: "proper_data [d, e]" and pt: "proper_template t" and rd: "ready t [d, e] c"
  shows "\<exists>c'. deliver [(n, client_packet t [d, e] 1), (n', client_packet t [d, e] 0)] c = (c', None) \<and>
    streams (clientInputStream c') = (fst (streams (clientInputStream c)), snd (streams (clientInputStream c)) @ d) \<and>
    csTemporaryStoredPackets c' = [client_packet t [d, e] 1] \<and>
    isCanProcessPacket (client_packet t [d, e] 1) c' = Inr True"
proof -
  let ?ds = "[d, e]" let ?st = "streams (clientInputStream c)"
  have r: "receiving t ?ds ?st 0 [] c" using rd by (simp add: ready_def)
  have b: "0 < (1 :: nat)" "1 \<le> length ?ds" "set [] \<subseteq> {..<length ?ds}" by simp_all
  obtain c1 where c1: "receiving t ?ds ?st 0 (insert_index 1 []) c1" "pick_active n (client_packet t ?ds 1) c = process_buffer n c1"
    using pick_ahead [OF pd pt r b] by blast
  obtain c2 where c2: "receiving t ?ds ?st 0 (filter (\<lambda>i. 0 < i) [1]) c2" "pickupPacket c1 = (c2, Inr None)"
    using pickup_receiving [OF pd pt c1(1)] by auto
  have r2: "receiving t ?ds ?st 0 [1] c2" using c2(1) by simp
  have one: "pick_active n (client_packet t ?ds 1) c = (c2, None)"
    using c1(2) unfolding process_buffer_def tryToProcess_Suc c2(2) by simp
  obtain c3 where c3: "handlePacket n' (process_buffer n') (client_packet t ?ds 0) c2 = (c3, None)"
    "receiving t ?ds ?st (Suc 0) [1] c3"
    by (rule data_packet_step [OF pd pt r2]) simp_all
  have "pick_active n' (client_packet t ?ds 0) c2 = (c3, None)"
    using c3(1) packet_turn [OF pd pt r2, of 0] receiving_open [OF pt r2]
    by (simp add: pick_active_def Let_def detect_client_packet [OF pt r2] handle_packet_def)
  with one have "deliver [(n, client_packet t ?ds 1), (n', client_packet t ?ds 0)] c = (c3, None)"
    by (simp add: and_then_def done_with_def)
  then show ?thesis
    using c3(2) packet_turn(1) [OF pd pt c3(2), of 1] by (auto simp: receiving_def)
qed

text \<open>
  When the sequence numbers of a direction pass the largest 32-bit number, the counter goes on above it, and everything the
  client still sends is taken for old.
\<close>

theorem wrapped_sequence_stalls:
  assumes "2 ^ 32 \<le> c_seq (clientCounter c)"
  shows "\<forall>(now, p) \<in> set ps. isTheSame (tp_detail p) (connectionDetail c) \<and> tp_seq p < 2 ^ 32 \<Longrightarrow> deliver ps c = (c, None)"
proof (induction ps)
  case Nil
  then show ?case by (simp add: done_with_def)
next
  case (Cons x ps)
  obtain now p where x: "x = (now, p)" by fastforce
  then have "isTheSame (tp_detail p) (connectionDetail c)" "tp_seq p < c_seq (clientCounter c)" using Cons.prems assms by auto
  then have "pick_active now p c = (c, None)"
    by (simp add: pick_active_def Let_def detectPacketFlowDirection_def isOldPacket_def done_with_def)
  with Cons x show ?case by (simp add: and_then_def)
qed

section \<open>A connection for the witnesses\<close>

definition sample_connection :: connection where
  "sample_connection = (new_connection 0 sample_detail)\<lparr>conn_state := Some Established,
     clientCounter := \<lparr>c_seq = 101, c_ack = 501, latestPacketUpdateTime = 0\<rparr>,
     serverCounter := \<lparr>c_seq = 501, c_ack = 101, latestPacketUpdateTime = 0\<rparr>\<rparr>"

definition sample_template :: tpacket where
  "sample_template =
     \<lparr>tp_seq = 101, tp_ack = 501, tp_is_ack = True, tp_syn = False, tp_rst = False, tp_fin = False, tp_data = None,
      tp_time = 0, tp_detail = sample_detail, tp_consumed = False, tp_by_client = True\<rparr>"

lemma sample_proper:
  "proper_template sample_template" "proper_data [[1, 2], [3]]" "proper_data [[1, 2], [3], [4, 5]]"
  by (simp_all add: proper_template_def sample_template_def proper_data_def MAX_PACKETS_IN_BUFFER_def MAX_BUFFER_SIZE_def)

lemma sample_ready:
  assumes "proper_data ds"
  shows "ready sample_template ds sample_connection"
    and "streams (clientInputStream sample_connection) = ([], [])"
  using assms new_stream_inv [of 0]
  by (simp_all add: ready_def receiving_def sample_connection_def sample_template_def new_connection_def isTheSame_def
      proper_data_def new_stream_def)

theorem reassembly_in_order_witness:
  "\<exists>c' k. deliver (map (\<lambda>(now, i). (now, client_packet sample_template [[1, 2], [3], [4, 5]] i)) [(7, 1), (8, 0), (9, 1)])
      sample_connection = (c', None) \<and>
    k \<le> length [[1 :: u8, 2], [3], [4, 5]] \<and> {..<k} \<subseteq> snd ` set [(7 :: int, 1), (8, 0), (9, 1)] \<and>
    streams (clientInputStream c') = ([], [] @ concat (take k [[1, 2], [3], [4, 5]]))"
  using reassembly_in_order [OF sample_proper(3,1) sample_ready(1) [OF sample_proper(3)], of "[(7, 1), (8, 0), (9, 1)]"]
  by (simp only: sample_ready(2) [OF sample_proper(3)] fst_conv snd_conv) simp

theorem reassembly_complete_witness:
  "\<exists>c' s'. deliver (map (\<lambda>(now, i). (now, client_packet sample_template [[1, 2], [3]] i))
      ([(7, 1), (8, 0), (8, 1)] @ [(9, length [[1 :: u8, 2], [3]])])) sample_connection = (c', None) \<and>
    received_all [[1, 2], [3]] ([], []) c' \<and>
    read_to_end (read_stream 2) (Suc (length (concat [[1 :: u8, 2], [3]]))) (clientInputStream c') =
      Some (concat [[1, 2], [3]], s')"
proof -
  have "snd ` set [(7 :: int, 1), (8, 0), (8, 1)] = {..<length [[1 :: u8, 2], [3]]}" by (auto simp: lessThan_Suc)
  from reassembly_complete [OF sample_proper(2,1) sample_ready(1) [OF sample_proper(2)] _ this
      sample_ready(2) [OF sample_proper(2)], of 2 9]
  show ?thesis by simp
qed

theorem gap_filled_leaves_waiting_witness:
  "\<exists>c'. deliver [(7, client_packet sample_template [[1, 2], [3]] 1), (8, client_packet sample_template [[1, 2], [3]] 0)]
      sample_connection = (c', None) \<and> streams (clientInputStream c') = ([], [1, 2]) \<and>
    csTemporaryStoredPackets c' = [client_packet sample_template [[1, 2], [3]] 1] \<and>
    isCanProcessPacket (client_packet sample_template [[1, 2], [3]] 1) c' = Inr True"
  using gap_filled_leaves_waiting [OF sample_proper(2,1) sample_ready(1) [OF sample_proper(2)], of 7 8]
  by (simp only: sample_ready(2) [OF sample_proper(2)] fst_conv snd_conv append_Nil)

end
