(* ===== verification/Sniffer_Pick.thy ===== *)
theory Sniffer_Pick
  imports Sniffer_Receiver Jpcap_Filter
begin

text \<open>
  The connections of the sniffer: \<open>ConnectionDetail\<close> as the key of a map, \<open>ConnectionFilter\<close>, \<open>PacketReceiverImpl.pick\<close>
  over all connections, and one visit of \<open>ObsoleteConnectionCleaner\<close>.
\<close>

section \<open>ConnectionDetail as a key\<close>

text \<open>\<open>String.hashCode\<close>. The text of a number is \<open>show_int\<close>.\<close>

definition String_hashCode :: "string \<Rightarrow> u32" where
  "String_hashCode cs = foldl (\<lambda>h c. 31 * h + of_nat (of_char c)) 0 cs"

definition hashCode :: "conn_detail \<Rightarrow> u32" where
  "hashCode d =
     String_hashCode (inet_text (clientAddress d) @ ''/'' @ show_int (clientPort d)) +
     String_hashCode (inet_text (serverAddress d) @ ''/'' @ show_int (serverPort d))"

definition detail_equals :: "conn_detail \<Rightarrow> conn_detail \<Rightarrow> bool" where
  "detail_equals a b \<longleftrightarrow> hashCode a = hashCode b"

section \<open>ConnectionFilter\<close>

text \<open>A criterion with a null address or a port that is not positive accepts any; of an address, \<open>equals\<close> compares the bytes.\<close>

record conn_criteria =
  crit_clientAddress :: "u8 list option"
  crit_serverAddress :: "u8 list option"
  crit_clientPort :: int
  crit_serverPort :: int

definition isMatch :: "conn_criteria \<Rightarrow> conn_detail \<Rightarrow> bool" where
  "isMatch k d \<longleftrightarrow>
     (case crit_clientAddress k of None \<Rightarrow> True | Some a \<Rightarrow> a = inet_bytes (clientAddress d)) \<and>
     (case crit_serverAddress k of None \<Rightarrow> True | Some a \<Rightarrow> a = inet_bytes (serverAddress d)) \<and>
     \<not> (0 < crit_clientPort k \<and> crit_clientPort k \<noteq> clientPort d) \<and>
     \<not> (0 < crit_serverPort k \<and> crit_serverPort k \<noteq> serverPort d)"

definition isAcceptable :: "conn_criteria list \<Rightarrow> conn_detail \<Rightarrow> bool" where
  "isAcceptable filters d \<longleftrightarrow> filters = [] \<or> list_ex (\<lambda>k. isMatch k d) filters"

section \<open>The receiver\<close>

text \<open>
  Objects are numbered; a map whose keys are equal when their hash codes are is a map from hash codes. The queue holds
  the connections that have been established and not been polled yet.
\<close>

record receiver =
  objects :: "nat \<Rightarrow> connection option"
  next_object :: nat
  activeConnections :: "u32 \<Rightarrow> nat option"
  halfWayConnections :: "u32 \<Rightarrow> nat option"
  establishedConnections :: "nat list"
  filters :: "conn_criteria list"

definition new_receiver :: "conn_criteria list \<Rightarrow> receiver" where
  "new_receiver fs =
     \<lparr>objects = (\<lambda>_. None), next_object = 0, activeConnections = (\<lambda>_. None), halfWayConnections = (\<lambda>_. None),
      establishedConnections = [], filters = fs\<rparr>"

text \<open>A step of the connection object \<open>i\<close>; what it announced goes to the queue.\<close>

definition run_step :: "nat \<Rightarrow> step \<Rightarrow> receiver \<Rightarrow> receiver \<times> sniff_exn option" where
  "run_step i f r =
     (case objects r i of
        None \<Rightarrow> (r, Some NullPointer)
      | Some c \<Rightarrow>
          (case f c of
             (c, e) \<Rightarrow>
               (r\<lparr>objects := (objects r)(i \<mapsto> c\<lparr>announced := 0\<rparr>),
                  establishedConnections := establishedConnections r @ replicate (announced c) i\<rparr>, e)))"

definition isPreviousAnotherDirectionPacket :: "tpacket \<Rightarrow> tpacket \<Rightarrow> bool" where
  "isPreviousAnotherDirectionPacket currentPacket previousPacket \<longleftrightarrow>
     tp_ack currentPacket = tp_seq previousPacket + int (length (data_of previousPacket)) \<and>
     tp_seq currentPacket = tp_ack previousPacket"

text \<open>What a data packet does to a half-way connection: the result tells whether it is a connection now.\<close>

definition half_way_match :: "tpacket \<Rightarrow> connection \<Rightarrow> bool" where
  "half_way_match p c \<longleftrightarrow>
     list_ex (isPreviousAnotherDirectionPacket p)
       (if tp_by_client p then scTemporaryStoredPackets c else csTemporaryStoredPackets c)"

definition half_way_counters :: "tpacket \<Rightarrow> connection \<Rightarrow> connection" where
  "half_way_counters p c =
     (if tp_by_client p
      then c\<lparr>serverCounter := (serverCounter c)\<lparr>c_seq := tp_ack p, c_ack := tp_seq p\<rparr>\<rparr>
      else c\<lparr>clientCounter := (clientCounter c)\<lparr>c_seq := tp_ack p, c_ack := tp_seq p\<rparr>\<rparr>)"

definition half_way_start :: "int \<Rightarrow> tpacket \<Rightarrow> step" where
  "half_way_start now p c =
     and_then (processDataPacket now p) (process_buffer now)
       (c\<lparr>conn_state := Some Established, announced := Suc (announced c)\<rparr>)"

definition handleHalfWayConnectionPackets :: "int \<Rightarrow> tpacket \<Rightarrow> receiver \<Rightarrow> receiver \<times> sniff_exn option" where
  "handleHalfWayConnectionPackets now p r =
     (if \<not> isContainsData p then (r, None)
      else (case halfWayConnections r (hashCode (tp_detail p)) of
              None \<Rightarrow>
                (let i = next_object r;
                     c = new_connection now (tp_detail p);
                     r = r\<lparr>objects := (objects r)(i \<mapsto> c), next_object := Suc i,
                           halfWayConnections := (halfWayConnections r)(hashCode (tp_detail p) \<mapsto> i)\<rparr>
                 in run_step i (addToCSTemporaryStoredDataPackets (detectPacketFlowDirection (tp_detail p) p)) r)
            | Some i \<Rightarrow>
                (case objects r i of
                   None \<Rightarrow> (r, Some NullPointer)
                 | Some c \<Rightarrow>
                     (let p = detectPacketFlowDirection (connectionDetail c) p in
                      if half_way_match p c
                      then run_step i (\<lambda>c. half_way_start now p (half_way_counters p c))
                             (r\<lparr>halfWayConnections := (halfWayConnections r)(hashCode (connectionDetail c) := None),
                                activeConnections := (activeConnections r)(hashCode (connectionDetail c) \<mapsto> i)\<rparr>)
                      else run_step i (if tp_by_client p then addToCSTemporaryStoredDataPackets p
                                       else addToSCTemporaryStoredDataPackets p) r))))"

text \<open>The ways \<open>pick\<close> returns before it looks whether the connection is finished.\<close>

definition returns_early :: "tpacket \<Rightarrow> connection \<Rightarrow> bool" where
  "returns_early p c \<longleftrightarrow>
     (let p = detectPacketFlowDirection (connectionDetail c) p in
      isOldPacket p c \<or> both_finished c \<and> conn_state c \<noteq> Some LastAck \<or> isHandsShake2Packet p)"

definition remove_finished :: "nat \<Rightarrow> receiver \<Rightarrow> receiver" where
  "remove_finished i r =
     (case objects r i of
        None \<Rightarrow> r
      | Some c \<Rightarrow>
          (if both_finished c
           then r\<lparr>activeConnections := (activeConnections r)(hashCode (connectionDetail c) := None)\<rparr> else r))"

definition pick :: "int \<Rightarrow> tpacket \<Rightarrow> receiver \<Rightarrow> receiver \<times> sniff_exn option" where
  "pick now p r =
     (if isHandsShake1Packet p
      then (if isAcceptable (filters r) (tp_detail p)
            then (let i = next_object r;
                      c = processSyncPacket p (new_connection now (tp_detail p))
                  in (r\<lparr>objects := (objects r)(i \<mapsto> c), next_object := Suc i,
                        activeConnections := (activeConnections r)(hashCode (tp_detail p) \<mapsto> i)\<rparr>, None))
            else (r, None))
      else (case activeConnections r (hashCode (tp_detail p)) of
              None \<Rightarrow> handleHalfWayConnectionPackets now p r
            | Some i \<Rightarrow>
                (case objects r i of
                   None \<Rightarrow> (r, Some NullPointer)
                 | Some c \<Rightarrow>
                     (case run_step i (pick_active now p) r of
                        (r, Some e) \<Rightarrow> (r, Some e)
                      | (r, None) \<Rightarrow> (if returns_early p c then r else remove_finished i r, None)))))"

text \<open>\<open>poll\<close>, with which the application takes the next new connection.\<close>

definition poll :: "receiver \<Rightarrow> nat option \<times> receiver" where
  "poll r =
     (case establishedConnections r of
        [] \<Rightarrow> (None, r)
      | i # is \<Rightarrow> (Some i, r\<lparr>establishedConnections := is\<rparr>))"

section \<open>The cleaner\<close>

definition TCP_CONNECTION_TIME_OUT :: int where "TCP_CONNECTION_TIME_OUT = 120 * 1000"
definition HALF_CLOSED_TIMEOUT :: int where "HALF_CLOSED_TIMEOUT = 30 * 1000"
definition BROKEN_TIMEOUT :: int where "BROKEN_TIMEOUT = 20 * 1000"

datatype clean_result = TimedOut | ClosedAfterTimeout | Kept

text \<open>One connection in the loop of \<open>run\<close>; \<open>st\<close> is its state.\<close>

definition clean_one :: "int \<Rightarrow> tcp_state \<Rightarrow> connection \<Rightarrow> clean_result" where
  "clean_one now st c =
     (let duration = now - lastUpdated c in
      if maybeBroken c \<and> BROKEN_TIMEOUT \<le> duration then TimedOut
      else if state_seq Established < state_seq st \<and> HALF_CLOSED_TIMEOUT \<le> duration then ClosedAfterTimeout
      else if state_seq st < state_seq Established then TimedOut
      else if TCP_CONNECTION_TIME_OUT \<le> duration then TimedOut
      else Kept)"

text \<open>
  One connection of the receiver. \<open>remove\<close> takes the connection out of the values of the map, where it is once. A state that is
  null raises an exception, which ends the loop.
\<close>

definition clean :: "int \<Rightarrow> nat \<Rightarrow> receiver \<Rightarrow> receiver" where
  "clean now i r =
     (case objects r i of
        None \<Rightarrow> r
      | Some c \<Rightarrow>
          (case conn_state c of
             None \<Rightarrow> r
           | Some st \<Rightarrow>
               (case clean_one now st c of
                  TimedOut \<Rightarrow> r\<lparr>activeConnections := (\<lambda>h. if activeConnections r h = Some i then None else activeConnections r h)\<rparr>
                | ClosedAfterTimeout \<Rightarrow> r\<lparr>objects := (objects r)(i \<mapsto> close_connection c)\<rparr>
                | Kept \<Rightarrow> r)))"

section \<open>Properties\<close>

lemma String_hashCode_snoc: "String_hashCode (cs @ [c]) = 31 * String_hashCode cs + of_nat (of_char c)"
  by (simp add: String_hashCode_def)

text \<open>The decimal text of a number is that of its prefix and its last digit.\<close>

lemma hash_port:
  assumes i: "0 \<le> i" and d: "d < 10"
  shows "String_hashCode (s @ ''/'' @ show_int (10 * (i + 1) + int d)) =
    31 * String_hashCode (s @ ''/'' @ show_nat (nat (i + 1))) + of_nat (48 + d)"
proof -
  define n where "n = nat (i + 1)"
  have n: "nat (10 * (i + 1) + int d) = 10 * n + d" and big: "\<not> 10 * n + d < 10"
    using i by (simp_all add: n_def nat_add_distrib nat_mult_distrib)
  have digit: "(10 * n + d) div 10 = n" "(10 * n + d) mod 10 = d" using d by simp_all
  have "show_nat (10 * n + d) = show_nat n @ [char_of (48 + d)]"
    unfolding show_nat.simps [of "10 * n + d"] digit using big by (simp add: digit_def)
  then have "s @ ''/'' @ show_int (10 * (i + 1) + int d) = (s @ ''/'' @ show_nat n) @ [char_of (48 + d)]"
    using i n by (simp add: show_int_def)
  then have "String_hashCode (s @ ''/'' @ show_int (10 * (i + 1) + int d)) =
      31 * String_hashCode (s @ ''/'' @ show_nat n) + of_nat (of_char (char_of (48 + d)))"
    by (simp only: String_hashCode_snoc)
  also have "(of_char (char_of (48 + d)) :: nat) = 48 + d" using d by simp
  finally show ?thesis by (simp only: n_def)
qed

lemma add_pairs:
  fixes x y k l k' l' :: u32
  assumes "k + l = k' + l'"
  shows "(x + k) + (y + l) = (x + k') + (y + l')"
proof -
  have swap: "(x + m) + (y + n) = (x + y) + (m + n)" for m n :: u32 by (simp add: ac_simps)
  show ?thesis unfolding swap [of k l] swap [of k' l'] assms by (rule refl)
qed

text \<open>
  C0: Two connections between the same hosts are one to the sniffer when the last digits of their ports have the
  same sum: \<open>equals\<close> compares hash codes, and the hash code of a connection is the sum of two string hash codes, each
  of which is linear in the last digit of the port. Packets of the second connection are then given to the
  first one.
\<close>

theorem detail_equals_collision:
  assumes "0 \<le> i" and "0 \<le> j" and "c < 9" and "0 < e" and "e < 10"
    and "clientPort d = 10 * (i + 1) + int c" and "serverPort d = 10 * (j + 1) + int e"
  shows "detail_equals d (d\<lparr>clientPort := clientPort d + 1, serverPort := serverPort d - 1\<rparr>) \<and>
    \<not> isTheSame d (d\<lparr>clientPort := clientPort d + 1, serverPort := serverPort d - 1\<rparr>)"
proof
  let ?d = "d\<lparr>clientPort := clientPort d + 1, serverPort := serverPort d - 1\<rparr>"
  let ?C = "String_hashCode (inet_text (clientAddress d) @ ''/'' @ show_nat (nat (i + 1)))"
  let ?S = "String_hashCode (inet_text (serverAddress d) @ ''/'' @ show_nat (nat (j + 1)))"
  have p: "clientPort d + 1 = 10 * (i + 1) + int (Suc c)" "serverPort d - 1 = 10 * (j + 1) + int (e - 1)"
    using assms by (simp_all add: of_nat_diff)
  have w: "(of_nat (48 + c) :: u32) + of_nat (48 + e) = of_nat (48 + Suc c) + of_nat (48 + (e - 1))"
    using assms(4) by (simp flip: of_nat_add)
  have c: "c < 10" "Suc c < 10" "e - 1 < 10" using assms(3,5) by simp_all
  have fields: "clientAddress ?d = clientAddress d" "serverAddress ?d = serverAddress d"
    "clientPort ?d = clientPort d + 1" "serverPort ?d = serverPort d - 1" by simp_all
  have "hashCode d = (31 * ?C + of_nat (48 + c)) + (31 * ?S + of_nat (48 + e))"
    unfolding hashCode_def assms(6,7) hash_port [OF assms(1) c(1)] hash_port [OF assms(2,5)] by (rule refl)
  moreover have "hashCode ?d = (31 * ?C + of_nat (48 + Suc c)) + (31 * ?S + of_nat (48 + (e - 1)))"
    unfolding hashCode_def fields unfolding p hash_port [OF assms(1) c(2)] hash_port [OF assms(2) c(3)] by (rule refl)
  ultimately show "detail_equals d ?d"
    unfolding detail_equals_def using add_pairs [OF w] by (simp only:)
  show "\<not> isTheSame d ?d" by (simp add: isTheSame_def)
qed

theorem detail_equals_collision_witness:
  "let d = \<lparr>clientAddress = \<lparr>inet_bytes = [10, 0, 0, 1], inet_text = ''/10.0.0.1''\<rparr>,
      serverAddress = \<lparr>inet_bytes = [10, 0, 0, 2], inet_text = ''/10.0.0.2''\<rparr>, clientPort = 51234, serverPort = 8081\<rparr>
   in detail_equals d (d\<lparr>clientPort := clientPort d + 1, serverPort := serverPort d - 1\<rparr>) \<and>
     \<not> isTheSame d (d\<lparr>clientPort := clientPort d + 1, serverPort := serverPort d - 1\<rparr>)"
  unfolding Let_def by (rule detail_equals_collision [of 5122 807 4 1]) simp_all

end
