(* ===== verification/Sniffer_Safety.thy ===== *)
theory Sniffer_Safety
  imports Sniffer_Pick
begin

text \<open>
  What every packet keeps of the receiver: the maps and the queue hold connections, under the hash code of their hosts and
  ports, and an active connection has a state. So no packet runs into a null pointer. The cleaner keeps it too, but does not
  get rid of the connections it closes.
\<close>

section \<open>Steps of a connection\<close>

definition sound_step :: "step \<Rightarrow> bool" where
  "sound_step f \<longleftrightarrow>
     (\<forall>c. connectionDetail (fst (f c)) = connectionDetail c \<and>
        (conn_state c \<noteq> None \<longrightarrow> conn_state (fst (f c)) \<noteq> None \<and> snd (f c) \<noteq> Some NullPointer))"

named_theorems sound_steps \<open>operations that keep what identifies a connection\<close>

lemma sound_stepD:
  assumes "sound_step f"
  shows "connectionDetail (fst (f c)) = connectionDetail c"
    and "conn_state c \<noteq> None \<Longrightarrow> conn_state (fst (f c)) \<noteq> None"
    and "conn_state c \<noteq> None \<Longrightarrow> snd (f c) \<noteq> Some NullPointer"
  using assms by (simp_all add: sound_step_def)

lemma sound_and_then [sound_steps]:
  assumes "sound_step f" and "sound_step g"
  shows "sound_step (and_then f g)"
  unfolding sound_step_def
proof (intro allI)
  fix c
  obtain c1 e where f: "f c = (c1, e)" by fastforce
  then show "connectionDetail (fst (and_then f g c)) = connectionDetail c \<and>
      (conn_state c \<noteq> None \<longrightarrow> conn_state (fst (and_then f g c)) \<noteq> None \<and> snd (and_then f g c) \<noteq> Some NullPointer)"
    using sound_stepD [OF assms(1), of c] sound_stepD [OF assms(2), of c1]
    by (cases e) (simp_all add: and_then_def)
qed

lemma sound_when [sound_steps]: "sound_step f \<Longrightarrow> sound_step (when_do b f)"
  by (simp add: sound_step_def when_do_def done_with_def)

lemma sound_done [sound_steps]: "sound_step done_with" "sound_step (\<lambda>c. done_with (c\<lparr>lastUpdated := n\<rparr>))"
  by (simp_all add: sound_step_def done_with_def)

lemma sound_rst [sound_steps]: "sound_step (\<lambda>c. done_with (processRstPacket now p c))"
  by (auto simp: sound_step_def conn_defs Let_def)

lemma sound_fin [sound_steps]: "sound_step (\<lambda>c. done_with (processFinishPacket now p c))"
  by (auto simp: sound_step_def conn_defs Let_def)

lemma sound_data [sound_steps]: "sound_step (processDataPacket now p)"
  by (auto simp: sound_step_def conn_defs Let_def split: option.splits prod.splits)

lemma sound_ack: "sound_step (processAckPacket p)"
  by (auto simp: sound_step_def conn_defs Let_def split: option.splits tcp_state.splits)

lemma sound_handle_ack [sound_steps]: "sound_step (handle_ack p)"
proof -
  have "sound_step (\<lambda>c'. done_with (if b \<and> conn_state c' = Some Established then c'\<lparr>announced := Suc (announced c')\<rparr> else c'))" for b
    by (simp add: sound_step_def done_with_def)
  then have "sound_step (and_then (processAckPacket p)
      (\<lambda>c'. done_with (if b \<and> conn_state c' = Some Established then c'\<lparr>announced := Suc (announced c')\<rparr> else c')))" for b
    by (rule sound_and_then [OF sound_ack])
  then show ?thesis unfolding sound_step_def handle_ack_def by blast
qed

lemma sound_handlePacket: "sound_step rest \<Longrightarrow> sound_step (handlePacket now rest p)"
  unfolding handlePacket_def [abs_def] by (intro sound_steps) 

lemma isCan_not_null: "isCanProcessPacket p c \<noteq> Inl NullPointer"
  by (auto simp: isCanProcessPacket_def isMatchSequence_def split: sum.splits)

lemma pickup_buffer_not_null: "snd (pickup_buffer c ps) \<noteq> Inl NullPointer"
  by (induction ps) (auto split: sum.splits bool.splits simp: isCan_not_null)

lemma pickupPacket_keeps:
  assumes "pickupPacket c = (c', r)"
  shows "connectionDetail c' = connectionDetail c" and "conn_state c' = conn_state c" and "r \<noteq> Inl NullPointer"
proof -
  obtain cs r1 where cs: "pickup_buffer c (csTemporaryStoredPackets c) = (cs, r1)" by fastforce
  obtain sc r2 where sc: "pickup_buffer (c\<lparr>csTemporaryStoredPackets := cs\<rparr>) (scTemporaryStoredPackets c) = (sc, r2)" by fastforce
  have "(c', r) = (if r1 = Inr None then (c\<lparr>csTemporaryStoredPackets := cs, scTemporaryStoredPackets := sc\<rparr>, r2)
      else (c\<lparr>csTemporaryStoredPackets := cs\<rparr>, r1))"
    using assms cs sc by (auto simp: pickupPacket_def pickupCSBuffer_def pickupSCBuffer_def split: sum.splits option.splits)
  then show "connectionDetail c' = connectionDetail c" "conn_state c' = conn_state c" "r \<noteq> Inl NullPointer"
    using pickup_buffer_not_null [of c "csTemporaryStoredPackets c"] cs
      pickup_buffer_not_null [of "c\<lparr>csTemporaryStoredPackets := cs\<rparr>" "scTemporaryStoredPackets c"] sc
    by (auto split: if_splits)
qed

lemma sound_tryToProcess: "sound_step (tryToProcessPacketsInBuffer now n)"
proof (induction n)
  case 0
  show ?case by (simp add: sound_step_def)
next
  case (Suc n)
  show ?case unfolding sound_step_def
  proof (intro allI)
    fix c
    obtain c1 r where p: "pickupPacket c = (c1, r)" by fastforce
    note k = pickupPacket_keeps [OF p]
    show "connectionDetail (fst (tryToProcessPacketsInBuffer now (Suc n) c)) = connectionDetail c \<and>
      (conn_state c \<noteq> None \<longrightarrow> conn_state (fst (tryToProcessPacketsInBuffer now (Suc n) c)) \<noteq> None \<and>
         snd (tryToProcessPacketsInBuffer now (Suc n) c) \<noteq> Some NullPointer)"
    proof (cases "\<exists>q. r = Inr (Some q)")
      case True
      then obtain q where q: "r = Inr (Some q)" by blast
      show ?thesis
        using sound_stepD [OF sound_and_then [OF sound_handlePacket [OF Suc, of now q] Suc], of c1] k(1,2)
        by (simp add: p q)
    next
      case False
      then show ?thesis using p k by (cases r) (auto split: option.splits)
    qed
  qed
qed

lemma sound_process_buffer [sound_steps]: "sound_step (process_buffer now)"
  using sound_tryToProcess unfolding sound_step_def process_buffer_def by blast

lemma sound_add [sound_steps]:
  "sound_step (addToCSTemporaryStoredDataPackets p)" "sound_step (addToSCTemporaryStoredDataPackets p)"
  by (simp_all add: sound_step_def addToCSTemporaryStoredDataPackets_def addToSCTemporaryStoredDataPackets_def done_with_def)

lemma sound_pick_active: "sound_step (pick_active now p)"
  unfolding sound_step_def
proof (intro allI)
  fix c :: connection
  let ?p = "detectPacketFlowDirection (connectionDetail c) p"
  let ?add = "if tp_by_client ?p then addToCSTemporaryStoredDataPackets ?p else addToSCTemporaryStoredDataPackets ?p"
  have "sound_step (handle_packet now ?p)"
    unfolding handle_packet_def [abs_def] by (intro sound_handlePacket sound_steps)
  moreover have "sound_step (and_then ?add (process_buffer now))" by (simp add: sound_and_then sound_add sound_process_buffer)
  ultimately show "connectionDetail (fst (pick_active now p c)) = connectionDetail c \<and>
     (conn_state c \<noteq> None \<longrightarrow> conn_state (fst (pick_active now p c)) \<noteq> None \<and> snd (pick_active now p c) \<noteq> Some NullPointer)"
    using isCan_not_null [of ?p c]
    by (auto simp: pick_active_def Let_def done_with_def sound_step_def processSyncAckPacket_def updateServerCounter_def
        clientSequenceAddOne_def split: sum.split bool.split)
qed

section \<open>The receiver\<close>

definition holds_connections :: "(nat \<Rightarrow> connection option) \<Rightarrow> (u32 \<Rightarrow> nat option) \<Rightarrow> bool" where
  "holds_connections os m \<longleftrightarrow>
     (\<forall>h i. m h = Some i \<longrightarrow> (\<exists>c. os i = Some c \<and> hashCode (connectionDetail c) = h))"

definition receiver_inv :: "receiver \<Rightarrow> bool" where
  "receiver_inv r \<longleftrightarrow>
     (\<forall>i. objects r i \<noteq> None \<longrightarrow> i < next_object r) \<and>
     holds_connections (objects r) (activeConnections r) \<and> holds_connections (objects r) (halfWayConnections r) \<and>
     (\<forall>h i c. activeConnections r h = Some i \<longrightarrow> objects r i = Some c \<longrightarrow> conn_state c \<noteq> None) \<and>
     (\<forall>i \<in> set (establishedConnections r). objects r i \<noteq> None)"

lemma new_receiver_inv: "receiver_inv (new_receiver fs)"
  by (simp add: receiver_inv_def new_receiver_def holds_connections_def)

lemma receiver_inv_object:
  assumes "receiver_inv r" and "objects r i = Some c" and "connectionDetail c' = connectionDetail c"
    and "conn_state c \<noteq> None \<Longrightarrow> conn_state c' \<noteq> None"
  shows "receiver_inv (r\<lparr>objects := (objects r)(i \<mapsto> c'), establishedConnections := establishedConnections r @ replicate n i\<rparr>)"
    and "receiver_inv (r\<lparr>objects := (objects r)(i \<mapsto> c')\<rparr>)"
  using assms unfolding receiver_inv_def holds_connections_def by (auto split: if_splits) (metis option.inject)+

lemma run_step_sound:
  assumes f: "sound_step f" and r: "receiver_inv r" and c: "objects r i = Some c"
  shows "receiver_inv (fst (run_step i f r))"
    and "conn_state c \<noteq> None \<Longrightarrow> snd (run_step i f r) \<noteq> Some NullPointer"
proof -
  obtain c1 e where fc: "f c = (c1, e)" by fastforce
  note k = sound_stepD [OF f, of c]
  show "receiver_inv (fst (run_step i f r))"
    using receiver_inv_object(1) [OF r c, of "c1\<lparr>announced := 0\<rparr>"] fc c k by (simp add: run_step_def)
  show "conn_state c \<noteq> None \<Longrightarrow> snd (run_step i f r) \<noteq> Some NullPointer"
    using fc c k by (simp add: run_step_def)
qed

lemma new_object_inv:
  assumes "receiver_inv r"
  shows "hashCode (connectionDetail c) = h \<Longrightarrow> conn_state c \<noteq> None \<Longrightarrow>
      receiver_inv (r\<lparr>objects := (objects r)(next_object r \<mapsto> c), next_object := Suc (next_object r),
        activeConnections := (activeConnections r)(h \<mapsto> next_object r)\<rparr>)"
    and "hashCode (connectionDetail c) = h \<Longrightarrow>
      receiver_inv (r\<lparr>objects := (objects r)(next_object r \<mapsto> c), next_object := Suc (next_object r),
        halfWayConnections := (halfWayConnections r)(h \<mapsto> next_object r)\<rparr>)"
proof -
  have fresh: "i \<noteq> next_object r" if "objects r i = Some x" for i x
    using assms that unfolding receiver_inv_def by (metis less_irrefl option.distinct(1))
  show "hashCode (connectionDetail c) = h \<Longrightarrow> conn_state c \<noteq> None \<Longrightarrow>
      receiver_inv (r\<lparr>objects := (objects r)(next_object r \<mapsto> c), next_object := Suc (next_object r),
        activeConnections := (activeConnections r)(h \<mapsto> next_object r)\<rparr>)"
    using assms fresh unfolding receiver_inv_def holds_connections_def by (auto split: if_splits) (metis less_SucI option.distinct(1))+
  show "hashCode (connectionDetail c) = h \<Longrightarrow>
      receiver_inv (r\<lparr>objects := (objects r)(next_object r \<mapsto> c), next_object := Suc (next_object r),
        halfWayConnections := (halfWayConnections r)(h \<mapsto> next_object r)\<rparr>)"
    using assms fresh unfolding receiver_inv_def holds_connections_def by (auto split: if_splits) (metis less_SucI option.distinct(1))+
qed

text \<open>A half-way connection that becomes an active one.\<close>

lemma activate_inv:
  assumes "receiver_inv r" and "objects r i = Some c" and "connectionDetail c' = connectionDetail c" and "conn_state c' \<noteq> None"
  shows "receiver_inv (r\<lparr>halfWayConnections := (halfWayConnections r)(hashCode (connectionDetail c) := None),
      activeConnections := (activeConnections r)(hashCode (connectionDetail c) \<mapsto> i),
      objects := (objects r)(i \<mapsto> c'),
      establishedConnections := establishedConnections r @ replicate n i\<rparr>)"
  using assms unfolding receiver_inv_def holds_connections_def by (auto split: if_splits) (metis option.inject)+

lemma half_way_start_sound:
  shows "connectionDetail (fst (half_way_start now p (half_way_counters q c))) = connectionDetail c"
    and "conn_state (fst (half_way_start now p (half_way_counters q c))) \<noteq> None"
    and "snd (half_way_start now p (half_way_counters q c)) \<noteq> Some NullPointer"
proof -
  define c1 where "c1 = (half_way_counters q c)\<lparr>conn_state := Some Established, announced := Suc (announced (half_way_counters q c))\<rparr>"
  have c1: "connectionDetail c1 = connectionDetail c" "conn_state c1 \<noteq> None" by (simp_all add: c1_def half_way_counters_def)
  have s: "sound_step (and_then (processDataPacket now p) (process_buffer now))" by (intro sound_steps)
  show "connectionDetail (fst (half_way_start now p (half_way_counters q c))) = connectionDetail c"
    "conn_state (fst (half_way_start now p (half_way_counters q c))) \<noteq> None"
    "snd (half_way_start now p (half_way_counters q c)) \<noteq> Some NullPointer"
    unfolding half_way_start_def c1_def [symmetric] using sound_stepD [OF s, of c1] c1 by simp_all
qed

lemma add_not_null:
  "snd (addToCSTemporaryStoredDataPackets p c) \<noteq> Some NullPointer" "snd (addToSCTemporaryStoredDataPackets p c) \<noteq> Some NullPointer"
  by (simp_all add: addToCSTemporaryStoredDataPackets_def addToSCTemporaryStoredDataPackets_def done_with_def)

lemma run_step_not_null: "objects r i = Some c \<Longrightarrow> snd (f c) \<noteq> Some NullPointer \<Longrightarrow> snd (run_step i f r) \<noteq> Some NullPointer"
  by (auto simp: run_step_def split: prod.splits)

lemma half_way_sound:
  assumes r: "receiver_inv r"
  shows "receiver_inv (fst (handleHalfWayConnectionPackets now p r)) \<and>
    snd (handleHalfWayConnectionPackets now p r) \<noteq> Some NullPointer"
proof (cases "isContainsData p")
  case False
  then show ?thesis using r by (simp add: handleHalfWayConnectionPackets_def)
next
  case data: True
  show ?thesis
  proof (cases "halfWayConnections r (hashCode (tp_detail p))")
    case None
    let ?c = "new_connection now (tp_detail p)" and ?i = "next_object r"
    let ?r = "r\<lparr>objects := (objects r)(?i \<mapsto> ?c), next_object := Suc ?i,
        halfWayConnections := (halfWayConnections r)(hashCode (tp_detail p) \<mapsto> ?i)\<rparr>"
    let ?f = "addToCSTemporaryStoredDataPackets (detectPacketFlowDirection (tp_detail p) p)"
    have "receiver_inv ?r" by (rule new_object_inv(2) [OF r]) (simp add: new_connection_def)
    moreover have "objects ?r ?i = Some ?c" by simp
    ultimately have "receiver_inv (fst (run_step ?i ?f ?r))" "snd (run_step ?i ?f ?r) \<noteq> Some NullPointer"
      using run_step_sound(1) [OF sound_add(1)] run_step_not_null add_not_null(1) by blast+
    then show ?thesis using None data by (simp add: handleHalfWayConnectionPackets_def Let_def)
  next
    case (Some i)
    then obtain c where c: "objects r i = Some c" using r unfolding receiver_inv_def holds_connections_def by blast
    let ?p = "detectPacketFlowDirection (connectionDetail c) p"
    show ?thesis
    proof (cases "half_way_match ?p c")
      case True
      let ?f = "\<lambda>c. half_way_start now ?p (half_way_counters ?p c)"
      obtain c1 e where f: "?f c = (c1, e)" by fastforce
      note k = half_way_start_sound [of now ?p ?p c, unfolded f, simplified]
      have "receiver_inv (r\<lparr>halfWayConnections := (halfWayConnections r)(hashCode (connectionDetail c) := None),
          activeConnections := (activeConnections r)(hashCode (connectionDetail c) \<mapsto> i),
          objects := (objects r)(i \<mapsto> c1\<lparr>announced := 0\<rparr>),
          establishedConnections := establishedConnections r @ replicate (announced c1) i\<rparr>)"
        by (rule activate_inv [OF r c]) (simp_all add: k)
      then show ?thesis
        using True Some data c f k by (simp add: handleHalfWayConnectionPackets_def Let_def run_step_def)
    next
      case False
      let ?f = "if tp_by_client ?p then addToCSTemporaryStoredDataPackets ?p else addToSCTemporaryStoredDataPackets ?p"
      have "sound_step ?f" by (simp add: sound_add)
      then have "receiver_inv (fst (run_step i ?f r))" by (rule run_step_sound(1) [OF _ r c])
      moreover have "snd (run_step i ?f r) \<noteq> Some NullPointer"
        by (rule run_step_not_null [OF c]) (simp add: add_not_null)
      ultimately show ?thesis using False Some data c by (simp add: handleHalfWayConnectionPackets_def Let_def)
    qed
  qed
qed

lemma remove_finished_inv: "receiver_inv r \<Longrightarrow> receiver_inv (remove_finished i r)"
  unfolding remove_finished_def receiver_inv_def holds_connections_def by (auto split: option.split if_splits)

text \<open>
  C0: Any packet, in any order, keeps the receiver in order: active and half-way connections exist and are filed under the
  hash code of their hosts and ports, the queue of new connections has no dangling entry, and \<open>pick\<close> never fails on a null
  state or a missing connection.
\<close>

theorem pick_keeps_receiver:
  assumes r: "receiver_inv r"
  shows "receiver_inv (fst (pick now p r)) \<and> snd (pick now p r) \<noteq> Some NullPointer"
proof (cases "isHandsShake1Packet p")
  case True
  let ?c = "processSyncPacket p (new_connection now (tp_detail p))"
  have "hashCode (connectionDetail ?c) = hashCode (tp_detail p)" "conn_state ?c \<noteq> None"
    by (simp_all add: processSyncPacket_def updateClientCounter_def new_connection_def)
  from new_object_inv(1) [OF r this] show ?thesis using True r by (simp add: pick_def Let_def)
next
  case False
  show ?thesis
  proof (cases "activeConnections r (hashCode (tp_detail p))")
    case None
    then show ?thesis using False half_way_sound [OF r] by (simp add: pick_def)
  next
    case (Some i)
    obtain c where "objects r i = Some c" using r Some unfolding receiver_inv_def holds_connections_def by blast
    moreover from this have "conn_state c \<noteq> None" using r Some unfolding receiver_inv_def by blast
    ultimately have c: "objects r i = Some c" "conn_state c \<noteq> None" by blast+
    have "receiver_inv (fst (run_step i (pick_active now p) r))" "snd (run_step i (pick_active now p) r) \<noteq> Some NullPointer"
      using run_step_sound [OF sound_pick_active r c(1)] c(2) by blast+
    then show ?thesis
      using False Some c(1) remove_finished_inv by (auto simp: pick_def split: prod.split option.split)
  qed
qed

lemma poll_inv: "receiver_inv r \<Longrightarrow> receiver_inv (snd (poll r))"
  by (auto simp: poll_def receiver_inv_def split: list.split)

section \<open>The cleaner\<close>

lemma clean_inv: "receiver_inv r \<Longrightarrow> receiver_inv (clean now i r)"
  using receiver_inv_object(2) [of r i]
  by (auto simp: clean_def close_connection_def receiver_inv_def holds_connections_def split: option.split clean_result.split)

text \<open>
  C0: The cleaner never removes a connection that it has closed: from the moment it closes a connection that was shut down, every
  later visit closes it again, and it stays among the active connections, because the branch that would
  remove it for its age is only tried when the connection has not been shut down.
\<close>

theorem closed_connection_stays:
  assumes c: "objects r i = Some c" and st: "conn_state c = Some st" and cl: "clean_one now st c = ClosedAfterTimeout"
    and mb: "\<not> maybeBroken c" and later: "now \<le> now'"
  shows "clean now' i (clean now i r) = clean now i r \<and> activeConnections (clean now i r) = activeConnections r"
proof -
  have "state_seq Established < state_seq st \<and> HALF_CLOSED_TIMEOUT \<le> now - lastUpdated c"
    using cl mb by (auto simp: clean_one_def Let_def split: if_splits)
  then have "clean_one now' Closed (close_connection c) = ClosedAfterTimeout"
    using mb later by (simp add: clean_one_def Let_def close_connection_def)
  then show ?thesis
    using c st cl by (simp add: clean_def close_connection_def)
qed

section \<open>A packet and a connection for the witnesses\<close>

definition sample_syn :: tpacket where
  "sample_syn =
     \<lparr>tp_seq = 100, tp_ack = 0, tp_is_ack = False, tp_syn = True, tp_rst = False, tp_fin = False, tp_data = None,
      tp_time = 0, tp_detail = sample_detail, tp_consumed = False, tp_by_client = False\<rparr>"

theorem pick_keeps_receiver_witness:
  "receiver_inv (fst (pick 5 sample_syn (new_receiver []))) \<and> snd (pick 5 sample_syn (new_receiver [])) \<noteq> Some NullPointer"
  by (rule pick_keeps_receiver [OF new_receiver_inv])

theorem closed_connection_stays_witness:
  "let c = (new_connection 0 sample_detail)\<lparr>conn_state := Some LastAck\<rparr>;
       r = (new_receiver [])\<lparr>objects := [0 \<mapsto> c], activeConnections := [5 \<mapsto> 0]\<rparr>
   in clean 200000 0 (clean 40000 0 r) = clean 40000 0 r \<and> activeConnections (clean 40000 0 r) = activeConnections r"
  unfolding Let_def
  by (rule closed_connection_stays [where c = "(new_connection 0 sample_detail)\<lparr>conn_state := Some LastAck\<rparr>" and st = LastAck])
    (simp_all add: clean_one_def new_connection_def HALF_CLOSED_TIMEOUT_def BROKEN_TIMEOUT_def)

end
