(* ===== verification/Sniffer_Capture.thy ===== *)
theory Sniffer_Capture
  imports Sniffer_Pick Send_Capture
begin

text \<open>
  Where the sniffer meets the capture library: \<open>TCPPacketImpl\<close>, the view of the sniffer on a packet object that
  \<open>get_packet\<close> has built, and \<open>receivePacket\<close>, the callback it gives to \<open>loopPacket\<close>.
\<close>

section \<open>Addresses as text\<close>

text \<open>
  \<open>InetAddress.toString\<close> of an address that was made from bytes and has no host name: four decimal numbers, or eight
  hexadecimal ones.
\<close>

definition hex_digit :: "nat \<Rightarrow> char" where
  "hex_digit d = char_of (if d < 10 then 48 + d else 87 + d)"

fun hexadecimal :: "nat \<Rightarrow> string" where
  "hexadecimal n = (if n < 16 then [hex_digit n] else hexadecimal (n div 16) @ [hex_digit (n mod 16)])"

declare hexadecimal.simps [simp del]

fun join_with :: "char \<Rightarrow> string list \<Rightarrow> string" where
  "join_with c [] = []"
| "join_with c [s] = s"
| "join_with c (s # ss) = s @ c # join_with c ss"

fun byte_pairs :: "u8 list \<Rightarrow> nat list" where
  "byte_pairs (a # b # bs) = (256 * unat a + unat b) # byte_pairs bs"
| "byte_pairs _ = []"

definition inet_toString :: "u8 list \<Rightarrow> string" where
  "inet_toString bs =
     CHR ''/'' # (if length bs = 4 then join_with CHR ''.'' (map (\<lambda>b. show_nat (unat b)) bs)
                  else join_with CHR '':'' (map hexadecimal (byte_pairs bs)))"

definition inet_of :: "u8 list \<Rightarrow> inet" where
  "inet_of bs = \<lparr>inet_bytes = bs, inet_text = inet_toString bs\<rparr>"

section \<open>TCPPacketImpl\<close>

text \<open>
  The cast fails on any other class, and a null address raises an exception before the receiver is changed: no packet in
  both cases. The capture time is made from the microseconds alone.
\<close>

definition TCPPacketImpl :: "jpacket \<Rightarrow> tpacket option" where
  "TCPPacketImpl q =
     (case (pkt_class q = TCPPacket, src_ip (ip q), dst_ip (ip q)) of
        (True, Some s, Some d) \<Rightarrow> Some
          \<lparr>tp_seq = sint (tcp_sequence (tcp q)), tp_ack = sint (ack_num (tcp q)), tp_is_ack = ack (tcp q),
           tp_syn = syn (tcp q), tp_rst = rst (tcp q), tp_fin = fin (tcp q), tp_data = pkt_data q,
           tp_time = sint (usec q),
           tp_detail = \<lparr>clientAddress = inet_of s, serverAddress = inet_of d,
             clientPort = sint (tcp_src_port (tcp q)), serverPort = sint (tcp_dst_port (tcp q))\<rparr>,
           tp_consumed = False, tp_by_client = False\<rparr>
      | _ \<Rightarrow> None)"

text \<open>The callback logs an exception and goes on.\<close>

definition receivePacket :: "int \<Rightarrow> jpacket \<Rightarrow> receiver \<Rightarrow> receiver" where
  "receivePacket now q r = (case TCPPacketImpl q of None \<Rightarrow> r | Some p \<Rightarrow> fst (pick now p r))"

section \<open>A sent segment\<close>

text \<open>What the sniffer is to see of a segment: the fields at their width on the wire.\<close>

definition segment_of :: "ip_fields \<Rightarrow> tcp_fields \<Rightarrow> u8 list \<Rightarrow> tpacket" where
  "segment_of i t bs =
     \<lparr>tp_seq = uint (ucast (tcp_sequence t) :: u32), tp_ack = uint (ucast (ack_num t) :: u32), tp_is_ack = ack t,
      tp_syn = syn t, tp_rst = rst t, tp_fin = fin t, tp_data = Some bs, tp_time = 0,
      tp_detail = \<lparr>clientAddress = inet_of (take 4 (the (src_ip i))), serverAddress = inet_of (take 4 (the (dst_ip i))),
        clientPort = uint (ucast (tcp_src_port t) :: u16), serverPort = uint (ucast (tcp_dst_port t) :: u16)\<rparr>,
      tp_consumed = False, tp_by_client = False\<rparr>"

lemma signed_take_bit_below: "0 \<le> k \<Longrightarrow> k < 2 ^ n \<Longrightarrow> signed_take_bit n k = k" for k :: int
  by (intro signed_take_bit_int_eq_self) (simp_all add: order_trans [of _ 0])

lemma sint_ucast_u32: "sint (ucast (x :: u32) :: u64) = uint x"
proof -
  have "uint (ucast x :: u64) = uint x" by (rule uint_up_ucast) (simp add: is_up)
  then show ?thesis using uint_lt2p [of x] uint_ge_0 [of x] signed_take_bit_below [of "uint x"] by (simp add: sint_uint)
qed

lemma sint_ucast_u16: "sint (ucast (x :: u16) :: u32) = uint x"
proof -
  have "uint (ucast x :: u32) = uint x" by (rule uint_up_ucast) (simp add: is_up)
  then show ?thesis using uint_lt2p [of x] uint_ge_0 [of x] signed_take_bit_below [of "uint x"] by (simp add: sint_uint)
qed

lemma TCPPacketImpl_sent:
  assumes "pkt_class q = TCPPacket" and "tcp q = tcp_truncated t opt" and "pkt_data q = Some bs"
    and "src_ip (ip q) = map_option (take 4) (src_ip i)" and "dst_ip (ip q) = map_option (take 4) (dst_ip i)"
    and "src_ip i = Some s" and "dst_ip i = Some d"
  shows "\<exists>n. TCPPacketImpl q = Some ((segment_of i t bs)\<lparr>tp_time := n\<rparr>)"
  using assms by (simp add: TCPPacketImpl_def segment_of_def tcp_truncated_def sint_ucast_u32 sint_ucast_u16)

text \<open>
  C0: The sniffer sees what was sent: the frame of a TCP packet that \<open>nativeSendPacket\<close> gives to libpcap becomes, when it is
  captured, a packet of the sniffer with the sequence and acknowledgment numbers as unsigned 32-bit numbers,
  the ports as unsigned 16-bit numbers, the flags, the addresses and exactly the data of the object that was sent.
\<close>

theorem sniffer_sees_sent:
  assumes "pkt_class packet = TCPPacket" and "version (ip packet) = 4" and "ip_wf (ip packet)"
    and "datalink packet = Some (EthernetPacket e)" and "ether_wf e" and "frametype e = ETHERTYPE_IP"
    and "frag_offset (ip packet) = 0" and "pkt_data packet = Some bs" and "length bs \<le> 1546"
    and "length buf = MAX_PACKET_SIZE"
  shows "\<exists>frame.
    (\<forall>pcap_sendpacket errbuf. 0 \<le> pcap_sendpacket frame \<longrightarrow>
       nativeSendPacket True pcap_sendpacket errbuf buf packet = Sent frame) \<and>
    (\<forall>hdr un getByName. unat (hdr_caplen hdr) = length frame \<longrightarrow>
       (\<exists>q n. decode_packet getByName None DLT_EN10MB un hdr frame 0 = Some (Some q, 0) \<and>
          TCPPacketImpl q = Some ((segment_of (ip packet) (tcp packet) bs)\<lparr>tp_time := n\<rparr>)))"
proof -
  obtain f where send: "\<And>pcap_sendpacket errbuf. 0 \<le> pcap_sendpacket f \<Longrightarrow>
      nativeSendPacket True pcap_sendpacket errbuf buf packet = Sent f"
    and seen: "\<And>hdr un getByName. unat (hdr_caplen hdr) = length f \<Longrightarrow>
       \<exists>q. decode_packet getByName None 1 un hdr f 0 = Some (Some q, 0) \<and>
          pkt_class q = TCPPacket \<and> tcp q = tcp_truncated (tcp packet) None \<and>
          src_ip (ip q) = map_option (take 4) (src_ip (ip packet)) \<and>
          dst_ip (ip q) = map_option (take 4) (dst_ip (ip packet)) \<and> pkt_data q = Some bs"
    by (rule sent_tcp_frame [OF assms]) blast
  obtain s d where sd: "src_ip (ip packet) = Some s" "dst_ip (ip packet) = Some d"
    using assms(3) by (auto simp: ip_wf_def)
  have "\<exists>q n. decode_packet getByName None 1 un hdr f 0 = Some (Some q, 0) \<and>
      TCPPacketImpl q = Some ((segment_of (ip packet) (tcp packet) bs)\<lparr>tp_time := n\<rparr>)"
    if "unat (hdr_caplen hdr) = length f" for hdr un getByName
    using seen [OF that, of getByName un] TCPPacketImpl_sent [OF _ _ _ _ _ sd] by blast
  with send show ?thesis by (intro exI [of _ f]) simp
qed

lemma sniffer_sees_sent_witness:
  "\<exists>frame.
    (\<forall>pcap_sendpacket errbuf. 0 \<le> pcap_sendpacket frame \<longrightarrow>
       nativeSendPacket True pcap_sendpacket errbuf (replicate 1600 0) (sample_packet TCPPacket [1, 2, 3]) = Sent frame) \<and>
    (\<forall>hdr un getByName. unat (hdr_caplen hdr) = length frame \<longrightarrow>
       (\<exists>q n. decode_packet getByName None DLT_EN10MB un hdr frame 0 = Some (Some q, 0) \<and>
          TCPPacketImpl q = Some ((segment_of (ip (sample_packet TCPPacket [1, 2, 3]))
            (tcp (sample_packet TCPPacket [1, 2, 3])) [1, 2, 3])\<lparr>tp_time := n\<rparr>)))"
  by (rule sniffer_sees_sent [where e = sample_ether])
    (simp_all, simp_all add: sample_ether_def sample_ip_def alloc_ip_def)

end
