(* ===== verification/Sniffer_Filter.thy ===== *)
theory Sniffer_Filter
  imports Sniffer_Capture
begin

text \<open>
  \<open>ConnectionFilter\<close> of the sniffer keeps two filters at once: a list of criteria for connections, and a \<open>JpcapFilter\<close> that
  \<open>get_packet\<close> applies to every packet. The theory models how they are filled and compares what they accept.
\<close>

section \<open>The class\<close>

record connection_filter =
  criteria :: "conn_criteria list"
  packet_filter :: jpcap_filter

definition new_ConnectionFilter :: connection_filter where
  "new_ConnectionFilter = \<lparr>criteria = [], packet_filter = addProtocol TCP new_JpcapFilter\<rparr>"

text \<open>\<open>trim\<close> cuts the characters up to the space.\<close>

definition notEmpty :: "string option \<Rightarrow> bool" where
  "notEmpty str = (case str of None \<Rightarrow> False | Some s \<Rightarrow> list_ex (\<lambda>c. 32 < (of_char c :: nat)) s)"

text \<open>
  One host of a filter: it goes to the packet filter before it is resolved. The result is the address or null, or nothing when
  \<open>getByName\<close> raises an exception.
\<close>

definition add_host :: "(string \<Rightarrow> u8 list option) \<Rightarrow> string option \<Rightarrow> connection_filter \<Rightarrow>
    connection_filter \<times> u8 list option option" where
  "add_host getByName host f =
     (case host of
        Some h \<Rightarrow>
          (if notEmpty host
           then (f\<lparr>packet_filter := addHost h (packet_filter f)\<rparr>, map_option Some (getByName h))
           else (f, Some None))
      | None \<Rightarrow> (f, Some None))"

definition add_port :: "int \<Rightarrow> connection_filter \<Rightarrow> connection_filter" where
  "add_port port f = (if 0 < port then f\<lparr>packet_filter := addPort port (packet_filter f)\<rparr> else f)"

text \<open>The result tells whether the call returns; otherwise it raises \<open>UnknownHostException\<close>.\<close>

definition addServerHostFilter ::
  "(string \<Rightarrow> u8 list option) \<Rightarrow> string option \<Rightarrow> int \<Rightarrow> string option \<Rightarrow> int \<Rightarrow> connection_filter \<Rightarrow>
   connection_filter \<times> bool" where
  "addServerHostFilter getByName clientHost cPort serverHost sPort f =
     (case add_host getByName clientHost f of
        (f, None) \<Rightarrow> (f, False)
      | (f, Some ca) \<Rightarrow>
          (case add_host getByName serverHost f of
             (f, None) \<Rightarrow> (f, False)
           | (f, Some sa) \<Rightarrow>
               (let f = add_port sPort (add_port cPort f)
                in (f\<lparr>criteria := criteria f @
                       [\<lparr>crit_clientAddress = ca, crit_serverAddress = sa,
                         crit_clientPort = (if 0 < cPort then cPort else 0),
                         crit_serverPort = (if 0 < sPort then sPort else 0)\<rparr>]\<rparr>, True))))"

definition addServerFilter :: "(string \<Rightarrow> u8 list option) \<Rightarrow> string \<Rightarrow> int \<Rightarrow> connection_filter \<Rightarrow> connection_filter \<times> bool" where
  "addServerFilter getByName h p = addServerHostFilter getByName None 0 (Some h) p"

definition addClientFilter :: "(string \<Rightarrow> u8 list option) \<Rightarrow> string \<Rightarrow> int \<Rightarrow> connection_filter \<Rightarrow> connection_filter \<times> bool" where
  "addClientFilter getByName h p = addServerHostFilter getByName (Some h) p None 0"

definition addHostPair :: "(string \<Rightarrow> u8 list option) \<Rightarrow> string \<Rightarrow> string \<Rightarrow> connection_filter \<Rightarrow> connection_filter \<times> bool" where
  "addHostPair getByName c s = addServerHostFilter getByName (Some c) 0 (Some s) 0"

definition addPortPair :: "(string \<Rightarrow> u8 list option) \<Rightarrow> int \<Rightarrow> int \<Rightarrow> connection_filter \<Rightarrow> connection_filter" where
  "addPortPair getByName c s f = fst (addServerHostFilter getByName None c None s f)"

section \<open>One criterion\<close>

text \<open>A captured TCP packet over IPv4 with ports as the native comparison of ports can handle them.\<close>

definition plain_tcp :: "jpacket \<Rightarrow> bool" where
  "plain_tcp q \<longleftrightarrow>
     pkt_class q = TCPPacket \<and> (\<exists>s. src_ip (ip q) = Some s \<and> length s = 4) \<and> (\<exists>d. dst_ip (ip q) = Some d \<and> length d = 4) \<and>
     uint (tcp_src_port (tcp q)) < 32768 \<and> uint (tcp_dst_port (tcp q)) < 32768"

lemma sint_small: "uint (x :: u32) < 32768 \<Longrightarrow> sint x = uint x"
  by (simp add: sint_uint signed_take_bit_below)

lemma plain_tcp_detail:
  assumes "plain_tcp q" and "TCPPacketImpl q = Some p"
  shows "src_ip (ip q) = Some (inet_bytes (clientAddress (tp_detail p)))" and "length (inet_bytes (clientAddress (tp_detail p))) = 4"
    and "dst_ip (ip q) = Some (inet_bytes (serverAddress (tp_detail p)))" and "length (inet_bytes (serverAddress (tp_detail p))) = 4"
    and "uint (tcp_src_port (tcp q)) = clientPort (tp_detail p)" and "uint (tcp_dst_port (tcp q)) = serverPort (tp_detail p)"
  using assms by (auto simp: plain_tcp_def TCPPacketImpl_def inet_of_def sint_small)

lemma doFilter_plain:
  assumes q: "plain_tcp q" and p: "TCPPacketImpl q = Some p" and other: "srcHosts f = []" "destHosts f = []" "srcPorts f = []" "destPorts f = []"
  shows "doFilter getByName f q = Some (if
    (hosts f = [] \<or> (\<exists>h \<in> set (hosts f). getByName h = Some (inet_bytes (clientAddress (tp_detail p))) \<or>
        getByName h = Some (inet_bytes (serverAddress (tp_detail p))))) \<and>
    (ports f = [] \<or> show_int (clientPort (tp_detail p)) \<in> set (ports f) \<or> show_int (serverPort (tp_detail p)) \<in> set (ports f))
    then 1 else 0)"
proof -
  note d = plain_tcp_detail [OF q p]
  have small: "uint (tcp_src_port (tcp q)) < 32768" "uint (tcp_dst_port (tcp q)) < 32768" and c: "pkt_class q = TCPPacket"
    using q by (simp_all add: plain_tcp_def)
  have i: "IsInstanceOf q IPPacket" "IsInstanceOf q TCPPacket" using c by simp_all
  have h: "host_match getByName hs (Some a) \<longleftrightarrow> (\<exists>h \<in> set hs. getByName h = Some a)" if "length a = 4" for hs a
    using that by (auto simp: host_match_def)
  show ?thesis
    using doFilter_ip [OF i(1), of getByName f] d(1-4) other i(2) small
    by (auto simp: filter_accepts_def port_listed_16_def port_listed_small h d(5,6))
qed

section \<open>Both filters together\<close>

lemma TCPPacketImpl_class: "TCPPacketImpl q = Some p \<Longrightarrow> pkt_class q = TCPPacket"
  by (auto simp: TCPPacketImpl_def split: prod.splits bool.splits option.splits)

lemma add_host_Some:
  assumes "add_host getByName h f = (f', Some a)"
  shows "f' = (case h of Some n \<Rightarrow> if notEmpty h then f\<lparr>packet_filter := addHost n (packet_filter f)\<rparr> else f | None \<Rightarrow> f)"
    and "a = (case h of Some n \<Rightarrow> if notEmpty h then getByName n else None | None \<Rightarrow> None)"
    and "a = None \<longleftrightarrow> \<not> notEmpty h"
  using assms by (auto simp: add_host_def notEmpty_def split: option.splits if_splits)

lemma accepts_same: "criteria f = [k] \<Longrightarrow> isAcceptable (criteria f) d \<longleftrightarrow> isMatch k d"
  by (simp add: isAcceptable_def)

text \<open>
  C0: With a single criterion the filter on packets loses nothing: every packet of a connection that the criterion accepts, from
  the client to the server or back, passes \<open>doFilter\<close>.
\<close>

theorem single_filter_complete:
  assumes add: "addServerHostFilter getByName ch cp sh sp new_ConnectionFilter = (f, True)"
    and q: "plain_tcp q" and p: "TCPPacketImpl q = Some p"
    and match: "isAcceptable (criteria f) (tp_detail p) \<or>
      isAcceptable (criteria f) \<lparr>clientAddress = serverAddress (tp_detail p), serverAddress = clientAddress (tp_detail p),
        clientPort = serverPort (tp_detail p), serverPort = clientPort (tp_detail p)\<rparr>"
  shows "doFilter getByName (packet_filter f) q = Some 1"
proof -
  obtain f1 ca where a1: "add_host getByName ch new_ConnectionFilter = (f1, Some ca)"
    using add by (auto simp: addServerHostFilter_def split: prod.splits option.splits)
  obtain f2 sa where a2: "add_host getByName sh f1 = (f2, Some sa)"
    using add a1 by (auto simp: addServerHostFilter_def split: prod.splits option.splits)
  define k where "k = \<lparr>crit_clientAddress = ca, crit_serverAddress = sa,
      crit_clientPort = (if 0 < cp then cp else 0), crit_serverPort = (if 0 < sp then sp else 0)\<rparr>"
  note f1 = add_host_Some [OF a1] and f2 = add_host_Some [OF a2]
  have f: "f = (add_port sp (add_port cp f2))\<lparr>criteria := [k]\<rparr>"
    using add a1 a2 f1(1) f2(1)
    by (auto simp: addServerHostFilter_def Let_def k_def add_port_def new_ConnectionFilter_def split: option.splits)
  have hs: "hosts (packet_filter f) = (if notEmpty ch then [the ch] else []) @ (if notEmpty sh then [the sh] else [])"
    using f1(1) f2(1) by (auto simp: f add_port_def addPort_def addHost_def addProtocol_def new_ConnectionFilter_def
        new_JpcapFilter_def notEmpty_def split: option.splits)
  have ps: "ports (packet_filter f) = (if 0 < cp then [show_int cp] else []) @ (if 0 < sp then [show_int sp] else [])"
    and others: "srcHosts (packet_filter f) = []" "destHosts (packet_filter f) = []"
      "srcPorts (packet_filter f) = []" "destPorts (packet_filter f) = []"
    using f1(1) f2(1) by (auto simp: f add_port_def addPort_def addHost_def addProtocol_def new_ConnectionFilter_def
        new_JpcapFilter_def split: option.splits)
  have ca: "notEmpty ch \<Longrightarrow> ca = getByName (the ch) \<and> ca \<noteq> None" and sa: "notEmpty sh \<Longrightarrow> sa = getByName (the sh) \<and> sa \<noteq> None"
    using f1(2,3) f2(2,3) by (auto simp: notEmpty_def split: option.splits)
  have "isMatch k (tp_detail p) \<or>
      isMatch k \<lparr>clientAddress = serverAddress (tp_detail p), serverAddress = clientAddress (tp_detail p),
        clientPort = serverPort (tp_detail p), serverPort = clientPort (tp_detail p)\<rparr>"
    using match accepts_same [of f k] f by simp
  then show ?thesis
    unfolding doFilter_plain [OF q p others] hs ps
    using ca sa by (auto simp: isMatch_def k_def split: if_splits option.splits)
qed

text \<open>
  C0: Two criteria get in each other's way: after a filter for a server and one for a port, packets of a connection that the
  first filter accepts never reach the sniffer when they do not use the port of the second one, because \<open>doFilter\<close> asks for one
  of the hosts and one of the ports.
\<close>

theorem two_filters_conflict:
  assumes h: "notEmpty (Some h)" "getByName h = Some a" and port: "0 < n"
    and q: "plain_tcp q" and p: "TCPPacketImpl q = Some p"
    and server: "inet_bytes (serverAddress (tp_detail p)) = a"
    and other: "clientPort (tp_detail p) \<noteq> n" "serverPort (tp_detail p) \<noteq> n"
  shows "isAcceptable (criteria (addPortPair getByName 0 n (fst (addServerFilter getByName h 0 new_ConnectionFilter)))) (tp_detail p) \<and>
    doFilter getByName (packet_filter (addPortPair getByName 0 n (fst (addServerFilter getByName h 0 new_ConnectionFilter)))) q = Some 0"
proof -
  define f where "f = addPortPair getByName 0 n (fst (addServerFilter getByName h 0 new_ConnectionFilter))"
  have f: "criteria f = [\<lparr>crit_clientAddress = None, crit_serverAddress = Some a, crit_clientPort = 0, crit_serverPort = 0\<rparr>,
      \<lparr>crit_clientAddress = None, crit_serverAddress = None, crit_clientPort = 0, crit_serverPort = n\<rparr>]"
    "hosts (packet_filter f) = [h]" "ports (packet_filter f) = [show_int n]"
    "srcHosts (packet_filter f) = []" "destHosts (packet_filter f) = []" "srcPorts (packet_filter f) = []" "destPorts (packet_filter f) = []"
    using h port by (simp_all add: f_def addPortPair_def addServerFilter_def addServerHostFilter_def add_host_def add_port_def
        addHost_def addPort_def addProtocol_def new_ConnectionFilter_def new_JpcapFilter_def Let_def)
  have "isAcceptable (criteria f) (tp_detail p)"
    using server by (simp add: f(1) isAcceptable_def isMatch_def)
  moreover have "doFilter getByName (packet_filter f) q = Some 0"
    unfolding doFilter_plain [OF q p f(4-7)] f(2,3) using other by (simp add: show_int_inj)
  ultimately show ?thesis by (simp add: f_def)
qed

section \<open>Connections without a handshake\<close>

lemma half_way_activates:
  assumes "isContainsData p" and "halfWayConnections r (hashCode (tp_detail p)) = Some i" and "objects r i = Some c"
    and "half_way_match (detectPacketFlowDirection (connectionDetail c) p) c"
  shows "activeConnections (fst (handleHalfWayConnectionPackets now p r)) (hashCode (connectionDetail c)) = Some i"
  using assms by (simp add: handleHalfWayConnectionPackets_def Let_def run_step_def split: prod.split)

text \<open>
  C0: The filter on connections is only asked for the first packet of a handshake. Data packets of a connection that it has
  refused are looked at all the same, and when one answers the other the connection becomes an active one, although the code
  that looks them up says that such packets are ignored.
\<close>

theorem refused_connection_becomes_active:
  assumes refused: "\<not> isAcceptable (filters r) (tp_detail p)"
    and fresh: "activeConnections r (hashCode (tp_detail p)) = None" "halfWayConnections r (hashCode (tp_detail p)) = None"
    and data: "isContainsData p" "isContainsData q" and no_syn: "\<not> isHandsShake1Packet p" "\<not> isHandsShake1Packet q"
    and reply: "hashCode (tp_detail q) = hashCode (tp_detail p)" "\<not> isTheSame (tp_detail q) (tp_detail p)"
    and answers: "isPreviousAnotherDirectionPacket q p"
  shows "(\<forall>syn. isHandsShake1Packet syn \<longrightarrow> tp_detail syn = tp_detail p \<longrightarrow> pick now syn r = (r, None)) \<and>
    activeConnections (fst (pick now' q (fst (pick now p r)))) (hashCode (tp_detail p)) = Some (next_object r)"
proof
  show "\<forall>syn. isHandsShake1Packet syn \<longrightarrow> tp_detail syn = tp_detail p \<longrightarrow> pick now syn r = (r, None)"
    using refused by (simp add: pick_def)
  let ?d = "tp_detail p" let ?p = "detectPacketFlowDirection ?d p"
  let ?c = "(new_connection now ?d)\<lparr>csTemporaryStoredPackets := [?p]\<rparr>"
  define r1 where "r1 = fst (pick now p r)"
  have r1: "objects r1 (next_object r) = Some ?c" "halfWayConnections r1 (hashCode ?d) = Some (next_object r)"
    "activeConnections r1 (hashCode ?d) = None"
    using fresh data(1) no_syn(1)
    by (simp_all add: r1_def pick_def handleHalfWayConnectionPackets_def Let_def run_step_def done_with_def
        addToCSTemporaryStoredDataPackets_def new_connection_def MAX_PACKETS_IN_BUFFER_def)
  have m: "half_way_match (detectPacketFlowDirection (connectionDetail ?c) q) ?c"
    using reply(2) answers
    by (simp add: half_way_match_def detectPacketFlowDirection_def new_connection_def isPreviousAnotherDirectionPacket_def data_of_def)
  have "activeConnections (fst (handleHalfWayConnectionPackets now' q r1)) (hashCode (connectionDetail ?c)) = Some (next_object r)"
    by (rule half_way_activates [OF data(2) _ r1(1) m]) (simp add: reply(1) r1(2))
  then have "activeConnections (fst (pick now' q r1)) (hashCode ?d) = Some (next_object r)"
    using no_syn(2) r1(3) reply(1) by (simp add: pick_def new_connection_def)
  then show "activeConnections (fst (pick now' q (fst (pick now p r)))) (hashCode ?d) = Some (next_object r)"
    by (simp add: r1_def)
qed

section \<open>A packet for the witnesses\<close>

definition sample_captured :: jpacket where
  "sample_captured = (AllocObject TCPPacket)
     \<lparr>ip := alloc_ip\<lparr>src_ip := Some [10, 0, 0, 1], dst_ip := Some [10, 0, 0, 2]\<rparr>,
      tcp := alloc_tcp\<lparr>tcp_src_port := 1327, tcp_dst_port := 80\<rparr>\<rparr>"

definition sample_resolve :: "string \<Rightarrow> u8 list option" where
  "sample_resolve h = (if h = ''server'' then Some [10, 0, 0, 2] else None)"

lemma sample_captured_plain: "plain_tcp sample_captured"
  by (simp add: plain_tcp_def sample_captured_def AllocObject_def)

lemma sample_captured_seen:
  "\<exists>p. TCPPacketImpl sample_captured = Some p \<and> inet_bytes (serverAddress (tp_detail p)) = [10, 0, 0, 2] \<and>
     clientPort (tp_detail p) = 1327 \<and> serverPort (tp_detail p) = 80"
  by (simp add: TCPPacketImpl_def sample_captured_def AllocObject_def inet_of_def sint_small)

theorem single_filter_complete_witness:
  "\<exists>f. addServerHostFilter sample_resolve None 0 (Some ''server'') 80 new_ConnectionFilter = (f, True) \<and>
    doFilter sample_resolve (packet_filter f) sample_captured = Some 1"
proof -
  obtain p where p: "TCPPacketImpl sample_captured = Some p" "inet_bytes (serverAddress (tp_detail p)) = [10, 0, 0, 2]"
    "serverPort (tp_detail p) = 80"
    using sample_captured_seen by blast
  obtain f where f: "addServerHostFilter sample_resolve None 0 (Some ''server'') 80 new_ConnectionFilter = (f, True)"
    "criteria f = [\<lparr>crit_clientAddress = None, crit_serverAddress = Some [10, 0, 0, 2], crit_clientPort = 0, crit_serverPort = 80\<rparr>]"
    by (auto simp: addServerHostFilter_def add_host_def add_port_def notEmpty_def sample_resolve_def new_ConnectionFilter_def Let_def)
  have "isAcceptable (criteria f) (tp_detail p)" using p by (simp add: f(2) isAcceptable_def isMatch_def)
  with single_filter_complete [OF f(1) sample_captured_plain p(1)] f(1) show ?thesis by blast
qed

theorem two_filters_conflict_witness:
  "\<exists>p. TCPPacketImpl sample_captured = Some p \<and>
    isAcceptable (criteria (addPortPair sample_resolve 0 443
      (fst (addServerFilter sample_resolve ''server'' 0 new_ConnectionFilter)))) (tp_detail p) \<and>
    doFilter sample_resolve (packet_filter (addPortPair sample_resolve 0 443
      (fst (addServerFilter sample_resolve ''server'' 0 new_ConnectionFilter)))) sample_captured = Some 0"
proof -
  obtain p where p: "TCPPacketImpl sample_captured = Some p" "inet_bytes (serverAddress (tp_detail p)) = [10, 0, 0, 2]"
    "clientPort (tp_detail p) \<noteq> 443" "serverPort (tp_detail p) \<noteq> 443"
    using sample_captured_seen by auto
  have "notEmpty (Some ''server'')" "sample_resolve ''server'' = Some [10, 0, 0, 2]" "0 < (443 :: int)"
    by (simp_all add: notEmpty_def sample_resolve_def)
  from two_filters_conflict [where getByName = sample_resolve and h = "''server''", OF this sample_captured_plain p] p(1) show ?thesis by blast
qed

definition sample_request :: tpacket where
  "sample_request =
     \<lparr>tp_seq = 100, tp_ack = 500, tp_is_ack = True, tp_syn = False, tp_rst = False, tp_fin = False, tp_data = Some [1, 2],
      tp_time = 0, tp_detail = sample_detail, tp_consumed = False, tp_by_client = False\<rparr>"

definition sample_answer :: tpacket where
  "sample_answer = sample_request\<lparr>tp_seq := 500, tp_ack := 102, tp_data := Some [3],
     tp_detail := \<lparr>clientAddress = serverAddress sample_detail, serverAddress = clientAddress sample_detail,
       clientPort = serverPort sample_detail, serverPort = clientPort sample_detail\<rparr>\<rparr>"

definition only_port_443 :: "conn_criteria list" where
  "only_port_443 = [\<lparr>crit_clientAddress = None, crit_serverAddress = None, crit_clientPort = 0, crit_serverPort = 443\<rparr>]"

theorem refused_connection_becomes_active_witness:
  "(\<forall>syn. isHandsShake1Packet syn \<longrightarrow> tp_detail syn = tp_detail sample_request \<longrightarrow>
      pick 5 syn (new_receiver only_port_443) = (new_receiver only_port_443, None)) \<and>
    activeConnections (fst (pick 7 sample_answer (fst (pick 5 sample_request (new_receiver only_port_443)))))
      (hashCode (tp_detail sample_request)) = Some (next_object (new_receiver only_port_443))"
  by (rule refused_connection_becomes_active)
    (simp_all add: isAcceptable_def isMatch_def new_receiver_def only_port_443_def sample_request_def sample_answer_def
      sample_detail_def isContainsData_def data_of_def isHandsShake1Packet_def hashCode_def isTheSame_def
      isPreviousAnotherDirectionPacket_def add.commute)

end
