(* ===== verification/Spec2Isabelle.thy ===== *)
theory Spec2Isabelle
  imports Send_Capture Captor_Safety Dump_Replay Jpcap_Devices Jpcap_Api
    Jpcap_Jni Jni_Inline Jni_Calls Jpcap_Consistency Winpcap_Driver
    Sniffer_Reassembly Sniffer_Safety Sniffer_Filter
begin

text \<open>
  \<^bold>\<open>A verification library for jpcap and the TCP connection sniffer\<close> that stands on it.
  The core is the native part, \<open>jpcap/src/c\<close>: C functions that Java calls through JNI, that call libpcap, and
  that convert between the bytes of a packet and Java packet objects. On top of it, \<open>tcpConnectionSniffer\<close>
  reassembles the data of TCP connections in Java.

  \<^bold>\<open>The program.\<close> A captor is opened by \<open>JpcapCaptor.openDevice\<close> or \<open>openFile\<close>, which reserve an instance
  identifier in Java and fill the entry of the native tables (\<open>pcds\<close>, \<open>linktypes\<close>, ...). Packets arrive through
  \<open>getPacket\<close>, \<open>processPacket\<close> and \<open>loopPacket\<close>; all of them go through \<open>get_packet\<close>, which finds the network and
  transport protocol, allocates a packet object of the right class, lets the codecs \<open>analyze_*\<close> fill in its
  fields, copies header and data, asks the filter object, and fetches the next packet when the filter
  refuses this one. A sender goes the other way: \<open>set_packet\<close> calls the codecs \<open>set_*\<close> on a buffer of 1600 bytes,
  with checksums, and hands the frame to libpcap or a raw socket. A writer appends captured packets to a dump
  file. \<open>getDeviceList\<close> describes the interfaces. The sniffer gives \<open>loopPacket\<close> a callback that finds the
  connection of each packet (\<open>PacketReceiverImpl.pick\<close>), advances its state and sequence counters, puts packets that
  come too early into a sorted buffer, and appends data to a stream per direction, which the application reads.

  \<^bold>\<open>Modelling.\<close> Memory is a list of bytes; reading or writing outside it is \<open>None\<close>, so that a theorem with a
  result \<open>Some\<close> shows that the C code stays in bounds. Machine integers are words of their width; conversions
  and byte swaps are written out for a little-endian host. A Java packet object is a record (\<open>jpacket\<close>) with
  one sub-record per protocol and its class as a tag. Exceptions, messages and error returns are values. libpcap,
  the virtual machine, name resolution and the clocks are parameters; what a theorem needs of them is one
  of its hypotheses.

  \<^bold>\<open>Theories and sources.\<close>
  \<^item> \<open>Jpcap_Prelude\<close>: bytes, words and memory access shared by all; \<open>Jpcap_Headers\<close>: constants and field
    offsets; \<open>Jpcap_Java\<close>: packet classes and their setters (\<open>java/jpcap/packet\<close>).
  \<^item> \<open>Jpcap_Cksum\<close>: \<open>in_cksum\<close>, \<open>in_cksum2\<close> of \<open>JpcapSender.c\<close>, equal to the RFC 1071 checksum where the
    32-bit accumulator suffices, and what goes wrong for odd sizes.
  \<^item> \<open>Jpcap_Codec\<close>: the interface of a header writer as a locale, interpreted in \<open>Packet_Tcp\<close>, \<open>Packet_Udp\<close>,
    \<open>Packet_Ip\<close>, \<open>Packet_Ipv6\<close>, \<open>Packet_Arp\<close> and \<open>Packet_Datalink\<close>; these and \<open>Packet_Icmp\<close> are one theory per
    \<open>packet_*.c\<close>: round trips, bounds, checksums, and the fields the code decodes wrongly.
  \<^item> \<open>Jpcap_Filter\<close>: \<open>JpcapFilter.java\<close> and \<open>doFilter\<close> of \<open>JpcapCaptor.c\<close> against the documentation.
  \<^item> \<open>Jpcap_Captor\<close>, \<open>Captor_Frames\<close>, \<open>Captor_Safety\<close>, \<open>Captor_Session\<close>: \<open>get_packet\<close> and the capture methods of
    \<open>JpcapCaptor.c\<close>: decoding of frames, bounds, the recursion through \<open>get_next_packet\<close>, delivery.
  \<^item> \<open>Jpcap_Sender\<close>, \<open>Send_Capture\<close>: \<open>set_packet\<close> and the send methods of \<open>JpcapSender.c\<close>; frames as sent and
    as captured. The theorems below compose both directions.
  \<^item> \<open>Jpcap_Instances\<close>, \<open>Jpcap_Api\<close>: the instance tables and the native methods on them, with the contract of
    opening an instance as the locale \<open>opener\<close>; the Java methods as a step relation with its invariant.
  \<^item> \<open>Jpcap_Devices\<close>: \<open>getDeviceList\<close>; \<open>Jpcap_Writer\<close>: \<open>JpcapWriter.c\<close>; \<open>Dump_Replay\<close>: capture, dump file and
    reading it back as one.
  \<^item> \<open>Jpcap_Jni\<close>: the binding itself: \<open>set_Java_env\<close> resolves every class and method, arguments conform to the
    declared parameters (with one exception), native declarations match the exported functions.
  \<^item> \<open>Jpcap_Layout\<close>, \<open>Jpcap_Overlay\<close>, \<open>Jpcap_Protocols\<close>: the bundled headers \<open>include/net\<close> and
    \<open>include/netinet\<close>: structure layouts, overlays, constants and macros. They justify the offsets of
    \<open>Jpcap_Headers\<close>.
  \<^item> \<open>Jni_Interface\<close>, \<open>Jni_Inline\<close>, \<open>Jni_Calls\<close>: the function table of \<open>jni.h\<close>, the C++ methods that forward to it, the
    macros of \<open>Jpcap_sub.h\<close> and the native calls of \<open>set_Java_env\<close> against that table.
  \<^item> \<open>Winpcap_Time\<close>, \<open>Winpcap_Tme\<close>: the parts of the bundled WinPcap headers that contain code;
    \<open>Winpcap_Driver\<close>: the control codes and structures of the packet driver.
  \<^item> \<open>Jpcap_Consistency\<close>: these headers against each other and against the code that uses them.

  \<^item> \<open>Sniffer_Stream\<close>, \<open>Sniffer_Reader\<close>: \<open>DynamicByteArrayInputStream\<close> as a queue of byte streams, the contract of a reader
    as the locale \<open>stream_reader\<close>, fulfilled by both \<open>read\<close> methods. \<open>Sniffer_Connection\<close>, \<open>Sniffer_Receiver\<close>: one
    connection (\<open>TCPConnectionImpl\<close>, \<open>SequenceCounter\<close>, \<open>PacketsBuffer\<close>) and how packets are fed to it; \<open>Sniffer_Pick\<close>:
    all connections, their keys, the filter and the cleaner. \<open>Sniffer_Reassembly\<close>: data delivered in any order is
    reassembled, and where it stalls; \<open>Sniffer_Safety\<close>: the invariant of the receiver; \<open>Sniffer_Capture\<close>: from a captured
    frame to a packet of the sniffer; \<open>Sniffer_Filter\<close>: \<open>ConnectionFilter\<close>, which fills a packet filter and a list of criteria,
    and where the two disagree.

  \<^bold>\<open>Loops and fuel.\<close> Header walks are functions with a termination proof. \<open>get_packet\<close> and \<open>get_next_packet\<close> call
  each other without a bound; they carry fuel, and \<open>get_packet_terminates\<close> shows that one unit per frame until
  the capture pauses is enough. The member lookup of \<open>Jpcap_Jni\<close> takes the number of classes as fuel, which
  bounds every chain of superclasses. The loop of the sniffer over its buffers has one unit for each packet that waits and one
  for the last look; \<open>pick_active_terminates\<close> shows that this is enough.

  \<^bold>\<open>Not modelled.\<close> The applications on top of the sniffer (\<open>httpSniffer\<close>, \<open>mysqlSniffer\<close>), its chunked and file-cached
  streams, installer, samples and tests; concurrent calls from several Java threads (the sniffer is modelled as the sequence
  of its operations: reader, receiver and cleaner run one at a time); Java exceptions that stay pending while
  native code runs on, apart from the checks in \<open>set_Java_env\<close>; big-endian hosts in the codecs (the layouts
  cover both); the other vendored declarations of the JDK (\<open>jvmti.h\<close>, \<open>jvmdi.h\<close>, \<open>jvmpi.h\<close>) and of NDIS,
  which have no bodies and which jpcap does not use.
\<close>

section \<open>From the sender to the captor\<close>

text \<open>
  C1: What is sent is what is captured. For every TCP packet object over IPv4 and Ethernet that is not
  a later fragment and has at most 1546 bytes of data, \<open>nativeSendPacket\<close> hands libpcap a frame of at least
  60 bytes, and \<open>get_packet\<close>, given that frame on an Ethernet link without a filter, builds a
  \<open>TCPPacket\<close> with the same addresses, the same TCP fields (at their width on the wire, without options)
  and exactly the same data: the padding is not part of it.
\<close>

theorem sent_tcp_is_captured:
  assumes "pkt_class packet = TCPPacket" and "version (ip packet) = 4" and "ip_wf (ip packet)"
    and "datalink packet = Some (EthernetPacket e)" and "ether_wf e" and "frametype e = ETHERTYPE_IP"
    and "frag_offset (ip packet) = 0" and "pkt_data packet = Some bs" and "length bs \<le> 1546"
    and "length buf = MAX_PACKET_SIZE"
  shows "\<exists>frame. 60 \<le> length frame \<and>
    (\<forall>pcap_sendpacket errbuf. 0 \<le> pcap_sendpacket frame \<longrightarrow>
       nativeSendPacket True pcap_sendpacket errbuf buf packet = Sent frame) \<and>
    (\<forall>hdr un getByName. unat (hdr_caplen hdr) = length frame \<longrightarrow>
       (\<exists>q. decode_packet getByName None DLT_EN10MB un hdr frame 0 = Some (Some q, 0) \<and>
          pkt_class q = TCPPacket \<and> tcp q = tcp_truncated (tcp packet) None \<and>
          src_ip (ip q) = map_option (take 4) (src_ip (ip packet)) \<and>
          dst_ip (ip q) = map_option (take 4) (dst_ip (ip packet)) \<and> pkt_data q = Some bs))"
  by (rule sent_tcp_frame [OF assms], rule exI, rule conjI, assumption, simp)

lemma sent_tcp_is_captured_witness:
  "\<exists>frame. 60 \<le> length frame \<and>
    (\<forall>pcap_sendpacket errbuf. 0 \<le> pcap_sendpacket frame \<longrightarrow>
       nativeSendPacket True pcap_sendpacket errbuf (replicate 1600 0) (sample_packet TCPPacket [1, 2, 3]) = Sent frame) \<and>
    (\<forall>hdr un getByName. unat (hdr_caplen hdr) = length frame \<longrightarrow>
       (\<exists>q. decode_packet getByName None DLT_EN10MB un hdr frame 0 = Some (Some q, 0) \<and>
          pkt_class q = TCPPacket \<and> tcp q = tcp_truncated (tcp (sample_packet TCPPacket [1, 2, 3])) None \<and>
          src_ip (ip q) = map_option (take 4) (src_ip (ip (sample_packet TCPPacket [1, 2, 3]))) \<and>
          dst_ip (ip q) = map_option (take 4) (dst_ip (ip (sample_packet TCPPacket [1, 2, 3]))) \<and>
          pkt_data q = Some [1, 2, 3]))"
  by (rule sent_tcp_is_captured [where e = sample_ether])
    (simp_all, simp_all add: sample_ether_def sample_ip_def alloc_ip_def)

text \<open>
  C2: The same for UDP: what is sent is what is captured, for every UDP packet object over IPv4 and Ethernet
  that is not a later fragment and has at most 1558 bytes of data. The length field of the decoded object is the one \<open>set_udp\<close>
  computes from the data, whatever the object that was sent held in it.
\<close>

theorem sent_udp_is_captured:
  assumes "pkt_class packet = UDPPacket" and "version (ip packet) = 4" and "ip_wf (ip packet)"
    and "datalink packet = Some (EthernetPacket e)" and "ether_wf e" and "frametype e = ETHERTYPE_IP"
    and "frag_offset (ip packet) = 0" and "pkt_data packet = Some bs" and "length bs \<le> 1558"
    and "length buf = MAX_PACKET_SIZE"
  shows "\<exists>frame. 60 \<le> length frame \<and>
    (\<forall>pcap_sendpacket errbuf. 0 \<le> pcap_sendpacket frame \<longrightarrow>
       nativeSendPacket True pcap_sendpacket errbuf buf packet = Sent frame) \<and>
    (\<forall>hdr un getByName. unat (hdr_caplen hdr) = length frame \<longrightarrow>
       (\<exists>q. decode_packet getByName None DLT_EN10MB un hdr frame 0 = Some (Some q, 0) \<and>
          pkt_class q = UDPPacket \<and> udp q = udp_truncated (udp packet) (length bs) \<and>
          src_ip (ip q) = map_option (take 4) (src_ip (ip packet)) \<and>
          dst_ip (ip q) = map_option (take 4) (dst_ip (ip packet)) \<and> pkt_data q = Some bs))"
proof -
  let ?n = "42 + length bs"
  obtain m where m: "set_packet packet buf True = Some (m, 42 + int (length bs))" "ether_on_wire e m 0"
    "ipv4_sent (ip packet) 17 8 bs m 14" "udp_on_wire (udp packet, length bs) m 34" "length m = 1600"
    using set_packet_udp_layout [OF assms(1-5,8-10)] assms(10) by auto
  let ?f = "padded m ?n"
  have room: "?n \<le> length m" using assms(9) m(5) by simp
  have send: "nativeSendPacket True pcap_sendpacket errbuf buf packet = Sent ?f"
    if "0 \<le> pcap_sendpacket ?f" for pcap_sendpacket errbuf
    using nativeSendPacket_frame [of packet buf m ?n pcap_sendpacket errbuf] m(1,5) room that by simp
  have data: "take (length bs) (drop 42 ?f) = bs"
    using payload_padded [OF m(3)] room by simp
  have "\<exists>q. decode_packet getByName None 1 un hdr ?f 0 = Some (Some q, 0) \<and>
      pkt_class q = UDPPacket \<and> udp q = udp_truncated (udp packet) (length bs) \<and>
      src_ip (ip q) = map_option (take 4) (src_ip (ip packet)) \<and>
      dst_ip (ip q) = map_option (take 4) (dst_ip (ip packet)) \<and> pkt_data q = Some bs"
    if hdr: "unat (hdr_caplen hdr) = length ?f" for hdr un getByName
  proof -
    have ft: "frametype e = 0x0800" using assms(6) by simp
    have fr: "udp_frame hdr ?f" "frame_seg ?f = 34" "frame_ihl ?f = 5"
      "unat (le16 (?f ! 17) (?f ! 16)) = 28 + length bs"
      using ip_frame_padded [OF m(2) ft m(3) assms(7)] assms(9) room hdr by (simp_all add: udp_frame_def)
    have "udp_on_wire (udp packet, length bs) ?f 34" using m(4) room by (intro udp_on_wire_padded) simp_all
    then show ?thesis
      using decode_udp_frame [OF fr(1), of 0 getByName un] fr(2-4) data assms(9)
        ip_decoded_addresses [OF m(3) _ room, of alloc_ip] by auto
  qed
  moreover have "60 \<le> length ?f" using room by (simp add: padded_def)
  ultimately show ?thesis using send by (intro exI [of _ ?f]) simp
qed

lemma sent_udp_is_captured_witness:
  "\<exists>frame. 60 \<le> length frame \<and>
    (\<forall>pcap_sendpacket errbuf. 0 \<le> pcap_sendpacket frame \<longrightarrow>
       nativeSendPacket True pcap_sendpacket errbuf (replicate 1600 0) (sample_packet UDPPacket [1, 2, 3]) = Sent frame) \<and>
    (\<forall>hdr un getByName. unat (hdr_caplen hdr) = length frame \<longrightarrow>
       (\<exists>q. decode_packet getByName None DLT_EN10MB un hdr frame 0 = Some (Some q, 0) \<and>
          pkt_class q = UDPPacket \<and> udp q = udp_truncated (udp (sample_packet UDPPacket [1, 2, 3])) (length [1, 2, 3 :: u8]) \<and>
          src_ip (ip q) = map_option (take 4) (src_ip (ip (sample_packet UDPPacket [1, 2, 3]))) \<and>
          dst_ip (ip q) = map_option (take 4) (dst_ip (ip (sample_packet UDPPacket [1, 2, 3]))) \<and>
          pkt_data q = Some [1, 2, 3]))"
  by (rule sent_udp_is_captured [where e = sample_ether])
    (simp_all, simp_all add: sample_ether_def sample_ip_def alloc_ip_def)

end
